(* ===== verification/Prelude.thy ===== *)
theory Prelude
  imports Main "HOL-Library.Word"
begin

text \<open>
  Shared vocabulary of the development: the machine integers of the Rust
  sources, the error type \<open>HyperError\<close> of \<open>src/src/lib.rs\<close>, the result of a
  fallible computation with panics kept apart from error values, the
  state-and-result combinators in which the stateful code is written, and the
  generic lemmas on lists, options and words that the component theories use.

  Integer arithmetic follows the release profile, which is the one the
  repository's Makefile builds (\<open>cargo rustc --release\<close>): \<open>+\<close>, \<open>-\<close> and \<open>*\<close> wrap
  around, and the distance of a shift is taken modulo the width of its operand.
  Division by zero, indexing out of bounds, \<open>unwrap\<close>, \<open>assert!\<close>,
  \<open>unreachable!\<close> and \<open>todo!\<close> panic in every profile.
\<close>

unbundle bit_operations_syntax

section \<open>Machine integers\<close>

type_synonym u8 = "8 word"
type_synonym u16 = "16 word"
type_synonym u32 = "32 word"
type_synonym u64 = "64 word"
type_synonym usize = "64 word"

text \<open>Guest and host addresses are all \<open>usize\<close> (\<open>src/src/memory.rs\<close>).\<close>

type_synonym GuestPhysAddr = usize
type_synonym GuestVirtAddr = usize
type_synonym HostPhysAddr = usize
type_synonym HostVirtAddr = usize

definition PAGE_SIZE_4K :: usize where
  "PAGE_SIZE_4K = 0x1000"

text \<open>Rust's \<open><<\<close> and \<open>>>\<close> on unsigned integers, with the masked distance.\<close>

definition shl :: "'a::len word \<Rightarrow> nat \<Rightarrow> 'a word" where
  "shl x n = push_bit (n mod LENGTH('a)) x"

definition shr :: "'a::len word \<Rightarrow> nat \<Rightarrow> 'a word" where
  "shr x n = drop_bit (n mod LENGTH('a)) x"

text \<open>\<open>as\<close> conversions between unsigned widths zero-extend or truncate.\<close>

abbreviation as_usize :: "'a::len word \<Rightarrow> usize" where
  "as_usize x \<equiv> ucast x"

abbreviation as_u64 :: "'a::len word \<Rightarrow> u64" where
  "as_u64 x \<equiv> ucast x"

abbreviation as_u32 :: "'a::len word \<Rightarrow> u32" where
  "as_u32 x \<equiv> ucast x"

abbreviation as_u16 :: "'a::len word \<Rightarrow> u16" where
  "as_u16 x \<equiv> ucast x"

abbreviation as_u8 :: "'a::len word \<Rightarrow> u8" where
  "as_u8 x \<equiv> ucast x"

section \<open>Errors, panics and results\<close>

datatype HyperError =
    Internal
  | NotSupported
  | NoMemory
  | InvalidParam
  | InvalidInstruction
  | OutOfRange
  | BadState
  | NotFound
  | FetchFault
  | PageFault
  | DecodeError
  | Disabled

text \<open>The ways in which the sources panic.\<close>

datatype panic =
    ExplicitPanic
  | UnwrapFailed
  | AssertFailed
  | Unreachable
  | Todo
  | IndexOutOfBounds
  | DivideByZero

text \<open>
  A call returns a value, returns an error value (\<open>HyperResult\<close>), or panics.
\<close>

datatype 'a outcome = Ok 'a | Err HyperError | Panic panic

fun obind :: "'a outcome \<Rightarrow> ('a \<Rightarrow> 'b outcome) \<Rightarrow> 'b outcome" where
  "obind (Ok x) k = k x"
| "obind (Err e) k = Err e"
| "obind (Panic p) k = Panic p"

fun omap :: "('a \<Rightarrow> 'b) \<Rightarrow> 'a outcome \<Rightarrow> 'b outcome" where
  "omap f (Ok x) = Ok (f x)"
| "omap f (Err e) = Err e"
| "omap f (Panic p) = Panic p"

text \<open>\<open>Option::unwrap\<close>, \<open>Result::unwrap\<close>, \<open>Result::ok\<close> and \<open>Option::ok_or\<close>.\<close>

fun unwrap_option :: "'a option \<Rightarrow> 'a outcome" where
  "unwrap_option (Some x) = Ok x"
| "unwrap_option None = Panic UnwrapFailed"

fun unwrap :: "'a outcome \<Rightarrow> 'a outcome" where
  "unwrap (Ok x) = Ok x"
| "unwrap (Err e) = Panic UnwrapFailed"
| "unwrap (Panic p) = Panic p"

fun ok_or :: "'a option \<Rightarrow> HyperError \<Rightarrow> 'a outcome" where
  "ok_or (Some x) e = Ok x"
| "ok_or None e = Err e"

fun is_panic :: "'a outcome \<Rightarrow> bool" where
  "is_panic (Panic p) = True"
| "is_panic _ = False"

lemma obind_eq_Ok: "obind m k = Ok y \<longleftrightarrow> (\<exists>x. m = Ok x \<and> k x = Ok y)"
  by (cases m) auto

lemma omap_eq_Ok: "omap f m = Ok y \<longleftrightarrow> (\<exists>x. m = Ok x \<and> y = f x)"
  by (cases m) auto

lemma unwrap_eq_Ok [simp]: "unwrap m = Ok x \<longleftrightarrow> m = Ok x"
  by (cases m) auto

lemma unwrap_option_eq_Ok [simp]: "unwrap_option m = Ok x \<longleftrightarrow> m = Some x"
  by (cases m) auto

lemma unwrap_never_Err [simp]: "unwrap m \<noteq> Err e"
  by (cases m) auto

lemma unwrap_option_never_Err [simp]: "unwrap_option m \<noteq> Err e"
  by (cases m) auto

lemma ok_or_eq_Ok [simp]: "ok_or m e = Ok x \<longleftrightarrow> m = Some x"
  by (cases m) auto

lemma ok_or_never_Panic [simp]: "ok_or m e \<noteq> Panic p"
  by (cases m) auto

section \<open>Stateful computations\<close>

text \<open>
  A computation over a state \<open>'s\<close>. An error value leaves the state as the code
  left it when it returned; the writes done before the failing call stay.
\<close>

type_synonym ('s, 'a) hm = "'s \<Rightarrow> 'a outcome \<times> 's"

definition hret :: "'a \<Rightarrow> ('s, 'a) hm" where
  "hret x s = (Ok x, s)"

definition herr :: "HyperError \<Rightarrow> ('s, 'a) hm" where
  "herr e s = (Err e, s)"

definition hpanic :: "panic \<Rightarrow> ('s, 'a) hm" where
  "hpanic p s = (Panic p, s)"

definition hget :: "('s \<Rightarrow> 'a) \<Rightarrow> ('s, 'a) hm" where
  "hget f s = (Ok (f s), s)"

definition hmod :: "('s \<Rightarrow> 's) \<Rightarrow> ('s, unit) hm" where
  "hmod f s = (Ok (), f s)"

definition hlift :: "'a outcome \<Rightarrow> ('s, 'a) hm" where
  "hlift r s = (r, s)"

definition hbind :: "('s, 'a) hm \<Rightarrow> ('a \<Rightarrow> ('s, 'b) hm) \<Rightarrow> ('s, 'b) hm" where
  "hbind m k s = (case m s of
       (Ok x, t) \<Rightarrow> k x t
     | (Err e, t) \<Rightarrow> (Err e, t)
     | (Panic p, t) \<Rightarrow> (Panic p, t))"

definition hseq :: "('s, 'a) hm \<Rightarrow> ('s, 'b) hm \<Rightarrow> ('s, 'b) hm" where
  "hseq m n = hbind m (\<lambda>_. n)"

definition hunwrap :: "('s, 'a) hm \<Rightarrow> ('s, 'a) hm" where
  "hunwrap m s = (case m s of (r, t) \<Rightarrow> (unwrap r, t))"

definition hwhen :: "bool \<Rightarrow> ('s, unit) hm \<Rightarrow> ('s, unit) hm" where
  "hwhen b m = (if b then m else hret ())"

definition hassert :: "bool \<Rightarrow> ('s, unit) hm" where
  "hassert b = (if b then hret () else hpanic AssertFailed)"

fun hseqs :: "('s, unit) hm list \<Rightarrow> ('s, unit) hm" where
  "hseqs [] = hret ()"
| "hseqs (m # ms) = hseq m (hseqs ms)"

named_theorems hm_defs "equations that run a stateful computation"

lemmas [hm_defs] = hret_def herr_def hpanic_def hget_def hmod_def hlift_def
  hbind_def hseq_def hunwrap_def hwhen_def hassert_def

lemma hbind_hret [simp]: "hbind (hret x) k = k x"
  by (simp add: fun_eq_iff hm_defs)

lemma hbind_assoc: "hbind (hbind m k) l = hbind m (\<lambda>x. hbind (k x) l)"
  by (auto simp: fun_eq_iff hbind_def split: outcome.splits prod.splits)

lemma hbind_eq_Ok:
  "hbind m k s = (Ok y, u) \<longleftrightarrow> (\<exists>x t. m s = (Ok x, t) \<and> k x t = (Ok y, u))"
  by (auto simp: hbind_def split: outcome.splits prod.splits)

lemma hseq_eq_Ok:
  "hseq m n s = (Ok y, u) \<longleftrightarrow> (\<exists>x t. m s = (Ok x, t) \<and> n t = (Ok y, u))"
  by (simp add: hseq_def hbind_eq_Ok)

text \<open>Running the first step of a sequence.\<close>

lemma hbind_run: "m s = (Ok x, t) \<Longrightarrow> hbind m k s = k x t"
  by (simp add: hbind_def)

lemma hseq_run: "m s = (Ok x, t) \<Longrightarrow> hseq m n s = n t"
  by (simp add: hseq_def hbind_def)

subsection \<open>Invariants of stateful computations\<close>

text \<open>
  \<open>preserves P m\<close>: whatever \<open>m\<close> returns, it leaves a state in which \<open>P\<close> still
  holds. The rules below compose it along the combinators.
\<close>

definition preserves :: "('s \<Rightarrow> bool) \<Rightarrow> ('s, 'a) hm \<Rightarrow> bool" where
  "preserves P m \<longleftrightarrow> (\<forall>s. P s \<longrightarrow> P (snd (m s)))"

named_theorems preserves_intros "composition rules for preserves"

lemma preservesI: "(\<And>s. P s \<Longrightarrow> P (snd (m s))) \<Longrightarrow> preserves P m"
  by (simp add: preserves_def)

lemma preservesD: "preserves P m \<Longrightarrow> P s \<Longrightarrow> P (snd (m s))"
  by (simp add: preserves_def)

lemma preserves_result: "preserves P m \<Longrightarrow> P s \<Longrightarrow> m s = (r, t) \<Longrightarrow> P t"
  using preservesD [of P m s] by simp

lemma preserves_hret [preserves_intros]: "preserves P (hret x)"
  by (simp add: preserves_def hret_def)

lemma preserves_herr [preserves_intros]: "preserves P (herr e)"
  by (simp add: preserves_def herr_def)

lemma preserves_hpanic [preserves_intros]: "preserves P (hpanic p)"
  by (simp add: preserves_def hpanic_def)

lemma preserves_hget [preserves_intros]: "preserves P (hget f)"
  by (simp add: preserves_def hget_def)

lemma preserves_hlift [preserves_intros]: "preserves P (hlift r)"
  by (simp add: preserves_def hlift_def)

lemma preserves_hbind [preserves_intros]:
  assumes "preserves P m" and "\<And>x. preserves P (k x)"
  shows "preserves P (hbind m k)"
  using assms by (force simp: preserves_def hbind_def split: outcome.splits prod.splits)

lemma preserves_hseq [preserves_intros]:
  "preserves P m \<Longrightarrow> preserves P n \<Longrightarrow> preserves P (hseq m n)"
  unfolding hseq_def by (intro preserves_intros)

lemma preserves_hunwrap [preserves_intros]: "preserves P m \<Longrightarrow> preserves P (hunwrap m)"
  by (auto simp: preserves_def hunwrap_def split: prod.splits)

lemma preserves_hwhen [preserves_intros]: "preserves P m \<Longrightarrow> preserves P (hwhen b m)"
  by (simp add: hwhen_def preserves_hret)

lemma preserves_hassert [preserves_intros]: "preserves P (hassert b)"
  by (simp add: hassert_def preserves_hret preserves_hpanic)

lemma preserves_hseqs [preserves_intros]:
  "(\<And>m. m \<in> set ms \<Longrightarrow> preserves P m) \<Longrightarrow> preserves P (hseqs ms)"
  by (induction ms) (auto intro: preserves_intros)

section \<open>Generic lemmas on words\<close>

lemma unat_inject [simp]: "unat x = unat y \<longleftrightarrow> x = y" for x y :: "'a::len word"
  by (simp add: word_unat_eq_iff)

lemma shl_below [simp]: "n < LENGTH('a) \<Longrightarrow> shl (x :: 'a::len word) n = push_bit n x"
  by (simp add: shl_def)

lemma shr_below [simp]: "n < LENGTH('a) \<Longrightarrow> shr (x :: 'a::len word) n = drop_bit n x"
  by (simp add: shr_def)

lemma bit_shl_1: "n < LENGTH('a) \<Longrightarrow> bit (shl (1 :: 'a::len word) n) i \<longleftrightarrow> i = n"
  by (auto simp: bit_simps)

text \<open>The simplifier writes \<open>1 << n\<close> as \<open>2 ^ n\<close>; the masks are stated in that form.\<close>

lemma bit_or_exp:
  fixes x :: "'a::len word"
  assumes "n < LENGTH('a)"
  shows "bit (x OR 2 ^ n) i \<longleftrightarrow> bit x i \<or> i = n"
  using assms by (auto simp: bit_simps)

lemma bit_andnot_exp:
  fixes x :: "'a::len word"
  assumes "n < LENGTH('a)"
  shows "bit (x AND NOT (2 ^ n)) i \<longleftrightarrow> bit x i \<and> i \<noteq> n"
  using assms by (auto simp: bit_simps dest: bit_imp_le_length)

lemma drop_bit_and_1: "drop_bit n x AND 1 = (of_bool (bit x n) :: 'a::len word)"
  by (rule bit_word_eqI) (auto simp: bit_simps)

lemma word_and_mask_le: "unat (x AND y) \<le> unat y" for x y :: "'a::len word"
  by (simp add: word_le_nat_alt [symmetric] word_and_le1)

lemma unat_of_nat_usize: "n < 2 ^ 64 \<Longrightarrow> unat (of_nat n :: usize) = n"
  by (simp add: unat_of_nat)

lemma of_nat_usize_inject:
  assumes "m < 2 ^ 64" and "n < 2 ^ 64"
  shows "(of_nat m :: usize) = of_nat n \<longleftrightarrow> m = n"
  unfolding word_unat_eq_iff unat_of_nat_usize [OF assms(1)] unat_of_nat_usize [OF assms(2)] ..

lemma unat_u64: "unat x < 2 ^ 64" for x :: u64
  using unsigned_less [of x] by simp

lemma unat_take_bit_less: "unat (take_bit n x) < 2 ^ n" for x :: "'a::len word"
  unfolding unsigned_take_bit_eq by (rule take_bit_nat_less_exp)

lemma unat_add_u64: "unat x + unat y < 2 ^ 64 \<Longrightarrow> unat (x + y) = unat x + unat y" for x y :: u64
  by (simp add: unat_add_lem [THEN iffD1])

section \<open>Generic lemmas on lists\<close>

lemma nth_update_if:
  "i < length xs \<Longrightarrow> xs[i := v] ! j = (if j = i then v else xs ! j)"
  by (simp add: nth_list_update)

text \<open>Indexing as Rust does it: out of bounds is a panic.\<close>

definition index :: "'a list \<Rightarrow> nat \<Rightarrow> 'a outcome" where
  "index xs i = (if i < length xs then Ok (xs ! i) else Panic IndexOutOfBounds)"

definition store :: "'a list \<Rightarrow> nat \<Rightarrow> 'a \<Rightarrow> 'a list outcome" where
  "store xs i v = (if i < length xs then Ok (xs[i := v]) else Panic IndexOutOfBounds)"

lemma index_in [simp]: "i < length xs \<Longrightarrow> index xs i = Ok (xs ! i)"
  by (simp add: index_def)

lemma store_in [simp]: "i < length xs \<Longrightarrow> store xs i v = Ok (xs[i := v])"
  by (simp add: store_def)

lemma store_eq_Ok: "store xs i v = Ok ys \<longleftrightarrow> i < length xs \<and> ys = xs[i := v]"
  by (auto simp: store_def)

end
