(* ===== verification/Riscv_Csrs.thy ===== *)
theory Riscv_Csrs
  imports Prelude
begin

text \<open>
  \<open>src/src/arch/riscv/csrs.rs\<close> and the CSR setup of \<open>src/src/arch/riscv/mod.rs\<close>.
  The hart's control and status registers are a function from CSR numbers to
  values; \<open>csrr\<close>, \<open>csrw\<close>, \<open>csrrw\<close>, \<open>csrrs\<close> and \<open>csrrc\<close> read and write it as the
  instruction set defines them for fully implemented registers (bits that an
  implementation hard-wires are not modelled). The record also logs the volatile
  stores to host device registers, oldest first.
\<close>

section \<open>CSR numbers\<close>

definition CSR_SSTATUS :: u16 where
  "CSR_SSTATUS = 0x100"

definition CSR_SEDELEG :: u16 where
  "CSR_SEDELEG = 0x102"

definition CSR_SIDELEG :: u16 where
  "CSR_SIDELEG = 0x103"

definition CSR_SIE :: u16 where
  "CSR_SIE = 0x104"

definition CSR_STVEC :: u16 where
  "CSR_STVEC = 0x105"

definition CSR_SCOUNTEREN :: u16 where
  "CSR_SCOUNTEREN = 0x106"

definition CSR_SENVCFG :: u16 where
  "CSR_SENVCFG = 0x10a"

definition CSR_SSCRATCH :: u16 where
  "CSR_SSCRATCH = 0x140"

definition CSR_SEPC :: u16 where
  "CSR_SEPC = 0x141"

definition CSR_SCAUSE :: u16 where
  "CSR_SCAUSE = 0x142"

definition CSR_STVAL :: u16 where
  "CSR_STVAL = 0x143"

definition CSR_SIP :: u16 where
  "CSR_SIP = 0x144"

definition CSR_STIMECMP :: u16 where
  "CSR_STIMECMP = 0x14d"

definition CSR_SISELECT :: u16 where
  "CSR_SISELECT = 0x150"

definition CSR_SIREG :: u16 where
  "CSR_SIREG = 0x151"

definition CSR_STOPEI :: u16 where
  "CSR_STOPEI = 0x15c"

definition CSR_SATP :: u16 where
  "CSR_SATP = 0x180"

definition CSR_STOPI :: u16 where
  "CSR_STOPI = 0xdb0"

definition CSR_SCONTEXT :: u16 where
  "CSR_SCONTEXT = 0x5a8"

definition CSR_VSSTATUS :: u16 where
  "CSR_VSSTATUS = 0x200"

definition CSR_VSIE :: u16 where
  "CSR_VSIE = 0x204"

definition CSR_VSTVEC :: u16 where
  "CSR_VSTVEC = 0x205"

definition CSR_VSSCRATCH :: u16 where
  "CSR_VSSCRATCH = 0x240"

definition CSR_VSEPC :: u16 where
  "CSR_VSEPC = 0x241"

definition CSR_VSCAUSE :: u16 where
  "CSR_VSCAUSE = 0x242"

definition CSR_VSTVAL :: u16 where
  "CSR_VSTVAL = 0x243"

definition CSR_VSIP :: u16 where
  "CSR_VSIP = 0x244"

definition CSR_VSTIMECMP :: u16 where
  "CSR_VSTIMECMP = 0x24d"

definition CSR_VSISELECT :: u16 where
  "CSR_VSISELECT = 0x250"

definition CSR_VSIREG :: u16 where
  "CSR_VSIREG = 0x251"

definition CSR_VSTOPEI :: u16 where
  "CSR_VSTOPEI = 0x25c"

definition CSR_VSATP :: u16 where
  "CSR_VSATP = 0x280"

definition CSR_VSTOPI :: u16 where
  "CSR_VSTOPI = 0xeb0"

definition CSR_HSTATUS :: u16 where
  "CSR_HSTATUS = 0x600"

definition CSR_HEDELEG :: u16 where
  "CSR_HEDELEG = 0x602"

definition CSR_HIDELEG :: u16 where
  "CSR_HIDELEG = 0x603"

definition CSR_HIE :: u16 where
  "CSR_HIE = 0x604"

definition CSR_HTIMEDELTA :: u16 where
  "CSR_HTIMEDELTA = 0x605"

definition CSR_HCOUNTEREN :: u16 where
  "CSR_HCOUNTEREN = 0x606"

definition CSR_HGEIE :: u16 where
  "CSR_HGEIE = 0x607"

definition CSR_HVICTL :: u16 where
  "CSR_HVICTL = 0x609"

definition CSR_HENVCFG :: u16 where
  "CSR_HENVCFG = 0x60a"

definition CSR_HTVAL :: u16 where
  "CSR_HTVAL = 0x643"

definition CSR_HIP :: u16 where
  "CSR_HIP = 0x644"

definition CSR_HVIP :: u16 where
  "CSR_HVIP = 0x645"

definition CSR_HTINST :: u16 where
  "CSR_HTINST = 0x64a"

definition CSR_HGATP :: u16 where
  "CSR_HGATP = 0x680"

definition CSR_HCONTEXT :: u16 where
  "CSR_HCONTEXT = 0x6a8"

definition CSR_HGEIP :: u16 where
  "CSR_HGEIP = 0xe12"

lemmas csr_number_defs =
  CSR_SSTATUS_def CSR_SEDELEG_def CSR_SIDELEG_def CSR_SIE_def CSR_STVEC_def
  CSR_SCOUNTEREN_def CSR_SENVCFG_def CSR_SSCRATCH_def CSR_SEPC_def CSR_SCAUSE_def
  CSR_STVAL_def CSR_SIP_def CSR_STIMECMP_def CSR_SISELECT_def CSR_SIREG_def CSR_STOPEI_def
  CSR_SATP_def CSR_STOPI_def CSR_SCONTEXT_def CSR_VSSTATUS_def CSR_VSIE_def CSR_VSTVEC_def
  CSR_VSSCRATCH_def CSR_VSEPC_def CSR_VSCAUSE_def CSR_VSTVAL_def CSR_VSIP_def
  CSR_VSTIMECMP_def CSR_VSISELECT_def CSR_VSIREG_def CSR_VSTOPEI_def CSR_VSATP_def
  CSR_VSTOPI_def CSR_HSTATUS_def CSR_HEDELEG_def CSR_HIDELEG_def CSR_HIE_def
  CSR_HTIMEDELTA_def CSR_HCOUNTEREN_def CSR_HGEIE_def CSR_HVICTL_def CSR_HENVCFG_def
  CSR_HTVAL_def CSR_HIP_def CSR_HVIP_def CSR_HTINST_def CSR_HGATP_def CSR_HCONTEXT_def
  CSR_HGEIP_def

definition csr_numbers :: "u16 list" where
  "csr_numbers =
    [CSR_SSTATUS, CSR_SEDELEG, CSR_SIDELEG, CSR_SIE, CSR_STVEC, CSR_SCOUNTEREN, CSR_SENVCFG,
     CSR_SSCRATCH, CSR_SEPC, CSR_SCAUSE, CSR_STVAL, CSR_SIP, CSR_STIMECMP, CSR_SISELECT,
     CSR_SIREG, CSR_STOPEI, CSR_SATP, CSR_STOPI, CSR_SCONTEXT, CSR_VSSTATUS, CSR_VSIE,
     CSR_VSTVEC, CSR_VSSCRATCH, CSR_VSEPC, CSR_VSCAUSE, CSR_VSTVAL, CSR_VSIP, CSR_VSTIMECMP,
     CSR_VSISELECT, CSR_VSIREG, CSR_VSTOPEI, CSR_VSATP, CSR_VSTOPI, CSR_HSTATUS, CSR_HEDELEG,
     CSR_HIDELEG, CSR_HIE, CSR_HTIMEDELTA, CSR_HCOUNTEREN, CSR_HGEIE, CSR_HVICTL, CSR_HENVCFG,
     CSR_HTVAL, CSR_HIP, CSR_HVIP, CSR_HTINST, CSR_HGATP, CSR_HCONTEXT, CSR_HGEIP]"

lemma distinct_csr_numbers: "distinct csr_numbers"
  by (simp add: csr_numbers_def csr_number_defs)

section \<open>Interrupt and exception masks\<close>

definition USER_SOFT :: usize where
  "USER_SOFT = shl 1 0"

definition SUPERVISOR_SOFT :: usize where
  "SUPERVISOR_SOFT = shl 1 1"

definition VIRTUAL_SUPERVISOR_SOFT :: usize where
  "VIRTUAL_SUPERVISOR_SOFT = shl 1 2"

definition MACHINE_SOFT :: usize where
  "MACHINE_SOFT = shl 1 3"

definition USER_TIMER :: usize where
  "USER_TIMER = shl 1 4"

definition SUPERVISOR_TIMER :: usize where
  "SUPERVISOR_TIMER = shl 1 5"

definition VIRTUAL_SUPERVISOR_TIMER :: usize where
  "VIRTUAL_SUPERVISOR_TIMER = shl 1 6"

definition MACHINE_TIMER :: usize where
  "MACHINE_TIMER = shl 1 7"

definition USER_EXTERNAL :: usize where
  "USER_EXTERNAL = shl 1 8"

definition SUPERVISOR_EXTERNAL :: usize where
  "SUPERVISOR_EXTERNAL = shl 1 9"

definition VIRTUAL_SUPERVISOR_EXTERNAL :: usize where
  "VIRTUAL_SUPERVISOR_EXTERNAL = shl 1 10"

definition MACHINEL_EXTERNAL :: usize where
  "MACHINEL_EXTERNAL = shl 1 11"

definition SUPERVISOR_GUEST_EXTERNEL :: usize where
  "SUPERVISOR_GUEST_EXTERNEL = shl 1 12"

definition INST_ADDR_MISALIGN :: usize where
  "INST_ADDR_MISALIGN = shl 1 0"

definition INST_ACCESSS_FAULT :: usize where
  "INST_ACCESSS_FAULT = shl 1 1"

definition ILLEGAL_INST :: usize where
  "ILLEGAL_INST = shl 1 2"

definition BREAKPOINT :: usize where
  "BREAKPOINT = shl 1 3"

definition LOAD_ADDR_MISALIGNED :: usize where
  "LOAD_ADDR_MISALIGNED = shl 1 4"

definition LOAD_ACCESS_FAULT :: usize where
  "LOAD_ACCESS_FAULT = shl 1 5"

definition STORE_ADDR_MISALIGNED :: usize where
  "STORE_ADDR_MISALIGNED = shl 1 6"

definition STORE_ACCESS_FAULT :: usize where
  "STORE_ACCESS_FAULT = shl 1 7"

definition ENV_CALL_FROM_U_OR_VU :: usize where
  "ENV_CALL_FROM_U_OR_VU = shl 1 8"

definition ENV_CALL_FROM_HS :: usize where
  "ENV_CALL_FROM_HS = shl 1 9"

definition ENV_CALL_FROM_VS :: usize where
  "ENV_CALL_FROM_VS = shl 1 10"

definition ENV_CALL_FROM_M :: usize where
  "ENV_CALL_FROM_M = shl 1 11"

definition INST_PAGE_FAULT :: usize where
  "INST_PAGE_FAULT = shl 1 12"

definition LOAD_PAGE_FAULT :: usize where
  "LOAD_PAGE_FAULT = shl 1 13"

definition STORE_PAGE_FAULT :: usize where
  "STORE_PAGE_FAULT = shl 1 15"

definition INST_GUEST_PAGE_FAULT :: usize where
  "INST_GUEST_PAGE_FAULT = shl 1 20"

definition LOAD_GUEST_PAGE_FAULT :: usize where
  "LOAD_GUEST_PAGE_FAULT = shl 1 21"

definition VIRTUAL_INST :: usize where
  "VIRTUAL_INST = shl 1 22"

definition STORE_GUEST_PAGE_FAULT :: usize where
  "STORE_GUEST_PAGE_FAULT = shl 1 23"

lemmas interrupt_defs =
  USER_SOFT_def SUPERVISOR_SOFT_def VIRTUAL_SUPERVISOR_SOFT_def MACHINE_SOFT_def
  USER_TIMER_def SUPERVISOR_TIMER_def VIRTUAL_SUPERVISOR_TIMER_def MACHINE_TIMER_def
  USER_EXTERNAL_def SUPERVISOR_EXTERNAL_def VIRTUAL_SUPERVISOR_EXTERNAL_def
  MACHINEL_EXTERNAL_def SUPERVISOR_GUEST_EXTERNEL_def

lemmas exception_defs =
  INST_ADDR_MISALIGN_def INST_ACCESSS_FAULT_def ILLEGAL_INST_def BREAKPOINT_def
  LOAD_ADDR_MISALIGNED_def LOAD_ACCESS_FAULT_def STORE_ADDR_MISALIGNED_def
  STORE_ACCESS_FAULT_def ENV_CALL_FROM_U_OR_VU_def ENV_CALL_FROM_HS_def ENV_CALL_FROM_VS_def
  ENV_CALL_FROM_M_def INST_PAGE_FAULT_def LOAD_PAGE_FAULT_def STORE_PAGE_FAULT_def
  INST_GUEST_PAGE_FAULT_def LOAD_GUEST_PAGE_FAULT_def VIRTUAL_INST_def
  STORE_GUEST_PAGE_FAULT_def

text \<open>Each mask is a single bit; the bit number is the interrupt or exception code.\<close>

lemma interrupt_bits [simp]:
  "bit USER_SOFT i \<longleftrightarrow> i = 0"
  "bit SUPERVISOR_SOFT i \<longleftrightarrow> i = 1"
  "bit VIRTUAL_SUPERVISOR_SOFT i \<longleftrightarrow> i = 2"
  "bit MACHINE_SOFT i \<longleftrightarrow> i = 3"
  "bit USER_TIMER i \<longleftrightarrow> i = 4"
  "bit SUPERVISOR_TIMER i \<longleftrightarrow> i = 5"
  "bit VIRTUAL_SUPERVISOR_TIMER i \<longleftrightarrow> i = 6"
  "bit MACHINE_TIMER i \<longleftrightarrow> i = 7"
  "bit USER_EXTERNAL i \<longleftrightarrow> i = 8"
  "bit SUPERVISOR_EXTERNAL i \<longleftrightarrow> i = 9"
  "bit VIRTUAL_SUPERVISOR_EXTERNAL i \<longleftrightarrow> i = 10"
  "bit MACHINEL_EXTERNAL i \<longleftrightarrow> i = 11"
  "bit SUPERVISOR_GUEST_EXTERNEL i \<longleftrightarrow> i = 12"
  by (simp_all add: interrupt_defs bit_shl_1 del: shl_below)

lemma exception_bits [simp]:
  "bit INST_ADDR_MISALIGN i \<longleftrightarrow> i = 0"
  "bit INST_ACCESSS_FAULT i \<longleftrightarrow> i = 1"
  "bit ILLEGAL_INST i \<longleftrightarrow> i = 2"
  "bit BREAKPOINT i \<longleftrightarrow> i = 3"
  "bit LOAD_ADDR_MISALIGNED i \<longleftrightarrow> i = 4"
  "bit LOAD_ACCESS_FAULT i \<longleftrightarrow> i = 5"
  "bit STORE_ADDR_MISALIGNED i \<longleftrightarrow> i = 6"
  "bit STORE_ACCESS_FAULT i \<longleftrightarrow> i = 7"
  "bit ENV_CALL_FROM_U_OR_VU i \<longleftrightarrow> i = 8"
  "bit ENV_CALL_FROM_HS i \<longleftrightarrow> i = 9"
  "bit ENV_CALL_FROM_VS i \<longleftrightarrow> i = 10"
  "bit ENV_CALL_FROM_M i \<longleftrightarrow> i = 11"
  "bit INST_PAGE_FAULT i \<longleftrightarrow> i = 12"
  "bit LOAD_PAGE_FAULT i \<longleftrightarrow> i = 13"
  "bit STORE_PAGE_FAULT i \<longleftrightarrow> i = 15"
  "bit INST_GUEST_PAGE_FAULT i \<longleftrightarrow> i = 20"
  "bit LOAD_GUEST_PAGE_FAULT i \<longleftrightarrow> i = 21"
  "bit VIRTUAL_INST i \<longleftrightarrow> i = 22"
  "bit STORE_GUEST_PAGE_FAULT i \<longleftrightarrow> i = 23"
  by (simp_all add: exception_defs bit_shl_1 del: shl_below)

section \<open>Register bit fields\<close>

text \<open>
  The \<open>register_bitfields!\<close> tables: field name, offset and width.
\<close>

type_synonym register_field = "string \<times> nat \<times> nat"

definition hedeleg_fields :: "register_field list" where
  "hedeleg_fields =
     [(''instr_misaligned'', 0, 1),
      (''instr_fault'', 1, 1),
      (''illegal_instr'', 2, 1),
      (''breakpoint'', 3, 1),
      (''load_misaligned'', 4, 1),
      (''load_fault'', 5, 1),
      (''store_misaligned'', 6, 1),
      (''store_fault'', 7, 1),
      (''u_ecall'', 8, 1),
      (''instr_page_fault'', 12, 1),
      (''load_page_fault'', 13, 1),
      (''store_page_fault'', 15, 1)]"

definition sie_fields :: "register_field list" where
  "sie_fields =
     [(''ssoft'', 1, 1),
      (''stimer'', 5, 1),
      (''sext'', 9, 1)]"

definition hstatus_fields :: "register_field list" where
  "hstatus_fields =
     [(''vsbe'', 6, 1),
      (''gva'', 6, 1),
      (''spv'', 7, 1),
      (''spvp'', 8, 1),
      (''hu'', 9, 1),
      (''vgein'', 12, 6),
      (''vtvm'', 20, 1),
      (''vtw'', 21, 1),
      (''vtsr'', 22, 1),
      (''vsxl'', 32, 2)]"

definition hideleg_fields :: "register_field list" where
  "hideleg_fields =
     [(''vssoft'', 2, 1),
      (''vstimer'', 6, 1),
      (''vsext'', 10, 1)]"

definition hie_fields :: "register_field list" where
  "hie_fields =
     [(''vssoft'', 2, 1),
      (''vstimer'', 6, 1),
      (''vsext'', 10, 1),
      (''sgext'', 12, 1)]"

definition hcounteren_fields :: "register_field list" where
  "hcounteren_fields =
     [(''cycle'', 0, 1),
      (''time'', 1, 1),
      (''instret'', 2, 1),
      (''hpm'', 3, 29)]"

definition hvip_fields :: "register_field list" where
  "hvip_fields =
     [(''vssoft'', 2, 1),
      (''vstimer'', 6, 1),
      (''vsext'', 10, 1)]"

text \<open>Two fields of a register overlap when some bit belongs to both.\<close>

fun fields_overlap :: "register_field \<Rightarrow> register_field \<Rightarrow> bool" where
  "fields_overlap (_, o1, n1) (_, o2, n2) \<longleftrightarrow> o1 < o2 + n2 \<and> o2 < o1 + n1"

fun overlaps :: "register_field list \<Rightarrow> (string \<times> string) list" where
  "overlaps [] = []"
| "overlaps (f # fs) =
     map (\<lambda>g. (fst f, fst g)) (filter (fields_overlap f) fs) @ overlaps fs"

section \<open>The CSR file and its accessors\<close>

record riscv_hw =
  csr :: "u16 \<Rightarrow> usize"
  mmio :: "(usize \<times> u32) list"

text \<open>
  \<open>ReadWriteCsr<R, V>\<close> is a zero-sized type; its value is the number \<open>V\<close>. The
  constant \<open>CSR\<close> collects the registers that the hypervisor uses.
\<close>

record CSR =
  sie :: u16
  hstatus :: u16
  hedeleg :: u16
  hideleg :: u16
  hcounteren :: u16
  hvip :: u16

definition CSR :: CSR where
  "CSR = \<lparr>sie = CSR_SIE, hstatus = CSR_HSTATUS, hedeleg = CSR_HEDELEG,
          hideleg = CSR_HIDELEG, hcounteren = CSR_HCOUNTEREN, hvip = CSR_HVIP\<rparr>"

definition get_value :: "u16 \<Rightarrow> riscv_hw \<Rightarrow> usize" where
  "get_value V hw = csr hw V"

definition write_value :: "u16 \<Rightarrow> usize \<Rightarrow> riscv_hw \<Rightarrow> riscv_hw" where
  "write_value V value hw = hw\<lparr>csr := (csr hw)(V := value)\<rparr>"

definition atomic_replace :: "u16 \<Rightarrow> usize \<Rightarrow> riscv_hw \<Rightarrow> usize \<times> riscv_hw" where
  "atomic_replace V value hw = (csr hw V, hw\<lparr>csr := (csr hw)(V := value)\<rparr>)"

definition read_and_set_bits :: "u16 \<Rightarrow> usize \<Rightarrow> riscv_hw \<Rightarrow> usize \<times> riscv_hw" where
  "read_and_set_bits V bitmask hw =
     (csr hw V, hw\<lparr>csr := (csr hw)(V := csr hw V OR bitmask)\<rparr>)"

definition read_and_clear_bits :: "u16 \<Rightarrow> usize \<Rightarrow> riscv_hw \<Rightarrow> usize \<times> riscv_hw" where
  "read_and_clear_bits V bitmask hw =
     (csr hw V, hw\<lparr>csr := (csr hw)(V := csr hw V AND NOT bitmask)\<rparr>)"

text \<open>The interface \<open>RiscvCsrTrait\<close>.\<close>

locale riscv_csr_trait =
  fixes get :: "'s \<Rightarrow> usize"
    and put :: "usize \<Rightarrow> 's \<Rightarrow> 's"
    and replace :: "usize \<Rightarrow> 's \<Rightarrow> usize \<times> 's"
    and set_bits :: "usize \<Rightarrow> 's \<Rightarrow> usize \<times> 's"
    and clear_bits :: "usize \<Rightarrow> 's \<Rightarrow> usize \<times> 's"
  assumes get_put: "get (put v s) = v"
    and put_put: "put v (put w s) = put v s"
    and put_get: "put (get s) s = s"
    and replace_put: "replace v s = (get s, put v s)"
    and set_bits_put: "set_bits m s = (get s, put (get s OR m) s)"
    and clear_bits_put: "clear_bits m s = (get s, put (get s AND NOT m) s)"
begin

lemma bit_set_bits: "bit (get (snd (set_bits m s))) i \<longleftrightarrow> bit (get s) i \<or> bit m i"
  by (simp add: set_bits_put get_put bit_simps)

lemma bit_clear_bits: "bit (get (snd (clear_bits m s))) i \<longleftrightarrow> bit (get s) i \<and> \<not> bit m i"
  by (auto simp: clear_bits_put get_put bit_simps dest: bit_imp_le_length)

lemma clear_after_set:
  "snd (clear_bits m (snd (set_bits m s))) = snd (clear_bits m s)"
proof -
  have "(get s OR m) AND NOT m = get s AND NOT m"
    by (rule bit_word_eqI) (auto simp: bit_simps)
  then show ?thesis by (simp add: set_bits_put clear_bits_put get_put put_put)
qed

lemma set_bits_idem: "snd (set_bits m (snd (set_bits m s))) = snd (set_bits m s)"
  by (simp add: set_bits_put get_put put_put or.assoc)

lemma replace_back: "snd (replace (fst (replace v s)) (snd (replace v s))) = s"
  by (simp add: replace_put put_put put_get)

end

interpretation csrs: riscv_csr_trait "get_value V" "write_value V" "atomic_replace V"
  "read_and_set_bits V" "read_and_clear_bits V" for V
  by unfold_locales (simp_all add: get_value_def write_value_def atomic_replace_def
      read_and_set_bits_def read_and_clear_bits_def)

lemmas csr_access_defs = get_value_def write_value_def atomic_replace_def
  read_and_set_bits_def read_and_clear_bits_def

lemma csr_other [simp]:
  "W \<noteq> V \<Longrightarrow> csr (write_value V v hw) W = csr hw W"
  "W \<noteq> V \<Longrightarrow> csr (snd (read_and_set_bits V v hw)) W = csr hw W"
  "W \<noteq> V \<Longrightarrow> csr (snd (read_and_clear_bits V v hw)) W = csr hw W"
  by (simp_all add: csr_access_defs)

lemma csr_same [simp]:
  "csr (write_value V v hw) V = v"
  "csr (snd (read_and_set_bits V v hw)) V = csr hw V OR v"
  "csr (snd (read_and_clear_bits V v hw)) V = csr hw V AND NOT v"
  by (simp_all add: csr_access_defs)

lemma mmio_csr_access [simp]:
  "mmio (write_value V v hw) = mmio hw"
  "mmio (snd (read_and_set_bits V v hw)) = mmio hw"
  "mmio (snd (read_and_clear_bits V v hw)) = mmio hw"
  by (simp_all add: csr_access_defs)

section \<open>Hypervisor CSR setup\<close>

text \<open>\<open>setup_csrs\<close> of \<open>src/src/arch/riscv/mod.rs\<close>.\<close>

definition setup_csrs :: "riscv_hw \<Rightarrow> riscv_hw" where
  "setup_csrs hw =
    (let hw = write_value (hedeleg CSR)
                (INST_ADDR_MISALIGN OR ENV_CALL_FROM_U_OR_VU OR INST_PAGE_FAULT
                 OR LOAD_PAGE_FAULT OR STORE_PAGE_FAULT OR ILLEGAL_INST) hw;
         hw = write_value (hideleg CSR)
                (VIRTUAL_SUPERVISOR_TIMER OR VIRTUAL_SUPERVISOR_EXTERNAL
                 OR VIRTUAL_SUPERVISOR_SOFT) hw;
         hw = snd (read_and_clear_bits (hvip CSR)
                (VIRTUAL_SUPERVISOR_TIMER OR VIRTUAL_SUPERVISOR_EXTERNAL
                 OR VIRTUAL_SUPERVISOR_SOFT) hw);
         hw = write_value (hcounteren CSR) 0xffffffff hw
     in write_value (sie CSR)
          (SUPERVISOR_EXTERNAL OR SUPERVISOR_SOFT OR SUPERVISOR_TIMER) hw)"

lemmas CSR_simps = CSR_def CSR_SIE_def CSR_HSTATUS_def CSR_HEDELEG_def CSR_HIDELEG_def
  CSR_HCOUNTEREN_def CSR_HVIP_def

lemma setup_csrs_regs:
  "csr (setup_csrs hw) CSR_HEDELEG =
     INST_ADDR_MISALIGN OR ENV_CALL_FROM_U_OR_VU OR INST_PAGE_FAULT
     OR LOAD_PAGE_FAULT OR STORE_PAGE_FAULT OR ILLEGAL_INST"
  "csr (setup_csrs hw) CSR_HIDELEG =
     VIRTUAL_SUPERVISOR_TIMER OR VIRTUAL_SUPERVISOR_EXTERNAL OR VIRTUAL_SUPERVISOR_SOFT"
  "csr (setup_csrs hw) CSR_HVIP =
     csr hw CSR_HVIP AND NOT (VIRTUAL_SUPERVISOR_TIMER OR VIRTUAL_SUPERVISOR_EXTERNAL
       OR VIRTUAL_SUPERVISOR_SOFT)"
  "csr (setup_csrs hw) CSR_HCOUNTEREN = 0xffffffff"
  "csr (setup_csrs hw) CSR_SIE = SUPERVISOR_EXTERNAL OR SUPERVISOR_SOFT OR SUPERVISOR_TIMER"
  by (simp_all add: setup_csrs_def Let_def CSR_simps csr_access_defs)

section \<open>Properties\<close>

text \<open>
  Claim C28. The delegation set up at start-up routes the traps as \<open>VCpu::run\<close>
  expects: bit \<open>i\<close> of \<open>hedeleg\<close> is set exactly for the causes a guest kernel
  handles itself (misaligned fetch, illegal instruction, call from VU-mode and
  the three first-stage page faults), so calls from VS-mode, breakpoints and
  second-stage page faults reach the hypervisor; all three virtual supervisor
  interrupts are delegated and none of them is left pending; and the three
  supervisor interrupts are enabled.
\<close>

theorem setup_csrs_routes_traps:
  "(bit (csr (setup_csrs hw) CSR_HEDELEG) i \<longleftrightarrow> i \<in> {0, 2, 8, 12, 13, 15})
   \<and> (bit (csr (setup_csrs hw) CSR_HIDELEG) i \<longleftrightarrow> i \<in> {2, 6, 10})
   \<and> (bit (csr (setup_csrs hw) CSR_HVIP) i \<longleftrightarrow> bit (csr hw CSR_HVIP) i \<and> i \<notin> {2, 6, 10})
   \<and> (bit (csr (setup_csrs hw) CSR_SIE) i \<longleftrightarrow> i \<in> {1, 5, 9})"
  by (auto simp: setup_csrs_regs bit_or_iff bit_and_iff bit_not_iff dest: bit_imp_le_length)

text \<open>
  In the bit-field tables, the only fields that share a bit are
  \<open>vsbe\<close> and \<open>gva\<close> of \<open>hstatus\<close>, both declared at offset 6. (The privileged
  architecture has VSBE at bit 5.)
\<close>

theorem bit_field_overlaps:
  "map overlaps [hedeleg_fields, sie_fields, hideleg_fields, hie_fields, hcounteren_fields,
       hvip_fields] = replicate 6 []
   \<and> overlaps hstatus_fields = [(''vsbe'', ''gva'')]"
  by code_simp

end
