(* ===== verification/Riscv_Regs.thy ===== *)
theory Riscv_Regs
  imports Prelude
begin

text \<open>
  \<open>src/src/arch/riscv/regs.rs\<close>: the general purpose registers of a RISC-V
  hart, their index type and the accessors. The register file is the array
  \<open>[usize; 32]\<close>, a list of length 32; \<open>gprs_wf\<close> is that type invariant together
  with the hard-wired zero register, which no accessor writes.
\<close>

section \<open>Register names\<close>

datatype GprIndex =
    Zero | RA | SP | GP | TP | T0 | T1 | T2
  | S0 | S1 | A0 | A1 | A2 | A3 | A4 | A5
  | A6 | A7 | S2 | S3 | S4 | S5 | S6 | S7
  | S8 | S9 | S10 | S11 | T3 | T4 | T5 | T6

text \<open>The discriminants of the enumeration, \<open>Zero = 0\<close> upwards.\<close>

fun gpr_index :: "GprIndex \<Rightarrow> nat" where
  "gpr_index Zero = 0"
| "gpr_index RA = 1"
| "gpr_index SP = 2"
| "gpr_index GP = 3"
| "gpr_index TP = 4"
| "gpr_index T0 = 5"
| "gpr_index T1 = 6"
| "gpr_index T2 = 7"
| "gpr_index S0 = 8"
| "gpr_index S1 = 9"
| "gpr_index A0 = 10"
| "gpr_index A1 = 11"
| "gpr_index A2 = 12"
| "gpr_index A3 = 13"
| "gpr_index A4 = 14"
| "gpr_index A5 = 15"
| "gpr_index A6 = 16"
| "gpr_index A7 = 17"
| "gpr_index S2 = 18"
| "gpr_index S3 = 19"
| "gpr_index S4 = 20"
| "gpr_index S5 = 21"
| "gpr_index S6 = 22"
| "gpr_index S7 = 23"
| "gpr_index S8 = 24"
| "gpr_index S9 = 25"
| "gpr_index S10 = 26"
| "gpr_index S11 = 27"
| "gpr_index T3 = 28"
| "gpr_index T4 = 29"
| "gpr_index T5 = 30"
| "gpr_index T6 = 31"

text \<open>\<open>GprIndex::from_raw\<close>.\<close>

definition from_raw :: "u32 \<Rightarrow> GprIndex option" where
  "from_raw raw =
     (if raw = 0 then Some Zero
      else if raw = 1 then Some RA
      else if raw = 2 then Some SP
      else if raw = 3 then Some GP
      else if raw = 4 then Some TP
      else if raw = 5 then Some T0
      else if raw = 6 then Some T1
      else if raw = 7 then Some T2
      else if raw = 8 then Some S0
      else if raw = 9 then Some S1
      else if raw = 10 then Some A0
      else if raw = 11 then Some A1
      else if raw = 12 then Some A2
      else if raw = 13 then Some A3
      else if raw = 14 then Some A4
      else if raw = 15 then Some A5
      else if raw = 16 then Some A6
      else if raw = 17 then Some A7
      else if raw = 18 then Some S2
      else if raw = 19 then Some S3
      else if raw = 20 then Some S4
      else if raw = 21 then Some S5
      else if raw = 22 then Some S6
      else if raw = 23 then Some S7
      else if raw = 24 then Some S8
      else if raw = 25 then Some S9
      else if raw = 26 then Some S10
      else if raw = 27 then Some S11
      else if raw = 28 then Some T3
      else if raw = 29 then Some T4
      else if raw = 30 then Some T5
      else if raw = 31 then Some T6
      else None)"

lemma gpr_index_less [simp]: "gpr_index r < 32"
  by (cases r) simp_all

lemma gpr_index_0 [simp]: "gpr_index r = 0 \<longleftrightarrow> r = Zero"
  by (cases r) simp_all

lemma from_raw_gpr_index [simp]: "from_raw (of_nat (gpr_index r)) = Some r"
  by (cases r) (simp_all add: from_raw_def)

lemma gpr_index_inject [simp]: "gpr_index r = gpr_index r' \<longleftrightarrow> r = r'"
proof
  assume "gpr_index r = gpr_index r'"
  then have "from_raw (of_nat (gpr_index r)) = from_raw (of_nat (gpr_index r'))" by simp
  then show "r = r'" by simp
qed simp

lemma from_raw_sound: "from_raw raw = Some r \<Longrightarrow> unat raw = gpr_index r"
  by (auto simp: from_raw_def split: if_splits)

lemma from_raw_total: "unat raw < 32 \<Longrightarrow> \<exists>r. from_raw raw = Some r"
proof -
  have "list_all (\<lambda>n. from_raw (of_nat n) \<noteq> None) [0..<32]"
    by code_simp
  then have all: "\<forall>n<32. from_raw (of_nat n) \<noteq> None"
    by (simp add: list_all_iff)
  assume "unat raw < 32"
  with all have "from_raw (of_nat (unat raw)) \<noteq> None" by blast
  then show ?thesis by simp
qed

instantiation GprIndex :: linorder
begin

definition less_eq_GprIndex :: "GprIndex \<Rightarrow> GprIndex \<Rightarrow> bool" where
  "less_eq_GprIndex r r' \<longleftrightarrow> gpr_index r \<le> gpr_index r'"

definition less_GprIndex :: "GprIndex \<Rightarrow> GprIndex \<Rightarrow> bool" where
  "less_GprIndex r r' \<longleftrightarrow> gpr_index r < gpr_index r'"

instance
  by standard (auto simp: less_eq_GprIndex_def less_GprIndex_def)

end

section \<open>The register file\<close>

text \<open>\<open>GeneralPurposeRegisters([usize; 32])\<close>; \<open>Default\<close> zeroes the array.\<close>

type_synonym GeneralPurposeRegisters = "usize list"

definition GeneralPurposeRegisters_default :: GeneralPurposeRegisters where
  "GeneralPurposeRegisters_default = replicate 32 0"

definition reg :: "GeneralPurposeRegisters \<Rightarrow> GprIndex \<Rightarrow> usize" where
  "reg gprs reg_index = gprs ! gpr_index reg_index"

definition set_reg :: "GeneralPurposeRegisters \<Rightarrow> GprIndex \<Rightarrow> usize \<Rightarrow> GeneralPurposeRegisters" where
  "set_reg gprs reg_index val =
     (if reg_index = Zero then gprs else gprs[gpr_index reg_index := val])"

text \<open>The slice \<open>A0..=A7\<close>.\<close>

definition a_regs :: "GeneralPurposeRegisters \<Rightarrow> usize list" where
  "a_regs gprs = take (gpr_index A7 - gpr_index A0 + 1) (drop (gpr_index A0) gprs)"

text \<open>\<open>a_regs_mut\<close>: the register file after the slice has been overwritten.\<close>

definition a_regs_mut :: "GeneralPurposeRegisters \<Rightarrow> usize list \<Rightarrow> GeneralPurposeRegisters" where
  "a_regs_mut gprs args =
     take (gpr_index A0) gprs @ args @ drop (gpr_index A7 + 1) gprs"

definition gprs_wf :: "GeneralPurposeRegisters \<Rightarrow> bool" where
  "gprs_wf gprs \<longleftrightarrow> length gprs = 32 \<and> reg gprs Zero = 0"

lemma gprs_wf_default [simp, intro]: "gprs_wf GeneralPurposeRegisters_default"
  by (simp add: gprs_wf_def GeneralPurposeRegisters_default_def reg_def)

lemma length_set_reg [simp]: "length (set_reg gprs r v) = length gprs"
  by (simp add: set_reg_def)

lemma reg_set_reg:
  assumes "length gprs = 32"
  shows "reg (set_reg gprs r v) r' = (if r' = r \<and> r \<noteq> Zero then v else reg gprs r')"
  using assms by (auto simp: reg_def set_reg_def nth_list_update)

lemma gprs_wf_set_reg [simp, intro]: "gprs_wf gprs \<Longrightarrow> gprs_wf (set_reg gprs r v)"
  by (auto simp: gprs_wf_def reg_set_reg)

lemma gprs_wfD: "gprs_wf gprs \<Longrightarrow> length gprs = 32" "gprs_wf gprs \<Longrightarrow> reg gprs Zero = 0"
  by (simp_all add: gprs_wf_def)

lemma length_a_regs: "length gprs = 32 \<Longrightarrow> length (a_regs gprs) = 8"
  by (simp add: a_regs_def)

lemma a_regs_nth:
  assumes "length gprs = 32" and "i < 8"
  shows "a_regs gprs ! i = gprs ! (10 + i)"
  using assms by (simp add: a_regs_def)

lemma a_regs_regs:
  assumes "length gprs = 32"
  shows "a_regs gprs = map (reg gprs) [A0, A1, A2, A3, A4, A5, A6, A7]"
proof (rule nth_equalityI)
  fix i assume "i < length (a_regs gprs)"
  then have "i \<in> {0, 1, 2, 3, 4, 5, 6, 7}" using length_a_regs [OF assms] by auto
  then show "a_regs gprs ! i = map (reg gprs) [A0, A1, A2, A3, A4, A5, A6, A7] ! i"
    using a_regs_nth [OF assms] by (auto simp: reg_def)
qed (simp add: length_a_regs [OF assms])

lemma a_regs_a_regs_mut:
  assumes "length gprs = 32" and "length args = 8"
  shows "a_regs (a_regs_mut gprs args) = args"
  using assms by (simp add: a_regs_def a_regs_mut_def)

lemma gprs_eqI:
  assumes "length g = 32" and "length h = 32" and "\<And>r. reg g r = reg h r"
  shows "g = h"
proof (rule nth_equalityI)
  show "length g = length h" using assms by simp
  fix i assume "i < length g"
  then have "unat (of_nat i :: u32) = i"
    using assms by (simp add: unat_of_nat)
  with \<open>i < length g\<close> obtain r where r: "from_raw (of_nat i) = Some r"
    using from_raw_total [of "of_nat i"] assms by auto
  then have "gpr_index r = i"
    using from_raw_sound [OF r] \<open>unat (of_nat i :: u32) = i\<close> by simp
  then show "g ! i = h ! i" using assms(3) [of r] by (simp add: reg_def)
qed

section \<open>The register-file contract\<close>

text \<open>
  What the users of a register file rely on: a write is read back, other
  registers keep their value, the zero register keeps reading as zero, and the
  invariant is kept. The vCPU, the SBI handlers and the debugger stub use the
  register file through these laws only.
\<close>

locale register_file =
  fixes rd :: "'f \<Rightarrow> GprIndex \<Rightarrow> usize"
    and wr :: "'f \<Rightarrow> GprIndex \<Rightarrow> usize \<Rightarrow> 'f"
    and ok :: "'f \<Rightarrow> bool"
  assumes rd_wr: "ok f \<Longrightarrow> rd (wr f r v) r' = (if r' = r \<and> r \<noteq> Zero then v else rd f r')"
    and ok_wr: "ok f \<Longrightarrow> ok (wr f r v)"
    and rd_Zero: "ok f \<Longrightarrow> rd f Zero = 0"
begin

text \<open>Writing a list of registers, as the copy loops of the vCPU do.\<close>

primrec wr_list :: "'f \<Rightarrow> GprIndex list \<Rightarrow> (GprIndex \<Rightarrow> usize) \<Rightarrow> 'f" where
  "wr_list f [] src = f"
| "wr_list f (r # rs) src = wr_list (wr f r (src r)) rs src"

lemma ok_wr_list: "ok f \<Longrightarrow> ok (wr_list f rs src)"
  by (induction rs arbitrary: f) (simp_all add: ok_wr)

lemma rd_wr_list:
  "ok f \<Longrightarrow> rd (wr_list f rs src) r = (if r \<in> set rs \<and> r \<noteq> Zero then src r else rd f r)"
  by (induction rs arbitrary: f) (simp_all add: ok_wr rd_wr)

lemma wr_commute:
  "ok f \<Longrightarrow> r \<noteq> r' \<Longrightarrow> rd (wr (wr f r v) r' v') x = rd (wr (wr f r' v') r v) x"
  by (simp add: rd_wr ok_wr)

end

interpretation gprs: register_file reg set_reg gprs_wf
  by unfold_locales (auto simp: reg_set_reg gprs_wf_def)

end
