(* ===== verification/Riscv_Sbi.thy ===== *)
theory Riscv_Sbi
  imports Prelude
begin

text \<open>
  \<open>src/src/arch/riscv/sbi/\<close>: the messages a guest sends to its supervisor
  execution environment, decoded from the argument registers \<open>a0..a7\<close> of an
  environment call. The extension and function numbers come from the crate
  \<open>sbi_spec\<close> and are a parameter; what the decoder relies on is that the numbers
  are different (\<open>sbi_spec_ok\<close>).
\<close>

section \<open>Numbers of the SBI specification\<close>

record sbi_spec =
  EID_BASE :: usize
  LEGACY_CONSOLE_PUTCHAR :: usize
  LEGACY_CONSOLE_GETCHAR :: usize
  LEGACY_SET_TIMER :: usize
  EID_TIME :: usize
  EID_SRST :: usize
  EID_RFNC :: usize
  EID_PMU :: usize
  REMOTE_FENCE_I :: usize
  REMOTE_SFENCE_VMA :: usize

definition sbi_spec_ok :: "sbi_spec \<Rightarrow> bool" where
  "sbi_spec_ok sp \<longleftrightarrow>
     distinct [EID_BASE sp, LEGACY_CONSOLE_PUTCHAR sp, LEGACY_CONSOLE_GETCHAR sp,
       LEGACY_SET_TIMER sp, EID_TIME sp, EID_SRST sp, EID_RFNC sp, EID_PMU sp]
     \<and> REMOTE_FENCE_I sp \<noteq> REMOTE_SFENCE_VMA sp"

text \<open>The numbers that the SBI specification assigns, for the witnesses.\<close>

definition sbi_spec_v1 :: sbi_spec where
  "sbi_spec_v1 = \<lparr>EID_BASE = 0x10, LEGACY_CONSOLE_PUTCHAR = 1, LEGACY_CONSOLE_GETCHAR = 2,
     LEGACY_SET_TIMER = 0, EID_TIME = 0x54494D45, EID_SRST = 0x53525354,
     EID_RFNC = 0x52464E43, EID_PMU = 0x504D55, REMOTE_FENCE_I = 0, REMOTE_SFENCE_VMA = 1\<rparr>"

lemma sbi_spec_v1_ok: "sbi_spec_ok sbi_spec_v1"
  by (simp add: sbi_spec_ok_def sbi_spec_v1_def)

text \<open>Error codes, \<open>isize\<close> constants as two's complement words.\<close>

definition SBI_SUCCESS :: usize where
  "SBI_SUCCESS = 0"

definition SBI_ERR_FAILUER :: usize where
  "SBI_ERR_FAILUER = - 1"

definition SBI_ERR_NOT_SUPPORTED :: usize where
  "SBI_ERR_NOT_SUPPORTED = - 2"

definition SBI_ERR_INAVLID_PARAM :: usize where
  "SBI_ERR_INAVLID_PARAM = - 3"

definition SBI_ERR_DENIED :: usize where
  "SBI_ERR_DENIED = - 4"

definition SBI_ERR_INVALID_ADDRESS :: usize where
  "SBI_ERR_INVALID_ADDRESS = - 5"

definition SBI_ERR_ALREADY_AVAILABLE :: usize where
  "SBI_ERR_ALREADY_AVAILABLE = - 6"

section \<open>Messages\<close>

datatype BaseFunction =
    GetSepcificationVersion
  | GetImplementationID
  | GetImplementationVersion
  | ProbeSbiExtension u64
  | GetMachineVendorID
  | GetMachineArchitectureID
  | GetMachineImplementationID

datatype DebugConsoleFunction =
  PutString u64 u64

datatype PmuFunction =
    GetNumCounters
  | GetCounterInfo u64
  | StopCounter u64 u64 u64

datatype RemoteFenceFunction =
    FenceI u64 u64
  | RemoteSFenceVMA u64 u64 u64 u64

datatype ResetType = Shutdown | ColdReset | WarmReset

datatype ResetReason = NoReason | SystemFailure

datatype ResetFunction =
  Reset ResetType ResetReason

datatype SbiMessage =
    Base BaseFunction
  | GetChar
  | PutChar usize
  | SetTimer usize
  | DebugConsole DebugConsoleFunction
  | ResetMsg ResetFunction
  | RemoteFence RemoteFenceFunction
  | PMU PmuFunction

text \<open>The return conventions of SBI calls.\<close>

record SbiReturn =
  error_code :: u64
  return_value :: u64

datatype SbiReturnTyoe = Legacy u64 | Standard SbiReturn

section \<open>Decoding\<close>

definition BaseFunction_from_regs :: "usize list \<Rightarrow> BaseFunction outcome" where
  "BaseFunction_from_regs args =
     obind (index args 6) (\<lambda>fid.
       if fid = 0 then Ok GetSepcificationVersion
       else if fid = 1 then Ok GetImplementationID
       else if fid = 2 then Ok GetImplementationVersion
       else if fid = 3 then obind (index args 0) (\<lambda>a0. Ok (ProbeSbiExtension (as_u64 a0)))
       else if fid = 4 then Ok GetMachineVendorID
       else if fid = 5 then Ok GetMachineArchitectureID
       else if fid = 6 then Ok GetMachineImplementationID
       else Err NotFound)"

definition PmuFunction_from_regs :: "usize list \<Rightarrow> PmuFunction outcome" where
  "PmuFunction_from_regs args =
     obind (index args 6) (\<lambda>fid.
       if fid = 0 then Ok GetNumCounters
       else if fid = 1 then obind (index args 0) (\<lambda>a0. Ok (GetCounterInfo (as_u64 a0)))
       else if fid = 4 then
         obind (index args 0) (\<lambda>a0. obind (index args 1) (\<lambda>a1. obind (index args 2) (\<lambda>a2.
           Ok (StopCounter (as_u64 a0) (as_u64 a1) (as_u64 a2)))))
       else Panic ExplicitPanic)"

definition RemoteFenceFunction_from_args ::
  "sbi_spec \<Rightarrow> usize list \<Rightarrow> RemoteFenceFunction outcome" where
  "RemoteFenceFunction_from_args sp args =
     obind (index args 6) (\<lambda>fid.
       if fid = REMOTE_FENCE_I sp then
         obind (index args 0) (\<lambda>a0. obind (index args 1) (\<lambda>a1.
           Ok (FenceI (as_u64 a0) (as_u64 a1))))
       else if fid = REMOTE_SFENCE_VMA sp then
         obind (index args 0) (\<lambda>a0. obind (index args 1) (\<lambda>a1.
         obind (index args 2) (\<lambda>a2. obind (index args 3) (\<lambda>a3.
           Ok (RemoteSFenceVMA (as_u64 a0) (as_u64 a1) (as_u64 a2) (as_u64 a3))))))
       else Panic ExplicitPanic)"

definition ResetType_from_reg :: "usize \<Rightarrow> ResetType outcome" where
  "ResetType_from_reg a0 =
     (if a0 = 0 then Ok Shutdown
      else if a0 = 1 then Ok ColdReset
      else if a0 = 2 then Ok WarmReset
      else Err InvalidParam)"

definition ResetReason_from_reg :: "usize \<Rightarrow> ResetReason outcome" where
  "ResetReason_from_reg a1 =
     (if a1 = 0 then Ok NoReason
      else if a1 = 1 then Ok SystemFailure
      else Err InvalidParam)"

definition ResetFunction_from_regs :: "usize list \<Rightarrow> ResetFunction outcome" where
  "ResetFunction_from_regs args =
     obind (index args 6) (\<lambda>fid.
       if fid = 0 then
         obind (index args 0) (\<lambda>a0. obind (ResetType_from_reg a0) (\<lambda>ty.
         obind (index args 1) (\<lambda>a1. obind (ResetReason_from_reg a1) (\<lambda>rs.
           Ok (Reset ty rs)))))
       else Err NotSupported)"

definition shutdown :: ResetFunction where
  "shutdown = Reset Shutdown NoReason"

definition SbiMessage_from_regs :: "sbi_spec \<Rightarrow> usize list \<Rightarrow> SbiMessage outcome" where
  "SbiMessage_from_regs sp args =
     obind (index args 7) (\<lambda>eid.
       if eid = EID_BASE sp then omap Base (BaseFunction_from_regs args)
       else if eid = LEGACY_CONSOLE_PUTCHAR sp then
         obind (index args 0) (\<lambda>a0. Ok (PutChar a0))
       else if eid = LEGACY_CONSOLE_GETCHAR sp then Ok GetChar
       else if eid = LEGACY_SET_TIMER sp then
         obind (index args 0) (\<lambda>a0. Ok (SetTimer a0))
       else if eid = EID_TIME sp then
         obind (index args 0) (\<lambda>a0. Ok (SetTimer a0))
       else if eid = EID_SRST sp then omap ResetMsg (ResetFunction_from_regs args)
       else if eid = EID_RFNC sp then omap RemoteFence (RemoteFenceFunction_from_args sp args)
       else if eid = EID_PMU sp then omap PMU (PmuFunction_from_regs args)
       else Err NotFound)"

lemmas sbi_message_defs = SbiMessage_from_regs_def BaseFunction_from_regs_def
  PmuFunction_from_regs_def RemoteFenceFunction_from_args_def ResetFunction_from_regs_def

lemmas sbi_decode_defs = sbi_message_defs ResetType_from_reg_def ResetReason_from_reg_def

section \<open>The calling convention, as a specification\<close>

text \<open>
  What a guest puts into \<open>a0..a7\<close> to send a message: the extension number in
  \<open>a7\<close>, the function number in \<open>a6\<close>, the arguments from \<open>a0\<close> on. There is no
  encoding of a debug-console message: the decoder knows no such extension.
\<close>

definition sbi_call :: "usize \<Rightarrow> usize \<Rightarrow> usize list \<Rightarrow> usize list" where
  "sbi_call eid fid args = take 6 (args @ replicate 6 0) @ [fid, eid]"

fun ResetType_code :: "ResetType \<Rightarrow> usize" where
  "ResetType_code Shutdown = 0"
| "ResetType_code ColdReset = 1"
| "ResetType_code WarmReset = 2"

fun ResetReason_code :: "ResetReason \<Rightarrow> usize" where
  "ResetReason_code NoReason = 0"
| "ResetReason_code SystemFailure = 1"

fun sbi_encode :: "sbi_spec \<Rightarrow> SbiMessage \<Rightarrow> usize list option" where
  "sbi_encode sp (Base GetSepcificationVersion) = Some (sbi_call (EID_BASE sp) 0 [])"
| "sbi_encode sp (Base GetImplementationID) = Some (sbi_call (EID_BASE sp) 1 [])"
| "sbi_encode sp (Base GetImplementationVersion) = Some (sbi_call (EID_BASE sp) 2 [])"
| "sbi_encode sp (Base (ProbeSbiExtension e)) = Some (sbi_call (EID_BASE sp) 3 [e])"
| "sbi_encode sp (Base GetMachineVendorID) = Some (sbi_call (EID_BASE sp) 4 [])"
| "sbi_encode sp (Base GetMachineArchitectureID) = Some (sbi_call (EID_BASE sp) 5 [])"
| "sbi_encode sp (Base GetMachineImplementationID) = Some (sbi_call (EID_BASE sp) 6 [])"
| "sbi_encode sp GetChar = Some (sbi_call (LEGACY_CONSOLE_GETCHAR sp) 0 [])"
| "sbi_encode sp (PutChar c) = Some (sbi_call (LEGACY_CONSOLE_PUTCHAR sp) 0 [c])"
| "sbi_encode sp (SetTimer t) = Some (sbi_call (EID_TIME sp) 0 [t])"
| "sbi_encode sp (DebugConsole d) = None"
| "sbi_encode sp (ResetMsg (Reset ty rs)) =
     Some (sbi_call (EID_SRST sp) 0 [ResetType_code ty, ResetReason_code rs])"
| "sbi_encode sp (RemoteFence (FenceI m b)) =
     Some (sbi_call (EID_RFNC sp) (REMOTE_FENCE_I sp) [m, b])"
| "sbi_encode sp (RemoteFence (RemoteSFenceVMA m b s z)) =
     Some (sbi_call (EID_RFNC sp) (REMOTE_SFENCE_VMA sp) [m, b, s, z])"
| "sbi_encode sp (PMU GetNumCounters) = Some (sbi_call (EID_PMU sp) 0 [])"
| "sbi_encode sp (PMU (GetCounterInfo i)) = Some (sbi_call (EID_PMU sp) 1 [i])"
| "sbi_encode sp (PMU (StopCounter i m f)) = Some (sbi_call (EID_PMU sp) 4 [i, m, f])"

lemma sbi_call_nth [simp]:
  "sbi_call eid fid args ! 6 = fid"
  "sbi_call eid fid args ! 7 = eid"
  "length (sbi_call eid fid args) = 8"
  by (simp_all add: sbi_call_def nth_append del: take_append)

lemma sbi_call_arg:
  "i < length args \<Longrightarrow> i < 6 \<Longrightarrow> sbi_call eid fid args ! i = args ! i"
  by (simp add: sbi_call_def nth_append)

lemma ResetType_roundtrip [simp]: "ResetType_from_reg (ResetType_code ty) = Ok ty"
  by (cases ty) (simp_all add: ResetType_from_reg_def)

lemma ResetReason_roundtrip [simp]: "ResetReason_from_reg (ResetReason_code rs) = Ok rs"
  by (cases rs) (simp_all add: ResetReason_from_reg_def)

lemma sbi_spec_neqs:
  assumes "sbi_spec_ok sp"
  shows "LEGACY_CONSOLE_PUTCHAR sp \<noteq> EID_BASE sp" "LEGACY_CONSOLE_GETCHAR sp \<noteq> EID_BASE sp"
    "LEGACY_CONSOLE_GETCHAR sp \<noteq> LEGACY_CONSOLE_PUTCHAR sp"
    "EID_TIME sp \<noteq> EID_BASE sp" "EID_TIME sp \<noteq> LEGACY_CONSOLE_PUTCHAR sp"
    "EID_TIME sp \<noteq> LEGACY_CONSOLE_GETCHAR sp"
    "EID_SRST sp \<noteq> EID_BASE sp" "EID_SRST sp \<noteq> LEGACY_CONSOLE_PUTCHAR sp"
    "EID_SRST sp \<noteq> LEGACY_CONSOLE_GETCHAR sp" "EID_SRST sp \<noteq> LEGACY_SET_TIMER sp"
    "EID_SRST sp \<noteq> EID_TIME sp"
    "EID_RFNC sp \<noteq> EID_BASE sp" "EID_RFNC sp \<noteq> LEGACY_CONSOLE_PUTCHAR sp"
    "EID_RFNC sp \<noteq> LEGACY_CONSOLE_GETCHAR sp" "EID_RFNC sp \<noteq> LEGACY_SET_TIMER sp"
    "EID_RFNC sp \<noteq> EID_TIME sp" "EID_RFNC sp \<noteq> EID_SRST sp"
    "EID_PMU sp \<noteq> EID_BASE sp" "EID_PMU sp \<noteq> LEGACY_CONSOLE_PUTCHAR sp"
    "EID_PMU sp \<noteq> LEGACY_CONSOLE_GETCHAR sp" "EID_PMU sp \<noteq> LEGACY_SET_TIMER sp"
    "EID_PMU sp \<noteq> EID_TIME sp" "EID_PMU sp \<noteq> EID_SRST sp" "EID_PMU sp \<noteq> EID_RFNC sp"
    "REMOTE_SFENCE_VMA sp \<noteq> REMOTE_FENCE_I sp"
  using assms by (auto simp: sbi_spec_ok_def)

lemma sbi_no_dbcn:
  assumes "sbi_spec_ok sp" and "length args = 8"
  shows "SbiMessage_from_regs sp args \<noteq> Ok (DebugConsole d)"
  using sbi_spec_neqs [OF assms(1)] assms(2) by (auto simp: sbi_decode_defs)

section \<open>Properties\<close>

text \<open>
  Claim C9. Decoding inverts the calling convention: for every message that has
  an encoding, the decoder returns exactly that message.
\<close>

theorem SbiMessage_from_regs_encode:
  assumes "sbi_spec_ok sp" and "sbi_encode sp msg = Some args"
  shows "SbiMessage_from_regs sp args = Ok msg"
  using assms(2) sbi_spec_neqs [OF assms(1)]
  by (cases "(sp, msg)" rule: sbi_encode.cases)
    (auto simp: sbi_message_defs sbi_call_arg)

theorem SbiMessage_from_regs_encode_witness:
  "sbi_encode sbi_spec_v1 (PMU (StopCounter 3 7 1)) = Some [3, 7, 1, 0, 0, 0, 4, 0x504D55]
   \<and> SbiMessage_from_regs sbi_spec_v1 [3, 7, 1, 0, 0, 0, 4, 0x504D55] = Ok (PMU (StopCounter 3 7 1))"
proof -
  have e: "sbi_encode sbi_spec_v1 (PMU (StopCounter 3 7 1)) = Some [3, 7, 1, 0, 0, 0, 4, 0x504D55]"
    by code_simp
  show ?thesis
    using e SbiMessage_from_regs_encode [OF sbi_spec_v1_ok e] by simp
qed

text \<open>
  Claim C27. What the decoder does with any call: it panics exactly on a
  remote-fence or PMU call whose function number it does not know, it never
  produces a debug-console message (so the \<open>todo!\<close> arm of \<open>VM::run\<close> is never
  reached through it), and an error is one of \<open>NotFound\<close>, \<open>InvalidParam\<close> and
  \<open>NotSupported\<close>.
\<close>

theorem SbiMessage_from_regs_failures:
  assumes "sbi_spec_ok sp" and "length args = 8"
  shows "(is_panic (SbiMessage_from_regs sp args) \<longleftrightarrow>
            (args ! 7 = EID_RFNC sp \<and> args ! 6 \<notin> {REMOTE_FENCE_I sp, REMOTE_SFENCE_VMA sp})
            \<or> (args ! 7 = EID_PMU sp \<and> args ! 6 \<notin> {0, 1, 4}))
         \<and> SbiMessage_from_regs sp args \<noteq> Ok (DebugConsole d)
         \<and> (SbiMessage_from_regs sp args = Err e \<longrightarrow> e \<in> {NotFound, InvalidParam, NotSupported})"
  using sbi_spec_neqs [OF assms(1)] assms(2)
  by (auto simp: sbi_decode_defs)

theorem SbiMessage_from_regs_failures_witness:
  "is_panic (SbiMessage_from_regs sbi_spec_v1 [0, 0, 0, 0, 0, 0, 2, 0x504D55])
   \<and> SbiMessage_from_regs sbi_spec_v1 [9, 0, 0, 0, 0, 0, 0, 0x53525354] = Err InvalidParam"
proof -
  have len: "length [0, 0, 0, 0, 0, 0, 2, 0x504D55 :: usize] = 8" by simp
  have "SbiMessage_from_regs sbi_spec_v1 [9, 0, 0, 0, 0, 0, 0, 0x53525354] = Err InvalidParam"
    by (simp add: sbi_decode_defs sbi_spec_v1_def)
  then show ?thesis
    using SbiMessage_from_regs_failures [OF sbi_spec_v1_ok len]
    by (simp add: sbi_spec_v1_def)
qed

end
