(* ===== verification/Vm_Cpus.thy ===== *)
theory Vm_Cpus
  imports Prelude
begin

text \<open>
  \<open>src/src/vcpus.rs\<close>: the table of a VM's vCPUs, an array of eight write-once
  cells (\<open>spin::Once\<close>). The vCPU type and its identifier are the two parameters;
  \<open>put_vcpu\<close> is the write-back of the mutable reference that \<open>get_vcpu\<close> returns.
\<close>

definition MAX_CPUS :: nat where
  "MAX_CPUS = 8"

definition VM_CPUS_MAX :: nat where
  "VM_CPUS_MAX = MAX_CPUS"

record 'v VmCpus =
  inner :: "'v option list"

definition VmCpus_new :: "'v VmCpus" where
  "VmCpus_new = \<lparr>inner = replicate VM_CPUS_MAX None\<rparr>"

text \<open>
  \<open>once_entry.call_once\<close> runs its closure only on an empty cell: a vCPU whose
  number is taken is dropped, and the call still succeeds.
\<close>

definition add_vcpu :: "('v \<Rightarrow> usize) \<Rightarrow> 'v VmCpus \<Rightarrow> 'v \<Rightarrow> unit outcome \<times> 'v VmCpus" where
  "add_vcpu vcpu_id self vcpu =
     (let id = unat (vcpu_id vcpu) in
      if id < length (inner self)
      then (Ok (), case inner self ! id of
                     None \<Rightarrow> self\<lparr>inner := (inner self)[id := Some vcpu]\<rparr>
                   | Some _ \<Rightarrow> self)
      else (Err BadState, self))"

definition get_vcpu :: "'v VmCpus \<Rightarrow> usize \<Rightarrow> 'v outcome" where
  "get_vcpu self vcpu_id =
     ok_or (if unat vcpu_id < length (inner self) then inner self ! unat vcpu_id else None) NotFound"

definition put_vcpu :: "'v VmCpus \<Rightarrow> usize \<Rightarrow> 'v \<Rightarrow> 'v VmCpus" where
  "put_vcpu self vcpu_id vcpu = self\<lparr>inner := (inner self)[unat vcpu_id := Some vcpu]\<rparr>"

text \<open>Type invariant: eight cells, and a vCPU is stored under its own number.\<close>

definition vcpus_wf :: "('v \<Rightarrow> usize) \<Rightarrow> 'v VmCpus \<Rightarrow> bool" where
  "vcpus_wf vcpu_id self \<longleftrightarrow>
     length (inner self) = VM_CPUS_MAX
     \<and> (\<forall>i < VM_CPUS_MAX. \<forall>v. inner self ! i = Some v \<longrightarrow> unat (vcpu_id v) = i)"

lemma get_vcpu_Ok:
  "get_vcpu self k = Ok v \<longleftrightarrow> unat k < length (inner self) \<and> inner self ! unat k = Some v"
  by (auto simp: get_vcpu_def)

lemma get_vcpu_cases: "get_vcpu self k = Err NotFound \<or> (\<exists>v. get_vcpu self k = Ok v)"
  by (cases "if unat k < length (inner self) then inner self ! unat k else None")
    (auto simp: get_vcpu_def)

lemma get_vcpu_not_Panic [simp]: "get_vcpu self k \<noteq> Panic p"
  by (simp add: get_vcpu_def)

lemma vcpus_wf_new: "vcpus_wf vcpu_id VmCpus_new"
  by (simp add: vcpus_wf_def VmCpus_new_def)

lemma vcpus_wf_add: "vcpus_wf vcpu_id self \<Longrightarrow> vcpus_wf vcpu_id (snd (add_vcpu vcpu_id self v))"
  by (auto simp: vcpus_wf_def add_vcpu_def Let_def nth_list_update split: option.splits)

lemma vcpus_wf_put:
  "vcpus_wf vcpu_id self \<Longrightarrow> vcpu_id v = k \<Longrightarrow> vcpus_wf vcpu_id (put_vcpu self k v)"
  unfolding vcpus_wf_def put_vcpu_def
  by (auto, metis nth_list_update_eq nth_list_update_neq option.inject)

lemma vcpus_wf_get: "vcpus_wf vcpu_id self \<Longrightarrow> get_vcpu self k = Ok v \<Longrightarrow> vcpu_id v = k"
  by (metis get_vcpu_Ok unat_inject vcpus_wf_def)

lemma get_vcpu_new: "get_vcpu VmCpus_new k = Err NotFound"
  by (simp add: get_vcpu_def VmCpus_new_def)

lemma get_vcpu_add:
  assumes "vcpus_wf vcpu_id self"
  shows "get_vcpu (snd (add_vcpu vcpu_id self v)) k =
     (if k = vcpu_id v \<and> unat k < VM_CPUS_MAX \<and> get_vcpu self k = Err NotFound
      then Ok v else get_vcpu self k)"
proof (cases "unat (vcpu_id v) < VM_CPUS_MAX \<and> inner self ! unat (vcpu_id v) = None")
  case True
  with assms show ?thesis
    by (simp add: vcpus_wf_def get_vcpu_def add_vcpu_def nth_list_update)
next
  case False
  then have "snd (add_vcpu vcpu_id self v) = self"
    using assms by (auto simp: add_vcpu_def vcpus_wf_def Let_def split: option.splits)
  moreover have "\<not> (k = vcpu_id v \<and> unat k < VM_CPUS_MAX \<and> get_vcpu self k = Err NotFound)"
    using False assms by (auto simp: get_vcpu_def vcpus_wf_def)
  ultimately show ?thesis by auto
qed

lemma get_vcpu_put:
  assumes "get_vcpu self k = Ok u"
  shows "get_vcpu (put_vcpu self k v) k' = (if k' = k then Ok v else get_vcpu self k')"
  using assms by (auto simp: get_vcpu_def put_vcpu_def nth_list_update split: if_splits)

section \<open>The table contract\<close>

text \<open>
  What the VM relies on when it runs a vCPU: lookups after insertion and
  write-back, and that the invariant survives both.
\<close>

locale vcpu_table =
  fixes new :: 't
    and add :: "'t \<Rightarrow> 'v \<Rightarrow> unit outcome \<times> 't"
    and get :: "'t \<Rightarrow> usize \<Rightarrow> 'v outcome"
    and put :: "'t \<Rightarrow> usize \<Rightarrow> 'v \<Rightarrow> 't"
    and vid :: "'v \<Rightarrow> usize"
    and wf :: "'t \<Rightarrow> bool"
  assumes wf_new: "wf new"
    and wf_add: "wf t \<Longrightarrow> wf (snd (add t v))"
    and wf_put: "wf t \<Longrightarrow> vid v = i \<Longrightarrow> wf (put t i v)"
    and wf_get: "wf t \<Longrightarrow> get t i = Ok v \<Longrightarrow> vid v = i"
    and get_new: "get new i = Err NotFound"
    and get_add: "wf t \<Longrightarrow> get (snd (add t v)) i =
      (if i = vid v \<and> unat i < VM_CPUS_MAX \<and> get t i = Err NotFound then Ok v else get t i)"
    and get_put: "get t i = Ok u \<Longrightarrow> get (put t i v) j = (if j = i then Ok v else get t j)"
begin

text \<open>Building a table by adding vCPUs one after another.\<close>

primrec build :: "'t \<Rightarrow> 'v list \<Rightarrow> 't" where
  "build t [] = t"
| "build t (v # vs) = build (snd (add t v)) vs"

lemma wf_build: "wf t \<Longrightarrow> wf (build t vs)"
  by (induction vs arbitrary: t) (simp_all add: wf_add)

lemma build_keeps: "wf t \<Longrightarrow> get t i = Ok v \<Longrightarrow> get (build t vs) i = Ok v"
  by (induction vs arbitrary: t) (simp_all add: wf_add get_add)

lemma build_first_wins:
  assumes "wf t" and "get t i = Err NotFound" and "unat i < VM_CPUS_MAX"
  shows "get (build t vs) i =
    (case find (\<lambda>v. vid v = i) vs of Some v \<Rightarrow> Ok v | None \<Rightarrow> Err NotFound)"
  using assms
proof (induction vs arbitrary: t)
  case (Cons v vs)
  show ?case
  proof (cases "vid v = i")
    case True
    then have "get (snd (add t v)) i = Ok v" using Cons.prems by (simp add: get_add)
    then show ?thesis using True Cons.prems by (simp add: build_keeps wf_add)
  next
    case False
    then have "get (snd (add t v)) i = Err NotFound" using Cons.prems by (simp add: get_add)
    then show ?thesis using False Cons.prems by (simp add: Cons.IH wf_add)
  qed
qed simp

end

interpretation vmcpus: vcpu_table VmCpus_new "add_vcpu vcpu_id" get_vcpu put_vcpu vcpu_id
  "vcpus_wf vcpu_id" for vcpu_id
  by unfold_locales
    (simp_all add: vcpus_wf_new vcpus_wf_add vcpus_wf_put vcpus_wf_get get_vcpu_new
      get_vcpu_add get_vcpu_put)

section \<open>Properties\<close>

text \<open>
  Claim C39. Adding a vCPU: a number beyond the table is refused with
  \<open>BadState\<close> and changes nothing; otherwise the call succeeds, and afterwards
  the number names the vCPU that was there before, if there was one, and the
  new vCPU if the cell was empty; every other number is unaffected.
\<close>

theorem add_vcpu_spec:
  assumes "vcpus_wf vcpu_id self"
  shows "(fst (add_vcpu vcpu_id self v) =
            (if unat (vcpu_id v) < VM_CPUS_MAX then Ok () else Err BadState))
         \<and> get_vcpu (snd (add_vcpu vcpu_id self v)) k =
            (if k = vcpu_id v \<and> unat k < VM_CPUS_MAX \<and> get_vcpu self k = Err NotFound
             then Ok v else get_vcpu self k)"
  using assms vmcpus.get_add [OF assms, of v k]
  by (simp add: add_vcpu_def Let_def vcpus_wf_def)

theorem add_vcpu_spec_witness:
  "vcpus_wf fst (VmCpus_new :: (usize \<times> nat) VmCpus)
   \<and> get_vcpu (snd (add_vcpu fst VmCpus_new (3, 7 :: nat))) 3 = Ok (3, 7)"
  using add_vcpu_spec [OF vcpus_wf_new, of fst "(3, 7 :: nat)" 3]
  by (simp add: vcpus_wf_new get_vcpu_new VM_CPUS_MAX_def MAX_CPUS_def)

end
