(* ===== verification/Riscv_Plic.thy ===== *)
theory Riscv_Plic
  imports Riscv_Csrs Vm_Cpus
begin

text \<open>
  \<open>src/src/arch/riscv/devices/plic.rs\<close>: the emulated platform-level interrupt
  controller. The device state is the record \<open>PlicState\<close>; a guest access that
  the device forwards is appended to the log of volatile stores of the hart.
\<close>

definition MAX_CONTEXTS :: nat where
  "MAX_CONTEXTS = 2 * MAX_CPUS"

record PlicState =
  base :: usize
  source_priority :: "u32 list"
  pending :: "u32 list"
  enable :: "u32 list list"
  thresholds :: "u32 list"
  claim_complete :: "u32 list"

definition PlicState_new :: "usize \<Rightarrow> PlicState" where
  "PlicState_new b = \<lparr>base = b,
     source_priority = replicate 512 0,
     pending = replicate 16 0,
     enable = replicate MAX_CONTEXTS (replicate 32 0),
     thresholds = replicate MAX_CONTEXTS 0,
     claim_complete = replicate MAX_CONTEXTS 0\<rparr>"

text \<open>\<open>core::ptr::write_volatile\<close> to a device register.\<close>

definition write_volatile :: "usize \<Rightarrow> u32 \<Rightarrow> riscv_hw \<Rightarrow> riscv_hw" where
  "write_volatile addr val hw = hw\<lparr>mmio := mmio hw @ [(addr, val)]\<rparr>"

definition read_u32 :: "PlicState \<Rightarrow> usize \<Rightarrow> u32 outcome" where
  "read_u32 self addr =
     (let offset = addr - base self in
      if 0x200000 \<le> offset \<and> offset < 0x200000 + 0x1000 * of_nat MAX_CONTEXTS then
        (let hart = (offset - 0x200000) div 0x1000;
             idx = shr ((offset - 0x200000) AND 0xfff) 2
         in if idx = 1 then index (claim_complete self) (unat hart)
            else Panic Todo)
      else Panic Todo)"

definition write_u32 ::
  "PlicState \<Rightarrow> usize \<Rightarrow> u32 \<Rightarrow> riscv_hw \<Rightarrow> (PlicState \<times> riscv_hw) outcome" where
  "write_u32 self addr val hw =
     (let offset = addr - base self in
      if 0x200000 \<le> offset \<and> offset < 0x200000 + 0x1000 * of_nat MAX_CONTEXTS then
        (let hart = (offset - 0x200000) div 0x1000;
             idx = shr ((offset - 0x200000) AND 0xfff) 2
         in if idx = 0 then
              obind (store (thresholds self) (unat hart) val) (\<lambda>ts.
                Ok (self\<lparr>thresholds := ts\<rparr>, write_volatile addr val hw))
            else if idx = 1 then
              (let hw = write_volatile addr val hw in
               obind (store (claim_complete self) (unat hart) 0) (\<lambda>cs.
                 Ok (self\<lparr>claim_complete := cs\<rparr>,
                     snd (read_and_clear_bits (hvip CSR) VIRTUAL_SUPERVISOR_EXTERNAL hw))))
            else Ok (self, hw))
      else Panic Todo)"

section \<open>Type invariant\<close>

definition plic_wf :: "PlicState \<Rightarrow> bool" where
  "plic_wf p \<longleftrightarrow> length (source_priority p) = 512 \<and> length (pending p) = 16
     \<and> length (enable p) = MAX_CONTEXTS \<and> (\<forall>e \<in> set (enable p). length e = 32)
     \<and> length (thresholds p) = MAX_CONTEXTS \<and> length (claim_complete p) = MAX_CONTEXTS"

lemma MAX_CONTEXTS_16 [simp]: "MAX_CONTEXTS = 16"
  by (simp add: MAX_CONTEXTS_def MAX_CPUS_def)

lemma base_new [simp]: "base (PlicState_new b) = b"
  by (simp add: PlicState_new_def)

lemma plic_wf_new [simp, intro]: "plic_wf (PlicState_new b)"
  by (simp add: plic_wf_def PlicState_new_def)

section \<open>Register addresses\<close>

text \<open>
  The address of register \<open>k\<close> (and byte \<open>r\<close> of it) of context \<open>c\<close>: each context
  has a page, with the threshold register first and the claim register second.
\<close>

definition context_offset :: "nat \<Rightarrow> nat \<Rightarrow> nat \<Rightarrow> nat" where
  "context_offset c k r = 0x1000 * c + 4 * k + r"

definition context_addr :: "PlicState \<Rightarrow> nat \<Rightarrow> nat \<Rightarrow> nat \<Rightarrow> usize" where
  "context_addr p c k r = base p + 0x200000 + of_nat (context_offset c k r)"

lemma context_page_decode:
  assumes "c < 16" and "k < 0x400" and "r < 4"
  defines "d \<equiv> of_nat (context_offset c k r) :: usize"
  shows "unat (d div 0x1000) = c" and "shr (d AND 0xfff) 2 = of_nat k"
    and "0x200000 \<le> 0x200000 + d" and "0x200000 + d < 0x210000"
proof -
  have d: "unat d = 0x1000 * c + 4 * k + r"
    using assms(1-3) unfolding d_def by (simp add: context_offset_def unat_of_nat_usize del: of_nat_add of_nat_mult)
  show "unat (d div 0x1000) = c"
    using d assms(2,3) by (simp add: unat_div)
  have "d AND 0xfff = take_bit 12 d"
    by (simp add: take_bit_eq_mask mask_numeral)
  then have "unat (shr (d AND 0xfff) 2) = (unat d mod 0x1000) div 4"
    by (simp add: drop_bit_eq_div take_bit_eq_mod unat_div unat_mod)
  also have "\<dots> = k" using d assms(2,3) by (simp add: mod_mult_self4 add.assoc)
  finally have "unat (shr (d AND 0xfff) 2) = unat (of_nat k :: usize)"
    using assms(2) by (simp add: unat_of_nat)
  then show "shr (d AND 0xfff) 2 = of_nat k" by (simp only: unat_inject)
  have "unat (0x200000 + d) = 0x200000 + unat d"
    using d assms(1-3) by (simp add: unat_word_ariths)
  then show "0x200000 \<le> 0x200000 + d" and "0x200000 + d < 0x210000"
    using d assms(1-3) by (simp_all add: word_le_nat_alt word_less_nat_alt)
qed

lemma context_addr_offset: "context_addr p c k r - base p = 0x200000 + of_nat (context_offset c k r)"
  by (simp add: context_addr_def)

lemma of_nat_small_eq:
  "k < 0x400 \<Longrightarrow> (of_nat k :: usize) = 0 \<longleftrightarrow> k = 0"
  "k < 0x400 \<Longrightarrow> (of_nat k :: usize) = 1 \<longleftrightarrow> k = 1"
  by (auto simp: word_unat_eq_iff unat_of_nat)

lemma read_u32_context:
  assumes "plic_wf p" and "c < MAX_CONTEXTS" and "k < 0x400" and "r < 4"
  shows "read_u32 p (context_addr p c k r) =
    (if k = 1 then Ok (claim_complete p ! c) else Panic Todo)"
  using assms context_page_decode [of c k r]
  by (auto simp: read_u32_def context_addr_offset plic_wf_def of_nat_small_eq)

lemma write_u32_context:
  assumes "plic_wf p" and "c < MAX_CONTEXTS" and "k < 0x400" and "r < 4"
  shows "write_u32 p (context_addr p c k r) v hw =
    (if k = 0 then
       Ok (p\<lparr>thresholds := (thresholds p)[c := v]\<rparr>, write_volatile (context_addr p c k r) v hw)
     else if k = 1 then
       Ok (p\<lparr>claim_complete := (claim_complete p)[c := 0]\<rparr>,
           snd (read_and_clear_bits CSR_HVIP VIRTUAL_SUPERVISOR_EXTERNAL
             (write_volatile (context_addr p c k r) v hw)))
     else Ok (p, hw))"
  using assms context_page_decode [of c k r]
  by (auto simp: write_u32_def context_addr_offset plic_wf_def of_nat_small_eq CSR_def)

lemma outside_contexts:
  assumes "addr - base p < 0x200000 \<or> 0x210000 \<le> addr - base p"
  shows "read_u32 p addr = Panic Todo" and "write_u32 p addr v hw = Panic Todo"
  using assms by (auto simp: read_u32_def write_u32_def Let_def)

text \<open>Every address is outside the context pages or has that form.\<close>

lemma context_addr_cases:
  obtains (outside) "addr - base p < 0x200000 \<or> 0x210000 \<le> addr - base p"
  | (inside) c k r where "c < MAX_CONTEXTS" and "k < 0x400" and "r < 4"
      and "addr = context_addr p c k r"
proof (cases "addr - base p < 0x200000 \<or> 0x210000 \<le> addr - base p")
  case False
  define d where "d = addr - base p - 0x200000"
  define n where "n = unat d"
  have "unat (addr - base p) < 0x210000" and le: "0x200000 \<le> unat (addr - base p)"
    using False by (simp_all add: word_le_nat_alt word_less_nat_alt not_less not_le)
  moreover have "n = unat (addr - base p) - 0x200000"
    unfolding n_def d_def using le by (subst unat_sub) (simp_all add: word_le_nat_alt)
  ultimately have n: "n < 0x10000" by simp
  have "of_nat n = d" by (simp add: n_def)
  moreover have "0x1000 * (n div 0x1000) + 4 * (n mod 0x1000 div 4) + n mod 4 = n"
  proof -
    have "n mod 0x1000 mod 4 = n mod 4" by (simp add: mod_mod_cancel)
    then have "4 * (n mod 0x1000 div 4) + n mod 4 = n mod 0x1000"
      by (metis mult_div_mod_eq)
    then show ?thesis by (simp add: add.assoc)
  qed
  ultimately have "addr = context_addr p (n div 0x1000) (n mod 0x1000 div 4) (n mod 4)"
    by (simp add: context_addr_def context_offset_def d_def del: of_nat_add of_nat_mult)
  moreover have "n div 0x1000 < MAX_CONTEXTS" using n by simp
  moreover have "n mod 0x1000 div 4 < 0x400" by simp
  moreover have "n mod 4 < 4" by simp
  ultimately show thesis using inside by blast
qed (rule outside)

lemma plic_wf_write:
  assumes "plic_wf p" and "write_u32 p addr v hw = Ok (p', hw')"
  shows "plic_wf p' \<and> base p' = base p"
  using assms
  by (cases addr p rule: context_addr_cases)
    (auto simp: outside_contexts write_u32_context plic_wf_def split: if_splits)


section \<open>The claim and complete protocol\<close>

text \<open>
  What the interrupt path of the virtual machine relies on: a claim cell per
  context that is filled with the number of a pending interrupt, read by the
  guest, and emptied when the guest completes the interrupt.
\<close>

locale claim_device =
  fixes wf :: "'d \<Rightarrow> bool" and contexts :: nat
    and cell :: "'d \<Rightarrow> nat \<Rightarrow> u32"
    and latch :: "nat \<Rightarrow> u32 \<Rightarrow> 'd \<Rightarrow> 'd"
    and claim :: "'d \<Rightarrow> nat \<Rightarrow> u32 outcome"
    and complete :: "nat \<Rightarrow> u32 \<Rightarrow> 'd \<times> 'h \<Rightarrow> ('d \<times> 'h) outcome"
  assumes latch_wf: "wf d \<Longrightarrow> c < contexts \<Longrightarrow> wf (latch c irq d)"
    and latch_cell: "wf d \<Longrightarrow> c < contexts \<Longrightarrow> c' < contexts \<Longrightarrow>
      cell (latch c irq d) c' = (if c' = c then irq else cell d c')"
    and claim_cell: "wf d \<Longrightarrow> c < contexts \<Longrightarrow> claim d c = Ok (cell d c)"
    and complete_cell: "wf d \<Longrightarrow> c < contexts \<Longrightarrow>
      \<exists>d' h'. complete c v (d, h) = Ok (d', h') \<and> wf d' \<and>
        (\<forall>c' < contexts. cell d' c' = (if c' = c then 0 else cell d c'))"
begin

lemma claim_latch: "wf d \<Longrightarrow> c < contexts \<Longrightarrow> claim (latch c irq d) c = Ok irq"
  by (simp add: latch_wf latch_cell claim_cell)

lemma interrupt_cycle:
  assumes "wf d" and "c < contexts"
  shows "\<exists>d' h'. complete c v (latch c irq d, h) = Ok (d', h') \<and> wf d' \<and>
    claim d' c = Ok 0 \<and> (\<forall>c' < contexts. c' \<noteq> c \<longrightarrow> claim d' c' = claim d c')"
  using complete_cell [of "latch c irq d" c v h] assms
  by (auto simp: latch_wf latch_cell claim_cell)

end

definition set_claim :: "nat \<Rightarrow> u32 \<Rightarrow> PlicState \<Rightarrow> PlicState" where
  "set_claim c irq p = p\<lparr>claim_complete := (claim_complete p)[c := irq]\<rparr>"

lemma plic_wf_set_claim [simp]: "plic_wf (set_claim c irq p) = plic_wf p"
  by (simp add: plic_wf_def set_claim_def)

lemma base_set_claim [simp]: "base (set_claim c irq p) = base p"
  by (simp add: set_claim_def)

interpretation plic: claim_device plic_wf MAX_CONTEXTS "\<lambda>p c. claim_complete p ! c" set_claim
  "\<lambda>p c. read_u32 p (context_addr p c 1 0)"
  "\<lambda>c v (p, hw). write_u32 p (context_addr p c 1 0) v hw"
  by unfold_locales
    (auto simp: read_u32_context write_u32_context, auto simp: set_claim_def plic_wf_def nth_list_update)



text \<open>
  On a well-formed device the two register accesses have no index panic:
  a write fails only for an address outside the sixteen context pages, and a read
  fails only for an address that is not inside some context's claim register. A
  failing access is the source's \<open>todo!()\<close>, so these addresses are exactly the
  accesses by which a guest stops the hypervisor.
\<close>

theorem plic_access_panics:
  assumes "plic_wf p"
  shows "(is_panic (write_u32 p addr v hw) \<longleftrightarrow>
           \<not> (0x200000 \<le> addr - base p \<and> addr - base p < 0x210000))
    \<and> (is_panic (read_u32 p addr) \<longleftrightarrow>
           \<not> (\<exists>c < 16. \<exists>r < 4. addr = base p + 0x200004 + of_nat (0x1000 * c + r)))
    \<and> (\<forall>w. write_u32 p addr v hw = Panic w \<longrightarrow> w = Todo)
    \<and> (\<forall>w. read_u32 p addr = Panic w \<longrightarrow> w = Todo)"
proof (cases addr p rule: context_addr_cases)
  case outside
  have "\<not> (\<exists>c < 16. \<exists>r < 4. addr = base p + 0x200004 + of_nat (0x1000 * c + r))"
  proof safe
    fix c r :: nat assume "c < 16" "r < 4" and "addr = base p + 0x200004 + of_nat (0x1000 * c + r)"
    then have "addr - base p = 0x200000 + of_nat (context_offset c 1 r)"
      by (simp add: context_offset_def)
    then show False
      using outside context_page_decode(3,4) [of c 1 r] \<open>c < 16\<close> \<open>r < 4\<close> by auto
  qed
  then show ?thesis using outside by (auto simp: outside_contexts)
next
  case (inside c k r)
  have "(\<exists>c' < 16. \<exists>r' < 4. addr = base p + 0x200004 + of_nat (0x1000 * c' + r')) \<longleftrightarrow> k = 1"
  proof safe
    fix c' r' :: nat assume a: "c' < 16" "r' < 4"
      "addr = base p + 0x200004 + of_nat (0x1000 * c' + r')"
    then have "(of_nat (context_offset c k r) :: usize) = of_nat (context_offset c' 1 r')"
      using inside(4) by (simp add: context_addr_def context_offset_def algebra_simps)
    then have "(of_nat k :: usize) = of_nat 1"
      using context_page_decode(2) [of c' 1 r'] context_page_decode(2) [of c k r] a inside by simp
    then show "k = 1" using inside(2) of_nat_small_eq by simp
  next
    assume "k = 1"
    then have "addr = base p + 0x200004 + of_nat (0x1000 * c + r)"
      using inside(4) by (simp add: context_addr_def context_offset_def)
    then show "\<exists>c' < 16. \<exists>r' < 4. addr = base p + 0x200004 + of_nat (0x1000 * c' + r')"
      using inside(1,3) by auto
  qed
  moreover have "0x200000 \<le> addr - base p \<and> addr - base p < 0x210000"
    using inside context_page_decode(3,4) [of c k r] by (simp add: context_addr_offset)
  ultimately show ?thesis
    using assms inside by (auto simp: read_u32_context write_u32_context split: if_splits)
qed

theorem plic_access_panics_witness:
  "is_panic (write_u32 (PlicState_new 0x0c000000) 0x0c002080 1 \<lparr>csr = (\<lambda>_. 0), mmio = []\<rparr>)
   \<and> is_panic (read_u32 (PlicState_new 0x0c000000) 0x0c002080)"
  using plic_access_panics [of "PlicState_new 0x0c000000" "0x0c002080" 1 "\<lparr>csr = (\<lambda>_. 0), mmio = []\<rparr>"]
  by (auto simp: read_u32_def)

end
