(* ===== verification/Guest_Switch.thy ===== *)
theory Guest_Switch
  imports Riscv_Regs Riscv_Csrs
begin

text \<open>
  The world switch of \<open>src/src/arch/riscv/guest.S\<close> and the register area it works
  on (the \<open>repr(C)\<close> structures and offsets of \<open>src/src/arch/riscv/vcpu.rs\<close>). The
  assembly is a list of instructions run by a small interpreter on the general
  purpose registers, the CSRs and the host memory; the guest that runs between
  \<open>sret\<close> and the trap to \<open>_guest_exit\<close> is a parameter.
\<close>

section \<open>The register area\<close>

record HypervisorCpuState =
  hyp_gprs :: GeneralPurposeRegisters
  hyp_sstatus :: usize
  hyp_hstatus :: usize
  hyp_scounteren :: usize
  hyp_stvec :: usize
  hyp_sscratch :: usize

record GuestCpuState =
  guest_gprs :: GeneralPurposeRegisters
  guest_sstatus :: usize
  guest_hstatus :: usize
  guest_scounteren :: usize
  guest_sepc :: usize

record GuestVsCsrs =
  htimedelta :: usize
  vsstatus :: usize
  vsie :: usize
  vstvec :: usize
  vsscratch :: usize
  vsepc :: usize
  vscause :: usize
  vstval :: usize
  vsatp :: usize
  vstimecmp :: usize

record GuestVirtualHsCsrs =
  vhs_hie :: usize
  vhs_hgeie :: usize
  vhs_hgatp :: usize

record VmCpuTrapState =
  trap_scause :: usize
  trap_stval :: usize
  trap_htval :: usize
  trap_htinst :: usize

record VmCpuRegisters =
  hyp_regs :: HypervisorCpuState
  guest_regs :: GuestCpuState
  vs_csrs :: GuestVsCsrs
  virtual_hs_csrs :: GuestVirtualHsCsrs
  trap_csrs :: VmCpuTrapState
  page_table_root :: usize

definition VmCpuRegisters_default :: VmCpuRegisters where
  "VmCpuRegisters_default =
     \<lparr>hyp_regs = \<lparr>hyp_gprs = GeneralPurposeRegisters_default, hyp_sstatus = 0, hyp_hstatus = 0,
        hyp_scounteren = 0, hyp_stvec = 0, hyp_sscratch = 0\<rparr>,
      guest_regs = \<lparr>guest_gprs = GeneralPurposeRegisters_default, guest_sstatus = 0,
        guest_hstatus = 0, guest_scounteren = 0, guest_sepc = 0\<rparr>,
      vs_csrs = \<lparr>htimedelta = 0, vsstatus = 0, vsie = 0, vstvec = 0, vsscratch = 0, vsepc = 0,
        vscause = 0, vstval = 0, vsatp = 0, vstimecmp = 0\<rparr>,
      virtual_hs_csrs = \<lparr>vhs_hie = 0, vhs_hgeie = 0, vhs_hgatp = 0\<rparr>,
      trap_csrs = \<lparr>trap_scause = 0, trap_stval = 0, trap_htval = 0, trap_htinst = 0\<rparr>,
      page_table_root = 0\<rparr>"

text \<open>
  Byte offsets, as \<open>offset_of!\<close> gives them for the \<open>repr(C)\<close> layout: every field
  is made of 8-byte words, so fields follow each other without padding.
\<close>

definition size_of_HypervisorCpuState :: nat where
  "size_of_HypervisorCpuState = 8 * 37"

definition offset_of_guest_regs :: nat where
  "offset_of_guest_regs = size_of_HypervisorCpuState"

definition hyp_gpr_offset :: "GprIndex \<Rightarrow> nat" where
  "hyp_gpr_offset i = 0 + 0 + gpr_index i * 8"

definition guest_gpr_offset :: "GprIndex \<Rightarrow> nat" where
  "guest_gpr_offset i = offset_of_guest_regs + 0 + gpr_index i * 8"

datatype hyp_csr_field = HypSstatus | HypHstatus | HypScounteren | HypStvec | HypSscratch

datatype guest_csr_field = GuestSstatus | GuestHstatus | GuestScounteren | GuestSepc

fun hyp_csr_offset :: "hyp_csr_field \<Rightarrow> nat" where
  "hyp_csr_offset HypSstatus = 0 + 8 * 32"
| "hyp_csr_offset HypHstatus = 0 + 8 * 33"
| "hyp_csr_offset HypScounteren = 0 + 8 * 34"
| "hyp_csr_offset HypStvec = 0 + 8 * 35"
| "hyp_csr_offset HypSscratch = 0 + 8 * 36"

fun guest_csr_offset :: "guest_csr_field \<Rightarrow> nat" where
  "guest_csr_offset GuestSstatus = offset_of_guest_regs + 8 * 32"
| "guest_csr_offset GuestHstatus = offset_of_guest_regs + 8 * 33"
| "guest_csr_offset GuestScounteren = offset_of_guest_regs + 8 * 34"
| "guest_csr_offset GuestSepc = offset_of_guest_regs + 8 * 35"

text \<open>The constants that \<open>global_asm!\<close> substitutes for the names in braces of \<open>guest.S\<close>.\<close>

definition guest_asm_consts :: "(string \<times> nat) list" where
  "guest_asm_consts =
    [(''hyp_ra'', hyp_gpr_offset RA), (''hyp_gp'', hyp_gpr_offset GP),
     (''hyp_tp'', hyp_gpr_offset TP), (''hyp_s0'', hyp_gpr_offset S0),
     (''hyp_s1'', hyp_gpr_offset S1), (''hyp_a1'', hyp_gpr_offset A1),
     (''hyp_a2'', hyp_gpr_offset A2), (''hyp_a3'', hyp_gpr_offset A3),
     (''hyp_a4'', hyp_gpr_offset A4), (''hyp_a5'', hyp_gpr_offset A5),
     (''hyp_a6'', hyp_gpr_offset A6), (''hyp_a7'', hyp_gpr_offset A7),
     (''hyp_s2'', hyp_gpr_offset S2), (''hyp_s3'', hyp_gpr_offset S3),
     (''hyp_s4'', hyp_gpr_offset S4), (''hyp_s5'', hyp_gpr_offset S5),
     (''hyp_s6'', hyp_gpr_offset S6), (''hyp_s7'', hyp_gpr_offset S7),
     (''hyp_s8'', hyp_gpr_offset S8), (''hyp_s9'', hyp_gpr_offset S9),
     (''hyp_s10'', hyp_gpr_offset S10), (''hyp_s11'', hyp_gpr_offset S11),
     (''hyp_sp'', hyp_gpr_offset SP), (''hyp_sstatus'', hyp_csr_offset HypSstatus),
     (''hyp_hstatus'', hyp_csr_offset HypHstatus),
     (''hyp_scounteren'', hyp_csr_offset HypScounteren), (''hyp_stvec'', hyp_csr_offset HypStvec),
     (''hyp_sscratch'', hyp_csr_offset HypSscratch), (''guest_ra'', guest_gpr_offset RA),
     (''guest_gp'', guest_gpr_offset GP), (''guest_tp'', guest_gpr_offset TP),
     (''guest_s0'', guest_gpr_offset S0), (''guest_s1'', guest_gpr_offset S1),
     (''guest_a0'', guest_gpr_offset A0), (''guest_a1'', guest_gpr_offset A1),
     (''guest_a2'', guest_gpr_offset A2), (''guest_a3'', guest_gpr_offset A3),
     (''guest_a4'', guest_gpr_offset A4), (''guest_a5'', guest_gpr_offset A5),
     (''guest_a6'', guest_gpr_offset A6), (''guest_a7'', guest_gpr_offset A7),
     (''guest_s2'', guest_gpr_offset S2), (''guest_s3'', guest_gpr_offset S3),
     (''guest_s4'', guest_gpr_offset S4), (''guest_s5'', guest_gpr_offset S5),
     (''guest_s6'', guest_gpr_offset S6), (''guest_s7'', guest_gpr_offset S7),
     (''guest_s8'', guest_gpr_offset S8), (''guest_s9'', guest_gpr_offset S9),
     (''guest_s10'', guest_gpr_offset S10), (''guest_s11'', guest_gpr_offset S11),
     (''guest_t0'', guest_gpr_offset T0), (''guest_t1'', guest_gpr_offset T1),
     (''guest_t2'', guest_gpr_offset T2), (''guest_t3'', guest_gpr_offset T3),
     (''guest_t4'', guest_gpr_offset T4), (''guest_t5'', guest_gpr_offset T5),
     (''guest_t6'', guest_gpr_offset T6), (''guest_sp'', guest_gpr_offset SP),
     (''guest_sstatus'', guest_csr_offset GuestSstatus),
     (''guest_hstatus'', guest_csr_offset GuestHstatus),
     (''guest_scounteren'', guest_csr_offset GuestScounteren),
     (''guest_sepc'', guest_csr_offset GuestSepc)]"

text \<open>The area as it lies in memory at address \<open>p\<close>: word \<open>k\<close>, and the whole record.\<close>

definition area_words :: nat where
  "area_words = 91"

definition slot :: "usize \<Rightarrow> nat \<Rightarrow> usize" where
  "slot p k = p + of_nat (8 * k)"

definition word_at :: "usize \<Rightarrow> (usize \<Rightarrow> usize) \<Rightarrow> nat \<Rightarrow> usize" where
  "word_at p m k = m (slot p k)"

definition read_area :: "usize \<Rightarrow> (usize \<Rightarrow> usize) \<Rightarrow> VmCpuRegisters" where
  "read_area p m = (let w = word_at p m in
     \<lparr>hyp_regs = \<lparr>hyp_gprs = map w [0..<32], hyp_sstatus = w 32, hyp_hstatus = w 33,
        hyp_scounteren = w 34, hyp_stvec = w 35, hyp_sscratch = w 36\<rparr>,
      guest_regs = \<lparr>guest_gprs = map w [37..<69], guest_sstatus = w 69,
        guest_hstatus = w 70, guest_scounteren = w 71, guest_sepc = w 72\<rparr>,
      vs_csrs = \<lparr>htimedelta = w 73, vsstatus = w 74, vsie = w 75, vstvec = w 76,
        vsscratch = w 77, vsepc = w 78, vscause = w 79, vstval = w 80, vsatp = w 81,
        vstimecmp = w 82\<rparr>,
      virtual_hs_csrs = \<lparr>vhs_hie = w 83, vhs_hgeie = w 84, vhs_hgatp = w 85\<rparr>,
      trap_csrs = \<lparr>trap_scause = w 86, trap_stval = w 87, trap_htval = w 88,
        trap_htinst = w 89\<rparr>,
      page_table_root = w 90\<rparr>)"

definition to_words :: "VmCpuRegisters \<Rightarrow> usize list" where
  "to_words r =
     hyp_gprs (hyp_regs r) @
     [hyp_sstatus (hyp_regs r), hyp_hstatus (hyp_regs r), hyp_scounteren (hyp_regs r),
      hyp_stvec (hyp_regs r), hyp_sscratch (hyp_regs r)] @
     guest_gprs (guest_regs r) @
     [guest_sstatus (guest_regs r), guest_hstatus (guest_regs r),
      guest_scounteren (guest_regs r), guest_sepc (guest_regs r)] @
     [htimedelta (vs_csrs r), vsstatus (vs_csrs r), vsie (vs_csrs r), vstvec (vs_csrs r),
      vsscratch (vs_csrs r), vsepc (vs_csrs r), vscause (vs_csrs r), vstval (vs_csrs r),
      vsatp (vs_csrs r), vstimecmp (vs_csrs r)] @
     [vhs_hie (virtual_hs_csrs r), vhs_hgeie (virtual_hs_csrs r),
      vhs_hgatp (virtual_hs_csrs r)] @
     [trap_scause (trap_csrs r), trap_stval (trap_csrs r), trap_htval (trap_csrs r),
      trap_htinst (trap_csrs r)] @
     [page_table_root r]"

definition write_area :: "usize \<Rightarrow> VmCpuRegisters \<Rightarrow> (usize \<Rightarrow> usize) \<Rightarrow> (usize \<Rightarrow> usize)" where
  "write_area p r m = (\<lambda>a.
     let d = unat (a - p) in
     if d < 8 * area_words \<and> d mod 8 = 0 then to_words r ! (d div 8) else m a)"

definition area_wf :: "VmCpuRegisters \<Rightarrow> bool" where
  "area_wf r \<longleftrightarrow> length (hyp_gprs (hyp_regs r)) = 32 \<and> length (guest_gprs (guest_regs r)) = 32"

section \<open>Instructions\<close>

text \<open>
  The part of a hart that the switch touches. \<open>world\<close> stands for everything else
  that a guest can change (its memory, its devices).
\<close>

record 'w hart =
  hart_hw :: riscv_hw
  gpr :: "GprIndex \<Rightarrow> usize"
  dmem :: "usize \<Rightarrow> usize"
  world :: 'w

datatype asm =
    Sd GprIndex nat GprIndex
  | Ld GprIndex nat GprIndex
  | Csrrw GprIndex u16 GprIndex
  | Csrr GprIndex u16
  | Csrw u16 GprIndex
  | La GprIndex usize

definition set_gpr_raw :: "GprIndex \<Rightarrow> usize \<Rightarrow> 'w hart \<Rightarrow> 'w hart" where
  "set_gpr_raw r v h = (if r = Zero then h else h\<lparr>gpr := (gpr h)(r := v)\<rparr>)"

fun exec1 :: "asm \<Rightarrow> 'w hart \<Rightarrow> 'w hart" where
  "exec1 (Sd rs off rb) h = h\<lparr>dmem := (dmem h)(gpr h rb + of_nat off := gpr h rs)\<rparr>"
| "exec1 (Ld rd off rb) h = set_gpr_raw rd (dmem h (gpr h rb + of_nat off)) h"
| "exec1 (Csrrw rd c rs) h =
     (let v = gpr h rs; r = atomic_replace c v (hart_hw h)
      in set_gpr_raw rd (fst r) (h\<lparr>hart_hw := snd r\<rparr>))"
| "exec1 (Csrr rd c) h = set_gpr_raw rd (get_value c (hart_hw h)) h"
| "exec1 (Csrw c rs) h = h\<lparr>hart_hw := write_value c (gpr h rs) (hart_hw h)\<rparr>"
| "exec1 (La rd a) h = set_gpr_raw rd a h"

definition exec :: "asm list \<Rightarrow> 'w hart \<Rightarrow> 'w hart" where
  "exec is h = fold exec1 is h"

text \<open>Hypervisor registers that are saved and restored, in the order of the file.\<close>

definition hyp_saved :: "GprIndex list" where
  "hyp_saved = [RA, GP, TP, S0, S1, A1, A2, A3, A4, A5, A6, A7,
     S2, S3, S4, S5, S6, S7, S8, S9, S10, S11, SP]"

text \<open>Guest registers, \<open>a0\<close> apart: it holds the pointer to the area.\<close>

definition guest_saved :: "GprIndex list" where
  "guest_saved = [RA, GP, TP, S0, S1, A1, A2, A3, A4, A5, A6, A7,
     S2, S3, S4, S5, S6, S7, S8, S9, S10, S11, T0, T1, T2, T3, T4, T5, T6, SP]"

definition swap_in_guest :: "usize \<Rightarrow> asm list" where
  "swap_in_guest guest_exit_label =
     [Ld T1 (guest_csr_offset GuestSstatus) A0,
      Csrrw T1 CSR_SSTATUS T1,
      Sd T1 (hyp_csr_offset HypSstatus) A0,
      Ld T1 (guest_csr_offset GuestHstatus) A0,
      Csrrw T1 CSR_HSTATUS T1,
      Sd T1 (hyp_csr_offset HypHstatus) A0,
      Ld T1 (guest_csr_offset GuestScounteren) A0,
      Csrrw T1 CSR_SCOUNTEREN T1,
      Sd T1 (hyp_csr_offset HypScounteren) A0,
      Ld T1 (guest_csr_offset GuestSepc) A0,
      Csrw CSR_SEPC T1,
      La T1 guest_exit_label,
      Csrrw T1 CSR_STVEC T1,
      Sd T1 (hyp_csr_offset HypStvec) A0,
      Csrrw T1 CSR_SSCRATCH A0,
      Sd T1 (hyp_csr_offset HypSscratch) A0]"

text \<open>\<open>_run_guest\<close> up to \<open>sret\<close>.\<close>

definition run_guest_entry :: "usize \<Rightarrow> asm list" where
  "run_guest_entry guest_exit_label =
     map (\<lambda>r. Sd r (hyp_gpr_offset r) A0) hyp_saved @
     swap_in_guest guest_exit_label @
     map (\<lambda>r. Ld r (guest_gpr_offset r) A0) guest_saved @
     [Ld A0 (guest_gpr_offset A0) A0]"

definition restore_csrs :: "asm list" where
  "restore_csrs =
     [Ld T1 (hyp_csr_offset HypSstatus) A0,
      Csrrw T1 CSR_SSTATUS T1,
      Sd T1 (guest_csr_offset GuestSstatus) A0,
      Ld T1 (hyp_csr_offset HypHstatus) A0,
      Csrrw T1 CSR_HSTATUS T1,
      Sd T1 (guest_csr_offset GuestHstatus) A0,
      Ld T1 (hyp_csr_offset HypScounteren) A0,
      Csrrw T1 CSR_SCOUNTEREN T1,
      Sd T1 (guest_csr_offset GuestScounteren) A0,
      Ld T1 (hyp_csr_offset HypStvec) A0,
      Csrw CSR_STVEC T1,
      Ld T1 (hyp_csr_offset HypSscratch) A0,
      Csrw CSR_SSCRATCH T1,
      Csrr T1 CSR_SEPC,
      Sd T1 (guest_csr_offset GuestSepc) A0]"

text \<open>\<open>_guest_exit\<close> up to \<open>ret\<close>.\<close>

definition guest_exit :: "asm list" where
  "guest_exit =
     [Csrrw A0 CSR_SSCRATCH A0] @
     map (\<lambda>r. Sd r (guest_gpr_offset r) A0) guest_saved @
     [Csrr T0 CSR_SSCRATCH, Sd T0 (guest_gpr_offset A0) A0] @
     restore_csrs @
     map (\<lambda>r. Ld r (hyp_gpr_offset r) A0) hyp_saved"

definition run_guest :: "('w hart \<Rightarrow> 'w hart) \<Rightarrow> usize \<Rightarrow> 'w hart \<Rightarrow> 'w hart" where
  "run_guest guest guest_exit_label h =
     exec guest_exit (guest (exec (run_guest_entry guest_exit_label) h))"

section \<open>The layout\<close>

lemmas offset_defs = hyp_gpr_offset_def guest_gpr_offset_def offset_of_guest_regs_def
  size_of_HypervisorCpuState_def

declare hyp_csr_offset.simps [simp del] guest_csr_offset.simps [simp del]

text \<open>Every slot is a word of the area.\<close>

lemma slot_addr:
  "p + of_nat (hyp_gpr_offset i) = slot p (gpr_index i)"
  "p + of_nat (guest_gpr_offset i) = slot p (37 + gpr_index i)"
  "p + of_nat (hyp_csr_offset HypSstatus) = slot p 32"
  "p + of_nat (hyp_csr_offset HypHstatus) = slot p 33"
  "p + of_nat (hyp_csr_offset HypScounteren) = slot p 34"
  "p + of_nat (hyp_csr_offset HypStvec) = slot p 35"
  "p + of_nat (hyp_csr_offset HypSscratch) = slot p 36"
  "p + of_nat (guest_csr_offset GuestSstatus) = slot p 69"
  "p + of_nat (guest_csr_offset GuestHstatus) = slot p 70"
  "p + of_nat (guest_csr_offset GuestScounteren) = slot p 71"
  "p + of_nat (guest_csr_offset GuestSepc) = slot p 72"
  by (simp_all add: slot_def offset_defs hyp_csr_offset.simps guest_csr_offset.simps)

text \<open>The memory operands of the assembly.\<close>

fun operand_offset :: "asm \<Rightarrow> nat list" where
  "operand_offset (Ld rd off rs) = [off]"
| "operand_offset (Sd rs off rb) = [off]"
| "operand_offset _ = []"

text \<open>The operands are exactly the constants; no two names stand for one word, and all words lie in the two
  register structures at the start of the area.\<close>

lemma guest_asm_operands:
  "set (concat (map operand_offset (run_guest_entry l @ guest_exit))) = snd ` set guest_asm_consts"
  "distinct (map fst guest_asm_consts)" "distinct (map snd guest_asm_consts)"
  "\<forall>c \<in> set guest_asm_consts. 8 dvd snd c \<and> snd c < 8 * 73"
  by (simp_all add: guest_asm_consts_def run_guest_entry_def swap_in_guest_def guest_exit_def restore_csrs_def
      hyp_saved_def guest_saved_def offset_defs hyp_csr_offset.simps guest_csr_offset.simps)
     (intro equalityI; simp)

lemma slot_distance: "k < area_words \<Longrightarrow> unat (slot p k - p) = 8 * k"
  unfolding area_words_def slot_def add_diff_cancel_left' unat_of_nat by simp

lemma slot_inject:
  assumes "i < area_words" and "j < area_words"
  shows "slot p i = slot p j \<longleftrightarrow> i = j"
proof
  assume "slot p i = slot p j"
  then have "8 * i = 8 * j"
    using slot_distance [OF assms(1), of p] slot_distance [OF assms(2), of p] by metis
  then show "i = j" by simp
qed simp

lemma word_at_store:
  assumes "i < area_words" and "j < area_words"
  shows "word_at p (m(slot p j := v)) i = (if i = j then v else word_at p m i)"
  using slot_inject [OF assms] by (simp add: word_at_def)

lemma map_word_at_store:
  assumes "b \<le> area_words" and "j < area_words"
  shows "map (word_at p (m(slot p j := v))) [a..<b] =
    (if a \<le> j \<and> j < b then (map (word_at p m) [a..<b])[j - a := v]
     else map (word_at p m) [a..<b])"
  using assms by (auto intro!: nth_equalityI simp: word_at_store nth_list_update)

lemmas read_area_simps = read_area_def Let_def map_word_at_store word_at_store area_words_def

lemma read_area_saves:
  "read_area p (m(p + of_nat (hyp_gpr_offset i) := v)) =
     hyp_regs_update (hyp_gprs_update (\<lambda>g. g[gpr_index i := v])) (read_area p m)"
  "read_area p (m(p + of_nat (guest_gpr_offset i) := v)) =
     guest_regs_update (guest_gprs_update (\<lambda>g. g[gpr_index i := v])) (read_area p m)"
  unfolding slot_addr using gpr_index_less [of i]
  by (simp_all add: read_area_simps del: gpr_index_less upt_rec_numeral)

lemma read_area_csr_saves:
  "read_area p (m(p + of_nat (hyp_csr_offset HypSstatus) := v)) =
     hyp_regs_update (hyp_sstatus_update (\<lambda>_. v)) (read_area p m)"
  "read_area p (m(p + of_nat (hyp_csr_offset HypHstatus) := v)) =
     hyp_regs_update (hyp_hstatus_update (\<lambda>_. v)) (read_area p m)"
  "read_area p (m(p + of_nat (hyp_csr_offset HypScounteren) := v)) =
     hyp_regs_update (hyp_scounteren_update (\<lambda>_. v)) (read_area p m)"
  "read_area p (m(p + of_nat (hyp_csr_offset HypStvec) := v)) =
     hyp_regs_update (hyp_stvec_update (\<lambda>_. v)) (read_area p m)"
  "read_area p (m(p + of_nat (hyp_csr_offset HypSscratch) := v)) =
     hyp_regs_update (hyp_sscratch_update (\<lambda>_. v)) (read_area p m)"
  "read_area p (m(p + of_nat (guest_csr_offset GuestSstatus) := v)) =
     guest_regs_update (guest_sstatus_update (\<lambda>_. v)) (read_area p m)"
  "read_area p (m(p + of_nat (guest_csr_offset GuestHstatus) := v)) =
     guest_regs_update (guest_hstatus_update (\<lambda>_. v)) (read_area p m)"
  "read_area p (m(p + of_nat (guest_csr_offset GuestScounteren) := v)) =
     guest_regs_update (guest_scounteren_update (\<lambda>_. v)) (read_area p m)"
  "read_area p (m(p + of_nat (guest_csr_offset GuestSepc) := v)) =
     guest_regs_update (guest_sepc_update (\<lambda>_. v)) (read_area p m)"
  unfolding slot_addr by (simp_all add: read_area_simps del: upt_rec_numeral)

lemma area_loads:
  "m (p + of_nat (hyp_gpr_offset i)) = reg (hyp_gprs (hyp_regs (read_area p m))) i"
  "m (p + of_nat (guest_gpr_offset i)) = reg (guest_gprs (guest_regs (read_area p m))) i"
  "m (p + of_nat (hyp_csr_offset HypSstatus)) = hyp_sstatus (hyp_regs (read_area p m))"
  "m (p + of_nat (hyp_csr_offset HypHstatus)) = hyp_hstatus (hyp_regs (read_area p m))"
  "m (p + of_nat (hyp_csr_offset HypScounteren)) = hyp_scounteren (hyp_regs (read_area p m))"
  "m (p + of_nat (hyp_csr_offset HypStvec)) = hyp_stvec (hyp_regs (read_area p m))"
  "m (p + of_nat (hyp_csr_offset HypSscratch)) = hyp_sscratch (hyp_regs (read_area p m))"
  "m (p + of_nat (guest_csr_offset GuestSstatus)) = guest_sstatus (guest_regs (read_area p m))"
  "m (p + of_nat (guest_csr_offset GuestHstatus)) = guest_hstatus (guest_regs (read_area p m))"
  "m (p + of_nat (guest_csr_offset GuestScounteren)) = guest_scounteren (guest_regs (read_area p m))"
  "m (p + of_nat (guest_csr_offset GuestSepc)) = guest_sepc (guest_regs (read_area p m))"
  unfolding slot_addr
  by (simp_all add: read_area_def Let_def word_at_def reg_def add.commute del: upt_rec_numeral)

lemma length_to_words: "area_wf r \<Longrightarrow> length (to_words r) = area_words"
  by (simp add: to_words_def area_wf_def area_words_def)

lemma word_at_write_area: "k < area_words \<Longrightarrow> word_at p (write_area p r m) k = to_words r ! k"
  by (simp add: word_at_def write_area_def slot_distance Let_def)

lemma map_word_at_write_area:
  assumes "a + n \<le> area_words" and "b = a + n"
  shows "map (word_at p (write_area p r m)) [a..<b] = map (\<lambda>k. to_words r ! k) [a..<b]"
  using assms by (auto simp: word_at_write_area)

lemma map_nth_slice: "map (\<lambda>k. (xs @ ys @ zs) ! k) [length xs..<length xs + length ys] = ys"
  by (rule nth_equalityI) (simp_all add: nth_append)

text \<open>Reading back an area that has been written gives the same registers.\<close>

lemma read_area_write_area:
  assumes "area_wf r"
  shows "read_area p (write_area p r m) = r"
proof -
  have wf: "length (hyp_gprs (hyp_regs r)) = 32" "length (guest_gprs (guest_regs r)) = 32"
    using assms by (simp_all add: area_wf_def)
  have h: "map (word_at p (write_area p r m)) [0..<32] = hyp_gprs (hyp_regs r)"
    using map_nth_slice [of "[]" "hyp_gprs (hyp_regs r)"]
    by (subst map_word_at_write_area [where n = 32]) (simp_all add: wf to_words_def area_words_def
        del: upt_rec_numeral)
  have g: "map (word_at p (write_area p r m)) [37..<69] = guest_gprs (guest_regs r)"
    using map_nth_slice [of "take 37 (to_words r)" "guest_gprs (guest_regs r)" "drop 69 (to_words r)"]
    by (subst map_word_at_write_area [where n = 32])
      (simp_all add: wf to_words_def area_words_def del: upt_rec_numeral)
  show ?thesis
    by (simp add: read_area_def Let_def h g word_at_write_area area_words_def wf to_words_def
        nth_append del: upt_rec_numeral)
qed

section \<open>Saving and restoring a list of registers\<close>

lemma exec_append [simp]: "exec (is @ js) h = exec js (exec is h)"
  by (simp add: exec_def)

lemma exec_Nil [simp]: "exec [] h = h"
  by (simp add: exec_def)

lemma exec_Cons [simp]: "exec (i # is) h = exec is (exec1 i h)"
  by (simp add: exec_def)

definition store_regs :: "(GprIndex \<Rightarrow> usize) \<Rightarrow> (GprIndex \<Rightarrow> usize) \<Rightarrow> GprIndex list \<Rightarrow>
    (usize \<Rightarrow> usize) \<Rightarrow> (usize \<Rightarrow> usize)" where
  "store_regs addr f rs m = fold (\<lambda>r m. m(addr r := f r)) rs m"

definition put_regs :: "(GprIndex \<Rightarrow> usize) \<Rightarrow> GprIndex list \<Rightarrow> GeneralPurposeRegisters \<Rightarrow>
    GeneralPurposeRegisters" where
  "put_regs f rs g = fold (\<lambda>r g. g[gpr_index r := f r]) rs g"

lemma length_put_regs [simp]: "length (put_regs f rs g) = length g"
  unfolding put_regs_def by (induction rs arbitrary: g) simp_all

lemma reg_put_regs:
  "length g = 32 \<Longrightarrow> reg (put_regs f rs g) r = (if r \<in> set rs then f r else reg g r)"
  unfolding put_regs_def
  by (induction rs arbitrary: g) (auto simp: reg_def nth_list_update)

lemma put_regs_other: "r \<notin> set rs \<Longrightarrow> put_regs (f(r := v)) rs g = put_regs f rs g"
  unfolding put_regs_def by (induction rs arbitrary: g) auto

lemma put_regs_snoc: "put_regs f (rs @ [r]) g = (put_regs f rs g)[gpr_index r := f r]"
  by (simp add: put_regs_def)

lemma exec_save:
  "exec (map (\<lambda>r. Sd r (off r) A0) rs) h =
     h\<lparr>dmem := store_regs (\<lambda>r. gpr h A0 + of_nat (off r)) (gpr h) rs (dmem h)\<rparr>"
  unfolding store_regs_def by (induction rs arbitrary: h) simp_all

lemma exec_load:
  assumes "A0 \<notin> set rs" and "Zero \<notin> set rs"
  shows "exec (map (\<lambda>r. Ld r (off r) A0) rs) h =
     h\<lparr>gpr := (\<lambda>r. if r \<in> set rs then dmem h (gpr h A0 + of_nat (off r)) else gpr h r)\<rparr>"
  using assms
proof (induction rs arbitrary: h)
  case (Cons r rs)
  then show ?case by (auto simp: set_gpr_raw_def fun_eq_iff)
qed simp

lemma read_area_store_regs:
  "read_area p (store_regs (\<lambda>r. p + of_nat (hyp_gpr_offset r)) f rs m) =
     hyp_regs_update (hyp_gprs_update (put_regs f rs)) (read_area p m)"
  "read_area p (store_regs (\<lambda>r. p + of_nat (guest_gpr_offset r)) f rs m) =
     guest_regs_update (guest_gprs_update (put_regs f rs)) (read_area p m)"
  unfolding store_regs_def put_regs_def
  by (induction rs arbitrary: m) (simp_all add: read_area_saves comp_def)

lemma saved_sets:
  "A0 \<notin> set hyp_saved" "Zero \<notin> set hyp_saved" "A0 \<notin> set guest_saved" "Zero \<notin> set guest_saved"
  "r \<in> set guest_saved \<longleftrightarrow> r \<noteq> A0 \<and> r \<noteq> Zero"
  by (simp_all add: hyp_saved_def guest_saved_def) (cases r; simp)

lemma length_area_gprs [simp]:
  "length (hyp_gprs (hyp_regs (read_area p m))) = 32"
  "length (guest_gprs (guest_regs (read_area p m))) = 32"
  by (simp_all add: read_area_def Let_def)

section \<open>Entering and leaving the guest\<close>

lemma entry_state:
  fixes h :: "'w hart"
  assumes "gpr h A0 = p" and "h' = exec (run_guest_entry l) h" and "a = read_area p (dmem h)"
  shows "gpr h' = (\<lambda>r. if r = Zero then gpr h Zero else reg (guest_gprs (guest_regs a)) r)"
    and "hart_hw h' = (hart_hw h)\<lparr>csr := (csr (hart_hw h))
           (CSR_SSTATUS := guest_sstatus (guest_regs a), CSR_HSTATUS := guest_hstatus (guest_regs a),
            CSR_SCOUNTEREN := guest_scounteren (guest_regs a), CSR_SEPC := guest_sepc (guest_regs a),
            CSR_STVEC := l, CSR_SSCRATCH := p)\<rparr>"
    and "world h' = world h"
    and "read_area p (dmem h') = a\<lparr>hyp_regs :=
           \<lparr>hyp_gprs = put_regs (gpr h) hyp_saved (hyp_gprs (hyp_regs a)),
            hyp_sstatus = csr (hart_hw h) CSR_SSTATUS, hyp_hstatus = csr (hart_hw h) CSR_HSTATUS,
            hyp_scounteren = csr (hart_hw h) CSR_SCOUNTEREN, hyp_stvec = csr (hart_hw h) CSR_STVEC,
            hyp_sscratch = csr (hart_hw h) CSR_SSCRATCH\<rparr>\<rparr>"
  using assms
  by (auto simp: run_guest_entry_def swap_in_guest_def exec_save exec_load saved_sets
      set_gpr_raw_def csr_access_defs area_loads read_area_saves read_area_csr_saves
      read_area_store_regs csr_number_defs)

lemma exit_state:
  fixes h :: "'w hart"
  assumes "csr (hart_hw h) CSR_SSCRATCH = p" and "h' = exec guest_exit h"
    and "a = read_area p (dmem h)"
  shows "gpr h' = (\<lambda>r. if r \<in> set hyp_saved then reg (hyp_gprs (hyp_regs a)) r
                       else if r = A0 then p
                       else if r = T0 then gpr h A0
                       else if r = T1 then csr (hart_hw h) CSR_SEPC
                       else gpr h r)"
    and "hart_hw h' = (hart_hw h)\<lparr>csr := (csr (hart_hw h))
           (CSR_SSTATUS := hyp_sstatus (hyp_regs a), CSR_HSTATUS := hyp_hstatus (hyp_regs a),
            CSR_SCOUNTEREN := hyp_scounteren (hyp_regs a), CSR_STVEC := hyp_stvec (hyp_regs a),
            CSR_SSCRATCH := hyp_sscratch (hyp_regs a))\<rparr>"
    and "world h' = world h"
    and "read_area p (dmem h') = a\<lparr>guest_regs :=
           \<lparr>guest_gprs = put_regs (gpr h) (guest_saved @ [A0]) (guest_gprs (guest_regs a)),
            guest_sstatus = csr (hart_hw h) CSR_SSTATUS, guest_hstatus = csr (hart_hw h) CSR_HSTATUS,
            guest_scounteren = csr (hart_hw h) CSR_SCOUNTEREN, guest_sepc = csr (hart_hw h) CSR_SEPC\<rparr>\<rparr>"
  using assms
  by (auto simp: guest_exit_def restore_csrs_def exec_save exec_load saved_sets
      set_gpr_raw_def csr_access_defs area_loads read_area_saves read_area_csr_saves
      read_area_store_regs csr_number_defs put_regs_other put_regs_snoc fun_eq_iff)

text \<open>
  What the guest may not do while it runs: it can not write \<open>sscratch\<close> (its own
  accesses to that register are redirected to \<open>vsscratch\<close>), and second-stage
  translation keeps it away from the register area of the hypervisor.
\<close>

definition guest_confined :: "('w hart \<Rightarrow> 'w hart) \<Rightarrow> usize \<Rightarrow> bool" where
  "guest_confined guest p \<longleftrightarrow>
     (\<forall>h. csr (hart_hw (guest h)) CSR_SSCRATCH = csr (hart_hw h) CSR_SSCRATCH
        \<and> read_area p (dmem (guest h)) = read_area p (dmem h))"

text \<open>
  Claim C1. One pass through \<open>_run_guest\<close>: the guest starts with exactly the general
  purpose registers, status registers and program counter stored for it; when it
  traps, its registers (all of them, \<open>a0\<close> included) and its status registers and
  program counter are stored back; and the hypervisor continues with its own
  callee-saved registers, argument registers, stack pointer and CSRs as they were
  before the switch, with \<open>a0\<close> pointing to the area.
\<close>

theorem run_guest_switches:
  fixes h :: "'w hart"
  assumes "gpr h A0 = p" and "guest_confined guest p"
    and "a = read_area p (dmem h)" and "g = exec (run_guest_entry l) h"
    and "h' = run_guest guest l h" and "a' = read_area p (dmem h')"
  shows "(\<forall>r. r \<noteq> Zero \<longrightarrow> gpr g r = reg (guest_gprs (guest_regs a)) r)
    \<and> csr (hart_hw g) CSR_SSTATUS = guest_sstatus (guest_regs a)
    \<and> csr (hart_hw g) CSR_HSTATUS = guest_hstatus (guest_regs a)
    \<and> csr (hart_hw g) CSR_SEPC = guest_sepc (guest_regs a) \<and> csr (hart_hw g) CSR_STVEC = l
    \<and> (\<forall>r. r \<noteq> Zero \<longrightarrow> reg (guest_gprs (guest_regs a')) r = gpr (guest g) r)
    \<and> guest_sstatus (guest_regs a') = csr (hart_hw (guest g)) CSR_SSTATUS
    \<and> guest_hstatus (guest_regs a') = csr (hart_hw (guest g)) CSR_HSTATUS
    \<and> guest_sepc (guest_regs a') = csr (hart_hw (guest g)) CSR_SEPC
    \<and> (\<forall>r \<in> set hyp_saved. gpr h' r = gpr h r) \<and> gpr h' A0 = p
    \<and> (\<forall>c \<in> {CSR_SSTATUS, CSR_HSTATUS, CSR_SCOUNTEREN, CSR_STVEC, CSR_SSCRATCH}.
         csr (hart_hw h') c = csr (hart_hw h) c)
    \<and> world h' = world (guest g)"
proof -
  note entry = entry_state [OF assms(1) assms(4,3)]
  have scratch: "csr (hart_hw (guest g)) CSR_SSCRATCH = p"
    using assms(2) entry(2) by (simp add: guest_confined_def)
  have area: "read_area p (dmem (guest g)) = read_area p (dmem g)"
    using assms(2) by (simp add: guest_confined_def)
  have "h' = exec guest_exit (guest g)"
    using assms(4,5) by (simp add: run_guest_def)
  note out = exit_state [OF scratch this refl, unfolded area entry(4)]
  have "length (guest_gprs (guest_regs a)) = 32" "length (hyp_gprs (hyp_regs a)) = 32"
    by (simp_all add: assms(3))
  then show ?thesis
    unfolding assms(6) out(4)
    using saved_sets(1)
    by (auto simp: out(1-3) entry(1,2) csr_number_defs reg_put_regs saved_sets)
qed

text \<open>A guest that sets \<open>a0\<close> and traps at another address, for the witnesses.\<close>

definition sample_guest :: "unit hart \<Rightarrow> unit hart" where
  "sample_guest h = h\<lparr>gpr := (gpr h)(A0 := 7),
     hart_hw := write_value CSR_SEPC 0x80200004 (hart_hw h)\<rparr>"

lemma sample_guest_confined: "guest_confined sample_guest p"
  by (simp add: guest_confined_def sample_guest_def csr_number_defs csr_access_defs)

definition sample_hart :: "unit hart" where
  "sample_hart = \<lparr>hart_hw = \<lparr>csr = (\<lambda>_. 5), mmio = []\<rparr>,
     gpr = (\<lambda>r. of_nat (gpr_index r))(A0 := 0x1000), dmem = (\<lambda>a. a), world = ()\<rparr>"

theorem run_guest_switches_witness:
  "reg (guest_gprs (guest_regs
      (read_area 0x1000 (dmem (run_guest sample_guest 0x4000 sample_hart))))) A0 = 7
   \<and> guest_sepc (guest_regs
      (read_area 0x1000 (dmem (run_guest sample_guest 0x4000 sample_hart)))) = 0x80200004
   \<and> gpr (run_guest sample_guest 0x4000 sample_hart) S1 = 9"
proof -
  have "gpr sample_hart A0 = 0x1000" by (simp add: sample_hart_def)
  note switch = run_guest_switches [OF this sample_guest_confined refl refl refl refl, of "0x4000"]
  have "S1 \<in> set hyp_saved" by (simp add: hyp_saved_def)
  then have "gpr (run_guest sample_guest 0x4000 sample_hart) S1 = gpr sample_hart S1"
    using switch by blast
  moreover have "A0 \<noteq> Zero" by simp
  moreover have "gpr (sample_guest g) A0 = 7" "csr (hart_hw (sample_guest g)) CSR_SEPC = 0x80200004" for g
    by (simp_all add: sample_guest_def)
  moreover have "gpr sample_hart S1 = 9" by (simp add: sample_hart_def)
  ultimately show ?thesis using switch by metis
qed

end
