(* ===== verification/Riscv_Vcpu.thy ===== *)
theory Riscv_Vcpu
  imports Guest_Switch Riscv_Sbi Vm_Cpus
begin

text \<open>
  \<open>src/src/arch/riscv/vcpu.rs\<close> (the vCPU and its operations) and
  \<open>src/src/arch/riscv/vmexit.rs\<close> (why a vCPU stopped running). The functions of the
  crates \<open>riscv\<close> and \<open>tock_registers\<close> that decode register values are parameters,
  with their documented behaviour as the predicate \<open>riscv_crates_ok\<close>.
\<close>

section \<open>Crates\<close>

text \<open>The cases of \<open>riscv::register::scause\<close> that the sources name; the rest by number.\<close>

datatype Exception =
    IllegalInstruction
  | BreakpointException
  | VirtualSupervisorEnvCall
  | LoadGuestPageFault
  | StoreGuestPageFault
  | OtherException usize

datatype Interrupt =
    SupervisorTimer
  | SupervisorExternal
  | OtherInterrupt usize

datatype Trap = ExceptionTrap Exception | InterruptTrap Interrupt

record riscv_crates =
  tock_read :: "register_field \<Rightarrow> usize \<Rightarrow> usize"
  tock_modify :: "register_field \<Rightarrow> usize \<Rightarrow> usize \<Rightarrow> usize"
  scause_cause :: "usize \<Rightarrow> Trap"
  sstatus_set_spp :: "usize \<Rightarrow> usize"
  vsatp_ppn :: "usize \<Rightarrow> usize"

definition field_mask :: "register_field \<Rightarrow> usize" where
  "field_mask f = mask (snd (snd f))"

definition field_shift :: "register_field \<Rightarrow> nat" where
  "field_shift f = fst (snd f)"

definition standard_cause :: "usize \<Rightarrow> Trap" where
  "standard_cause v =
     (let code = v AND NOT (2 ^ 63) in
      if bit v 63 then
        InterruptTrap (if code = 5 then SupervisorTimer
                       else if code = 9 then SupervisorExternal
                       else OtherInterrupt code)
      else
        ExceptionTrap (if code = 2 then IllegalInstruction
                       else if code = 3 then BreakpointException
                       else if code = 10 then VirtualSupervisorEnvCall
                       else if code = 21 then LoadGuestPageFault
                       else if code = 23 then StoreGuestPageFault
                       else OtherException code))"

definition riscv_crates_ok :: "riscv_crates \<Rightarrow> bool" where
  "riscv_crates_ok rc \<longleftrightarrow>
     (\<forall>f v. tock_read rc f v = drop_bit (field_shift f) v AND field_mask f)
     \<and> (\<forall>f x v. tock_modify rc f x v =
          (v AND NOT (push_bit (field_shift f) (field_mask f)))
          OR push_bit (field_shift f) (x AND field_mask f))
     \<and> (\<forall>v. scause_cause rc v = standard_cause v)
     \<and> (\<forall>v. sstatus_set_spp rc v = v OR 2 ^ 8)
     \<and> (\<forall>v. vsatp_ppn rc v = v AND mask 44)"

text \<open>Functions with that behaviour, for the witnesses.\<close>

definition riscv_crates_std :: riscv_crates where
  "riscv_crates_std = \<lparr>
     tock_read = (\<lambda>f v. drop_bit (field_shift f) v AND field_mask f),
     tock_modify = (\<lambda>f x v. (v AND NOT (push_bit (field_shift f) (field_mask f)))
          OR push_bit (field_shift f) (x AND field_mask f)),
     scause_cause = standard_cause,
     sstatus_set_spp = (\<lambda>v. v OR 2 ^ 8),
     vsatp_ppn = (\<lambda>v. v AND mask 44)\<rparr>"

lemma riscv_crates_std_ok: "riscv_crates_ok riscv_crates_std"
  unfolding riscv_crates_ok_def riscv_crates_std_def
  by (intro conjI allI) (simp_all only: riscv_crates.select_convs)

section \<open>Exit information\<close>

datatype PrivilegeLevel = User | Supervisor

definition hstatus_spv :: register_field where
  "hstatus_spv = (''spv'', 7, 1)"

definition hstatus_spvp :: register_field where
  "hstatus_spvp = (''spvp'', 8, 1)"

definition from_hstatus :: "riscv_crates \<Rightarrow> usize \<Rightarrow> PrivilegeLevel outcome" where
  "from_hstatus rc v =
     (let spvp = tock_read rc hstatus_spvp v in
      if spvp = 0 then Ok User
      else if spvp = 1 then Ok Supervisor
      else Panic Unreachable)"

datatype VmExitInfo =
    Ecall "SbiMessage option"
  | PageFaultExit GuestPhysAddr GuestVirtAddr u32 PrivilegeLevel
  | VirtualInstruction GuestVirtAddr PrivilegeLevel
  | HostInterruot Interrupt
  | TimerInterruptEmulation
  | ExternalInterruptEmulation
  | Breakpoint

section \<open>The vCPU\<close>

datatype VmCpuStatus = PoweredOff | Runnable | Running

record VCpu =
  vcpu_id :: usize
  vcpu_regs :: VmCpuRegisters

definition VCpu_new :: "riscv_crates \<Rightarrow> usize \<Rightarrow> GuestPhysAddr \<Rightarrow> riscv_hw \<Rightarrow> VCpu \<times> riscv_hw" where
  "VCpu_new rc vid entry hw =
     (let r = VmCpuRegisters_default;
          hs = csr hw CSR_HSTATUS;
          hs = tock_modify rc hstatus_spv 1 hs;
          hs = tock_modify rc hstatus_spvp 1 hs;
          hw = write_value (hstatus CSR) hs hw;
          g = (guest_regs r)\<lparr>guest_hstatus := hs\<rparr>;
          ss = sstatus_set_spp rc (csr hw CSR_SSTATUS);
          g = g\<lparr>guest_sstatus := ss\<rparr>;
          g = g\<lparr>guest_gprs := set_reg (guest_gprs g) A0 0\<rparr>;
          g = g\<lparr>guest_gprs := set_reg (guest_gprs g) A1 0x90000000\<rparr>;
          g = g\<lparr>guest_sepc := entry\<rparr>
      in (\<lparr>vcpu_id = vid, vcpu_regs = r\<lparr>guest_regs := g\<rparr>\<rparr>, hw))"

text \<open>The TLB flush \<open>hfence.gvma\<close> changes no register.\<close>

definition init_page_map :: "VCpu \<Rightarrow> usize \<Rightarrow> riscv_hw \<Rightarrow> VCpu \<times> riscv_hw" where
  "init_page_map self token hw =
     (self\<lparr>vcpu_regs := (vcpu_regs self)\<lparr>virtual_hs_csrs :=
        (virtual_hs_csrs (vcpu_regs self))\<lparr>vhs_hgatp := token\<rparr>\<rparr>\<rparr>,
      write_value CSR_HGATP token hw)"

definition vcpu_gprs :: "VCpu \<Rightarrow> GeneralPurposeRegisters" where
  "vcpu_gprs self = guest_gprs (guest_regs (vcpu_regs self))"

definition set_vcpu_gprs :: "VCpu \<Rightarrow> GeneralPurposeRegisters \<Rightarrow> VCpu" where
  "set_vcpu_gprs self g = self\<lparr>vcpu_regs := (vcpu_regs self)\<lparr>guest_regs :=
     (guest_regs (vcpu_regs self))\<lparr>guest_gprs := g\<rparr>\<rparr>\<rparr>"

text \<open>The loop of \<open>restore_gprs\<close> and \<open>save_gprs\<close>: registers by number, one at a time.\<close>

primrec copy_gprs :: "nat list \<Rightarrow> GeneralPurposeRegisters \<Rightarrow> GeneralPurposeRegisters \<Rightarrow>
    GeneralPurposeRegisters outcome" where
  "copy_gprs [] src dst = Ok dst"
| "copy_gprs (i # is) src dst =
     obind (unwrap_option (from_raw (of_nat i))) (\<lambda>r.
       copy_gprs is src (set_reg dst r (reg src r)))"

definition restore_gprs :: "VCpu \<Rightarrow> GeneralPurposeRegisters \<Rightarrow> VCpu outcome" where
  "restore_gprs self gprs =
     omap (set_vcpu_gprs self) (copy_gprs [0..<32] gprs (vcpu_gprs self))"

definition save_gprs :: "VCpu \<Rightarrow> GeneralPurposeRegisters \<Rightarrow> GeneralPurposeRegisters outcome" where
  "save_gprs self gprs = copy_gprs [0..<32] (vcpu_gprs self) gprs"

text \<open>\<open>Result::ok\<close>.\<close>

fun result_ok :: "'a outcome \<Rightarrow> 'a option outcome" where
  "result_ok (Ok x) = Ok (Some x)"
| "result_ok (Err e) = Ok None"
| "result_ok (Panic p) = Panic p"

text \<open>
  \<open>VCpu::run\<close>. The register area lies at address \<open>p\<close> while the guest runs. On a
  panic the state is the one the code had reached.
\<close>

definition VCpu_run :: "riscv_crates \<Rightarrow> sbi_spec \<Rightarrow> ('w hart \<Rightarrow> 'w hart) \<Rightarrow> usize \<Rightarrow> usize \<Rightarrow>
    VCpu \<Rightarrow> 'w hart \<Rightarrow> VmExitInfo outcome \<times> VCpu \<times> 'w hart" where
  "VCpu_run rc sp guest l p self h =
     (let h = run_guest guest l
                (h\<lparr>gpr := (gpr h)(A0 := p), dmem := write_area p (vcpu_regs self) (dmem h)\<rparr>);
          r = read_area p (dmem h);
          c = csr (hart_hw h);
          r = r\<lparr>trap_csrs := \<lparr>trap_scause = c CSR_SCAUSE, trap_stval = c CSR_STVAL,
                              trap_htval = c CSR_HTVAL, trap_htinst = c CSR_HTINST\<rparr>\<rparr>;
          r = r\<lparr>page_table_root := shl (vsatp_ppn rc (c CSR_VSATP)) 12\<rparr>;
          info = (case scause_cause rc (c CSR_SCAUSE) of
              ExceptionTrap VirtualSupervisorEnvCall \<Rightarrow>
                omap Ecall (result_ok (SbiMessage_from_regs sp (a_regs (guest_gprs (guest_regs r)))))
            | InterruptTrap SupervisorTimer \<Rightarrow> Ok TimerInterruptEmulation
            | InterruptTrap SupervisorExternal \<Rightarrow> Ok ExternalInterruptEmulation
            | ExceptionTrap LoadGuestPageFault \<Rightarrow>
                omap (PageFaultExit (shl (trap_htval (trap_csrs r)) 2 OR (trap_stval (trap_csrs r) AND 3))
                       (guest_sepc (guest_regs r)) (as_u32 (trap_htinst (trap_csrs r))))
                  (from_hstatus rc (guest_hstatus (guest_regs r)))
            | ExceptionTrap StoreGuestPageFault \<Rightarrow>
                omap (PageFaultExit (shl (trap_htval (trap_csrs r)) 2 OR (trap_stval (trap_csrs r) AND 3))
                       (guest_sepc (guest_regs r)) (as_u32 (trap_htinst (trap_csrs r))))
                  (from_hstatus rc (guest_hstatus (guest_regs r)))
            | ExceptionTrap BreakpointException \<Rightarrow> Ok Breakpoint
            | _ \<Rightarrow> Panic ExplicitPanic)
      in (info, self\<lparr>vcpu_regs := r\<rparr>, h))"

definition get_gpr :: "VCpu \<Rightarrow> GprIndex \<Rightarrow> usize" where
  "get_gpr self i = reg (vcpu_gprs self) i"

definition set_gpr :: "VCpu \<Rightarrow> GprIndex \<Rightarrow> usize \<Rightarrow> VCpu" where
  "set_gpr self i val = set_vcpu_gprs self (set_reg (vcpu_gprs self) i val)"

definition get_pc :: "VCpu \<Rightarrow> usize" where
  "get_pc self = guest_sepc (guest_regs (vcpu_regs self))"

definition set_pc :: "VCpu \<Rightarrow> usize \<Rightarrow> VCpu" where
  "set_pc self pc = self\<lparr>vcpu_regs := (vcpu_regs self)\<lparr>guest_regs :=
     (guest_regs (vcpu_regs self))\<lparr>guest_sepc := pc\<rparr>\<rparr>\<rparr>"

definition advance_pc :: "VCpu \<Rightarrow> usize \<Rightarrow> VCpu" where
  "advance_pc self instr_len = set_pc self (get_pc self + instr_len)"

definition get_page_table_root :: "VCpu \<Rightarrow> usize" where
  "get_page_table_root self = page_table_root (vcpu_regs self)"

text \<open>\<open>inject_exception\<close>: write \<open>vsepc\<close> and \<open>vscause\<close>, continue at \<open>vstvec\<close>.\<close>

definition inject_exception :: "VCpu \<Rightarrow> riscv_hw \<Rightarrow> VCpu \<times> riscv_hw" where
  "inject_exception self hw =
     (let hw = write_value CSR_VSEPC (get_pc self) hw;
          hw = write_value CSR_VSCAUSE (trap_scause (trap_csrs (vcpu_regs self))) hw
      in (set_pc self (csr hw CSR_VSTVEC), hw))"

definition vcpu_wf :: "VCpu \<Rightarrow> bool" where
  "vcpu_wf v \<longleftrightarrow> area_wf (vcpu_regs v) \<and> gprs_wf (vcpu_gprs v)"

section \<open>Copying the register file\<close>

lemma vcpu_gprs_set [simp]: "vcpu_gprs (set_vcpu_gprs v g) = g"
  by (simp add: vcpu_gprs_def set_vcpu_gprs_def)

lemma vcpu_id_set [simp]:
  "vcpu_id (set_vcpu_gprs v g) = vcpu_id v" "vcpu_id (set_pc v a) = vcpu_id v"
  "vcpu_id (advance_pc v n) = vcpu_id v"
  by (simp_all add: set_vcpu_gprs_def set_pc_def advance_pc_def)

lemma get_pc_set [simp]:
  "get_pc (set_pc v a) = a" "get_pc (set_vcpu_gprs v g) = get_pc v"
  "vcpu_gprs (set_pc v a) = vcpu_gprs v"
  by (simp_all add: get_pc_def set_pc_def set_vcpu_gprs_def vcpu_gprs_def)

lemma vcpu_wf_set [simp, intro]:
  "vcpu_wf v \<Longrightarrow> gprs_wf g \<Longrightarrow> vcpu_wf (set_vcpu_gprs v g)"
  "vcpu_wf v \<Longrightarrow> vcpu_wf (set_pc v a)" "vcpu_wf v \<Longrightarrow> vcpu_wf (advance_pc v n)"
  by (auto simp: vcpu_wf_def area_wf_def set_vcpu_gprs_def set_pc_def advance_pc_def vcpu_gprs_def
      gprs_wf_def)

lemma copy_gprs_wr_list:
  "\<forall>i \<in> set is. i < 32 \<Longrightarrow>
   copy_gprs is src dst = Ok (gprs.wr_list dst (map (\<lambda>i. the (from_raw (of_nat i))) is) (reg src))"
proof (induction "is" arbitrary: dst)
  case (Cons i "is")
  then have "unat (of_nat i :: u32) = i" by (simp add: unat_of_nat)
  with Cons.prems obtain r where "from_raw (of_nat i) = Some r"
    using from_raw_total [of "of_nat i"] by auto
  with Cons show ?case by simp
qed simp

text \<open>All 32 registers are copied, so the destination becomes the source.\<close>

lemma copy_gprs_all:
  assumes "gprs_wf src" and "gprs_wf dst"
  shows "copy_gprs [0..<32] src dst = Ok src"
proof -
  let ?rs = "map (\<lambda>i. the (from_raw (of_nat i))) [0..<32]"
  have "r \<in> set ?rs" for r
    by (simp only: set_map image_iff) (rule bexI [of _ "gpr_index r"], simp_all)
  then have "reg (gprs.wr_list dst ?rs (reg src)) r = reg src r" for r
    using assms gprs.rd_wr_list [OF assms(2), of ?rs "reg src" r] by (cases "r = Zero") (auto simp: gprs_wf_def)
  moreover have "gprs_wf (gprs.wr_list dst ?rs (reg src))"
    by (rule gprs.ok_wr_list [OF assms(2)])
  ultimately have "gprs.wr_list dst ?rs (reg src) = src"
    using assms(1) by (intro gprs_eqI) (auto simp: gprs_wf_def)
  then show ?thesis by (simp add: copy_gprs_wr_list del: upt_rec_numeral)
qed

lemma save_gprs_Ok: "vcpu_wf v \<Longrightarrow> gprs_wf g \<Longrightarrow> save_gprs v g = Ok (vcpu_gprs v)"
  by (simp add: save_gprs_def copy_gprs_all vcpu_wf_def)

lemma restore_gprs_Ok: "vcpu_wf v \<Longrightarrow> gprs_wf g \<Longrightarrow> restore_gprs v g = Ok (set_vcpu_gprs v g)"
  by (simp add: restore_gprs_def copy_gprs_all vcpu_wf_def)

section \<open>Creating a vCPU\<close>

lemma VCpu_new_wf: "vcpu_wf (fst (VCpu_new rc vid entry hw))"
  by (simp add: VCpu_new_def vcpu_wf_def area_wf_def vcpu_gprs_def VmCpuRegisters_default_def
      GeneralPurposeRegisters_default_def [THEN arg_cong [of _ _ length], simplified] Let_def)

lemma tock_modify_bit:
  assumes "riscv_crates_ok rc" and "f = (n, k, 1)" and "k < 64"
  shows "bit (tock_modify rc f 1 v) i \<longleftrightarrow> bit v i \<or> i = k"
proof -
  have "tock_modify rc f 1 v = (v AND NOT (push_bit k 1)) OR push_bit k 1"
    using assms by (simp add: riscv_crates_ok_def field_mask_def field_shift_def)
  then show ?thesis using assms(3) by (auto simp: bit_simps dest: bit_imp_le_length)
qed

lemma from_hstatus_bit:
  assumes "riscv_crates_ok rc"
  shows "from_hstatus rc v = Ok (if bit v 8 then Supervisor else User)"
proof -
  have "tock_read rc hstatus_spvp v = of_bool (bit v 8)"
    using assms by (simp add: riscv_crates_ok_def hstatus_spvp_def field_mask_def field_shift_def
        drop_bit_and_1)
  then show ?thesis by (simp add: from_hstatus_def)
qed

section \<open>Running a vCPU\<close>

text \<open>The hart when the guest of \<open>VCpu_run\<close> has trapped.\<close>

definition trapped :: "('w hart \<Rightarrow> 'w hart) \<Rightarrow> usize \<Rightarrow> usize \<Rightarrow> VCpu \<Rightarrow> 'w hart \<Rightarrow> 'w hart" where
  "trapped guest l p self h =
     guest (exec (run_guest_entry l)
       (h\<lparr>gpr := (gpr h)(A0 := p), dmem := write_area p (vcpu_regs self) (dmem h)\<rparr>))"

lemma VCpu_run_state:
  assumes "guest_confined guest p" and "vcpu_wf self"
    and "VCpu_run rc sp guest l p self h = (info, self', h')"
    and "t = trapped guest l p self h"
  shows "vcpu_id self' = vcpu_id self"
    and "\<forall>r. r \<noteq> Zero \<longrightarrow> get_gpr self' r = gpr t r" and "get_gpr self' Zero = 0"
    and "guest_hstatus (guest_regs (vcpu_regs self')) = csr (hart_hw t) CSR_HSTATUS"
    and "get_pc self' = csr (hart_hw t) CSR_SEPC"
    and "vs_csrs (vcpu_regs self') = vs_csrs (vcpu_regs self)"
    and "virtual_hs_csrs (vcpu_regs self') = virtual_hs_csrs (vcpu_regs self)"
    and "\<forall>c. c \<notin> {CSR_SSTATUS, CSR_HSTATUS, CSR_SCOUNTEREN, CSR_STVEC, CSR_SSCRATCH} \<longrightarrow>
           csr (hart_hw h') c = csr (hart_hw t) c"
    and "\<forall>c \<in> {CSR_SSTATUS, CSR_HSTATUS, CSR_SCOUNTEREN, CSR_STVEC, CSR_SSCRATCH}.
           csr (hart_hw h') c = csr (hart_hw h) c"
    and "mmio (hart_hw h') = mmio (hart_hw t)" and "world h' = world t" and "vcpu_wf self'"
proof -
  define h0 where "h0 = h\<lparr>gpr := (gpr h)(A0 := p), dmem := write_area p (vcpu_regs self) (dmem h)\<rparr>"
  define g where "g = exec (run_guest_entry l) h0"
  have t: "t = guest g" using assms(4) by (simp add: trapped_def g_def h0_def)
  have a0: "gpr h0 A0 = p" by (simp add: h0_def)
  have area0: "vcpu_regs self = read_area p (dmem h0)"
    using assms(2) by (simp add: h0_def read_area_write_area vcpu_wf_def)
  note entry = entry_state [OF a0 g_def area0]
  have scratch: "csr (hart_hw t) CSR_SSCRATCH = p"
    using assms(1) entry(2) by (simp add: guest_confined_def t)
  have area: "read_area p (dmem t) = read_area p (dmem g)"
    using assms(1) by (simp add: guest_confined_def t)
  define h1 where "h1 = exec guest_exit t"
  note out = exit_state [OF scratch h1_def refl, unfolded area entry(4)]
  have run: "run_guest guest l h0 = h1" by (simp add: run_guest_def h1_def t g_def)
  have h': "h' = h1" and regs: "vcpu_id self' = vcpu_id self"
    "guest_regs (vcpu_regs self') = guest_regs (read_area p (dmem h1))"
    "hyp_regs (vcpu_regs self') = hyp_regs (read_area p (dmem h1))"
    "vs_csrs (vcpu_regs self') = vs_csrs (read_area p (dmem h1))"
    "virtual_hs_csrs (vcpu_regs self') = virtual_hs_csrs (read_area p (dmem h1))"
    using assms(3) by (auto simp: VCpu_run_def Let_def run h0_def [symmetric])
  have len: "length (guest_gprs (guest_regs (vcpu_regs self))) = 32"
    "length (hyp_gprs (hyp_regs (vcpu_regs self))) = 32" "reg (guest_gprs (guest_regs (vcpu_regs self))) Zero = 0"
    using assms(2) by (auto simp: vcpu_wf_def area_wf_def gprs_wf_def vcpu_gprs_def)
  show "vcpu_id self' = vcpu_id self" by (rule regs)
  show "\<forall>r. r \<noteq> Zero \<longrightarrow> get_gpr self' r = gpr t r" "get_gpr self' Zero = 0"
    using len by (auto simp: get_gpr_def vcpu_gprs_def regs out(4) reg_put_regs saved_sets)
  then show "vcpu_wf self'"
    using len by (simp add: vcpu_wf_def area_wf_def gprs_wf_def vcpu_gprs_def get_gpr_def regs out(4))
  show "guest_hstatus (guest_regs (vcpu_regs self')) = csr (hart_hw t) CSR_HSTATUS"
    "get_pc self' = csr (hart_hw t) CSR_SEPC"
    "vs_csrs (vcpu_regs self') = vs_csrs (vcpu_regs self)"
    "virtual_hs_csrs (vcpu_regs self') = virtual_hs_csrs (vcpu_regs self)"
    by (simp_all add: get_pc_def regs out(4))
  show "\<forall>c. c \<notin> {CSR_SSTATUS, CSR_HSTATUS, CSR_SCOUNTEREN, CSR_STVEC, CSR_SSCRATCH} \<longrightarrow>
           csr (hart_hw h') c = csr (hart_hw t) c"
    by (simp add: h' out(2))
  show "\<forall>c \<in> {CSR_SSTATUS, CSR_HSTATUS, CSR_SCOUNTEREN, CSR_STVEC, CSR_SSCRATCH}.
           csr (hart_hw h') c = csr (hart_hw h) c"
    using entry(2) by (auto simp: h' out(2) h0_def csr_number_defs)
  show "mmio (hart_hw h') = mmio (hart_hw t)" "world h' = world t"
    by (simp_all add: h' out(2,3))
qed

text \<open>What the trap registers say about the exit, as a specification of \<open>VCpu_run\<close>.\<close>

definition exit_info :: "sbi_spec \<Rightarrow> (u16 \<Rightarrow> usize) \<Rightarrow> VCpu \<Rightarrow> VmExitInfo outcome" where
  "exit_info sp c v =
     (let fault = Ok (PageFaultExit (shl (c CSR_HTVAL) 2 OR (c CSR_STVAL AND 3)) (get_pc v)
            (as_u32 (c CSR_HTINST))
            (if bit (guest_hstatus (guest_regs (vcpu_regs v))) 8 then Supervisor else User))
      in if c CSR_SCAUSE = 10 then
           omap Ecall (result_ok (SbiMessage_from_regs sp (a_regs (vcpu_gprs v))))
         else if c CSR_SCAUSE = 21 \<or> c CSR_SCAUSE = 23 then fault
         else if c CSR_SCAUSE = 3 then Ok Breakpoint
         else if c CSR_SCAUSE = 2 ^ 63 + 5 then Ok TimerInterruptEmulation
         else if c CSR_SCAUSE = 2 ^ 63 + 9 then Ok ExternalInterruptEmulation
         else Panic ExplicitPanic)"

lemma split_bit:
  fixes v :: "'a::len word"
  assumes "k < LENGTH('a)"
  shows "v = (v AND NOT (2 ^ k)) OR (if bit v k then 2 ^ k else 0)"
  by (rule bit_word_eqI) (use assms in \<open>auto simp: bit_simps\<close>)

lemma standard_cause_cases:
  "standard_cause v = ExceptionTrap VirtualSupervisorEnvCall \<longleftrightarrow> v = 10"
  "standard_cause v = ExceptionTrap LoadGuestPageFault \<longleftrightarrow> v = 21"
  "standard_cause v = ExceptionTrap StoreGuestPageFault \<longleftrightarrow> v = 23"
  "standard_cause v = ExceptionTrap BreakpointException \<longleftrightarrow> v = 3"
  "standard_cause v = InterruptTrap SupervisorTimer \<longleftrightarrow> v = 2 ^ 63 + 5"
  "standard_cause v = InterruptTrap SupervisorExternal \<longleftrightarrow> v = 2 ^ 63 + 9"
proof -
  have top: "v = (v AND NOT (2 ^ 63)) OR (if bit v 63 then 2 ^ 63 else 0)"
    by (rule split_bit) simp
  have "\<not> bit v 63 \<Longrightarrow> v AND NOT (2 ^ 63) = v" using top by simp
  moreover have "bit v 63 \<Longrightarrow> v AND NOT (2 ^ 63) = k \<Longrightarrow> v = k OR 2 ^ 63" for k using top by simp
  ultimately show
    "standard_cause v = ExceptionTrap VirtualSupervisorEnvCall \<longleftrightarrow> v = 10"
    "standard_cause v = ExceptionTrap LoadGuestPageFault \<longleftrightarrow> v = 21"
    "standard_cause v = ExceptionTrap StoreGuestPageFault \<longleftrightarrow> v = 23"
    "standard_cause v = ExceptionTrap BreakpointException \<longleftrightarrow> v = 3"
    "standard_cause v = InterruptTrap SupervisorTimer \<longleftrightarrow> v = 2 ^ 63 + 5"
    "standard_cause v = InterruptTrap SupervisorExternal \<longleftrightarrow> v = 2 ^ 63 + 9"
    by (auto simp: standard_cause_def Let_def)
qed

lemma VCpu_run_info:
  assumes "riscv_crates_ok rc"
    and "VCpu_run rc sp guest l p self h = (info, self', h')"
  shows "info = exit_info sp (csr (hart_hw h')) self'"
    and "get_page_table_root self' = shl (csr (hart_hw h') CSR_VSATP AND mask 44) 12"
proof -
  have rc: "scause_cause rc = standard_cause" "vsatp_ppn rc = (\<lambda>v. v AND mask 44)"
    using assms(1) unfolding riscv_crates_ok_def by (auto simp only: fun_eq_iff)
  show "get_page_table_root self' = shl (csr (hart_hw h') CSR_VSATP AND mask 44) 12"
    using assms(2) unfolding VCpu_run_def Let_def rc get_page_table_root_def by auto
  show "info = exit_info sp (csr (hart_hw h')) self'"
    using assms(2) standard_cause_cases [of "csr (hart_hw h') CSR_SCAUSE"]
    unfolding VCpu_run_def Let_def rc from_hstatus_bit [OF assms(1)]
    by (auto simp: exit_info_def vcpu_gprs_def get_pc_def split: Trap.splits Exception.splits Interrupt.splits)
qed

section \<open>Properties\<close>

text \<open>
  Claim C8. \<open>VCpu::run\<close> reports the trap that the guest took: an environment call is
  decoded from the guest's own argument registers, a guest page fault carries the
  faulting guest-physical address put together from \<open>htval\<close> and \<open>stval\<close>, the
  guest's program counter, the trapped instruction and the privilege level the
  guest ran at; the two host interrupts and the breakpoint are recognised; every
  other cause is a panic. The vCPU keeps its number and its invariant, holds the
  guest's program counter and registers of the moment of the trap, and records the
  root of the guest's own page table.
\<close>

theorem VCpu_run_reports:
  assumes "riscv_crates_ok rc" and "guest_confined guest p" and "vcpu_wf self"
    and "VCpu_run rc sp guest l p self h = (info, self', h')"
    and "t = trapped guest l p self h"
  shows "info = exit_info sp (csr (hart_hw t)) self'
    \<and> vcpu_wf self' \<and> vcpu_id self' = vcpu_id self
    \<and> get_pc self' = csr (hart_hw t) CSR_SEPC
    \<and> (\<forall>r. r \<noteq> Zero \<longrightarrow> get_gpr self' r = gpr t r)
    \<and> get_page_table_root self' = shl (csr (hart_hw t) CSR_VSATP AND mask 44) 12
    \<and> (\<forall>c \<in> {CSR_SSTATUS, CSR_HSTATUS, CSR_SCOUNTEREN, CSR_STVEC, CSR_SSCRATCH}.
         csr (hart_hw h') c = csr (hart_hw h) c)"
proof -
  note st = VCpu_run_state [OF assms(2-5)]
  have "csr (hart_hw h') c = csr (hart_hw t) c"
    if "c \<in> {CSR_SCAUSE, CSR_STVAL, CSR_HTVAL, CSR_HTINST, CSR_VSATP}" for c
    using st(8) that by (auto simp: csr_number_defs)
  then have "exit_info sp (csr (hart_hw h')) self' = exit_info sp (csr (hart_hw t)) self'"
    "csr (hart_hw h') CSR_VSATP = csr (hart_hw t) CSR_VSATP"
    by (simp_all add: exit_info_def)
  then show ?thesis
    using st(1,2,5,9,12) VCpu_run_info [OF assms(1,4)] by simp
qed

text \<open>A guest that is interrupted by the host timer, for the witness.\<close>

definition timer_guest :: "unit hart \<Rightarrow> unit hart" where
  "timer_guest h = sample_guest (h\<lparr>hart_hw := write_value CSR_SCAUSE (2 ^ 63 + 5) (hart_hw h)\<rparr>)"

lemma timer_guest_confined: "guest_confined timer_guest p"
  using sample_guest_confined [of p]
  by (simp add: guest_confined_def timer_guest_def csr_number_defs)

theorem VCpu_run_reports_witness:
  "\<exists>self' h'. VCpu_run riscv_crates_std sbi_spec_v1 timer_guest 0x4000 0x1000
       (fst (VCpu_new riscv_crates_std 0 0x80200000 (hart_hw sample_hart))) sample_hart
     = (Ok TimerInterruptEmulation, self', h')
   \<and> get_pc self' = 0x80200004 \<and> get_gpr self' A0 = 7"
proof -
  let ?v = "fst (VCpu_new riscv_crates_std 0 0x80200000 (hart_hw sample_hart))"
  obtain info self' h' where
    run: "VCpu_run riscv_crates_std sbi_spec_v1 timer_guest 0x4000 0x1000 ?v sample_hart = (info, self', h')"
    by (rule prod_cases3)
  note r = VCpu_run_reports [OF riscv_crates_std_ok timer_guest_confined VCpu_new_wf run refl]
  have t: "csr (hart_hw (timer_guest g)) CSR_SCAUSE = 2 ^ 63 + 5"
    "csr (hart_hw (timer_guest g)) CSR_SEPC = 0x80200004" "gpr (timer_guest g) A0 = 7" for g
    by (simp_all add: timer_guest_def sample_guest_def csr_number_defs csr_access_defs)
  then have "info = Ok TimerInterruptEmulation \<and> get_pc self' = 0x80200004 \<and> get_gpr self' A0 = 7"
    using r by (simp add: trapped_def exit_info_def)
  with run show ?thesis by simp
qed

text \<open>
  A new vCPU starts at its entry point with every general purpose
  register zero except \<open>a1\<close>, which holds the address of the device tree; its saved
  \<open>hstatus\<close> is the hart's with SPV and SPVP set, the hart's own \<open>hstatus\<close> is given
  the same value and no other CSR changes, and its saved \<open>sstatus\<close> has SPP set, so
  that \<open>sret\<close> enters virtual supervisor mode.
\<close>

theorem VCpu_new_boot_state:
  assumes "riscv_crates_ok rc" and "VCpu_new rc vid entry hw = (v, hw')"
    and "s = guest_hstatus (guest_regs (vcpu_regs v))"
  shows "vcpu_wf v \<and> vcpu_id v = vid \<and> get_pc v = entry
    \<and> (\<forall>r. get_gpr v r = (if r = A1 then 0x90000000 else 0))
    \<and> (\<forall>i. bit s i \<longleftrightarrow> bit (csr hw CSR_HSTATUS) i \<or> i = 7 \<or> i = 8)
    \<and> csr hw' = (csr hw)(CSR_HSTATUS := s)
    \<and> guest_sstatus (guest_regs (vcpu_regs v)) = csr hw CSR_SSTATUS OR 2 ^ 8"
proof -
  have v: "v = fst (VCpu_new rc vid entry hw)" and hw': "hw' = snd (VCpu_new rc vid entry hw)"
    using assms(2) by simp_all
  have s: "s = tock_modify rc hstatus_spvp 1 (tock_modify rc hstatus_spv 1 (csr hw CSR_HSTATUS))"
    unfolding assms(3) v by (simp add: VCpu_new_def Let_def)
  have "get_gpr v r = (if r = A1 then 0x90000000 else 0)" for r
  proof -
    have "reg GeneralPurposeRegisters_default r = 0" for r
      by (simp add: GeneralPurposeRegisters_default_def reg_def)
    moreover have "length GeneralPurposeRegisters_default = 32"
      by (simp add: GeneralPurposeRegisters_default_def)
    ultimately show ?thesis
      by (simp add: v VCpu_new_def Let_def get_gpr_def vcpu_gprs_def VmCpuRegisters_default_def reg_set_reg)
  qed
  moreover have "bit s i \<longleftrightarrow> bit (csr hw CSR_HSTATUS) i \<or> i = 7 \<or> i = 8" for i
    unfolding s
    by (auto simp: tock_modify_bit [OF assms(1) hstatus_spvp_def] tock_modify_bit [OF assms(1) hstatus_spv_def])
  moreover have "csr hw' = (csr hw)(CSR_HSTATUS := s)"
    unfolding hw' s by (simp add: VCpu_new_def Let_def csr_access_defs CSR_def)
  moreover have "guest_sstatus (guest_regs (vcpu_regs v)) = csr hw CSR_SSTATUS OR 2 ^ 8"
    using assms(1) unfolding v riscv_crates_ok_def
    by (simp add: VCpu_new_def Let_def CSR_def csr_number_defs)
  moreover have "vcpu_wf v" unfolding v by (rule VCpu_new_wf)
  moreover have "vcpu_id v = vid" "get_pc v = entry"
    by (simp_all add: v VCpu_new_def Let_def get_pc_def)
  ultimately show ?thesis by blast
qed

theorem VCpu_new_boot_state_witness:
  "\<exists>v hw'. VCpu_new riscv_crates_std 0 0x80200000 \<lparr>csr = (\<lambda>_. 0), mmio = []\<rparr> = (v, hw')
   \<and> get_pc v = 0x80200000 \<and> get_gpr v A1 = 0x90000000
   \<and> bit (guest_hstatus (guest_regs (vcpu_regs v))) 7"
proof -
  obtain v hw' where "VCpu_new riscv_crates_std 0 0x80200000 \<lparr>csr = (\<lambda>_. 0), mmio = []\<rparr> = (v, hw')"
    by (rule prod.exhaust)
  with VCpu_new_boot_state [OF riscv_crates_std_ok this refl] show ?thesis by auto
qed

end
