(* ===== verification/Vm_Pages.thy ===== *)
theory Vm_Pages
  imports Prelude
begin

text \<open>
  \<open>src/src/arch/riscv/vm_pages.rs\<close> with its assembly \<open>mem_extable.S\<close>: copying to
  and from guest memory with the hypervisor load and store instructions. Guest
  memory is a partial function of the address; \<open>None\<close> is an address at which the
  access faults. The comments of the assembly say what the trap handler does with
  such a fault: it continues at the address in \<open>t0\<close>.
\<close>

section \<open>Regions\<close>

datatype VmRegionType =
    Confidential
  | Shared
  | Mmio
  | Imsic
  | Pci
  | ConfidentialRemovable
  | SharedRemovable

record VmRegion =
  region_start :: GuestPhysAddr
  region_end :: GuestPhysAddr
  region_type :: VmRegionType

definition MAX_MEM_REGIONS :: nat where
  "MAX_MEM_REGIONS = 128"

type_synonym guest_mem = "usize \<rightharpoonup> u8"

section \<open>The copy loops\<close>

text \<open>
  \<open>_copy_to_guest\<close>: byte by byte from the host buffer \<open>src\<close>; a faulting \<open>hsv.b\<close>
  leaves the loop with the number of bytes copied so far.
\<close>

fun copy_to_guest_loop :: "guest_mem \<Rightarrow> usize \<Rightarrow> u8 list \<Rightarrow> usize \<times> guest_mem" where
  "copy_to_guest_loop m a0 [] = (0, m)"
| "copy_to_guest_loop m a0 (t3 # src) =
     (case m a0 of
        None \<Rightarrow> (0, m)
      | Some _ \<Rightarrow> (case copy_to_guest_loop (m(a0 \<mapsto> t3)) (a0 + 1) src of
                    (t2, m') \<Rightarrow> (t2 + 1, m')))"

text \<open>\<open>_copy_from_guest\<close>: the destination buffer keeps its tail where the copy stops.\<close>

fun copy_from_guest_loop :: "guest_mem \<Rightarrow> usize \<Rightarrow> u8 list \<Rightarrow> usize \<times> u8 list" where
  "copy_from_guest_loop m a1 [] = (0, [])"
| "copy_from_guest_loop m a1 (d # dest) =
     (case m a1 of
        None \<Rightarrow> (0, d # dest)
      | Some t3 \<Rightarrow> (case copy_from_guest_loop m (a1 + 1) dest of
                     (t2, dest') \<Rightarrow> (t2 + 1, t3 # dest')))"

text \<open>
  \<open>_fetch_guest_instruction\<close> with \<open>hlvx.hu\<close> as the partial function \<open>hlvx\<close>. The
  result is what \<open>a0\<close> and the word behind \<open>a1\<close> hold on return.
\<close>

definition fetch_guest_instruction_asm :: "(usize \<rightharpoonup> u16) \<Rightarrow> usize \<Rightarrow> u32 \<Rightarrow> int \<times> u32" where
  "fetch_guest_instruction_asm hlvx a0 raw_inst =
     (case hlvx a0 of
        None \<Rightarrow> (- 1, raw_inst)
      | Some t2 \<Rightarrow>
          let raw_inst = (raw_inst AND 0xffff0000) OR as_u32 t2 in
          if t2 AND 3 \<noteq> 3 then (0, raw_inst)
          else (case hlvx (a0 + 2) of
                  None \<Rightarrow> (- 1, raw_inst)
                | Some t2' \<Rightarrow> (0, (raw_inst AND 0xffff) OR shl (as_u32 t2') 16)))"

section \<open>The methods of VmPages\<close>

definition copy_to_guest :: "guest_mem \<Rightarrow> GuestPhysAddr \<Rightarrow> u8 list \<Rightarrow> usize outcome \<times> guest_mem" where
  "copy_to_guest m dest_gpa src =
     (let (len_copied, m') = copy_to_guest_loop m dest_gpa src in
      if len_copied = 0 then (Err PageFault, m') else (Ok len_copied, m'))"

definition copy_from_guest :: "guest_mem \<Rightarrow> u8 list \<Rightarrow> GuestPhysAddr \<Rightarrow> usize outcome \<times> u8 list" where
  "copy_from_guest m dest src_gpa =
     (let (len_copied, dest') = copy_from_guest_loop m src_gpa dest in
      if len_copied = 0 then (Err PageFault, dest') else (Ok len_copied, dest'))"

definition fetch_guest_instruction :: "(usize \<rightharpoonup> u16) \<Rightarrow> GuestVirtAddr \<Rightarrow> u32 outcome" where
  "fetch_guest_instruction hlvx pc =
     (let (ret, raw_inst) = fetch_guest_instruction_asm hlvx pc 0 in
      if ret < 0 then Err FetchFault else Ok raw_inst)"

section \<open>What the loops copy\<close>

text \<open>The number of bytes from address \<open>a\<close> on that are mapped, up to \<open>n\<close>.\<close>

fun mapped_prefix :: "guest_mem \<Rightarrow> usize \<Rightarrow> nat \<Rightarrow> nat" where
  "mapped_prefix m a 0 = 0"
| "mapped_prefix m a (Suc n) = (if m a = None then 0 else Suc (mapped_prefix m (a + 1) n))"

lemma mapped_prefix_le: "mapped_prefix m a n \<le> n"
  by (induction n arbitrary: a) simp_all

lemma mapped_prefix_dom: "dom m = dom m' \<Longrightarrow> mapped_prefix m a n = mapped_prefix m' a n"
proof (induction n arbitrary: a)
  case (Suc n)
  then have "m a = None \<longleftrightarrow> m' a = None" by (metis domIff)
  with Suc show ?case by simp
qed simp

lemma mapped_prefix_mapped: "i < mapped_prefix m a n \<Longrightarrow> m (a + of_nat i) \<noteq> None"
proof (induction n arbitrary: a i)
  case (Suc n)
  then show ?case
  proof (cases i)
    case (Suc j)
    then have "j < mapped_prefix m (a + 1) n" using Suc.prems by (simp split: if_splits)
    from Suc.IH [OF this] show ?thesis by (simp add: Suc add.assoc)
  qed (simp split: if_splits)
qed simp

lemma mapped_prefix_stops:
  "mapped_prefix m a n < n \<Longrightarrow> m (a + of_nat (mapped_prefix m a n)) = None"
proof (induction n arbitrary: a)
  case (Suc n)
  then show ?case
    using Suc.IH [of "a + 1"] by (cases "m a") (simp_all add: add.assoc)
qed simp

lemma unat_word_m1: "unat (- 1 :: usize) = 2 ^ 64 - 1"
  by (simp add: unsigned_minus_1_eq_mask mask_eq_exp_minus_1)

lemma copy_to_guest_loop_step:
  assumes "a \<in> dom m"
  shows "fst (copy_to_guest_loop m a (t3 # src)) = fst (copy_to_guest_loop (m(a \<mapsto> t3)) (a + 1) src) + 1"
    and "snd (copy_to_guest_loop m a (t3 # src)) = snd (copy_to_guest_loop (m(a \<mapsto> t3)) (a + 1) src)"
  using assms by (auto split: prod.splits)

lemma copy_to_guest_loop_dom: "dom (snd (copy_to_guest_loop m a src)) = dom m"
proof (induction src arbitrary: m a)
  case (Cons t3 src)
  show ?case
  proof (cases "a \<in> dom m")
    case False
    then show ?thesis by (auto simp: domIff)
  next
    case True
    then have "dom (m(a \<mapsto> t3)) = dom m" by auto
    then show ?thesis by (simp only: copy_to_guest_loop_step(2) [OF True] Cons)
  qed
qed simp

lemma mapped_prefix_store: "a \<in> dom m \<Longrightarrow> mapped_prefix (m(a \<mapsto> b)) c n = mapped_prefix m c n"
  by (rule mapped_prefix_dom) auto

lemma copy_to_guest_loop_count:
  "fst (copy_to_guest_loop m a src) = of_nat (mapped_prefix m a (length src))"
proof (induction src arbitrary: m a)
  case (Cons t3 src)
  show ?case
  proof (cases "a \<in> dom m")
    case False
    then show ?thesis by (auto simp: domIff)
  next
    case True
    then have "m a \<noteq> None" by auto
    then show ?thesis
      by (simp only: copy_to_guest_loop_step(1) [OF True] Cons mapped_prefix_store [OF True]) auto
  qed
qed simp

text \<open>Which bytes end up where: the copied prefix is written, the rest is untouched.\<close>

lemma copy_to_guest_loop_bytes:
  assumes "length src \<le> 2 ^ 64"
  shows "snd (copy_to_guest_loop m a src) x =
    (if unat (x - a) < mapped_prefix m a (length src) then Some (src ! unat (x - a)) else m x)"
  using assms
proof (induction src arbitrary: m a)
  case (Cons t3 src)
  show ?case
  proof (cases "m a")
    case None
    then show ?thesis by simp
  next
    case (Some b)
    let ?k = "mapped_prefix m (a + 1) (length src)"
    have ma: "a \<in> dom m" using Some by auto
    have "?k \<le> length src" by (rule mapped_prefix_le)
    then have small: "?k < 2 ^ 64" using Cons.prems by simp
    have step: "snd (copy_to_guest_loop m a (t3 # src)) x =
        snd (copy_to_guest_loop (m(a \<mapsto> t3)) (a + 1) src) x"
      by (simp only: copy_to_guest_loop_step(2) [OF ma])
    have IH: "snd (copy_to_guest_loop (m(a \<mapsto> t3)) (a + 1) src) x =
        (if unat (x - (a + 1)) < ?k then Some (src ! unat (x - (a + 1))) else (m(a \<mapsto> t3)) x)"
      using Cons.IH Cons.prems by (simp only: mapped_prefix_store [OF ma] list.size)
    show ?thesis
    proof (cases "x = a")
      case True
      have "unat (x - (a + 1)) = 2 ^ 64 - 1" using True by (simp add: unat_word_m1)
      then show ?thesis using True Some IH step small by simp
    next
      case False
      then have "x - a \<noteq> 0" by simp
      then have "unat (x - a) = Suc (unat (x - (a + 1)))"
        using unat_minus_one [of "x - a"] unat_gt_0 [of "x - a"] by (simp add: diff_diff_eq)
      then show ?thesis using False Some IH step by simp
    qed
  qed
qed simp

lemma copy_from_guest_loop_count:
  "fst (copy_from_guest_loop m a dest) = of_nat (mapped_prefix m a (length dest))"
  by (induction m a dest rule: copy_from_guest_loop.induct) (auto split: option.splits prod.splits)

lemma copy_from_guest_loop_bytes:
  "snd (copy_from_guest_loop m a dest) =
     map (\<lambda>i. the (m (a + of_nat i))) [0..<mapped_prefix m a (length dest)]
     @ drop (mapped_prefix m a (length dest)) dest"
proof (induction m a dest rule: copy_from_guest_loop.induct)
  case (2 m a d dest)
  show ?case
  proof (cases "m a")
    case (Some b)
    have "[0..<Suc k] = 0 # map Suc [0..<k]" for k
      by (simp add: upt_conv_Cons map_Suc_upt del: upt_Suc)
    with Some 2 show ?thesis
      by (auto split: prod.splits simp: comp_def add.assoc [symmetric] simp del: upt_Suc)
  qed simp
qed simp

section \<open>Properties\<close>

text \<open>
  Claim C33. Copying into the guest: the call fails with \<open>PageFault\<close> exactly when no
  byte could be written (which includes the empty copy), and otherwise returns the
  number of bytes up to the first unmapped address; these bytes of guest memory
  then hold the start of the buffer, every other byte is unchanged, and copying
  back a buffer of the same length from the same address yields the same count and
  the same bytes.
\<close>

theorem copy_guest_roundtrip:
  assumes "length src < 2 ^ 64" and "copy_to_guest m gpa src = (r, m')"
    and "n = mapped_prefix m gpa (length src)" and "length dest = length src"
  shows "r = (if n = 0 then Err PageFault else Ok (of_nat n))
    \<and> (\<forall>i < n. m' (gpa + of_nat i) = Some (src ! i))
    \<and> (\<forall>x. n \<le> unat (x - gpa) \<longrightarrow> m' x = m x)
    \<and> (n < length src \<longrightarrow> m (gpa + of_nat n) = None)
    \<and> copy_from_guest m' dest gpa = (r, take n src @ drop n dest)"
proof -
  have le: "n \<le> length src" unfolding assms(3) by (rule mapped_prefix_le)
  then have n64: "n < 2 ^ 64" using assms(1) by simp
  have of_nat0: "(of_nat n :: usize) = 0 \<longleftrightarrow> n = 0"
    using of_nat_usize_inject [OF n64, of 0] by simp
  have m': "m' = snd (copy_to_guest_loop m gpa src)"
    and r: "r = (if n = 0 then Err PageFault else Ok (of_nat n))"
    using assms(2) copy_to_guest_loop_count [of m gpa src] of_nat0
    by (auto simp: copy_to_guest_def assms(3) [symmetric] split: prod.splits if_splits)
  have bytes: "m' x = (if unat (x - gpa) < n then Some (src ! unat (x - gpa)) else m x)" for x
    unfolding m' using copy_to_guest_loop_bytes [of src m gpa x] assms(1,3) by simp
  have at: "m' (gpa + of_nat i) = Some (src ! i)" if "i < n" for i
    using that n64 by (simp add: bytes unat_of_nat_usize)
  have n': "mapped_prefix m' gpa (length dest) = n"
    unfolding assms(3,4) m' by (rule mapped_prefix_dom) (rule copy_to_guest_loop_dom)
  have "map (\<lambda>i. the (m' (gpa + of_nat i))) [0..<n] = take n src"
    using le by (intro nth_equalityI) (simp_all add: at)
  then have "snd (copy_from_guest_loop m' gpa dest) = take n src @ drop n dest"
    using copy_from_guest_loop_bytes [of m' gpa dest] n' by simp
  then have copied: "copy_from_guest m' dest gpa = (r, take n src @ drop n dest)"
    using copy_from_guest_loop_count [of m' gpa dest] n' of_nat0 r
    by (auto simp: copy_from_guest_def split: prod.splits)
  have "n < length src \<longrightarrow> m (gpa + of_nat n) = None"
    using mapped_prefix_stops [of m gpa "length src"] unfolding assms(3) by blast
  with r at bytes copied show ?thesis by simp
qed

theorem copy_guest_roundtrip_witness:
  "copy_to_guest [0x1000 \<mapsto> 0, 0x1001 \<mapsto> 0] 0x1000 [7, 8, 9] =
     (Ok 2, [0x1000 \<mapsto> 7, 0x1001 \<mapsto> 8])
   \<and> copy_from_guest [0x1000 \<mapsto> 7, 0x1001 \<mapsto> 8] [0, 0, 1] 0x1000 = (Ok 2, [7, 8, 1])"
proof -
  have len: "length [7, 8, 9 :: u8] < 2 ^ 64" "length [0, 0, 1 :: u8] = length [7, 8, 9 :: u8]"
    by simp_all
  have run: "copy_to_guest [0x1000 \<mapsto> 0, 0x1001 \<mapsto> 0] 0x1000 [7, 8, 9] =
     (Ok 2, [0x1000 \<mapsto> 7, 0x1001 \<mapsto> 8])"
    by (simp add: copy_to_guest_def fun_upd_twist)
  have two: "2 = mapped_prefix [0x1000 \<mapsto> 0, 0x1001 \<mapsto> 0] 0x1000 (length [7, 8, 9 :: u8])"
    by (simp add: numeral_eq_Suc)
  have "copy_from_guest [0x1000 \<mapsto> 7, 0x1001 \<mapsto> 8] [0, 0, 1] 0x1000 =
      (Ok 2, take 2 [7, 8, 9] @ drop 2 [0, 0, 1])"
    using copy_guest_roundtrip [OF len(1) run two len(2)] by blast
  with run show ?thesis by simp
qed

text \<open>
  Fetching an instruction reads one half-word for a compressed instruction and two
  for the others, and puts them together in order.
\<close>

lemma fetch_guest_instruction_spec:
  "fetch_guest_instruction hlvx pc =
     (case hlvx pc of
        None \<Rightarrow> Err FetchFault
      | Some lo \<Rightarrow>
          if lo AND 3 \<noteq> 3 then Ok (as_u32 lo)
          else (case hlvx (pc + 2) of
                  None \<Rightarrow> Err FetchFault
                | Some hi \<Rightarrow> Ok (as_u32 lo OR shl (as_u32 hi) 16)))"
proof -
  have "as_u32 lo AND 0xffff = as_u32 lo" for lo :: u16
  proof -
    have "as_u32 lo AND mask 16 = as_u32 lo" by (rule bit_word_eqI) (auto simp: bit_simps dest: bit_imp_le_length)
    then show ?thesis by (simp add: mask_numeral)
  qed
  then show ?thesis
    by (auto simp: fetch_guest_instruction_def fetch_guest_instruction_asm_def Let_def
        split: option.splits)
qed

end
