(* ===== verification/Gdb_Stub.thy ===== *)
theory Gdb_Stub
  imports Prelude
begin

text \<open>
  What the debugger interfaces of the two architectures share
  (\<open>src/src/arch/riscv/gdb.rs\<close>, \<open>src/src/arch/x86_64/gdb.rs\<close>): the crate \<open>gdbstub\<close>
  and the guest page table as parameters with their documented behaviour, the results of
  target operations, and the loop that feeds the stub with bytes, which is the same in
  both files.
\<close>

section \<open>Guest memory\<close>

text \<open>
  The guest page table \<open>G: GuestPageTableTrait\<close> as far as the VM uses it, the
  address conversions of \<open>H: HyperCraftHal\<close>, and the page walk of
  the architecture (\<open>create_from(root, paging).query(addr)\<close> of \<open>Sv39PageTable\<close> or
  \<open>X64PageTable\<close>), which calls back to translate the addresses of the tables. A read returns the bytes it puts at the
  start of the buffer.
\<close>

record 'g gpt_ops =
  translate :: "'g \<Rightarrow> GuestPhysAddr \<Rightarrow> HostPhysAddr outcome"
  token :: "'g \<Rightarrow> usize"
  root_paddr :: "'g \<Rightarrow> HostPhysAddr"
  read_guest_phys_addrs :: "'g \<Rightarrow> GuestPhysAddr \<Rightarrow> usize \<Rightarrow> u8 list outcome"
  write_guest_phys_addrs :: "'g \<Rightarrow> GuestPhysAddr \<Rightarrow> u8 list \<Rightarrow> unit outcome \<times> 'g"
  phys_to_virt :: "HostPhysAddr \<Rightarrow> HostVirtAddr"
  virt_to_phys :: "HostVirtAddr \<Rightarrow> HostPhysAddr"
  page_query :: "'g \<Rightarrow> usize \<Rightarrow> (usize \<Rightarrow> usize outcome) \<Rightarrow> usize \<Rightarrow> (usize \<times> usize) option outcome"

text \<open>
  Byte-wise meaning of the two memory accessors: \<open>bytes g a\<close> is the byte at
  guest-physical address \<open>a\<close>, if it is mapped.
\<close>

definition range_addrs :: "usize \<Rightarrow> nat \<Rightarrow> usize list" where
  "range_addrs a n = map (\<lambda>i. a + of_nat i) [0..<n]"

definition gpt_ok :: "'g gpt_ops \<Rightarrow> ('g \<Rightarrow> usize \<rightharpoonup> u8) \<Rightarrow> bool" where
  "gpt_ok ops bytes \<longleftrightarrow>
     (\<forall>g a n. read_guest_phys_addrs ops g a n =
        (if \<forall>x \<in> set (range_addrs a (unat n)). bytes g x \<noteq> None
         then Ok (map (\<lambda>x. the (bytes g x)) (range_addrs a (unat n))) else Err PageFault))
     \<and> (\<forall>g a bs. if \<forall>x \<in> set (range_addrs a (length bs)). bytes g x \<noteq> None
          then fst (write_guest_phys_addrs ops g a bs) = Ok ()
             \<and> (\<forall>x. bytes (snd (write_guest_phys_addrs ops g a bs)) x =
                  (if unat (x - a) < length bs then Some (bs ! unat (x - a)) else bytes g x))
          else write_guest_phys_addrs ops g a bs = (Err PageFault, g))"

lemma set_range_addrs: "x \<in> set (range_addrs a n) \<longleftrightarrow> (\<exists>i < n. x = a + of_nat i)"
  by (auto simp: range_addrs_def)

lemma gpt_read:
  assumes "gpt_ok ops bytes" and "read_guest_phys_addrs ops g a n = Ok bs"
  shows "length bs = unat n" and "\<And>i. i < unat n \<Longrightarrow> bytes g (a + of_nat i) = Some (bs ! i)"
proof -
  have all: "\<forall>x \<in> set (range_addrs a (unat n)). bytes g x \<noteq> None"
    and bs: "bs = map (\<lambda>x. the (bytes g x)) (range_addrs a (unat n))"
    using assms unfolding gpt_ok_def by (metis outcome.distinct(1) outcome.inject(1))+
  show "length bs = unat n" by (simp add: bs range_addrs_def)
  fix i assume "i < unat n"
  then show "bytes g (a + of_nat i) = Some (bs ! i)"
    using all by (auto simp: bs range_addrs_def)
qed

lemma gpt_write:
  assumes "gpt_ok ops bytes" and "write_guest_phys_addrs ops g a bs = (Ok (), g')"
  shows "bytes g' x = (if unat (x - a) < length bs then Some (bs ! unat (x - a)) else bytes g x)"
    and "x \<in> set (range_addrs a (length bs)) \<Longrightarrow> bytes g x \<noteq> None"
proof -
  have w: "if \<forall>x \<in> set (range_addrs a (length bs)). bytes g x \<noteq> None
      then fst (write_guest_phys_addrs ops g a bs) = Ok ()
         \<and> (\<forall>x. bytes (snd (write_guest_phys_addrs ops g a bs)) x =
              (if unat (x - a) < length bs then Some (bs ! unat (x - a)) else bytes g x))
      else write_guest_phys_addrs ops g a bs = (Err PageFault, g)"
    using assms(1) unfolding gpt_ok_def by blast
  have all: "\<forall>x \<in> set (range_addrs a (length bs)). bytes g x \<noteq> None"
  proof (rule ccontr)
    assume "\<not> ?thesis"
    with w assms(2) show False by (simp only: if_False prod.inject outcome.distinct simp_thms)
  qed
  then show "x \<in> set (range_addrs a (length bs)) \<Longrightarrow> bytes g x \<noteq> None" by blast
  show "bytes g' x = (if unat (x - a) < length bs then Some (bs ! unat (x - a)) else bytes g x)"
    using w all assms(2) by (simp only: if_True snd_conv)
qed

lemma gpt_write_succeeds:
  assumes "gpt_ok ops bytes" and "\<And>x. x \<in> set (range_addrs a (length bs)) \<Longrightarrow> bytes g x \<noteq> None"
  shows "\<exists>g'. write_guest_phys_addrs ops g a bs = (Ok (), g')"
  using assms unfolding gpt_ok_def by (metis surj_pair fst_conv)

lemma range_addrs_offset:
  assumes "unat (x - a) < n"
  shows "x \<in> set (range_addrs a n)" and "x = a + of_nat (unat (x - a))"
  using assms by (auto simp: set_range_addrs intro!: exI [of _ "unat (x - a)"])

text \<open>Guest memory as a finite map, for the witnesses.\<close>

definition map_gpt :: "(usize \<rightharpoonup> u8) gpt_ops" where
  "map_gpt = \<lparr>
     translate = (\<lambda>g a. Ok a),
     token = (\<lambda>g. 0), root_paddr = (\<lambda>g. 0),
     read_guest_phys_addrs = (\<lambda>g a n.
       if \<forall>x \<in> set (range_addrs a (unat n)). g x \<noteq> None
       then Ok (map (\<lambda>x. the (g x)) (range_addrs a (unat n))) else Err PageFault),
     write_guest_phys_addrs = (\<lambda>g a bs.
       if \<forall>x \<in> set (range_addrs a (length bs)). g x \<noteq> None
       then (Ok (), \<lambda>x. if unat (x - a) < length bs then Some (bs ! unat (x - a)) else g x)
       else (Err PageFault, g)),
     phys_to_virt = (\<lambda>a. a), virt_to_phys = (\<lambda>a. a),
     page_query = (\<lambda>g root cb a. Ok None)\<rparr>"

lemma map_gpt_ok: "gpt_ok map_gpt (\<lambda>g. g)"
  unfolding gpt_ok_def map_gpt_def by simp

section \<open>Results of target operations\<close>

text \<open>
  \<open>TargetResult\<close>: the value, an error number for the debugger, or a panic.
\<close>

datatype 'a target_result = TOk 'a | Errno nat | TPanic panic

fun target :: "'a outcome \<Rightarrow> ('a \<Rightarrow> 'b target_result) \<Rightarrow> 'b target_result" where
  "target (Ok x) k = k x"
| "target (Err e) k = Errno 1"
| "target (Panic p) k = TPanic p"

fun tbind :: "'a target_result \<Rightarrow> ('a \<Rightarrow> 'b target_result) \<Rightarrow> 'b target_result" where
  "tbind (TOk x) k = k x"
| "tbind (Errno e) k = Errno e"
| "tbind (TPanic p) k = TPanic p"

section \<open>The server loop\<close>

text \<open>The states of \<open>GdbStubStateMachine\<close>, each with the crate's inner value.\<close>

datatype 'i GdbStubStateMachine =
    Idle 'i
  | StubRunning 'i
  | CtrlCInterrupt 'i
  | Disconnected 'i

text \<open>
  The \<open>gdbstub\<close> crate: reading a byte from the connection (\<open>None\<close> is an error),
  handling it, which may call the target operations on the target, and reporting a
  stop.
\<close>

record ('t, 'i) gdb_ops =
  conn_read :: "'i \<Rightarrow> u8 option \<times> 'i"
  incoming_data :: "'i \<Rightarrow> 't \<Rightarrow> u8 \<Rightarrow> 'i GdbStubStateMachine option \<times> 't"
  report_stop :: "'i \<Rightarrow> 't \<Rightarrow> 'i GdbStubStateMachine option \<times> 't"
  run_state_machine :: "'t \<Rightarrow> 'i GdbStubStateMachine option \<times> 't"

text \<open>One turn of the loop: \<open>Inl\<close> continues, \<open>Inr\<close> leaves it.\<close>

definition gdb_turn :: "('t, 'i) gdb_ops \<Rightarrow> 'i GdbStubStateMachine \<Rightarrow> 't \<Rightarrow>
    ('i GdbStubStateMachine \<times> 't) + ('i GdbStubStateMachine outcome \<times> 't)" where
  "gdb_turn go gdb self =
     (case gdb of
        Idle gdb_inner \<Rightarrow>
          (case conn_read go gdb_inner of
             (Some byte, gdb_inner) \<Rightarrow>
               (case incoming_data go gdb_inner self byte of
                  (Some x, self) \<Rightarrow> Inl (x, self)
                | (None, self) \<Rightarrow> Inr (Panic ExplicitPanic, self))
           | (None, gdb_inner) \<Rightarrow> Inr (Panic ExplicitPanic, self))
      | StubRunning _ \<Rightarrow> Inr (Ok gdb, self)
      | CtrlCInterrupt _ \<Rightarrow> Inr (Ok gdb, self)
      | Disconnected _ \<Rightarrow> Inr (Ok gdb, self))"

partial_function (option) gdb_loop :: "('t, 'i) gdb_ops \<Rightarrow> 'i GdbStubStateMachine \<Rightarrow>
    't \<Rightarrow> ('i GdbStubStateMachine outcome \<times> 't) option" where
  "gdb_loop go gdb self =
     (case gdb_turn go gdb self of
        Inl (gdb, self) \<Rightarrow> gdb_loop go gdb self
      | Inr r \<Rightarrow> Some r)"

text \<open>The loop with a bound on the number of turns.\<close>

fun gdb_feed :: "('t, 'i) gdb_ops \<Rightarrow> nat \<Rightarrow> 'i GdbStubStateMachine \<Rightarrow> 't \<Rightarrow>
    ('i GdbStubStateMachine outcome \<times> 't) option" where
  "gdb_feed go 0 gdb self = None"
| "gdb_feed go (Suc n) gdb self =
     (case gdb_turn go gdb self of
        Inl (gdb, self) \<Rightarrow> gdb_feed go n gdb self
      | Inr r \<Rightarrow> Some r)"

lemma gdb_feed_loop: "gdb_feed go n gdb self = Some r \<Longrightarrow> gdb_loop go gdb self = Some r"
proof (induction n arbitrary: gdb self)
  case (Suc n)
  then show ?case
    by (subst gdb_loop.simps) (auto split: sum.splits prod.splits)
qed simp

lemma gdb_loop_feed:
  assumes "gdb_loop go gdb self = Some r"
  shows "\<exists>n. gdb_feed go n gdb self = Some r"
  using assms
proof (induction rule: gdb_loop.raw_induct [rotated 1, consumes 1])
  case (1 gdb_loop go gdb self r)
  show ?case
  proof (cases "gdb_turn go gdb self")
    case (Inl x)
    obtain g' s' where x: "x = (g', s')" by fastforce
    with 1 Inl obtain n where "gdb_feed go n g' s' = Some r" by fastforce
    then have "gdb_feed go (Suc n) gdb self = Some r" by (simp add: Inl x)
    then show ?thesis by blast
  next
    case (Inr y)
    with 1 have "gdb_feed go (Suc 0) gdb self = Some r" by simp
    then show ?thesis by blast
  qed
qed

text \<open>What handling a byte keeps, the loop keeps.\<close>

lemma gdb_feed_inv:
  assumes "\<And>i s b. I s \<Longrightarrow> I (snd (incoming_data go i s b))"
    and "gdb_feed go n gdb self = Some (r, self')" and "I self"
  shows "I self'"
  using assms(2,3)
proof (induction n arbitrary: gdb self)
  case (Suc n)
  have turn: "I (case gdb_turn go gdb self of Inl (g, s) \<Rightarrow> s | Inr (r, s) \<Rightarrow> s)"
    using Suc.prems(2) assms(1)
    by (auto simp: gdb_turn_def split: GdbStubStateMachine.splits prod.splits option.splits)
      (metis snd_conv)+
  show ?case
  proof (cases "gdb_turn go gdb self")
    case (Inl x)
    then show ?thesis using Suc turn by (cases x) auto
  next
    case (Inr y)
    then show ?thesis using Suc.prems turn by simp
  qed
qed simp

lemma gdb_loop_inv:
  assumes "\<And>i s b. I s \<Longrightarrow> I (snd (incoming_data go i s b))"
    and "gdb_loop go gdb self = Some (r, self')" and "I self"
  shows "I self'"
  using gdb_loop_feed [OF assms(2)] gdb_feed_inv [of I go _ gdb self r self', OF assms(1)] assms(3) by blast

text \<open>A stub that resumes the guest at the first byte.\<close>

definition sample_stub :: "('t, unit) gdb_ops" where
  "sample_stub = \<lparr>conn_read = (\<lambda>i. (Some 0x63, i)), incoming_data = (\<lambda>i s b. (Some (StubRunning ()), s)),
     report_stop = (\<lambda>i s. (Some (Idle ()), s)), run_state_machine = (\<lambda>s. (Some (Idle ()), s))\<rparr>"

end
