(* ===== verification/Riscv_Gdb.thy ===== *)
theory Riscv_Gdb
  imports Riscv_Vcpu Riscv_Plic Vm_Pages Gdb_Stub
begin

text \<open>
  The state of a VM (\<open>src/src/arch/riscv/vm.rs\<close>) and its debugger interface
  (\<open>src/src/arch/riscv/gdb.rs\<close>): the target operations that the \<open>gdbstub\<close> crate
  calls, and the loop that feeds it with bytes. The guest page table \<open>G\<close>, the
  hardware abstraction \<open>H\<close>, the crate \<open>page_table\<close> and the crate \<open>gdbstub\<close> are
  parameters.
\<close>

section \<open>The VM\<close>

record ('g, 'i) VM =
  vcpus :: "VCpu VmCpus"
  gpt :: 'g
  vm_plic :: PlicState
  gdbstub :: "'i GdbStubStateMachine option"
  breakpoints :: "usize \<rightharpoonup> usize \<times> u8 list"

definition get_current_vcpu :: "('g, 'i) VM \<Rightarrow> VCpu outcome" where
  "get_current_vcpu self = unwrap (get_vcpu (vcpus self) 0)"

definition set_current_vcpu :: "('g, 'i) VM \<Rightarrow> VCpu \<Rightarrow> ('g, 'i) VM" where
  "set_current_vcpu self v = self\<lparr>vcpus := put_vcpu (vcpus self) 0 v\<rparr>"

section \<open>Target operations\<close>

definition get_page :: "'g gpt_ops \<Rightarrow> ('g, 'i) VM \<Rightarrow> usize \<Rightarrow> (usize \<times> usize) option outcome" where
  "get_page ops self addr =
     obind (get_current_vcpu self) (\<lambda>vcpu.
       page_query ops (gpt self) (get_page_table_root vcpu)
         (\<lambda>guest_addr. obind (unwrap (translate ops (gpt self) guest_addr)) (\<lambda>host_addr.
            Ok (phys_to_virt ops host_addr)))
         addr)"

record RiscvCoreRegs =
  core_x :: "u64 list"
  core_pc :: u64

text \<open>The loop over the 32 registers of \<open>read_registers\<close>.\<close>

primrec read_regs_loop :: "nat list \<Rightarrow> GeneralPurposeRegisters \<Rightarrow> u64 list \<Rightarrow> u64 list outcome" where
  "read_regs_loop [] gprs x = Ok x"
| "read_regs_loop (i # is) gprs x =
     obind (unwrap_option (from_raw (of_nat i))) (\<lambda>r.
       obind (store x i (as_u64 (reg gprs r))) (read_regs_loop is gprs))"

definition read_registers :: "('g, 'i) VM \<Rightarrow> RiscvCoreRegs \<Rightarrow> RiscvCoreRegs outcome" where
  "read_registers self regs =
     obind (get_current_vcpu self) (\<lambda>vcpu.
       obind (save_gprs vcpu GeneralPurposeRegisters_default) (\<lambda>gprs.
         obind (read_regs_loop [0..<32] gprs (core_x regs)) (\<lambda>x.
           Ok (regs\<lparr>core_x := x, core_pc := as_u64 (get_pc vcpu)\<rparr>))))"

primrec write_regs_loop :: "nat list \<Rightarrow> u64 list \<Rightarrow> GeneralPurposeRegisters \<Rightarrow>
    GeneralPurposeRegisters outcome" where
  "write_regs_loop [] x gprs = Ok gprs"
| "write_regs_loop (i # is) x gprs =
     obind (unwrap_option (from_raw (of_nat i))) (\<lambda>r.
       obind (index x i) (\<lambda>v. write_regs_loop is x (set_reg gprs r (as_usize v))))"

definition write_registers :: "('g, 'i) VM \<Rightarrow> RiscvCoreRegs \<Rightarrow> ('g, 'i) VM outcome" where
  "write_registers self regs =
     obind (get_current_vcpu self) (\<lambda>vcpu.
       obind (write_regs_loop [0..<32] (core_x regs) GeneralPurposeRegisters_default) (\<lambda>gprs.
         obind (restore_gprs vcpu gprs) (\<lambda>vcpu.
           Ok (set_current_vcpu self (set_pc vcpu (as_usize (core_pc regs)))))))"

text \<open>
  The address and length of a memory access: without a guest page table the
  address is physical; otherwise the access is cut at the end of the page.
\<close>

definition access_window :: "'g gpt_ops \<Rightarrow> ('g, 'i) VM \<Rightarrow> u64 \<Rightarrow> usize \<Rightarrow>
    (usize \<times> usize) target_result" where
  "access_window ops self start_addr count =
     target (get_current_vcpu self) (\<lambda>vcpu.
       let addr = as_usize start_addr in
       if get_page_table_root vcpu \<noteq> 0 then
         target (get_page ops self addr) (\<lambda>page. case page of
             None \<Rightarrow> Errno 1
           | Some (paddr, page_size) \<Rightarrow>
               if page_size = 0 then TPanic DivideByZero
               else TOk (paddr, min count (page_size - paddr mod page_size)))
       else TOk (addr, count))"

text \<open>\<open>read_addrs\<close> returns the number of bytes read and the buffer.\<close>

definition read_addrs :: "'g gpt_ops \<Rightarrow> ('g, 'i) VM \<Rightarrow> u64 \<Rightarrow> u8 list \<Rightarrow> (nat \<times> u8 list) target_result" where
  "read_addrs ops self start_addr data =
     tbind (access_window ops self start_addr (of_nat (length data))) (\<lambda>(addr, count).
       target (read_guest_phys_addrs ops (gpt self) addr count) (\<lambda>bs.
         TOk (length bs, bs @ drop (length bs) data)))"

definition write_addrs :: "'g gpt_ops \<Rightarrow> ('g, 'i) VM \<Rightarrow> u64 \<Rightarrow> u8 list \<Rightarrow>
    unit target_result \<times> ('g, 'i) VM" where
  "write_addrs ops self start_addr data =
     (case access_window ops self start_addr (of_nat (length data)) of
        TOk (addr, count) \<Rightarrow>
          (case write_guest_phys_addrs ops (gpt self) addr (take (unat count) data) of
             (r, g) \<Rightarrow> (target r TOk, self\<lparr>gpt := g\<rparr>))
      | Errno e \<Rightarrow> (Errno e, self)
      | TPanic p \<Rightarrow> (TPanic p, self))"

text \<open>The compressed instruction \<open>c.ebreak\<close>.\<close>

definition ebreak :: "u8 list" where
  "ebreak = [2, 144]"

definition add_sw_breakpoint :: "'g gpt_ops \<Rightarrow> ('g, 'i) VM \<Rightarrow> u64 \<Rightarrow>
    bool target_result \<times> ('g, 'i) VM" where
  "add_sw_breakpoint ops self bp_addr =
     (case target (get_current_vcpu self) (\<lambda>vcpu.
             if get_page_table_root vcpu \<noteq> 0 then
               target (get_page ops self (as_usize bp_addr)) (\<lambda>page. TOk (map_option fst page))
             else TOk (Some (as_usize bp_addr))) of
        Errno e \<Rightarrow> (Errno e, self)
      | TPanic p \<Rightarrow> (TPanic p, self)
      | TOk None \<Rightarrow> (TOk False, self)
      | TOk (Some addr) \<Rightarrow>
          (case read_guest_phys_addrs ops (gpt self) addr 2 of
             Panic p \<Rightarrow> (TPanic p, self)
           | Err e \<Rightarrow> (TOk False, self)
           | Ok inst \<Rightarrow>
               (case write_guest_phys_addrs ops (gpt self) addr ebreak of
                  (Panic p, g) \<Rightarrow> (TPanic p, self\<lparr>gpt := g\<rparr>)
                | (Err e, g) \<Rightarrow> (TOk False, self\<lparr>gpt := g\<rparr>)
                | (Ok _, g) \<Rightarrow>
                    (TOk True, self\<lparr>gpt := g,
                       breakpoints := (breakpoints self)(as_usize bp_addr \<mapsto> (addr, inst))\<rparr>))))"

definition remove_sw_breakpoint :: "'g gpt_ops \<Rightarrow> ('g, 'i) VM \<Rightarrow> u64 \<Rightarrow>
    bool target_result \<times> ('g, 'i) VM" where
  "remove_sw_breakpoint ops self bp_addr =
     (case breakpoints self (as_usize bp_addr) of
        Some (addr, inst) \<Rightarrow>
          (let self = self\<lparr>breakpoints := (breakpoints self)(as_usize bp_addr := None)\<rparr> in
           case write_guest_phys_addrs ops (gpt self) addr inst of
             (r, g) \<Rightarrow> (target r (\<lambda>_. TOk True), self\<lparr>gpt := g\<rparr>))
      | None \<Rightarrow> (TOk False, self))"

section \<open>The server loop\<close>

text \<open>\<open>gdbserver_init\<close>; the connection is part of the crate's state.\<close>

definition gdbserver_init :: "(('g, 'i) VM, 'i) gdb_ops \<Rightarrow> ('g, 'i) VM \<Rightarrow> ('g, 'i) VM" where
  "gdbserver_init go self =
     (case run_state_machine go self of
        (Some gdb, self) \<Rightarrow> self\<lparr>gdbstub := Some gdb\<rparr>
      | (None, self) \<Rightarrow> self)"

definition gdbserver_loop :: "(('g, 'i) VM, 'i) gdb_ops \<Rightarrow> ('g, 'i) VM \<Rightarrow>
    (unit outcome \<times> ('g, 'i) VM) option" where
  "gdbserver_loop go self =
     (case gdbstub self of
        None \<Rightarrow> Some (Ok (), self)
      | Some gdb \<Rightarrow>
          map_option (\<lambda>(r, self). case r of
              Ok gdb \<Rightarrow> (Ok (), self\<lparr>gdbstub := Some gdb\<rparr>)
            | Err e \<Rightarrow> (Err e, self)
            | Panic p \<Rightarrow> (Panic p, self))
          (gdb_loop go gdb (self\<lparr>gdbstub := None\<rparr>)))"

definition gdbserver_report :: "(('g, 'i) VM, 'i) gdb_ops \<Rightarrow> ('g, 'i) VM \<Rightarrow>
    (unit outcome \<times> ('g, 'i) VM) option" where
  "gdbserver_report go self =
     (case gdbstub self of
        None \<Rightarrow> Some (Panic UnwrapFailed, self)
      | Some gdb \<Rightarrow>
          (let self = self\<lparr>gdbstub := None\<rparr> in
           case gdb of
             StubRunning gdb_inner \<Rightarrow>
               (case report_stop go gdb_inner self of
                  (Some gdb_state, self) \<Rightarrow>
                    gdbserver_loop go (self\<lparr>gdbstub := Some gdb_state\<rparr>)
                | (None, self) \<Rightarrow> Some (Ok (), self))
           | _ \<Rightarrow> gdbserver_loop go (self\<lparr>gdbstub := Some gdb\<rparr>)))"

section \<open>What the debugger can do to a VM\<close>

inductive target_step :: "'g gpt_ops \<Rightarrow> ('g, 'i) VM \<Rightarrow> ('g, 'i) VM \<Rightarrow> bool" for ops where
  write_registers: "write_registers s r = Ok s' \<Longrightarrow> target_step ops s s'"
| write_addrs: "write_addrs ops s a d = (r, s') \<Longrightarrow> target_step ops s s'"
| add_sw_breakpoint: "add_sw_breakpoint ops s a = (r, s') \<Longrightarrow> target_step ops s s'"
| remove_sw_breakpoint: "remove_sw_breakpoint ops s a = (r, s') \<Longrightarrow> target_step ops s s'"

inductive_cases target_stepE: "target_step ops s s'"

abbreviation target_steps :: "'g gpt_ops \<Rightarrow> ('g, 'i) VM \<Rightarrow> ('g, 'i) VM \<Rightarrow> bool" where
  "target_steps ops \<equiv> (target_step ops)\<^sup>*\<^sup>*"

text \<open>The crate changes the VM through the target operations only.\<close>

definition gdb_ok :: "'g gpt_ops \<Rightarrow> (('g, 'i) VM, 'i) gdb_ops \<Rightarrow> bool" where
  "gdb_ok ops go \<longleftrightarrow>
     (\<forall>i s b. target_steps ops s (snd (incoming_data go i s b)))
     \<and> (\<forall>i s. target_steps ops s (snd (report_stop go i s)))
     \<and> (\<forall>s. target_steps ops s (snd (run_state_machine go s)))"

text \<open>Type invariant of a VM.\<close>

definition vm_wf :: "('g, 'i) VM \<Rightarrow> bool" where
  "vm_wf s \<longleftrightarrow> vcpus_wf vcpu_id (vcpus s) \<and> plic_wf (vm_plic s)
     \<and> (\<forall>k v. get_vcpu (vcpus s) k = Ok v \<longrightarrow> vcpu_wf v)"

lemma vm_wf_vcpu: "vm_wf s \<Longrightarrow> get_vcpu (vcpus s) k = Ok v \<Longrightarrow> vcpu_wf v \<and> vcpu_id v = k"
  using vcpus_wf_get by (auto simp: vm_wf_def)

lemma vm_wf_put:
  assumes "vm_wf s" and "get_vcpu (vcpus s) k = Ok u" and "vcpu_wf v" and "vcpu_id v = k"
  shows "vm_wf (s\<lparr>vcpus := put_vcpu (vcpus s) k v\<rparr>)"
  using assms by (auto simp: vm_wf_def vcpus_wf_put get_vcpu_put split: if_splits)

lemma vm_wf_other [simp]:
  "vm_wf (s\<lparr>gpt := g\<rparr>) = vm_wf s" "vm_wf (s\<lparr>gdbstub := d\<rparr>) = vm_wf s"
  "vm_wf (s\<lparr>breakpoints := b\<rparr>) = vm_wf s"
  by (simp_all add: vm_wf_def)

lemma write_regs_loop_wf:
  "gprs_wf g \<Longrightarrow> write_regs_loop is x g = Ok g' \<Longrightarrow> gprs_wf g'"
  by (induction "is" arbitrary: g) (auto simp: obind_eq_Ok)

text \<open>
  What a debugger leaves alone: the interrupt controller, every vCPU but the current
  one, and whether there is a current one.
\<close>

definition debugger_keeps :: "('g, 'i) VM \<Rightarrow> ('g, 'i) VM \<Rightarrow> bool" where
  "debugger_keeps s s' \<longleftrightarrow> vm_plic s' = vm_plic s
     \<and> (\<forall>k. k \<noteq> 0 \<longrightarrow> get_vcpu (vcpus s') k = get_vcpu (vcpus s) k)
     \<and> ((\<exists>v. get_vcpu (vcpus s') 0 = Ok v) \<longleftrightarrow> (\<exists>v. get_vcpu (vcpus s) 0 = Ok v))"

lemma debugger_keeps_refl [simp]: "debugger_keeps s s"
  by (simp add: debugger_keeps_def)

lemma debugger_keeps_trans: "debugger_keeps s s' \<Longrightarrow> debugger_keeps s' s'' \<Longrightarrow> debugger_keeps s s''"
  by (simp add: debugger_keeps_def)

lemma debugger_keeps_other [simp]:
  "debugger_keeps s (s'\<lparr>gdbstub := d\<rparr>) = debugger_keeps s s'"
  "debugger_keeps (s\<lparr>gdbstub := d\<rparr>) s' = debugger_keeps s s'"
  "debugger_keeps s (s'\<lparr>gpt := g\<rparr>) = debugger_keeps s s'"
  "debugger_keeps s (s'\<lparr>breakpoints := b\<rparr>) = debugger_keeps s s'"
  by (simp_all add: debugger_keeps_def)

lemma target_step_wf:
  assumes "target_step ops s s'" and "vm_wf s"
  shows "vm_wf s' \<and> gdbstub s' = gdbstub s \<and> debugger_keeps s s'"
  using assms(1)
proof cases
  case (write_registers r)
  then obtain v g where v: "get_vcpu (vcpus s) 0 = Ok v"
    and g: "write_regs_loop [0..<32] (core_x r) GeneralPurposeRegisters_default = Ok g"
    and s': "\<exists>v'. restore_gprs v g = Ok v' \<and> s' = set_current_vcpu s (set_pc v' (as_usize (core_pc r)))"
    by (auto simp: write_registers_def get_current_vcpu_def obind_eq_Ok simp del: upt_rec_numeral)
  have "gprs_wf g" by (rule write_regs_loop_wf [OF _ g]) simp
  moreover have "vcpu_wf v" "vcpu_id v = 0" using vm_wf_vcpu [OF assms(2) v] by simp_all
  ultimately have "s' = set_current_vcpu s (set_pc (set_vcpu_gprs v g) (as_usize (core_pc r)))"
    "vcpu_wf (set_pc (set_vcpu_gprs v g) (as_usize (core_pc r)))"
    using s' by (auto simp: restore_gprs_Ok)
  with v \<open>vcpu_id v = 0\<close> show ?thesis
    using vm_wf_put [OF assms(2) v] by (auto simp: set_current_vcpu_def get_vcpu_put debugger_keeps_def)
next
  case (write_addrs a d r)
  then show ?thesis
    using assms(2) by (auto simp: write_addrs_def split: target_result.splits prod.splits)
next
  case (add_sw_breakpoint a r)
  then show ?thesis
    using assms(2)
    by (auto simp: add_sw_breakpoint_def split: target_result.splits prod.splits option.splits outcome.splits)
next
  case (remove_sw_breakpoint a r)
  then show ?thesis
    using assms(2) by (auto simp: remove_sw_breakpoint_def Let_def split: prod.splits option.splits)
qed

lemma target_steps_wf:
  assumes "target_steps ops s s'" and "vm_wf s"
  shows "vm_wf s' \<and> gdbstub s' = gdbstub s \<and> debugger_keeps s s'"
  using assms
  by (induction rule: rtranclp_induct) (auto dest: target_step_wf intro: debugger_keeps_trans)

section \<open>The loop keeps the invariant\<close>

lemma gdb_feed_wf:
  assumes "gdb_ok ops go" and "vm_wf s" and "gdb_feed go n gdb s = Some (r, s')"
  shows "vm_wf s' \<and> debugger_keeps s s'"
proof -
  have "vm_wf (snd (incoming_data go i u b)) \<and> debugger_keeps s (snd (incoming_data go i u b))"
    if "vm_wf u \<and> debugger_keeps s u" for i u b
    using assms(1) that target_steps_wf debugger_keeps_trans unfolding gdb_ok_def by blast
  from gdb_feed_inv [of "\<lambda>u. vm_wf u \<and> debugger_keeps s u", OF this assms(3)] assms(2)
  show ?thesis by simp
qed

lemma gdbserver_loop_wf:
  assumes "gdb_ok ops go" and "vm_wf s" and "gdbserver_loop go s = Some (r, s')"
  shows "vm_wf s' \<and> debugger_keeps s s'"
proof (cases "gdbstub s")
  case None
  with assms show ?thesis by (simp add: gdbserver_loop_def)
next
  case (Some gdb)
  then obtain r1 s1 where loop: "gdb_loop go gdb (s\<lparr>gdbstub := None\<rparr>) = Some (r1, s1)"
    using assms(3) by (auto simp: gdbserver_loop_def)
  then obtain n where "gdb_feed go n gdb (s\<lparr>gdbstub := None\<rparr>) = Some (r1, s1)"
    using gdb_loop_feed [OF loop] by blast
  from gdb_feed_wf [OF assms(1) _ this] assms(2)
  have "vm_wf s1 \<and> debugger_keeps s s1" by simp
  moreover have "s' = s1 \<or> (\<exists>d. s' = s1\<lparr>gdbstub := d\<rparr>)"
    using assms(3) Some loop by (auto simp: gdbserver_loop_def split: outcome.splits)
  ultimately show ?thesis by auto
qed

lemma gdbserver_report_wf:
  assumes "gdb_ok ops go" and "vm_wf s" and "gdbserver_report go s = Some (r, s')"
  shows "vm_wf s' \<and> debugger_keeps s s'"
proof (cases "gdbstub s")
  case None
  with assms show ?thesis by (simp add: gdbserver_report_def)
next
  case (Some gdb)
  show ?thesis
  proof (cases "\<exists>i. gdb = StubRunning i")
    case True
    then obtain i where i: "gdb = StubRunning i" by blast
    obtain x s1 where rep: "report_stop go i (s\<lparr>gdbstub := None\<rparr>) = (x, s1)" by fastforce
    have "target_steps ops (s\<lparr>gdbstub := None\<rparr>) s1"
      using assms(1) rep unfolding gdb_ok_def by (metis snd_conv)
    from target_steps_wf [OF this] assms(2)
    have s1: "vm_wf s1 \<and> debugger_keeps s s1" by simp
    then show ?thesis
      using assms(3) Some i rep gdbserver_loop_wf [OF assms(1), of "s1\<lparr>gdbstub := x\<rparr>" r s']
      by (cases x) (auto simp: gdbserver_report_def intro: debugger_keeps_trans)
  next
    case False
    then have "gdbserver_loop go (s\<lparr>gdbstub := Some gdb\<rparr>) = Some (r, s')"
      using assms(3) Some by (cases gdb) (auto simp: gdbserver_report_def)
    from gdbserver_loop_wf [OF assms(1) _ this] assms(2) show ?thesis by simp
  qed
qed

section \<open>Memory and breakpoints\<close>

lemma add_sw_breakpoint_Ok:
  assumes "add_sw_breakpoint ops s a = (TOk True, s')"
  obtains addr inst g where "read_guest_phys_addrs ops (gpt s) addr 2 = Ok inst"
    and "write_guest_phys_addrs ops (gpt s) addr ebreak = (Ok (), g)"
    and "s' = s\<lparr>gpt := g, breakpoints := (breakpoints s)(as_usize a \<mapsto> (addr, inst))\<rparr>"
  using assms
  by (auto simp: add_sw_breakpoint_def split: target_result.splits option.splits outcome.splits prod.splits)

lemma length_ebreak [simp]: "length ebreak = 2"
  by (simp add: ebreak_def)

definition sample_vcpu :: VCpu where
  "sample_vcpu = \<lparr>vcpu_id = 0, vcpu_regs = VmCpuRegisters_default\<rparr>"

definition sample_vm :: "((usize \<rightharpoonup> u8), unit) VM" where
  "sample_vm = \<lparr>vcpus = snd (add_vcpu vcpu_id VmCpus_new sample_vcpu),
     gpt = [0x80200000 \<mapsto> 0x13, 0x80200001 \<mapsto> 5], vm_plic = PlicState_new 0x0c000000,
     gdbstub = None, breakpoints = Map.empty\<rparr>"

lemma sample_vcpu_wf: "vcpu_wf sample_vcpu"
  by (simp add: vcpu_wf_def area_wf_def vcpu_gprs_def sample_vcpu_def VmCpuRegisters_default_def
      gprs_wfD(1))

lemma sample_vm_vcpu:
  "get_vcpu (vcpus sample_vm) k = (if k = 0 then Ok sample_vcpu else Err NotFound)"
  using vmcpus.get_add [OF vmcpus.wf_new, of vcpu_id sample_vcpu k]
  by (simp add: sample_vm_def get_vcpu_new VM_CPUS_MAX_def MAX_CPUS_def sample_vcpu_def)

lemma sample_vm_wf: "vm_wf sample_vm"
proof -
  have "vcpus_wf vcpu_id (vcpus sample_vm)"
    by (simp add: sample_vm_def vcpus_wf_add vcpus_wf_new)
  moreover have "plic_wf (vm_plic sample_vm)" by (simp add: sample_vm_def)
  ultimately show ?thesis
    using sample_vcpu_wf by (auto simp: vm_wf_def sample_vm_vcpu split: if_splits)
qed

lemma map_gpt_add:
  assumes "get_vcpu (vcpus s) 0 = Ok v" and "get_page_table_root v = 0"
    and "gpt s a \<noteq> None" and "gpt s (a + 1) \<noteq> None"
  shows "\<exists>s1. add_sw_breakpoint map_gpt s a = (TOk True, s1) \<and> vcpus s1 = vcpus s
    \<and> gpt s1 a \<noteq> None \<and> gpt s1 (a + 1) \<noteq> None"
proof -
  have "range_addrs a 2 = [a, a + 1]" by (simp add: range_addrs_def numeral_2_eq_2)
  with assms show ?thesis
    by (simp add: add_sw_breakpoint_def get_current_vcpu_def map_gpt_def)
qed

lemma sample_vm_facts:
  "get_page_table_root sample_vcpu = 0" "gpt sample_vm 0x80200000 = Some 0x13"
  "gpt sample_vm (0x80200000 + 1) = Some 5" "breakpoints sample_vm = Map.empty"
  by (simp_all add: get_page_table_root_def sample_vcpu_def VmCpuRegisters_default_def sample_vm_def)

lemma sample_vm_add:
  "\<exists>s1. add_sw_breakpoint map_gpt sample_vm 0x80200000 = (TOk True, s1) \<and> vcpus s1 = vcpus sample_vm
    \<and> gpt s1 0x80200000 \<noteq> None \<and> gpt s1 (0x80200000 + 1) \<noteq> None"
  using map_gpt_add [of sample_vm sample_vcpu "0x80200000"] sample_vm_facts by (simp add: sample_vm_vcpu)

text \<open>
  Claim C30. Setting a breakpoint at an address that has none writes the two bytes of
  \<open>c.ebreak\<close> there and nothing else, and removing it again succeeds and gives back
  every byte of guest memory and the table of breakpoints as they were.
\<close>

theorem sw_breakpoint_roundtrip:
  assumes "gpt_ok ops bytes" and "breakpoints s (as_usize a) = None"
    and "add_sw_breakpoint ops s a = (TOk True, s1)"
  shows "\<exists>addr inst s2. breakpoints s1 = (breakpoints s)(as_usize a \<mapsto> (addr, inst))
    \<and> (\<forall>x. bytes (gpt s1) x =
         (if unat (x - addr) < 2 then Some (ebreak ! unat (x - addr)) else bytes (gpt s) x))
    \<and> remove_sw_breakpoint ops s1 a = (TOk True, s2)
    \<and> bytes (gpt s2) = bytes (gpt s) \<and> breakpoints s2 = breakpoints s
    \<and> vcpus s2 = vcpus s \<and> vm_plic s2 = vm_plic s"
proof -
  obtain addr inst g where rd: "read_guest_phys_addrs ops (gpt s) addr 2 = Ok inst"
    and wr: "write_guest_phys_addrs ops (gpt s) addr ebreak = (Ok (), g)"
    and s1: "s1 = s\<lparr>gpt := g, breakpoints := (breakpoints s)(as_usize a \<mapsto> (addr, inst))\<rparr>"
    using assms(3) by (rule add_sw_breakpoint_Ok)
  have len: "length inst = 2" using gpt_read(1) [OF assms(1) rd] by simp
  have inst: "bytes (gpt s) (addr + of_nat i) = Some (inst ! i)" if "i < 2" for i
    using gpt_read(2) [OF assms(1) rd] that by simp
  note b1 = gpt_write(1) [OF assms(1) wr, unfolded length_ebreak]
  have "bytes g x \<noteq> None" if "x \<in> set (range_addrs addr (length inst))" for x
    using gpt_write(2) [OF assms(1) wr, of x] that b1 [of x] by (auto simp: len)
  then obtain g2 where wr2: "write_guest_phys_addrs ops g addr inst = (Ok (), g2)"
    using gpt_write_succeeds [OF assms(1)] by blast
  have "bytes g2 x = bytes (gpt s) x" for x
    using gpt_write(1) [OF assms(1) wr2, of x] b1 [of x] inst [of "unat (x - addr)"]
      range_addrs_offset(2) [of x addr 2] by (auto simp: len)
  then have "bytes g2 = bytes (gpt s)" by (rule ext)
  moreover have "remove_sw_breakpoint ops s1 a =
      (TOk True, s1\<lparr>breakpoints := (breakpoints s1)(as_usize a := None), gpt := g2\<rparr>)"
    using wr2 by (simp add: remove_sw_breakpoint_def s1 Let_def)
  moreover have "(breakpoints s)(as_usize a := None) = breakpoints s"
    using assms(2) by (auto simp: fun_eq_iff)
  ultimately show ?thesis using b1 by (auto simp: s1)
qed

theorem sw_breakpoint_roundtrip_witness:
  "\<exists>s1 s2. add_sw_breakpoint map_gpt sample_vm 0x80200000 = (TOk True, s1)
    \<and> remove_sw_breakpoint map_gpt s1 0x80200000 = (TOk True, s2)
    \<and> gpt s2 = [0x80200000 \<mapsto> 0x13, 0x80200001 \<mapsto> 5]"
proof -
  obtain s1 where add: "add_sw_breakpoint map_gpt sample_vm 0x80200000 = (TOk True, s1)"
    using sample_vm_add by blast
  have "breakpoints sample_vm (as_usize (0x80200000 :: u64)) = None" by (simp add: sample_vm_def)
  from sw_breakpoint_roundtrip [OF map_gpt_ok this add] add show ?thesis
    by (auto simp: sample_vm_def)
qed

text \<open>
  Setting a breakpoint twice at the same address loses the original
  instruction: the second call saves the bytes of \<open>c.ebreak\<close> as the original ones,
  so removing the breakpoint reports success, forgets it, and leaves \<open>c.ebreak\<close>
  in guest memory. Stated for a guest that runs without a page table.
\<close>

theorem sw_breakpoint_added_twice:
  assumes "gpt_ok ops bytes" and "get_vcpu (vcpus s) 0 = Ok v" and "get_page_table_root v = 0"
    and "add_sw_breakpoint ops s a = (TOk True, s1)"
    and "add_sw_breakpoint ops s1 a = (TOk True, s2)"
    and "remove_sw_breakpoint ops s2 a = (r, s3)"
  shows "r = TOk True \<and> breakpoints s3 (as_usize a) = None
    \<and> bytes (gpt s3) (as_usize a) = Some 2 \<and> bytes (gpt s3) (as_usize a + 1) = Some 144"
proof -
  have cur: "get_current_vcpu s = Ok v" using assms(2) by (simp add: get_current_vcpu_def)
  have one: "\<exists>inst g. read_guest_phys_addrs ops (gpt t) (as_usize a) 2 = Ok inst
      \<and> write_guest_phys_addrs ops (gpt t) (as_usize a) ebreak = (Ok (), g)
      \<and> t' = t\<lparr>gpt := g, breakpoints := (breakpoints t)(as_usize a \<mapsto> (as_usize a, inst))\<rparr>"
    if "add_sw_breakpoint ops t a = (TOk True, t')" and "get_current_vcpu t = Ok v" for t t'
    using that assms(3)
    by (auto simp: add_sw_breakpoint_def split: target_result.splits option.splits outcome.splits prod.splits)
  obtain inst1 g1 where w1: "write_guest_phys_addrs ops (gpt s) (as_usize a) ebreak = (Ok (), g1)"
    and s1: "s1 = s\<lparr>gpt := g1, breakpoints := (breakpoints s)(as_usize a \<mapsto> (as_usize a, inst1))\<rparr>"
    using one [OF assms(4) cur] by blast
  have "get_current_vcpu s1 = Ok v" using cur by (simp add: s1 get_current_vcpu_def)
  from one [OF assms(5) this] obtain inst2 g2
    where r2: "read_guest_phys_addrs ops g1 (as_usize a) 2 = Ok inst2"
    and w2: "write_guest_phys_addrs ops g1 (as_usize a) ebreak = (Ok (), g2)"
    and s2: "s2 = s1\<lparr>gpt := g2, breakpoints := (breakpoints s1)(as_usize a \<mapsto> (as_usize a, inst2))\<rparr>"
    by (auto simp: s1)
  have len2: "length inst2 = 2" using gpt_read(1) [OF assms(1) r2] by simp
  have at: "unat (as_usize a + 1 - as_usize a) = 1" by simp
  have "inst2 ! 0 = 2 \<and> inst2 ! 1 = 144"
    using gpt_read(2) [OF assms(1) r2, of 0] gpt_read(2) [OF assms(1) r2, of 1]
      gpt_write(1) [OF assms(1) w1, of "as_usize a"] gpt_write(1) [OF assms(1) w1, of "as_usize a + 1"]
    by (simp add: ebreak_def)
  moreover have "bytes g2 x \<noteq> None" if "x \<in> set (range_addrs (as_usize a) (length inst2))" for x
    using gpt_write(2) [OF assms(1) w2, of x] gpt_write(1) [OF assms(1) w2, of x] that
    by (simp add: len2)
  then obtain g3 where w3: "write_guest_phys_addrs ops g2 (as_usize a) inst2 = (Ok (), g3)"
    using gpt_write_succeeds [OF assms(1)] by blast
  moreover have "r = TOk True" "gpt s3 = g3" "breakpoints s3 (as_usize a) = None"
    using assms(6) w3 by (auto simp: remove_sw_breakpoint_def s2 Let_def)
  ultimately show ?thesis
    using gpt_write(1) [OF assms(1) w3, of "as_usize a"] gpt_write(1) [OF assms(1) w3, of "as_usize a + 1"]
    by (simp add: len2)
qed

theorem sw_breakpoint_added_twice_witness:
  "\<exists>s1 s2 s3. add_sw_breakpoint map_gpt sample_vm 0x80200000 = (TOk True, s1)
    \<and> add_sw_breakpoint map_gpt s1 0x80200000 = (TOk True, s2)
    \<and> remove_sw_breakpoint map_gpt s2 0x80200000 = (TOk True, s3)
    \<and> gpt s3 0x80200000 = Some 2 \<and> gpt sample_vm 0x80200000 = Some 0x13"
proof -
  obtain s1 where add: "add_sw_breakpoint map_gpt sample_vm 0x80200000 = (TOk True, s1)"
    and s1: "vcpus s1 = vcpus sample_vm" "gpt s1 0x80200000 \<noteq> None" "gpt s1 (0x80200000 + 1) \<noteq> None"
    using sample_vm_add by blast
  obtain s2 where add2: "add_sw_breakpoint map_gpt s1 0x80200000 = (TOk True, s2)"
    using map_gpt_add [OF _ sample_vm_facts(1) s1(2,3)] by (auto simp: s1(1) sample_vm_vcpu)
  obtain r s3 where rm: "remove_sw_breakpoint map_gpt s2 0x80200000 = (r, s3)" by fastforce
  have cpu: "get_vcpu (vcpus sample_vm) 0 = Ok sample_vcpu" by (simp add: sample_vm_vcpu)
  from sw_breakpoint_added_twice [OF map_gpt_ok cpu sample_vm_facts(1) add add2 rm] add add2 rm
  show ?thesis by (auto simp: sample_vm_facts)
qed

section \<open>Registers\<close>

lemma write_regs_loop_reg:
  assumes "length g = 32" and "\<forall>i \<in> set is. i < 32 \<and> i < length x"
  shows "\<exists>g'. write_regs_loop is x g = Ok g' \<and> length g' = 32
    \<and> (\<forall>r. reg g' r = (if gpr_index r \<in> set is \<and> r \<noteq> Zero then x ! gpr_index r else reg g r))"
  using assms
proof (induction "is" arbitrary: g)
  case (Cons i "is")
  then have "unat (of_nat i :: u32) = i" by (simp add: unat_of_nat)
  with Cons.prems obtain r where r: "from_raw (of_nat i) = Some r" and i: "gpr_index r = i"
    using from_raw_total [of "of_nat i"] from_raw_sound by fastforce
  with Cons.prems Cons.IH [of "set_reg g r (x ! i)"] show ?case
    by (auto simp: reg_set_reg)
qed simp

lemma read_regs_loop_nth:
  assumes "\<forall>i \<in> set is. i < 32 \<and> i < length x"
  shows "\<exists>x'. read_regs_loop is g x = Ok x' \<and> length x' = length x
    \<and> (\<forall>i < length x. x' ! i = (if i \<in> set is then g ! i else x ! i))"
  using assms
proof (induction "is" arbitrary: x)
  case (Cons i "is")
  then have "unat (of_nat i :: u32) = i" by (simp add: unat_of_nat)
  with Cons.prems obtain r where "from_raw (of_nat i) = Some r" and "gpr_index r = i"
    using from_raw_total [of "of_nat i"] from_raw_sound by fastforce
  with Cons.prems Cons.IH [of "x[i := reg g r]"] show ?case
    by (auto simp: nth_list_update reg_def)
qed simp

text \<open>
  The debugger's register access: after it has written a register set, it
  reads back the same program counter and the same 32 registers, except that the
  zero register reads as zero.
\<close>

theorem registers_roundtrip:
  assumes "vm_wf s" and "get_vcpu (vcpus s) 0 = Ok v" and "length (core_x r) = 32"
    and "length (core_x r0) = 32"
  shows "\<exists>s'. write_registers s r = Ok s' \<and> vm_wf s'
    \<and> read_registers s' r0 = Ok (r\<lparr>core_x := (core_x r)[0 := 0]\<rparr>)"
proof -
  have upt: "\<forall>i \<in> set [0..<32]. i < 32 \<and> i < length (core_x q)" if "length (core_x q) = 32" for q :: RiscvCoreRegs
    using that by simp
  obtain g where g: "write_regs_loop [0..<32] (core_x r) GeneralPurposeRegisters_default = Ok g"
    and len: "length g = 32"
    and regs: "\<forall>i. reg g i = (if gpr_index i \<in> set [0..<32] \<and> i \<noteq> Zero then core_x r ! gpr_index i
        else reg GeneralPurposeRegisters_default i)"
    using write_regs_loop_reg [OF _ upt [OF assms(3)], of GeneralPurposeRegisters_default]
      gprs_wfD(1) [OF gprs_wf_default] by blast
  have gwf: "gprs_wf g" by (rule write_regs_loop_wf [OF gprs_wf_default g])
  have v: "vcpu_wf v" "vcpu_id v = 0" using vm_wf_vcpu [OF assms(1,2)] by simp_all
  define v' where "v' = set_pc (set_vcpu_gprs v g) (as_usize (core_pc r))"
  have v': "vcpu_wf v'" "vcpu_id v' = 0" "vcpu_gprs v' = g" "get_pc v' = core_pc r"
    using v gwf by (auto simp: v'_def)
  have wr: "write_registers s r = Ok (set_current_vcpu s v')"
    using assms(2) v(1) gwf by (simp add: write_registers_def get_current_vcpu_def g restore_gprs_Ok v'_def
        del: upt_rec_numeral)
  have g_eq: "g = (core_x r)[0 := 0]"
    using len assms(3) regs by (intro gprs_eqI) (auto simp: reg_def nth_list_update
        GeneralPurposeRegisters_default_def)
  obtain x where x: "read_regs_loop [0..<32] g (core_x r0) = Ok x" and "length x = 32"
    and "\<forall>i < 32. x ! i = g ! i"
    using read_regs_loop_nth [OF upt [OF assms(4)], of g] assms(4) by auto
  then have "x = g" using len by (auto intro: nth_equalityI)
  then have "read_registers (set_current_vcpu s v') r0 = Ok (r\<lparr>core_x := (core_x r)[0 := 0]\<rparr>)"
    using assms(2) v' x g_eq
    by (simp add: read_registers_def get_current_vcpu_def set_current_vcpu_def get_vcpu_put save_gprs_Ok
        del: upt_rec_numeral)
  moreover have "vm_wf (set_current_vcpu s v')"
    unfolding set_current_vcpu_def by (rule vm_wf_put [OF assms(1,2) v'(1,2)])
  ultimately show ?thesis using wr by blast
qed

theorem registers_roundtrip_witness:
  "\<exists>s'. write_registers sample_vm \<lparr>core_x = replicate 32 9, core_pc = 0x80200010\<rparr> = Ok s'
    \<and> read_registers s' \<lparr>core_x = replicate 32 0, core_pc = 0\<rparr> =
        Ok \<lparr>core_x = (replicate 32 9)[0 := 0], core_pc = 0x80200010\<rparr>"
proof -
  have cpu: "get_vcpu (vcpus sample_vm) 0 = Ok sample_vcpu" by (simp add: sample_vm_vcpu)
  have len: "length (core_x \<lparr>core_x = replicate 32 (9 :: u64), core_pc = 0x80200010\<rparr>) = 32"
    "length (core_x \<lparr>core_x = replicate 32 (0 :: u64), core_pc = 0\<rparr>) = 32" by simp_all
  from registers_roundtrip [OF sample_vm_wf cpu len] show ?thesis by fastforce
qed


lemma sample_stub_ok: "gdb_ok ops sample_stub"
  by (simp add: gdb_ok_def sample_stub_def)


end
