(* ===== verification/Riscv_Vm.thy ===== *)
theory Riscv_Vm
  imports Riscv_Gdb
begin

text \<open>
  \<open>src/src/arch/riscv/vm.rs\<close>: creating a VM, handling the exits of a vCPU and the
  run loop. One pass through the body of the loop is the function \<open>run_iter\<close>; the
  loop itself never returns, so its behaviour is the relation \<open>vm_step\<close> between the
  states at the head of the loop. The firmware (crate \<open>sbi_rt\<close>), the instruction
  decoder (crate \<open>riscv_decode\<close>), the guest and the devices are parameters.
\<close>

section \<open>Parameters\<close>

text \<open>The calls into the firmware, over its state \<open>'f\<close>. A pair is error and value.\<close>

record 'f sbi_rt =
  console_getchar :: "'f \<Rightarrow> usize \<times> 'f"
  console_putchar :: "usize \<Rightarrow> 'f \<Rightarrow> 'f"
  set_timer :: "u64 \<Rightarrow> 'f \<Rightarrow> 'f"
  system_reset :: "ResetType \<Rightarrow> ResetReason \<Rightarrow> 'f \<Rightarrow> 'f"
  spec_version_major :: "'f \<Rightarrow> usize"
  spec_version_minor :: "'f \<Rightarrow> usize"
  get_sbi_impl_id :: "'f \<Rightarrow> usize"
  get_sbi_impl_version :: "'f \<Rightarrow> usize"
  probe_extension :: "usize \<Rightarrow> 'f \<Rightarrow> usize"
  get_mvendorid :: "'f \<Rightarrow> usize"
  get_marchid :: "'f \<Rightarrow> usize"
  get_mimpid :: "'f \<Rightarrow> usize"
  pmu_num_counters :: "'f \<Rightarrow> usize"
  pmu_counter_get_info :: "usize \<Rightarrow> 'f \<Rightarrow> (usize \<times> usize) \<times> 'f"
  pmu_counter_stop :: "usize \<Rightarrow> usize \<Rightarrow> usize \<Rightarrow> 'f \<Rightarrow> (usize \<times> usize) \<times> 'f"
  remote_fence_i :: "usize \<Rightarrow> usize \<Rightarrow> 'f \<Rightarrow> (usize \<times> usize) \<times> 'f"
  remote_sfence_vma :: "usize \<Rightarrow> usize \<Rightarrow> usize \<Rightarrow> usize \<Rightarrow> 'f \<Rightarrow> (usize \<times> usize) \<times> 'f"

text \<open>The two instructions that the decoder is asked for, with \<open>rs2\<close> and \<open>rd\<close>.\<close>

datatype Instruction = Sw u32 | Lw u32 | OtherInstruction

record ('g, 'i, 'w, 'f) env =
  e_crates :: riscv_crates
  e_spec :: sbi_spec
  e_rt :: "'f sbi_rt"
  e_gpt :: "'g gpt_ops"
  e_gdb :: "(('g, 'i) VM, 'i) gdb_ops"
  e_guest :: "'w hart \<Rightarrow> 'w hart"
  e_exit_label :: usize
  e_area :: "usize \<Rightarrow> usize"
  e_read_volatile :: "usize \<Rightarrow> 'w \<Rightarrow> u32 \<times> 'w"
  e_hlvx :: "'w hart \<Rightarrow> usize \<rightharpoonup> u16"
  instruction_length :: "u16 \<Rightarrow> usize"
  decode :: "u32 \<Rightarrow> Instruction option"

record ('g, 'i, 'w, 'f) machine =
  m_vm :: "('g, 'i) VM"
  m_hart :: "'w hart"
  m_fw :: 'f

section \<open>Creating a VM\<close>

definition VM_new :: "'g gpt_ops \<Rightarrow> VCpu VmCpus \<Rightarrow> 'g \<Rightarrow> ('g, 'i) VM outcome" where
  "VM_new ops cpus g = Ok \<lparr>vcpus = cpus, gpt = g,
     vm_plic = PlicState_new (phys_to_virt ops 0x0c000000),
     gdbstub = None, breakpoints = Map.empty\<rparr>"

definition init_vcpu :: "'g gpt_ops \<Rightarrow> ('g, 'i) VM \<Rightarrow> usize \<Rightarrow> riscv_hw \<Rightarrow>
    (('g, 'i) VM \<times> riscv_hw) outcome" where
  "init_vcpu ops self vid hw =
     obind (unwrap (get_vcpu (vcpus self) vid)) (\<lambda>vcpu.
       case init_page_map vcpu (token ops (gpt self)) hw of
         (vcpu, hw) \<Rightarrow> Ok (self\<lparr>vcpus := put_vcpu (vcpus self) vid vcpu\<rparr>, hw))"

section \<open>SBI calls\<close>

definition handle_base_function :: "'f sbi_rt \<Rightarrow> BaseFunction \<Rightarrow> GeneralPurposeRegisters \<Rightarrow> 'f \<Rightarrow>
    GeneralPurposeRegisters outcome \<times> 'f" where
  "handle_base_function rt bf gprs fw =
     (let gprs = (case bf of
          GetSepcificationVersion \<Rightarrow>
            set_reg gprs A1 (shl (spec_version_major rt fw) 24 OR spec_version_minor rt fw)
        | GetImplementationID \<Rightarrow> set_reg gprs A1 (get_sbi_impl_id rt fw)
        | GetImplementationVersion \<Rightarrow> set_reg gprs A1 (get_sbi_impl_version rt fw)
        | ProbeSbiExtension e \<Rightarrow> set_reg gprs A1 (probe_extension rt (as_usize e) fw)
        | GetMachineVendorID \<Rightarrow> set_reg gprs A1 (get_mvendorid rt fw)
        | GetMachineArchitectureID \<Rightarrow> set_reg gprs A1 (get_marchid rt fw)
        | GetMachineImplementationID \<Rightarrow> set_reg gprs A1 (get_mimpid rt fw))
      in (Ok (set_reg gprs A0 0), fw))"

text \<open>Writing an error/value pair of the firmware to \<open>a0\<close> and \<open>a1\<close>.\<close>

definition set_sbi_ret :: "GeneralPurposeRegisters \<Rightarrow> usize \<times> usize \<Rightarrow> GeneralPurposeRegisters" where
  "set_sbi_ret gprs sbi_ret = set_reg (set_reg gprs A0 (fst sbi_ret)) A1 (snd sbi_ret)"

definition handle_pmu_function :: "'f sbi_rt \<Rightarrow> PmuFunction \<Rightarrow> GeneralPurposeRegisters \<Rightarrow> 'f \<Rightarrow>
    GeneralPurposeRegisters outcome \<times> 'f" where
  "handle_pmu_function rt pmu gprs fw =
     (let gprs = set_reg gprs A0 0 in
      case pmu of
        GetNumCounters \<Rightarrow> (Ok (set_reg gprs A1 (pmu_num_counters rt fw)), fw)
      | GetCounterInfo counter_index \<Rightarrow>
          (case pmu_counter_get_info rt (as_usize counter_index) fw of
             (sbi_ret, fw) \<Rightarrow> (Ok (set_sbi_ret gprs sbi_ret), fw))
      | StopCounter counter_index counter_mask stop_flags \<Rightarrow>
          (case pmu_counter_stop rt (as_usize counter_index) (as_usize counter_mask)
                  (as_usize stop_flags) fw of
             (sbi_ret, fw) \<Rightarrow> (Ok (set_sbi_ret gprs sbi_ret), fw)))"

definition handle_rfnc_function :: "'f sbi_rt \<Rightarrow> RemoteFenceFunction \<Rightarrow> GeneralPurposeRegisters \<Rightarrow> 'f \<Rightarrow>
    GeneralPurposeRegisters outcome \<times> 'f" where
  "handle_rfnc_function rt rfnc gprs fw =
     (let gprs = set_reg gprs A0 0 in
      case rfnc of
        FenceI hart_mask hart_mask_base \<Rightarrow>
          (case remote_fence_i rt (as_usize hart_mask) (as_usize hart_mask_base) fw of
             (sbi_ret, fw) \<Rightarrow> (Ok (set_sbi_ret gprs sbi_ret), fw))
      | RemoteSFenceVMA hart_mask hart_mask_base start_addr sz \<Rightarrow>
          (case remote_sfence_vma rt (as_usize hart_mask) (as_usize hart_mask_base)
                  (as_usize start_addr) (as_usize sz) fw of
             (sbi_ret, fw) \<Rightarrow> (Ok (set_sbi_ret gprs sbi_ret), fw)))"

text \<open>Running a firmware call, and changing the CSRs, inside the machine.\<close>

definition on_fw :: "('f \<Rightarrow> 'a outcome \<times> 'f) \<Rightarrow> (('g, 'i, 'w, 'f) machine, 'a) hm" where
  "on_fw k m = (case k (m_fw m) of (r, fw) \<Rightarrow> (r, m\<lparr>m_fw := fw\<rparr>))"

definition on_hw :: "(riscv_hw \<Rightarrow> riscv_hw) \<Rightarrow> (('g, 'i, 'w, 'f) machine, unit) hm" where
  "on_hw k = hmod (\<lambda>m. m\<lparr>m_hart := (m_hart m)\<lparr>hart_hw := k (hart_hw (m_hart m))\<rparr>\<rparr>)"

text \<open>The arm \<open>VmExitInfo::Ecall(Some(msg))\<close> of the loop.\<close>

definition handle_ecall :: "'f sbi_rt \<Rightarrow> SbiMessage \<Rightarrow> GeneralPurposeRegisters \<Rightarrow>
    (('g, 'i, 'w, 'f) machine, GeneralPurposeRegisters) hm" where
  "handle_ecall rt msg gprs =
     (case msg of
        Base bf \<Rightarrow> hunwrap (on_fw (handle_base_function rt bf gprs))
      | GetChar \<Rightarrow> on_fw (\<lambda>fw. case console_getchar rt fw of (c, fw) \<Rightarrow> (Ok (set_reg gprs A1 c), fw))
      | PutChar c \<Rightarrow> on_fw (\<lambda>fw. (Ok gprs, console_putchar rt c fw))
      | SetTimer timer \<Rightarrow>
          hseq (on_fw (\<lambda>fw. (Ok (), set_timer rt (as_u64 timer) fw)))
          (hseq (on_hw (\<lambda>hw. snd (read_and_clear_bits (hvip CSR) VIRTUAL_SUPERVISOR_TIMER hw)))
          (hseq (on_hw (\<lambda>hw. snd (read_and_set_bits (sie CSR) SUPERVISOR_TIMER hw)))
          (hret gprs)))
      | ResetMsg _ \<Rightarrow> on_fw (\<lambda>fw. (Ok gprs, system_reset rt Shutdown SystemFailure fw))
      | RemoteFence rfnc \<Rightarrow> hunwrap (on_fw (handle_rfnc_function rt rfnc gprs))
      | PMU pmu \<Rightarrow> hunwrap (on_fw (handle_pmu_function rt pmu gprs))
      | DebugConsole _ \<Rightarrow> hpanic Todo)"

section \<open>Device emulation\<close>

text \<open>
  The state that \<open>handle_plic\<close> works on: registers, controller and CSRs. Its errors
  are returned before it changes anything. \<open>emulate_plic\<close> is the \<open>match\<close> on the
  decoded instruction.
\<close>

definition emulate_plic :: "PlicState \<Rightarrow> riscv_hw \<Rightarrow> usize \<Rightarrow> GuestPhysAddr \<Rightarrow>
    GeneralPurposeRegisters \<Rightarrow> Instruction \<Rightarrow>
    (usize \<times> GeneralPurposeRegisters \<times> PlicState \<times> riscv_hw) outcome" where
  "emulate_plic plic hw len fault_addr gprs decode_inst =
     (case decode_inst of
        Sw rs2 \<Rightarrow>
          obind (unwrap_option (from_raw rs2)) (\<lambda>r.
            obind (write_u32 plic fault_addr (as_u32 (reg gprs r)) hw) (\<lambda>(plic, hw).
              Ok (len, gprs, plic, hw)))
      | Lw rd \<Rightarrow>
          obind (read_u32 plic fault_addr) (\<lambda>val.
            obind (unwrap_option (from_raw rd)) (\<lambda>r.
              Ok (len, set_reg gprs r (as_usize val), plic, hw)))
      | OtherInstruction \<Rightarrow> Err InvalidInstruction)"

definition handle_plic :: "('g, 'i, 'w, 'f) env \<Rightarrow> PlicState \<Rightarrow> 'w hart \<Rightarrow> GuestVirtAddr \<Rightarrow> u32 \<Rightarrow>
    GuestPhysAddr \<Rightarrow> GeneralPurposeRegisters \<Rightarrow>
    (usize \<times> GeneralPurposeRegisters \<times> PlicState \<times> riscv_hw) outcome" where
  "handle_plic env plic h inst_addr inst fault_addr gprs =
     obind (if inst = 0 then fetch_guest_instruction (e_hlvx env h) inst_addr else Ok inst) (\<lambda>inst.
       let i1 = as_u16 inst; len = instruction_length env i1 in
       obind (if len = 2 then Ok (as_u32 i1) else if len = 4 then Ok inst else Panic Unreachable) (\<lambda>inst.
         obind (ok_or (decode env inst) DecodeError) (\<lambda>decode_inst.
           emulate_plic plic (hart_hw h) len fault_addr gprs decode_inst)))"

definition handle_page_fault :: "('g, 'i, 'w, 'f) env \<Rightarrow> PlicState \<Rightarrow> 'w hart \<Rightarrow> GuestVirtAddr \<Rightarrow>
    u32 \<Rightarrow> GuestPhysAddr \<Rightarrow> GeneralPurposeRegisters \<Rightarrow>
    (usize \<times> GeneralPurposeRegisters \<times> PlicState \<times> riscv_hw) outcome" where
  "handle_page_fault env plic h inst_addr inst fault_addr gprs =
     (if virt_to_phys (e_gpt env) (base plic) \<le> fault_addr
         \<and> fault_addr < virt_to_phys (e_gpt env) (base plic + 0x04000000)
      then handle_plic env plic h inst_addr inst (phys_to_virt (e_gpt env) fault_addr) gprs
      else Err PageFault)"

definition handle_irq :: "('g, 'i, 'w, 'f) env \<Rightarrow> (('g, 'i, 'w, 'f) machine, unit) hm" where
  "handle_irq env m =
     (let context_id = 1;
          plic = vm_plic (m_vm m);
          claim_and_complete_addr = base plic + 0x00200004 + 0x1000 * of_nat context_id;
          (irq, w) = e_read_volatile env claim_and_complete_addr (world (m_hart m));
          m = m\<lparr>m_hart := (m_hart m)\<lparr>world := w\<rparr>\<rparr>
      in if irq = 0 then (Panic AssertFailed, m)
         else case store (claim_complete plic) context_id irq of
             Ok cs \<Rightarrow>
               on_hw (\<lambda>hw. snd (read_and_set_bits (hvip CSR) VIRTUAL_SUPERVISOR_EXTERNAL hw))
                 (m\<lparr>m_vm := (m_vm m)\<lparr>vm_plic := plic\<lparr>claim_complete := cs\<rparr>\<rparr>\<rparr>)
           | Err e \<Rightarrow> (Err e, m)
           | Panic p \<Rightarrow> (Panic p, m))"

section \<open>The run loop\<close>

text \<open>
  The \<open>match vm_exit_info\<close> of the loop: the registers afterwards and the distance
  by which the program counter advances, if it does. \<open>None\<close> is a debugger session
  that does not end.
\<close>

definition handle_exit :: "('g, 'i, 'w, 'f) env \<Rightarrow> VmExitInfo \<Rightarrow> GeneralPurposeRegisters \<Rightarrow>
    ('g, 'i, 'w, 'f) machine \<Rightarrow>
    ((GeneralPurposeRegisters \<times> usize option) outcome \<times> ('g, 'i, 'w, 'f) machine) option" where
  "handle_exit env info gprs m =
     (case info of
        Ecall (Some sbi_msg) \<Rightarrow>
          Some (hbind (handle_ecall (e_rt env) sbi_msg gprs) (\<lambda>gprs. hret (gprs, Some 4)) m)
      | Ecall None \<Rightarrow> Some (Panic ExplicitPanic, m)
      | PageFaultExit fault_addr falut_pc inst priv_level \<Rightarrow>
          (case priv_level of
             Supervisor \<Rightarrow>
               (case handle_page_fault env (vm_plic (m_vm m)) (m_hart m) falut_pc inst fault_addr gprs of
                  Ok (inst_len, gprs, plic, hw) \<Rightarrow>
                    Some (Ok (gprs, Some inst_len),
                          m\<lparr>m_vm := (m_vm m)\<lparr>vm_plic := plic\<rparr>,
                            m_hart := (m_hart m)\<lparr>hart_hw := hw\<rparr>\<rparr>)
                | Err e \<Rightarrow> Some (Panic ExplicitPanic, m)
                | Panic p \<Rightarrow> Some (Panic p, m))
           | User \<Rightarrow> Some (Panic ExplicitPanic, m))
      | TimerInterruptEmulation \<Rightarrow>
          Some (hseq (on_hw (\<lambda>hw. snd (read_and_set_bits (hvip CSR) VIRTUAL_SUPERVISOR_TIMER hw)))
               (hseq (on_hw (\<lambda>hw. snd (read_and_clear_bits (sie CSR) SUPERVISOR_TIMER hw)))
               (hret (gprs, None))) m)
      | ExternalInterruptEmulation \<Rightarrow> Some (hseq (handle_irq env) (hret (gprs, None)) m)
      | Breakpoint \<Rightarrow>
          map_option (\<lambda>(r, s). (omap (\<lambda>_. (gprs, None)) r, m\<lparr>m_vm := s\<rparr>))
            (gdbserver_report (e_gdb env) (m_vm m))
      | _ \<Rightarrow> Some (Ok (gprs, None), m))"

text \<open>Writing a vCPU back into the table of the machine's VM.\<close>

definition put_m :: "('g, 'i, 'w, 'f) machine \<Rightarrow> usize \<Rightarrow> VCpu \<Rightarrow> ('g, 'i, 'w, 'f) machine" where
  "put_m m vid v = m\<lparr>m_vm := (m_vm m)\<lparr>vcpus := put_vcpu (vcpus (m_vm m)) vid v\<rparr>\<rparr>"

text \<open>The end of the body: registers back into the vCPU, program counter advanced.\<close>

definition finish_exit :: "usize \<Rightarrow> GeneralPurposeRegisters \<Rightarrow> usize option \<Rightarrow>
    (('g, 'i, 'w, 'f) machine, GeneralPurposeRegisters) hm" where
  "finish_exit vid gprs adv m =
     (case obind (unwrap (get_vcpu (vcpus (m_vm m)) vid)) (\<lambda>vcpu. restore_gprs vcpu gprs) of
        Ok vcpu \<Rightarrow>
          (Ok gprs, put_m m vid (case adv of Some len \<Rightarrow> advance_pc vcpu len | None \<Rightarrow> vcpu))
      | Err e \<Rightarrow> (Err e, m)
      | Panic p \<Rightarrow> (Panic p, m))"

text \<open>The start of the body: run the vCPU and save its registers.\<close>

definition enter_guest :: "('g, 'i, 'w, 'f) env \<Rightarrow> usize \<Rightarrow> GeneralPurposeRegisters \<Rightarrow>
    (('g, 'i, 'w, 'f) machine, VmExitInfo \<times> GeneralPurposeRegisters) hm" where
  "enter_guest env vid gprs m =
     (case unwrap (get_vcpu (vcpus (m_vm m)) vid) of
        Ok vcpu \<Rightarrow>
          (case VCpu_run (e_crates env) (e_spec env) (e_guest env) (e_exit_label env)
                  (e_area env vid) vcpu (m_hart m) of
             (info, vcpu, h) \<Rightarrow>
               (obind info (\<lambda>info. omap (Pair info) (save_gprs vcpu gprs)),
                put_m (m\<lparr>m_hart := h\<rparr>) vid vcpu))
      | Err e \<Rightarrow> (Err e, m)
      | Panic p \<Rightarrow> (Panic p, m))"

definition run_iter :: "('g, 'i, 'w, 'f) env \<Rightarrow> usize \<Rightarrow> GeneralPurposeRegisters \<Rightarrow>
    ('g, 'i, 'w, 'f) machine \<Rightarrow>
    (GeneralPurposeRegisters outcome \<times> ('g, 'i, 'w, 'f) machine) option" where
  "run_iter env vid gprs m =
     (case enter_guest env vid gprs m of
        (Ok (info, gprs), m) \<Rightarrow>
          (case handle_exit env info gprs m of
             None \<Rightarrow> None
           | Some (Ok (gprs, adv), m) \<Rightarrow> Some (finish_exit vid gprs adv m)
           | Some (Err e, m) \<Rightarrow> Some (Err e, m)
           | Some (Panic p, m) \<Rightarrow> Some (Panic p, m))
      | (Err e, m) \<Rightarrow> Some (Err e, m)
      | (Panic p, m) \<Rightarrow> Some (Panic p, m))"

text \<open>\<open>VM::run\<close> up to the loop.\<close>

definition run_start :: "('g, 'i, 'w, 'f) env \<Rightarrow> usize \<Rightarrow> ('g, 'i, 'w, 'f) machine \<Rightarrow>
    (GeneralPurposeRegisters outcome \<times> ('g, 'i, 'w, 'f) machine) option" where
  "run_start env vid m =
     (case unwrap (get_vcpu (vcpus (m_vm m)) vid) of
        Ok _ \<Rightarrow> map_option (\<lambda>(r, s). (omap (\<lambda>_. GeneralPurposeRegisters_default) r, m\<lparr>m_vm := s\<rparr>))
                  (gdbserver_loop (e_gdb env) (m_vm m))
      | Err e \<Rightarrow> Some (Err e, m)
      | Panic p \<Rightarrow> Some (Panic p, m))"

text \<open>States at the head of the loop: the local register buffer and the machine.\<close>

inductive vm_step :: "('g, 'i, 'w, 'f) env \<Rightarrow> usize \<Rightarrow>
    GeneralPurposeRegisters \<times> ('g, 'i, 'w, 'f) machine \<Rightarrow>
    GeneralPurposeRegisters \<times> ('g, 'i, 'w, 'f) machine \<Rightarrow> bool" for env vid where
  iterate: "run_iter env vid gprs m = Some (Ok gprs', m') \<Longrightarrow> vm_step env vid (gprs, m) (gprs', m')"

inductive_cases vm_stepE: "vm_step env vid s s'"

inductive vm_reachable :: "('g, 'i, 'w, 'f) env \<Rightarrow> usize \<Rightarrow> ('g, 'i, 'w, 'f) machine \<Rightarrow>
    GeneralPurposeRegisters \<times> ('g, 'i, 'w, 'f) machine \<Rightarrow> bool" for env vid m0 where
  start: "run_start env vid m0 = Some (Ok gprs, m) \<Longrightarrow> vm_reachable env vid m0 (gprs, m)"
| step: "vm_reachable env vid m0 s \<Longrightarrow> vm_step env vid s s' \<Longrightarrow> vm_reachable env vid m0 s'"

section \<open>Registers written by the SBI handlers\<close>

text \<open>Two register files that differ at most in \<open>a0\<close> and \<open>a1\<close>.\<close>

definition same_but_a01 :: "GeneralPurposeRegisters \<Rightarrow> GeneralPurposeRegisters \<Rightarrow> bool" where
  "same_but_a01 g g' \<longleftrightarrow> gprs_wf g' \<and> (\<forall>r. r \<noteq> A0 \<and> r \<noteq> A1 \<longrightarrow> reg g' r = reg g r)"

lemma same_but_a01_refl: "gprs_wf g \<Longrightarrow> same_but_a01 g g"
  by (simp add: same_but_a01_def)

lemma same_but_a01_set:
  "same_but_a01 g g' \<Longrightarrow> r = A0 \<or> r = A1 \<Longrightarrow> same_but_a01 g (set_reg g' r v)"
  by (auto simp: same_but_a01_def gprs.rd_wr)

lemmas same_but_a01_intros = same_but_a01_refl same_but_a01_set

lemma same_but_a01_ret: "same_but_a01 g g' \<Longrightarrow> same_but_a01 g (set_sbi_ret g' p)"
  by (simp add: set_sbi_ret_def same_but_a01_intros)

lemma handle_base_function_regs:
  assumes "gprs_wf g"
  shows "\<exists>g'. handle_base_function rt bf g fw = (Ok g', fw) \<and> same_but_a01 g g' \<and> reg g' A0 = 0"
  using assms
  by (auto simp: handle_base_function_def Let_def gprs.rd_wr intro!: same_but_a01_intros
      split: BaseFunction.splits)

lemma handle_pmu_function_regs:
  assumes "gprs_wf g"
  shows "\<exists>g' fw'. handle_pmu_function rt pmu g fw = (Ok g', fw') \<and> same_but_a01 g g'"
  using assms
  by (auto simp: handle_pmu_function_def Let_def intro!: same_but_a01_intros same_but_a01_ret
      split: PmuFunction.splits prod.splits)

lemma handle_rfnc_function_regs:
  assumes "gprs_wf g"
  shows "\<exists>g' fw'. handle_rfnc_function rt rfnc g fw = (Ok g', fw') \<and> same_but_a01 g g'"
  using assms
  by (auto simp: handle_rfnc_function_def Let_def intro!: same_but_a01_intros same_but_a01_ret
      split: RemoteFenceFunction.splits prod.splits)

text \<open>
  Every message that the decoder can produce is handled without failure; the VM is
  not touched and the registers change in \<open>a0\<close> and \<open>a1\<close> only.
\<close>

lemma handle_ecall_effect:
  assumes "gprs_wf g" and "\<forall>d. msg \<noteq> DebugConsole d"
  shows "\<exists>g' m'. handle_ecall rt msg g m = (Ok g', m') \<and> same_but_a01 g g' \<and> m_vm m' = m_vm m
    \<and> gpr (m_hart m') = gpr (m_hart m) \<and> dmem (m_hart m') = dmem (m_hart m)
    \<and> world (m_hart m') = world (m_hart m)
    \<and> (\<forall>c. c \<noteq> CSR_HVIP \<and> c \<noteq> CSR_SIE \<longrightarrow> csr (hart_hw (m_hart m')) c = csr (hart_hw (m_hart m)) c)"
proof (cases msg)
  case (Base bf)
  then show ?thesis
    using handle_base_function_regs [OF assms(1), of "rt" bf "m_fw m"]
    by (auto simp: handle_ecall_def on_fw_def hunwrap_def)
next
  case (RemoteFence rf)
  then show ?thesis
    using handle_rfnc_function_regs [OF assms(1), of "rt" rf "m_fw m"]
    by (auto simp: handle_ecall_def on_fw_def hunwrap_def)
next
  case (PMU pf)
  then show ?thesis
    using handle_pmu_function_regs [OF assms(1), of "rt" pf "m_fw m"]
    by (auto simp: handle_ecall_def on_fw_def hunwrap_def)
qed (use assms in \<open>auto simp: handle_ecall_def on_fw_def on_hw_def hm_defs CSR_def
      intro: same_but_a01_intros split: prod.splits\<close>)

section \<open>Invariants of the loop body\<close>

definition env_ok :: "('g, 'i, 'w, 'f) env \<Rightarrow> usize \<Rightarrow> bool" where
  "env_ok env vid \<longleftrightarrow> riscv_crates_ok (e_crates env)
     \<and> guest_confined (e_guest env) (e_area env vid) \<and> gdb_ok (e_gpt env) (e_gdb env)"

lemma put_m_simps [simp]:
  "m_hart (put_m m vid v) = m_hart m" "m_fw (put_m m vid v) = m_fw m"
  "vm_plic (m_vm (put_m m vid v)) = vm_plic (m_vm m)"
  "gpt (m_vm (put_m m vid v)) = gpt (m_vm m)"
  "gdbstub (m_vm (put_m m vid v)) = gdbstub (m_vm m)"
  by (simp_all add: put_m_def)

lemma put_m_get:
  "get_vcpu (vcpus (m_vm m)) vid = Ok u \<Longrightarrow>
   get_vcpu (vcpus (m_vm (put_m m vid v))) k = (if k = vid then Ok v else get_vcpu (vcpus (m_vm m)) k)"
  by (simp add: put_m_def get_vcpu_put)

lemma put_m_wf:
  "vm_wf (m_vm m) \<Longrightarrow> get_vcpu (vcpus (m_vm m)) vid = Ok u \<Longrightarrow> vcpu_wf v \<Longrightarrow> vcpu_id v = vid \<Longrightarrow>
   vm_wf (m_vm (put_m m vid v))"
  by (simp add: put_m_def vm_wf_put)

text \<open>The hart at the trap of the guest that \<open>enter_guest\<close> runs.\<close>

definition trapped_m :: "('g, 'i, 'w, 'f) env \<Rightarrow> usize \<Rightarrow> ('g, 'i, 'w, 'f) machine \<Rightarrow> VCpu \<Rightarrow> 'w hart" where
  "trapped_m env vid m v = trapped (e_guest env) (e_exit_label env) (e_area env vid) v (m_hart m)"

lemma enter_guest_effect:
  assumes "env_ok env vid" and "vm_wf (m_vm m)" and "gprs_wf gprs"
    and "get_vcpu (vcpus (m_vm m)) vid = Ok v" and "t = trapped_m env vid m v"
    and "enter_guest env vid gprs m = (r, m1)"
  shows "\<exists>v1. get_vcpu (vcpus (m_vm m1)) vid = Ok v1 \<and> vcpu_wf v1 \<and> vcpu_id v1 = vid
    \<and> vm_wf (m_vm m1) \<and> m_fw m1 = m_fw m \<and> vm_plic (m_vm m1) = vm_plic (m_vm m)
    \<and> gdbstub (m_vm m1) = gdbstub (m_vm m)
    \<and> r = omap (\<lambda>info. (info, vcpu_gprs v1)) (exit_info (e_spec env) (csr (hart_hw t)) v1)
    \<and> get_pc v1 = csr (hart_hw t) CSR_SEPC \<and> (\<forall>x. x \<noteq> Zero \<longrightarrow> get_gpr v1 x = gpr t x)
    \<and> guest_hstatus (guest_regs (vcpu_regs v1)) = csr (hart_hw t) CSR_HSTATUS
    \<and> csr (hart_hw (m_hart m1)) CSR_HVIP = csr (hart_hw t) CSR_HVIP
    \<and> csr (hart_hw (m_hart m1)) CSR_SIE = csr (hart_hw t) CSR_SIE
    \<and> mmio (hart_hw (m_hart m1)) = mmio (hart_hw t) \<and> world (m_hart m1) = world t
    \<and> (\<forall>k. k \<noteq> vid \<longrightarrow> get_vcpu (vcpus (m_vm m1)) k = get_vcpu (vcpus (m_vm m)) k)"
proof -
  have ok: "riscv_crates_ok (e_crates env)" "guest_confined (e_guest env) (e_area env vid)"
    using assms(1) by (simp_all add: env_ok_def)
  have v: "vcpu_wf v" "vcpu_id v = vid" using vm_wf_vcpu [OF assms(2,4)] by simp_all
  obtain info v1 h1 where run: "VCpu_run (e_crates env) (e_spec env) (e_guest env)
      (e_exit_label env) (e_area env vid) v (m_hart m) = (info, v1, h1)"
    by (rule prod_cases3)
  have t: "t = trapped (e_guest env) (e_exit_label env) (e_area env vid) v (m_hart m)"
    using assms(5) by (simp add: trapped_m_def)
  note st = VCpu_run_state [OF ok(2) v(1) run t]
  have csrs: "csr (hart_hw h1) c = csr (hart_hw t) c"
    if "c \<in> {CSR_SCAUSE, CSR_STVAL, CSR_HTVAL, CSR_HTINST, CSR_HVIP, CSR_SIE}" for c
    using st(8) that by (auto simp: csr_number_defs)
  then have "exit_info (e_spec env) (csr (hart_hw h1)) v1 = exit_info (e_spec env) (csr (hart_hw t)) v1"
    by (simp add: exit_info_def)
  then have info: "info = exit_info (e_spec env) (csr (hart_hw t)) v1"
    using VCpu_run_info(1) [OF ok(1) run] by simp
  have m1: "m1 = put_m (m\<lparr>m_hart := h1\<rparr>) vid v1"
    and r: "r = obind info (\<lambda>info. omap (Pair info) (save_gprs v1 gprs))"
    using assms(4,6) run by (simp_all add: enter_guest_def)
  have "save_gprs v1 gprs = Ok (vcpu_gprs v1)"
    by (rule save_gprs_Ok [OF st(12) assms(3)])
  then have r': "r = omap (\<lambda>info. (info, vcpu_gprs v1)) info"
    unfolding r by (cases info) simp_all
  have get: "get_vcpu (vcpus (m_vm m1)) k =
      (if k = vid then Ok v1 else get_vcpu (vcpus (m_vm m)) k)" for k
    unfolding m1 using put_m_get [of "m\<lparr>m_hart := h1\<rparr>" vid v v1 k] assms(4) by simp
  have wf: "vm_wf (m_vm m1)"
    unfolding m1 by (rule put_m_wf) (use assms(2,4) st(1,12) v(2) in simp_all)
  have h1: "m_hart m1 = h1" by (simp add: m1)
  show ?thesis
  proof (intro exI [of _ v1] conjI)
    show "get_vcpu (vcpus (m_vm m1)) vid = Ok v1" by (simp add: get)
    show "vcpu_wf v1" by (rule st(12))
    show "vcpu_id v1 = vid" using st(1) v(2) by simp
    show "vm_wf (m_vm m1)" by (rule wf)
    show "m_fw m1 = m_fw m" "vm_plic (m_vm m1) = vm_plic (m_vm m)"
      "gdbstub (m_vm m1) = gdbstub (m_vm m)"
      by (simp_all add: m1)
    show "r = omap (\<lambda>info. (info, vcpu_gprs v1)) (exit_info (e_spec env) (csr (hart_hw t)) v1)"
      by (simp only: r' info)
    show "get_pc v1 = csr (hart_hw t) CSR_SEPC" by (rule st(5))
    show "\<forall>x. x \<noteq> Zero \<longrightarrow> get_gpr v1 x = gpr t x" by (rule st(2))
    show "guest_hstatus (guest_regs (vcpu_regs v1)) = csr (hart_hw t) CSR_HSTATUS" by (rule st(4))
    show "csr (hart_hw (m_hart m1)) CSR_HVIP = csr (hart_hw t) CSR_HVIP"
      "csr (hart_hw (m_hart m1)) CSR_SIE = csr (hart_hw t) CSR_SIE"
      by (simp_all add: h1 csrs)
    show "mmio (hart_hw (m_hart m1)) = mmio (hart_hw t)" "world (m_hart m1) = world t"
      using st(10,11) by (simp_all add: h1)
    show "\<forall>k. k \<noteq> vid \<longrightarrow> get_vcpu (vcpus (m_vm m1)) k = get_vcpu (vcpus (m_vm m)) k"
      by (simp add: get)
  qed
qed

lemma handle_plic_Ok:
  assumes "handle_plic env plic h pc inst fa g = Ok q"
  obtains len i where "len = 2 \<or> len = 4" and "emulate_plic plic (hart_hw h) len fa g i = Ok q"
  using assms unfolding handle_plic_def Let_def obind_eq_Ok by (metis outcome.distinct(3))

lemma emulate_plic_effect:
  assumes "plic_wf plic" and "gprs_wf g"
    and "emulate_plic plic hw len fa g i = Ok (len', g', plic', hw')"
  shows "gprs_wf g' \<and> plic_wf plic' \<and> base plic' = base plic \<and> len' = len"
  using assms by (cases i) (auto simp: emulate_plic_def obind_eq_Ok dest: plic_wf_write)

lemma handle_plic_effect:
  assumes "plic_wf plic" and "gprs_wf g"
    and "handle_plic env plic h pc inst fa g = Ok (len, g', plic', hw')"
  shows "gprs_wf g' \<and> plic_wf plic' \<and> base plic' = base plic \<and> (len = 2 \<or> len = 4)"
  using handle_plic_Ok [OF assms(3)] emulate_plic_effect [OF assms(1,2)] by metis

lemma handle_exit_wf:
  assumes "env_ok env vid" and "vm_wf (m_vm m)" and "gprs_wf g"
    and "handle_exit env info g m = Some (Ok (g', adv), m')"
    and "\<forall>d. info \<noteq> Ecall (Some (DebugConsole d))"
  shows "vm_wf (m_vm m') \<and> gprs_wf g' \<and> base (vm_plic (m_vm m')) = base (vm_plic (m_vm m))"
proof (cases info)
  case (Ecall msg)
  then obtain sm where msg: "msg = Some sm" "\<forall>d. sm \<noteq> DebugConsole d"
    using assms(4,5) by (cases msg) (auto simp: handle_exit_def)
  then show ?thesis
    using assms(2,4) Ecall handle_ecall_effect [OF assms(3), of sm "e_rt env" m]
    by (auto simp: handle_exit_def hbind_def hret_def same_but_a01_def)
next
  case (PageFaultExit fa pc inst pl)
  have "plic_wf (vm_plic (m_vm m))" using assms(2) by (simp add: vm_wf_def)
  note eff = handle_plic_effect [OF this assms(3)]
  from PageFaultExit assms(2,4) show ?thesis
    by (auto simp: handle_exit_def handle_page_fault_def vm_wf_def dest: eff
        split: PrivilegeLevel.splits outcome.splits prod.splits if_splits)
next
  case ExternalInterruptEmulation
  then show ?thesis
    using assms(2-4)
    by (auto simp: handle_exit_def handle_irq_def hm_defs on_hw_def vm_wf_def plic_wf_def Let_def store_def
        split: if_splits outcome.splits prod.splits)
next
  case Breakpoint
  then show ?thesis
    using assms(1-4) gdbserver_report_wf [of "e_gpt env" "e_gdb env" "m_vm m"]
    by (auto simp: handle_exit_def env_ok_def omap_eq_Ok debugger_keeps_def)
qed (use assms in \<open>auto simp: handle_exit_def hm_defs on_hw_def\<close>)

lemma finish_exit_Ok:
  assumes "vm_wf (m_vm m)" and "gprs_wf g" and "finish_exit vid g adv m = (Ok g', m')"
  shows "\<exists>v. get_vcpu (vcpus (m_vm m)) vid = Ok v \<and> g' = g
    \<and> m' = put_m m vid (case adv of Some len \<Rightarrow> advance_pc (set_vcpu_gprs v g) len
                                    | None \<Rightarrow> set_vcpu_gprs v g)"
proof (cases "get_vcpu (vcpus (m_vm m)) vid")
  case (Ok v)
  then have "vcpu_wf v" using vm_wf_vcpu [OF assms(1)] by simp
  with Ok assms(2,3) show ?thesis by (auto simp: finish_exit_def restore_gprs_Ok)
qed (use assms(3) in \<open>simp_all add: finish_exit_def\<close>)

lemma finish_exit_wf:
  assumes "vm_wf (m_vm m)" and "gprs_wf g" and "finish_exit vid g adv m = (Ok g', m')"
  shows "vm_wf (m_vm m') \<and> gprs_wf g' \<and> (\<exists>v. get_vcpu (vcpus (m_vm m')) vid = Ok v)"
proof -
  obtain v where v: "get_vcpu (vcpus (m_vm m)) vid = Ok v" and g': "g' = g"
    and m': "m' = put_m m vid (case adv of Some len \<Rightarrow> advance_pc (set_vcpu_gprs v g) len
                                    | None \<Rightarrow> set_vcpu_gprs v g)"
    using finish_exit_Ok [OF assms] by blast
  have "vcpu_wf v" "vcpu_id v = vid" using vm_wf_vcpu [OF assms(1) v] by simp_all
  then show ?thesis
    unfolding m' g' using assms(1,2) v put_m_wf [OF assms(1) v]
    by (auto simp: put_m_get split: option.splits)
qed

lemma exit_info_no_dbcn:
  "sbi_spec_ok sp \<Longrightarrow> gprs_wf (vcpu_gprs v) \<Longrightarrow> exit_info sp c v \<noteq> Ok (Ecall (Some (DebugConsole d)))"
proof
  assume sp: "sbi_spec_ok sp" and wf: "gprs_wf (vcpu_gprs v)"
    and "exit_info sp c v = Ok (Ecall (Some (DebugConsole d)))"
  then have "result_ok (SbiMessage_from_regs sp (a_regs (vcpu_gprs v))) = Ok (Some (DebugConsole d))"
    by (auto simp: exit_info_def Let_def omap_eq_Ok split: if_splits)
  then have "SbiMessage_from_regs sp (a_regs (vcpu_gprs v)) = Ok (DebugConsole d)"
    by (cases "SbiMessage_from_regs sp (a_regs (vcpu_gprs v))") simp_all
  moreover have "length (a_regs (vcpu_gprs v)) = 8"
    using wf by (simp add: gprs_wf_def length_a_regs)
  ultimately show False
    using sbi_no_dbcn [OF sp] by blast
qed

text \<open>The invariant at the head of the loop.\<close>

definition loop_inv :: "usize \<Rightarrow> GeneralPurposeRegisters \<times> ('g, 'i, 'w, 'f) machine \<Rightarrow> bool" where
  "loop_inv vid s \<longleftrightarrow> gprs_wf (fst s) \<and> vm_wf (m_vm (snd s))
     \<and> (\<exists>v. get_vcpu (vcpus (m_vm (snd s))) vid = Ok v)"

lemma run_iter_cases:
  assumes "env_ok env vid" and "sbi_spec_ok (e_spec env)" and "loop_inv vid (gprs, m)"
    and "run_iter env vid gprs m = Some (Ok gprs', m')"
  obtains v v1 m1 info g2 adv m2 where "get_vcpu (vcpus (m_vm m)) vid = Ok v"
    and "enter_guest env vid gprs m = (Ok (info, vcpu_gprs v1), m1)"
    and "get_vcpu (vcpus (m_vm m1)) vid = Ok v1" and "vm_wf (m_vm m1)"
    and "exit_info (e_spec env) (csr (hart_hw (trapped_m env vid m v))) v1 = Ok info"
    and "handle_exit env info (vcpu_gprs v1) m1 = Some (Ok (g2, adv), m2)"
    and "vm_wf (m_vm m2)" and "gprs_wf g2"
    and "base (vm_plic (m_vm m2)) = base (vm_plic (m_vm m))"
    and "finish_exit vid g2 adv m2 = (Ok gprs', m')"
proof -
  obtain v where v: "get_vcpu (vcpus (m_vm m)) vid = Ok v" and wf: "vm_wf (m_vm m)" "gprs_wf gprs"
    using assms(3) by (auto simp: loop_inv_def)
  obtain r m1 where en: "enter_guest env vid gprs m = (r, m1)" by fastforce
  from enter_guest_effect [OF assms(1) wf v refl en] obtain v1
    where v1: "get_vcpu (vcpus (m_vm m1)) vid = Ok v1" "vcpu_wf v1" "vm_wf (m_vm m1)"
        "vm_plic (m_vm m1) = vm_plic (m_vm m)"
      and r: "r = omap (\<lambda>info. (info, vcpu_gprs v1))
        (exit_info (e_spec env) (csr (hart_hw (trapped_m env vid m v))) v1)"
    by blast
  obtain info where info: "exit_info (e_spec env) (csr (hart_hw (trapped_m env vid m v))) v1 = Ok info"
    using assms(4) en r
    by (cases "exit_info (e_spec env) (csr (hart_hw (trapped_m env vid m v))) v1")
      (auto simp: run_iter_def)
  then have en': "enter_guest env vid gprs m = (Ok (info, vcpu_gprs v1), m1)" using en r by simp
  obtain g2 adv m2 where ex: "handle_exit env info (vcpu_gprs v1) m1 = Some (Ok (g2, adv), m2)"
    and fin: "finish_exit vid g2 adv m2 = (Ok gprs', m')"
    using assms(4) en'
    by (auto simp: run_iter_def split: option.splits outcome.splits prod.splits)
  have gwf: "gprs_wf (vcpu_gprs v1)" using v1(2) by (simp add: vcpu_wf_def)
  have "\<forall>d. info \<noteq> Ecall (Some (DebugConsole d))"
    using exit_info_no_dbcn [OF assms(2) gwf] info by metis
  from handle_exit_wf [OF assms(1) v1(3) gwf ex this] v1(4)
  have "vm_wf (m_vm m2)" "gprs_wf g2" "base (vm_plic (m_vm m2)) = base (vm_plic (m_vm m))" by simp_all
  with that v en' v1 info ex fin show thesis by blast
qed

lemma run_iter_inv:
  assumes "env_ok env vid" and "sbi_spec_ok (e_spec env)" and "loop_inv vid (gprs, m)"
    and "run_iter env vid gprs m = Some (Ok gprs', m')"
  shows "loop_inv vid (gprs', m')" and "base (vm_plic (m_vm m')) = base (vm_plic (m_vm m))"
proof -
  from run_iter_cases [OF assms] obtain g2 adv m2 where
    m2: "vm_wf (m_vm m2)" "gprs_wf g2" "base (vm_plic (m_vm m2)) = base (vm_plic (m_vm m))"
    and fin: "finish_exit vid g2 adv m2 = (Ok gprs', m')"
    by metis
  show "loop_inv vid (gprs', m')"
    using finish_exit_wf [OF m2(1,2) fin] by (simp add: loop_inv_def)
  show "base (vm_plic (m_vm m')) = base (vm_plic (m_vm m))"
    using finish_exit_Ok [OF m2(1,2) fin] m2(3) by auto
qed

lemma advance_pc_simps [simp]:
  "get_pc (advance_pc v n) = get_pc v + n" "vcpu_gprs (advance_pc v n) = vcpu_gprs v"
  by (simp_all add: advance_pc_def)

text \<open>
  One pass through the body, seen from the trap \<open>t\<close> of the guest: \<open>v1\<close> and \<open>m1\<close> are
  the vCPU and the machine when the exit is handled.
\<close>

definition entered :: "usize \<Rightarrow> ('g, 'i, 'w, 'f) machine \<Rightarrow> 'w hart \<Rightarrow> VCpu \<Rightarrow>
    ('g, 'i, 'w, 'f) machine \<Rightarrow> bool" where
  "entered vid m t v1 m1 \<longleftrightarrow>
     get_vcpu (vcpus (m_vm m1)) vid = Ok v1 \<and> vcpu_wf v1 \<and> vm_wf (m_vm m1)
     \<and> m_fw m1 = m_fw m \<and> vm_plic (m_vm m1) = vm_plic (m_vm m) \<and> gdbstub (m_vm m1) = gdbstub (m_vm m)
     \<and> get_pc v1 = csr (hart_hw t) CSR_SEPC \<and> (\<forall>x. x \<noteq> Zero \<longrightarrow> reg (vcpu_gprs v1) x = gpr t x)
     \<and> guest_hstatus (guest_regs (vcpu_regs v1)) = csr (hart_hw t) CSR_HSTATUS
     \<and> csr (hart_hw (m_hart m1)) CSR_HVIP = csr (hart_hw t) CSR_HVIP
     \<and> csr (hart_hw (m_hart m1)) CSR_SIE = csr (hart_hw t) CSR_SIE
     \<and> mmio (hart_hw (m_hart m1)) = mmio (hart_hw t) \<and> world (m_hart m1) = world t"

lemma enteredD:
  assumes "entered vid m t v1 m1"
  shows "get_vcpu (vcpus (m_vm m1)) vid = Ok v1" "gprs_wf (vcpu_gprs v1)"
    "vm_plic (m_vm m1) = vm_plic (m_vm m)" "\<And>x. x \<noteq> Zero \<Longrightarrow> reg (vcpu_gprs v1) x = gpr t x"
    "reg (vcpu_gprs v1) Zero = 0"
    "a_regs (vcpu_gprs v1) = map (gpr t) [A0, A1, A2, A3, A4, A5, A6, A7]"
  using assms a_regs_regs [OF gprs_wfD(1)]
  by (auto simp: entered_def vcpu_wf_def gprs_wf_def)

lemma enter_guest_entered:
  assumes "env_ok env vid" and "loop_inv vid (gprs, m)" and "get_vcpu (vcpus (m_vm m)) vid = Ok v"
    and "t = trapped_m env vid m v"
  obtains v1 m1 where "entered vid m t v1 m1"
    and "enter_guest env vid gprs m =
      (omap (\<lambda>info. (info, vcpu_gprs v1)) (exit_info (e_spec env) (csr (hart_hw t)) v1), m1)"
proof -
  have wf: "vm_wf (m_vm m)" "gprs_wf gprs" using assms(2) by (auto simp: loop_inv_def)
  obtain r m1 where en: "enter_guest env vid gprs m = (r, m1)" by fastforce
  from enter_guest_effect [OF assms(1) wf assms(3,4) en] obtain v1 where
    "entered vid m t v1 m1"
    and "r = omap (\<lambda>info. (info, vcpu_gprs v1)) (exit_info (e_spec env) (csr (hart_hw t)) v1)"
    unfolding entered_def get_gpr_def by blast
  with en that show thesis by simp
qed

lemma run_iter_resumes:
  assumes "entered vid m t v1 m1"
    and "enter_guest env vid gprs m =
      (omap (\<lambda>info. (info, vcpu_gprs v1)) (exit_info (e_spec env) (csr (hart_hw t)) v1), m1)"
    and "exit_info (e_spec env) (csr (hart_hw t)) v1 = Ok info"
    and "handle_exit env info (vcpu_gprs v1) m1 = Some (Ok (g, adv), m2)"
    and "get_vcpu (vcpus (m_vm m2)) vid = Ok v1" and "gprs_wf g"
  shows "\<exists>m' v'. run_iter env vid gprs m = Some (Ok g, m') \<and> m' = put_m m2 vid v'
    \<and> get_vcpu (vcpus (m_vm m')) vid = Ok v'
    \<and> get_pc v' = csr (hart_hw t) CSR_SEPC + (case adv of Some len \<Rightarrow> len | None \<Rightarrow> 0)
    \<and> get_gpr v' = reg g"
proof -
  have "vcpu_wf v1" and pc: "get_pc v1 = csr (hart_hw t) CSR_SEPC"
    using assms(1) by (simp_all add: entered_def)
  then have "run_iter env vid gprs m = Some (Ok g, put_m m2 vid (case adv of
        Some len \<Rightarrow> advance_pc (set_vcpu_gprs v1 g) len | None \<Rightarrow> set_vcpu_gprs v1 g))"
    using assms(2-6) by (simp add: run_iter_def finish_exit_def restore_gprs_Ok)
  then show ?thesis
    using assms(5) pc by (cases adv) (auto simp: put_m_get get_gpr_def fun_eq_iff)
qed

lemma run_iter_panics:
  assumes "enter_guest env vid gprs m =
      (omap (\<lambda>info. (info, vcpu_gprs v1)) (exit_info (e_spec env) (csr (hart_hw t)) v1), m1)"
    and "exit_info (e_spec env) (csr (hart_hw t)) v1 = Ok info"
    and "handle_exit env info (vcpu_gprs v1) m1 = Some (Panic w, m2)"
  shows "run_iter env vid gprs m = Some (Panic w, m2)"
  using assms by (simp add: run_iter_def)

text \<open>Setting and clearing the single bit of an interrupt mask.\<close>

lemma bit_or_mask: "(\<And>i. bit M i \<longleftrightarrow> i = k) \<Longrightarrow> bit (x OR M) i \<longleftrightarrow> bit x i \<or> i = k" for x M :: usize
  by (simp add: bit_or_iff)

lemma bit_andnot_mask: "(\<And>i. bit M i \<longleftrightarrow> i = k) \<Longrightarrow> bit (x AND NOT M) i \<longleftrightarrow> bit x i \<and> i \<noteq> k" for x M :: usize
  using bit_imp_le_length [of x i] by (auto simp: bit_and_iff bit_not_iff)

lemmas timer_bits = bit_or_mask [of VIRTUAL_SUPERVISOR_TIMER 6] bit_or_mask [of SUPERVISOR_TIMER 5]
  bit_or_mask [of VIRTUAL_SUPERVISOR_EXTERNAL 10]
  bit_andnot_mask [of VIRTUAL_SUPERVISOR_TIMER 6] bit_andnot_mask [of SUPERVISOR_TIMER 5]
  bit_andnot_mask [of VIRTUAL_SUPERVISOR_EXTERNAL 10]

section \<open>A concrete machine\<close>

text \<open>
  For the witnesses: a guest that traps with given CSR and register values, a
  firmware whose state is the last timer value, and a decoder for word loads and
  stores.
\<close>

definition trap_guest :: "(u16 \<rightharpoonup> usize) \<Rightarrow> (GprIndex \<rightharpoonup> usize) \<Rightarrow> unit hart \<Rightarrow> unit hart" where
  "trap_guest cs gs h = h\<lparr>
     hart_hw := (hart_hw h)\<lparr>csr := (\<lambda>c. case cs c of Some x \<Rightarrow> x | None \<Rightarrow> csr (hart_hw h) c)\<rparr>,
     gpr := (\<lambda>r. case gs r of Some x \<Rightarrow> x | None \<Rightarrow> gpr h r)\<rparr>"

lemma trap_guest_confined: "CSR_SSCRATCH \<notin> dom cs \<Longrightarrow> guest_confined (trap_guest cs gs) p"
  by (simp add: guest_confined_def trap_guest_def domIff)

definition sample_rt :: "usize sbi_rt" where
  "sample_rt = \<lparr>console_getchar = (\<lambda>f. (0x41, f)), console_putchar = (\<lambda>c f. f),
     set_timer = (\<lambda>t f. t), system_reset = (\<lambda>a b f. f), spec_version_major = (\<lambda>f. 1),
     spec_version_minor = (\<lambda>f. 0), get_sbi_impl_id = (\<lambda>f. 4), get_sbi_impl_version = (\<lambda>f. 1),
     probe_extension = (\<lambda>e f. 1), get_mvendorid = (\<lambda>f. 0), get_marchid = (\<lambda>f. 0),
     get_mimpid = (\<lambda>f. 0), pmu_num_counters = (\<lambda>f. 0),
     pmu_counter_get_info = (\<lambda>i f. ((0, 0), f)), pmu_counter_stop = (\<lambda>i k l f. ((0, 0), f)),
     remote_fence_i = (\<lambda>i k f. ((0, 0), f)), remote_sfence_vma = (\<lambda>i k a z f. ((0, 0), f))\<rparr>"

definition sample_env :: "(unit hart \<Rightarrow> unit hart) \<Rightarrow> ((usize \<rightharpoonup> u8), unit, unit, usize) env" where
  "sample_env guest = \<lparr>e_crates = riscv_crates_std, e_spec = sbi_spec_v1, e_rt = sample_rt,
     e_gpt = map_gpt, e_gdb = sample_stub, e_guest = guest, e_exit_label = 0x4000,
     e_area = (\<lambda>_. 0x1000), e_read_volatile = (\<lambda>a w. (8, w)), e_hlvx = (\<lambda>h a. None),
     instruction_length = (\<lambda>i. if i AND 3 = 3 then 4 else 2),
     decode = (\<lambda>i. if i AND 0x7f = 0x03 then Some (Lw (drop_bit 7 i AND 31))
                    else if i AND 0x7f = 0x23 then Some (Sw (drop_bit 20 i AND 31))
                    else Some OtherInstruction)\<rparr>"

definition sample_machine :: "((usize \<rightharpoonup> u8), unit, unit, usize) machine" where
  "sample_machine = \<lparr>m_vm = sample_vm, m_hart = sample_hart, m_fw = 0\<rparr>"

lemma sample_env_ok: "CSR_SSCRATCH \<notin> dom cs \<Longrightarrow> env_ok (sample_env (trap_guest cs gs)) vid"
  by (simp add: env_ok_def sample_env_def riscv_crates_std_ok trap_guest_confined sample_stub_ok)

lemma sample_spec_ok: "sbi_spec_ok (e_spec (sample_env guest))"
  by (simp add: sample_env_def sbi_spec_v1_ok)

lemma sample_loop_inv: "loop_inv 0 (GeneralPurposeRegisters_default, sample_machine)"
  by (simp add: loop_inv_def sample_machine_def sample_vm_wf sample_vm_vcpu)

lemma sample_cpu: "get_vcpu (vcpus (m_vm sample_machine)) 0 = Ok sample_vcpu"
  by (simp add: sample_machine_def sample_vm_vcpu)

lemma sample_trapped:
  "cs c = Some x \<Longrightarrow>
   csr (hart_hw (trapped_m (sample_env (trap_guest cs gs)) vid m v)) c = x"
  "gs r = Some y \<Longrightarrow> gpr (trapped_m (sample_env (trap_guest cs gs)) vid m v) r = y"
  by (simp_all add: trapped_m_def trapped_def sample_env_def trap_guest_def)

lemmas sample_facts = sample_env_def map_gpt_def sample_vm_def sample_machine_def

section \<open>Properties\<close>

text \<open>
  Claim C5. Every state that the run loop reaches from a well-formed VM is well
  formed: the local register buffer and all register files have 32 entries with a
  zero \<open>x0\<close>, each vCPU is stored under its number, the vCPU that is being run stays
  in the table, the interrupt controller keeps its arrays, and its window does not
  move. This holds for any guest that is confined by the hardware, any firmware and
  any debugger that uses the target operations.
\<close>

theorem vm_reachable_inv:
  assumes "env_ok env vid" and "sbi_spec_ok (e_spec env)" and "vm_wf (m_vm m0)"
    and "vm_reachable env vid m0 s"
  shows "loop_inv vid s \<and> base (vm_plic (m_vm (snd s))) = base (vm_plic (m_vm m0))"
  using assms(4)
proof induction
  case (start gprs m)
  obtain v where v: "get_vcpu (vcpus (m_vm m0)) vid = Ok v"
    using start by (cases "get_vcpu (vcpus (m_vm m0)) vid") (auto simp: run_start_def)
  then obtain r s' where loop: "gdbserver_loop (e_gdb env) (m_vm m0) = Some (r, s')"
    and m: "gprs = GeneralPurposeRegisters_default" "m = m0\<lparr>m_vm := s'\<rparr>"
    using start by (auto simp: run_start_def omap_eq_Ok)
  have "gdb_ok (e_gpt env) (e_gdb env)" using assms(1) by (simp add: env_ok_def)
  from gdbserver_loop_wf [OF this assms(3) loop]
  show ?case using v by (cases "vid = 0") (auto simp: loop_inv_def m debugger_keeps_def)
next
  case (step s s')
  obtain gprs m where s: "s = (gprs, m)" by fastforce
  obtain gprs' m' where s': "s' = (gprs', m')" by fastforce
  have "run_iter env vid gprs m = Some (Ok gprs', m')"
    using step(2) by (auto simp: s s' elim: vm_stepE)
  from run_iter_inv [OF assms(1,2) _ this] step.IH show ?case by (simp add: s s')
qed

theorem vm_reachable_inv_witness:
  "vm_reachable (sample_env (trap_guest Map.empty Map.empty)) 0 sample_machine
     (GeneralPurposeRegisters_default, sample_machine)
   \<and> loop_inv 0 (GeneralPurposeRegisters_default, sample_machine)"
proof -
  have ok: "env_ok (sample_env (trap_guest Map.empty Map.empty)) 0" by (rule sample_env_ok) simp
  have wf: "vm_wf (m_vm sample_machine)" by (simp add: sample_machine_def sample_vm_wf)
  have "run_start (sample_env (trap_guest Map.empty Map.empty)) 0 sample_machine =
      Some (Ok GeneralPurposeRegisters_default, sample_machine)"
    by (simp add: run_start_def sample_machine_def sample_vm_vcpu gdbserver_loop_def)
      (simp add: sample_vm_def)
  then have r: "vm_reachable (sample_env (trap_guest Map.empty Map.empty)) 0 sample_machine
     (GeneralPurposeRegisters_default, sample_machine)"
    by (rule vm_reachable.start)
  with vm_reachable_inv [OF ok sample_spec_ok wf r] show ?thesis by blast
qed



text \<open>
  Claim C24. A timer interrupt of the host while the guest runs: the guest resumes at
  the instruction where it was interrupted with all its registers, the virtual timer
  interrupt is pending for it, and the host's timer interrupt is switched off until
  the guest programs the timer again; no other bit of \<open>hvip\<close> and \<open>sie\<close> changes and
  no firmware call is made.
\<close>

theorem timer_interrupt_injected:
  assumes "env_ok env vid" and "loop_inv vid (gprs, m)"
    and "get_vcpu (vcpus (m_vm m)) vid = Ok v" and "t = trapped_m env vid m v"
    and "csr (hart_hw t) CSR_SCAUSE = 2 ^ 63 + 5"
  shows "\<exists>gprs' m' v'. run_iter env vid gprs m = Some (Ok gprs', m')
    \<and> get_vcpu (vcpus (m_vm m')) vid = Ok v' \<and> get_pc v' = csr (hart_hw t) CSR_SEPC
    \<and> (\<forall>r. r \<noteq> Zero \<longrightarrow> get_gpr v' r = gpr t r)
    \<and> (\<forall>i. bit (csr (hart_hw (m_hart m')) CSR_HVIP) i \<longleftrightarrow> bit (csr (hart_hw t) CSR_HVIP) i \<or> i = 6)
    \<and> (\<forall>i. bit (csr (hart_hw (m_hart m')) CSR_SIE) i \<longleftrightarrow> bit (csr (hart_hw t) CSR_SIE) i \<and> i \<noteq> 5)
    \<and> m_fw m' = m_fw m \<and> vm_plic (m_vm m') = vm_plic (m_vm m)"
proof -
  obtain v1 m1 where en: "entered vid m t v1 m1"
    and run: "enter_guest env vid gprs m =
      (omap (\<lambda>info. (info, vcpu_gprs v1)) (exit_info (e_spec env) (csr (hart_hw t)) v1), m1)"
    by (rule enter_guest_entered [OF assms(1-4)])
  note e = enteredD [OF en]
  have info: "exit_info (e_spec env) (csr (hart_hw t)) v1 = Ok TimerInterruptEmulation"
    using assms(5) by (simp add: exit_info_def)
  define m2 where "m2 = m1\<lparr>m_hart := (m_hart m1)\<lparr>hart_hw :=
     snd (read_and_clear_bits CSR_SIE SUPERVISOR_TIMER
       (snd (read_and_set_bits CSR_HVIP VIRTUAL_SUPERVISOR_TIMER (hart_hw (m_hart m1)))))\<rparr>\<rparr>"
  have "handle_exit env TimerInterruptEmulation (vcpu_gprs v1) m1 = Some (Ok (vcpu_gprs v1, None), m2)"
    by (simp add: handle_exit_def on_hw_def hm_defs m2_def CSR_def)
  moreover have m2: "m_vm m2 = m_vm m1" "m_fw m2 = m_fw m"
    "csr (hart_hw (m_hart m2)) CSR_HVIP = csr (hart_hw t) CSR_HVIP OR VIRTUAL_SUPERVISOR_TIMER"
    "csr (hart_hw (m_hart m2)) CSR_SIE = csr (hart_hw t) CSR_SIE AND NOT SUPERVISOR_TIMER"
    using en by (simp_all add: entered_def m2_def csr_access_defs csr_number_defs)
  ultimately obtain m' v' where "run_iter env vid gprs m = Some (Ok (vcpu_gprs v1), m')"
    "m' = put_m m2 vid v'" "get_vcpu (vcpus (m_vm m')) vid = Ok v'"
    "get_pc v' = csr (hart_hw t) CSR_SEPC" "get_gpr v' = reg (vcpu_gprs v1)"
    using run_iter_resumes [OF en run info] e(1,2) by fastforce
  then show ?thesis
    using e(4) m2 e(3)
    by (intro exI [of _ "vcpu_gprs v1"] exI [of _ m'] exI [of _ v']) (simp add: timer_bits)
qed

theorem timer_interrupt_injected_witness:
  "\<exists>gprs' m'. run_iter (sample_env (trap_guest [CSR_SCAUSE \<mapsto> 2 ^ 63 + 5, CSR_HVIP \<mapsto> 0, CSR_SIE \<mapsto> 0x222]
       Map.empty)) 0 GeneralPurposeRegisters_default sample_machine = Some (Ok gprs', m')
   \<and> bit (csr (hart_hw (m_hart m')) CSR_HVIP) 6 \<and> \<not> bit (csr (hart_hw (m_hart m')) CSR_SIE) 5"
proof -
  let ?cs = "[CSR_SCAUSE \<mapsto> 2 ^ 63 + 5, CSR_HVIP \<mapsto> 0, CSR_SIE \<mapsto> 0x222] :: u16 \<rightharpoonup> usize"
  have cs: "CSR_SSCRATCH \<notin> dom ?cs" "?cs CSR_SCAUSE = Some (2 ^ 63 + 5)"
    by (simp_all add: csr_number_defs)
  have t: "csr (hart_hw (trapped_m (sample_env (trap_guest ?cs Map.empty)) 0 sample_machine sample_vcpu))
      CSR_SCAUSE = 2 ^ 63 + 5"
    using cs(2) by (rule sample_trapped)
  from timer_interrupt_injected [OF sample_env_ok [OF cs(1)] sample_loop_inv sample_cpu refl t]
  show ?thesis by blast
qed

text \<open>
  When the guest programs its timer, the firmware timer is set to the value
  in \<open>a0\<close>, the pending virtual timer interrupt is withdrawn and the host's timer
  interrupt is switched on again; the guest continues after the call with all
  registers unchanged.
\<close>

theorem set_timer_rearms:
  assumes "env_ok env vid" and "loop_inv vid (gprs, m)"
    and "get_vcpu (vcpus (m_vm m)) vid = Ok v" and "t = trapped_m env vid m v"
    and "csr (hart_hw t) CSR_SCAUSE = 10"
    and "SbiMessage_from_regs (e_spec env) (map (gpr t) [A0, A1, A2, A3, A4, A5, A6, A7]) = Ok (SetTimer T)"
  shows "\<exists>gprs' m' v'. run_iter env vid gprs m = Some (Ok gprs', m')
    \<and> get_vcpu (vcpus (m_vm m')) vid = Ok v' \<and> get_pc v' = csr (hart_hw t) CSR_SEPC + 4
    \<and> (\<forall>r. r \<noteq> Zero \<longrightarrow> get_gpr v' r = gpr t r)
    \<and> m_fw m' = set_timer (e_rt env) T (m_fw m)
    \<and> (\<forall>i. bit (csr (hart_hw (m_hart m')) CSR_HVIP) i \<longleftrightarrow> bit (csr (hart_hw t) CSR_HVIP) i \<and> i \<noteq> 6)
    \<and> (\<forall>i. bit (csr (hart_hw (m_hart m')) CSR_SIE) i \<longleftrightarrow> bit (csr (hart_hw t) CSR_SIE) i \<or> i = 5)"
proof -
  obtain v1 m1 where en: "entered vid m t v1 m1"
    and run: "enter_guest env vid gprs m =
      (omap (\<lambda>info. (info, vcpu_gprs v1)) (exit_info (e_spec env) (csr (hart_hw t)) v1), m1)"
    by (rule enter_guest_entered [OF assms(1-4)])
  note e = enteredD [OF en]
  have info: "exit_info (e_spec env) (csr (hart_hw t)) v1 = Ok (Ecall (Some (SetTimer T)))"
    using assms(5,6) e(6) by (simp add: exit_info_def)
  define m2 where "m2 = m1\<lparr>m_fw := set_timer (e_rt env) T (m_fw m1),
     m_hart := (m_hart m1)\<lparr>hart_hw :=
     snd (read_and_set_bits CSR_SIE SUPERVISOR_TIMER
       (snd (read_and_clear_bits CSR_HVIP VIRTUAL_SUPERVISOR_TIMER (hart_hw (m_hart m1)))))\<rparr>\<rparr>"
  have "handle_exit env (Ecall (Some (SetTimer T))) (vcpu_gprs v1) m1 =
      Some (Ok (vcpu_gprs v1, Some 4), m2)"
    by (simp add: handle_exit_def handle_ecall_def on_fw_def on_hw_def hm_defs m2_def CSR_def)
  moreover have m2: "m_vm m2 = m_vm m1" "m_fw m2 = set_timer (e_rt env) T (m_fw m)"
    "csr (hart_hw (m_hart m2)) CSR_HVIP = csr (hart_hw t) CSR_HVIP AND NOT VIRTUAL_SUPERVISOR_TIMER"
    "csr (hart_hw (m_hart m2)) CSR_SIE = csr (hart_hw t) CSR_SIE OR SUPERVISOR_TIMER"
    using en by (simp_all add: entered_def m2_def csr_access_defs csr_number_defs)
  ultimately obtain m' v' where "run_iter env vid gprs m = Some (Ok (vcpu_gprs v1), m')"
    "m' = put_m m2 vid v'" "get_vcpu (vcpus (m_vm m')) vid = Ok v'"
    "get_pc v' = csr (hart_hw t) CSR_SEPC + 4" "get_gpr v' = reg (vcpu_gprs v1)"
    using run_iter_resumes [OF en run info] e(1,2) by fastforce
  then show ?thesis
    using e(4) m2
    by (intro exI [of _ "vcpu_gprs v1"] exI [of _ m'] exI [of _ v']) (simp add: timer_bits)
qed

theorem set_timer_rearms_witness:
  "\<exists>gprs' m'. run_iter (sample_env (trap_guest [CSR_SCAUSE \<mapsto> 10]
       (\<lambda>r. Some (if r = A7 then 0x54494D45 else 99)))) 0 GeneralPurposeRegisters_default sample_machine
     = Some (Ok gprs', m')
   \<and> m_fw m' = 99 \<and> bit (csr (hart_hw (m_hart m')) CSR_SIE) 5"
proof -
  let ?cs = "[CSR_SCAUSE \<mapsto> 10] :: u16 \<rightharpoonup> usize"
  let ?gs = "\<lambda>r. Some (if r = A7 then 0x54494D45 else 99) :: usize option"
  have cs: "CSR_SSCRATCH \<notin> dom ?cs" "?cs CSR_SCAUSE = Some 10" by (simp_all add: csr_number_defs)
  let ?t = "trapped_m (sample_env (trap_guest ?cs ?gs)) 0 sample_machine sample_vcpu"
  have t: "csr (hart_hw ?t) CSR_SCAUSE = 10" using cs(2) by (rule sample_trapped)
  have g: "gpr ?t r = (if r = A7 then 0x54494D45 else 99)" for r by (rule sample_trapped(2)) simp
  have "SbiMessage_from_regs (e_spec (sample_env (trap_guest ?cs ?gs)))
      (map (gpr ?t) [A0, A1, A2, A3, A4, A5, A6, A7]) = Ok (SetTimer 99)"
    by (simp add: g) (simp add: sample_env_def sbi_spec_v1_def SbiMessage_from_regs_def)
  moreover have "set_timer (e_rt (sample_env (trap_guest ?cs ?gs))) 99 f = 99" for f
    by (simp add: sample_env_def sample_rt_def)
  ultimately show ?thesis
    using set_timer_rearms [OF sample_env_ok [OF cs(1)] sample_loop_inv sample_cpu refl t] by auto
qed

lemma handle_irq_run:
  assumes "plic_wf (vm_plic (m_vm m))"
    and "e_read_volatile env (base (vm_plic (m_vm m)) + 0x00200004 + 0x1000 * of_nat 1) (world (m_hart m)) = (irq, w)"
  shows "handle_irq env m = (if irq = 0 then (Panic AssertFailed, m\<lparr>m_hart := (m_hart m)\<lparr>world := w\<rparr>\<rparr>)
    else (Ok (), m\<lparr>m_vm := (m_vm m)\<lparr>vm_plic := set_claim 1 irq (vm_plic (m_vm m))\<rparr>,
      m_hart := (m_hart m)\<lparr>world := w, hart_hw :=
        snd (read_and_set_bits CSR_HVIP VIRTUAL_SUPERVISOR_EXTERNAL (hart_hw (m_hart m)))\<rparr>\<rparr>))"
  using assms by (simp add: handle_irq_def plic_wf_def set_claim_def on_hw_def hmod_def CSR_def Let_def)

text \<open>
  An external interrupt: the number claimed from the physical controller is
  latched in the claim cell of context 1 of the emulated one and in no other, the
  virtual external interrupt becomes pending, and the guest resumes where it was
  with all its registers. If the physical controller reports no interrupt the
  hypervisor panics.
\<close>

theorem external_interrupt_latched:
  assumes "env_ok env vid" and "loop_inv vid (gprs, m)"
    and "get_vcpu (vcpus (m_vm m)) vid = Ok v" and "t = trapped_m env vid m v"
    and "csr (hart_hw t) CSR_SCAUSE = 2 ^ 63 + 9"
    and "e_read_volatile env (base (vm_plic (m_vm m)) + 0x201004) (world t) = (irq, w)"
  shows "if irq = 0 then \<exists>m'. run_iter env vid gprs m = Some (Panic AssertFailed, m')
    else \<exists>gprs' m' v'. run_iter env vid gprs m = Some (Ok gprs', m')
      \<and> get_vcpu (vcpus (m_vm m')) vid = Ok v' \<and> get_pc v' = csr (hart_hw t) CSR_SEPC
      \<and> (\<forall>r. r \<noteq> Zero \<longrightarrow> get_gpr v' r = gpr t r)
      \<and> vm_plic (m_vm m') = set_claim 1 irq (vm_plic (m_vm m))
      \<and> (\<forall>i. bit (csr (hart_hw (m_hart m')) CSR_HVIP) i \<longleftrightarrow> bit (csr (hart_hw t) CSR_HVIP) i \<or> i = 10)
      \<and> world (m_hart m') = w"
proof -
  obtain v1 m1 where en: "entered vid m t v1 m1"
    and run: "enter_guest env vid gprs m =
      (omap (\<lambda>info. (info, vcpu_gprs v1)) (exit_info (e_spec env) (csr (hart_hw t)) v1), m1)"
    by (rule enter_guest_entered [OF assms(1-4)])
  note e = enteredD [OF en]
  have info: "exit_info (e_spec env) (csr (hart_hw t)) v1 = Ok ExternalInterruptEmulation"
    using assms(5) by (simp add: exit_info_def)
  have "plic_wf (vm_plic (m_vm m1))" using assms(2) e(3) by (simp add: loop_inv_def vm_wf_def)
  moreover have "e_read_volatile env (base (vm_plic (m_vm m1)) + 0x00200004 + 0x1000 * of_nat 1)
      (world (m_hart m1)) = (irq, w)"
    using assms(6) en by (simp add: entered_def add.commute)
  ultimately have irq: "handle_irq env m1 = (if irq = 0 then (Panic AssertFailed, m1\<lparr>m_hart := (m_hart m1)\<lparr>world := w\<rparr>\<rparr>)
    else (Ok (), m1\<lparr>m_vm := (m_vm m1)\<lparr>vm_plic := set_claim 1 irq (vm_plic (m_vm m1))\<rparr>,
      m_hart := (m_hart m1)\<lparr>world := w, hart_hw :=
        snd (read_and_set_bits CSR_HVIP VIRTUAL_SUPERVISOR_EXTERNAL (hart_hw (m_hart m1)))\<rparr>\<rparr>))"
    by (rule handle_irq_run)
  show ?thesis
  proof (cases "irq = 0")
    case True
    then have "handle_exit env ExternalInterruptEmulation (vcpu_gprs v1) m1 =
        Some (Panic AssertFailed, m1\<lparr>m_hart := (m_hart m1)\<lparr>world := w\<rparr>\<rparr>)"
      by (simp add: handle_exit_def hm_defs irq)
    from run_iter_panics [OF run info this] show ?thesis using True by simp
  next
    case False
    define m2 where "m2 = m1\<lparr>m_vm := (m_vm m1)\<lparr>vm_plic := set_claim 1 irq (vm_plic (m_vm m1))\<rparr>,
      m_hart := (m_hart m1)\<lparr>world := w, hart_hw :=
        snd (read_and_set_bits CSR_HVIP VIRTUAL_SUPERVISOR_EXTERNAL (hart_hw (m_hart m1)))\<rparr>\<rparr>"
    have "handle_exit env ExternalInterruptEmulation (vcpu_gprs v1) m1 =
        Some (Ok (vcpu_gprs v1, None), m2)"
      using False by (simp add: handle_exit_def hm_defs irq m2_def)
    moreover have m2: "get_vcpu (vcpus (m_vm m2)) vid = Ok v1" "world (m_hart m2) = w"
      "vm_plic (m_vm m2) = set_claim 1 irq (vm_plic (m_vm m))"
      "csr (hart_hw (m_hart m2)) CSR_HVIP = csr (hart_hw t) CSR_HVIP OR VIRTUAL_SUPERVISOR_EXTERNAL"
      using en by (simp_all add: entered_def m2_def)
    ultimately obtain m' v' where "run_iter env vid gprs m = Some (Ok (vcpu_gprs v1), m')"
      "m' = put_m m2 vid v'" "get_vcpu (vcpus (m_vm m')) vid = Ok v'"
      "get_pc v' = csr (hart_hw t) CSR_SEPC" "get_gpr v' = reg (vcpu_gprs v1)"
      using run_iter_resumes [OF en run info] e(1,2) by fastforce
    then show ?thesis
      using False e(4) m2
      by - (subst if_not_P [OF False], intro exI [of _ "vcpu_gprs v1"] exI [of _ m'] exI [of _ v'],
          simp add: timer_bits)
  qed
qed

theorem external_interrupt_latched_witness:
  "\<exists>gprs' m'. run_iter (sample_env (trap_guest [CSR_SCAUSE \<mapsto> 2 ^ 63 + 9] Map.empty)) 0
       GeneralPurposeRegisters_default sample_machine = Some (Ok gprs', m')
   \<and> vm_plic (m_vm m') = set_claim 1 8 (PlicState_new 0x0c000000)
   \<and> bit (csr (hart_hw (m_hart m')) CSR_HVIP) 10"
proof -
  let ?cs = "[CSR_SCAUSE \<mapsto> 2 ^ 63 + 9] :: u16 \<rightharpoonup> usize"
  let ?env = "sample_env (trap_guest ?cs Map.empty)"
  let ?t = "trapped_m ?env 0 sample_machine sample_vcpu"
  have cs: "CSR_SSCRATCH \<notin> dom ?cs" "?cs CSR_SCAUSE = Some (2 ^ 63 + 9)"
    by (simp_all add: csr_number_defs)
  have t: "csr (hart_hw ?t) CSR_SCAUSE = 2 ^ 63 + 9" using cs(2) by (rule sample_trapped)
  have dev: "e_read_volatile ?env a (world ?t) = (8, world ?t)" for a by (simp add: sample_env_def)
  have irq: "(8 :: u32) \<noteq> 0" by simp
  have "\<exists>gprs' m'. run_iter ?env 0 GeneralPurposeRegisters_default sample_machine = Some (Ok gprs', m')
    \<and> vm_plic (m_vm m') = set_claim 1 8 (vm_plic (m_vm sample_machine))
    \<and> bit (csr (hart_hw (m_hart m')) CSR_HVIP) 10"
    using external_interrupt_latched [OF sample_env_ok [OF cs(1)] sample_loop_inv sample_cpu refl t dev]
    unfolding if_not_P [OF irq] by blast
  then show ?thesis by (simp add: sample_machine_def sample_vm_def)
qed

text \<open>
  A guest page fault in supervisor mode inside the window of the interrupt
  controller, by a 32-bit instruction that the hardware reports in \<open>htinst\<close>; \<open>va\<close> is
  the host address that the faulting guest-physical address stands for.
\<close>

definition plic_fault :: "('g, 'i, 'w, 'f) env \<Rightarrow> PlicState \<Rightarrow> 'w hart \<Rightarrow> Instruction \<Rightarrow> usize \<Rightarrow> bool" where
  "plic_fault env plic t i va \<longleftrightarrow>
     (let c = csr (hart_hw t);
          fa = shl (c CSR_HTVAL) 2 OR (c CSR_STVAL AND 3);
          inst = as_u32 (c CSR_HTINST)
      in (c CSR_SCAUSE = 21 \<or> c CSR_SCAUSE = 23) \<and> bit (c CSR_HSTATUS) 8
         \<and> virt_to_phys (e_gpt env) (base plic) \<le> fa
         \<and> fa < virt_to_phys (e_gpt env) (base plic + 0x04000000)
         \<and> va = phys_to_virt (e_gpt env) fa
         \<and> inst \<noteq> 0 \<and> instruction_length env (as_u16 inst) = 4 \<and> decode env inst = Some i)"

lemma plic_fault_handled:
  assumes "entered vid m t v1 m1" and "plic_fault env (vm_plic (m_vm m)) t i va"
  shows "\<exists>info. exit_info (e_spec env) (csr (hart_hw t)) v1 = Ok info
    \<and> handle_exit env info g m1 =
       (case emulate_plic (vm_plic (m_vm m)) (hart_hw (m_hart m1)) 4 va g i of
          Ok (inst_len, g, plic, hw) \<Rightarrow>
            Some (Ok (g, Some inst_len),
                  m1\<lparr>m_vm := (m_vm m1)\<lparr>vm_plic := plic\<rparr>, m_hart := (m_hart m1)\<lparr>hart_hw := hw\<rparr>\<rparr>)
        | Err e \<Rightarrow> Some (Panic ExplicitPanic, m1)
        | Panic p \<Rightarrow> Some (Panic p, m1))"
proof -
  let ?c = "csr (hart_hw t)"
  have f: "?c CSR_SCAUSE = 21 \<or> ?c CSR_SCAUSE = 23" "bit (?c CSR_HSTATUS) 8"
    using assms(2) by (simp_all add: plic_fault_def Let_def)
  have plic: "vm_plic (m_vm m1) = vm_plic (m_vm m)" "guest_hstatus (guest_regs (vcpu_regs v1)) = ?c CSR_HSTATUS"
    using assms(1) by (simp_all add: entered_def)
  have "exit_info (e_spec env) ?c v1 = Ok (PageFaultExit (shl (?c CSR_HTVAL) 2 OR (?c CSR_STVAL AND 3))
      (get_pc v1) (as_u32 (?c CSR_HTINST)) Supervisor)"
    using f plic(2) unfolding exit_info_def by auto
  moreover have "handle_page_fault env (vm_plic (m_vm m1)) (m_hart m1) (get_pc v1) (as_u32 (?c CSR_HTINST))
      (shl (?c CSR_HTVAL) 2 OR (?c CSR_STVAL AND 3)) g =
      emulate_plic (vm_plic (m_vm m)) (hart_hw (m_hart m1)) 4 va g i"
    using assms(2) plic(1)
    by (simp add: plic_fault_def handle_page_fault_def handle_plic_def Let_def del: shl_below)
  ultimately show ?thesis
    by - (rule exI, rule conjI, assumption, simp add: handle_exit_def)
qed

text \<open>
  Claim C25. Emulating a word load from the interrupt controller: the destination
  register receives the value of the device register (zero-extended), every other
  register keeps its value, and the guest continues after the instruction; the
  controller is unchanged. If the device register can not be read the hypervisor
  panics.
\<close>

theorem plic_load_emulated:
  assumes "env_ok env vid" and "loop_inv vid (gprs, m)"
    and "get_vcpu (vcpus (m_vm m)) vid = Ok v" and "t = trapped_m env vid m v"
    and "plic_fault env (vm_plic (m_vm m)) t (Lw rd) va" and "from_raw rd = Some r"
  shows "case read_u32 (vm_plic (m_vm m)) va of
      Ok val \<Rightarrow> \<exists>gprs' m' v'. run_iter env vid gprs m = Some (Ok gprs', m')
        \<and> get_vcpu (vcpus (m_vm m')) vid = Ok v' \<and> get_pc v' = csr (hart_hw t) CSR_SEPC + 4
        \<and> (\<forall>x. x \<noteq> Zero \<longrightarrow> get_gpr v' x = (if x = r then as_usize val else gpr t x))
        \<and> get_gpr v' Zero = 0 \<and> vm_plic (m_vm m') = vm_plic (m_vm m)
    | _ \<Rightarrow> \<exists>w m'. run_iter env vid gprs m = Some (Panic w, m')"
proof -
  obtain v1 m1 where en: "entered vid m t v1 m1"
    and run: "enter_guest env vid gprs m =
      (omap (\<lambda>info. (info, vcpu_gprs v1)) (exit_info (e_spec env) (csr (hart_hw t)) v1), m1)"
    by (rule enter_guest_entered [OF assms(1-4)])
  note e = enteredD [OF en]
  obtain info where info: "exit_info (e_spec env) (csr (hart_hw t)) v1 = Ok info"
    and h: "handle_exit env info (vcpu_gprs v1) m1 =
       (case emulate_plic (vm_plic (m_vm m)) (hart_hw (m_hart m1)) 4 va (vcpu_gprs v1) (Lw rd) of
          Ok (inst_len, g, plic, hw) \<Rightarrow>
            Some (Ok (g, Some inst_len),
                  m1\<lparr>m_vm := (m_vm m1)\<lparr>vm_plic := plic\<rparr>, m_hart := (m_hart m1)\<lparr>hart_hw := hw\<rparr>\<rparr>)
        | Err e \<Rightarrow> Some (Panic ExplicitPanic, m1)
        | Panic p \<Rightarrow> Some (Panic p, m1))"
    using plic_fault_handled [OF en assms(5)] by blast
  show ?thesis
  proof (cases "read_u32 (vm_plic (m_vm m)) va")
    case (Ok val)
    let ?g = "set_reg (vcpu_gprs v1) r (as_usize val)"
    let ?m2 = "m1\<lparr>m_vm := (m_vm m1)\<lparr>vm_plic := vm_plic (m_vm m)\<rparr>,
      m_hart := (m_hart m1)\<lparr>hart_hw := hart_hw (m_hart m1)\<rparr>\<rparr>"
    have "handle_exit env info (vcpu_gprs v1) m1 = Some (Ok (?g, Some 4), ?m2)"
      using h Ok assms(6) by (simp add: emulate_plic_def)
    from run_iter_resumes [OF en run info this] e(1,2)
    obtain m' v' where "run_iter env vid gprs m = Some (Ok ?g, m')" "m' = put_m ?m2 vid v'"
      "get_vcpu (vcpus (m_vm m')) vid = Ok v'" "get_pc v' = csr (hart_hw t) CSR_SEPC + 4"
      "get_gpr v' = reg ?g"
      by fastforce
    then show ?thesis
      using Ok e(2,4,5) by (auto simp: gprs.rd_wr)
  next
    case (Err x)
    then show ?thesis using h run_iter_panics [OF run info] by (auto simp: emulate_plic_def)
  next
    case (Panic x)
    then show ?thesis using h run_iter_panics [OF run info] by (auto simp: emulate_plic_def)
  qed
qed

text \<open>The CSR values of a word access to the claim register of context 1.\<close>

definition claim_fault :: "usize \<Rightarrow> u16 \<rightharpoonup> usize" where
  "claim_fault inst = [CSR_SCAUSE \<mapsto> 21, CSR_HSTATUS \<mapsto> 0x100, CSR_HTVAL \<mapsto> 0x3080401, CSR_STVAL \<mapsto> 0,
     CSR_HTINST \<mapsto> inst, CSR_SEPC \<mapsto> 0x80200000, CSR_HVIP \<mapsto> 0x400]"

lemma claim_fault_dom: "CSR_SSCRATCH \<notin> dom (claim_fault inst)"
  by (simp add: claim_fault_def csr_number_defs)

lemma claim_fault_plic:
  assumes "as_u32 inst \<noteq> 0" and "as_u16 (as_u32 inst) AND 3 = 3"
    and "decode (sample_env (trap_guest (claim_fault inst) gs)) (as_u32 inst) = Some i"
  shows "plic_fault (sample_env (trap_guest (claim_fault inst) gs)) (vm_plic (m_vm sample_machine))
    (trapped_m (sample_env (trap_guest (claim_fault inst) gs)) 0 sample_machine sample_vcpu) i 0x0c201004"
proof -
  let ?env = "sample_env (trap_guest (claim_fault inst) gs)"
  let ?t = "trapped_m ?env 0 sample_machine sample_vcpu"
  have cs: "claim_fault inst CSR_SCAUSE = Some 21" "claim_fault inst CSR_HSTATUS = Some 0x100"
    "claim_fault inst CSR_HTVAL = Some 0x3080401" "claim_fault inst CSR_STVAL = Some 0"
    "claim_fault inst CSR_HTINST = Some inst"
    by (simp_all add: claim_fault_def csr_number_defs)
  note t = cs [THEN sample_trapped(1) [where cs = "claim_fault inst" and gs = gs and vid = 0
      and m = sample_machine and v = sample_vcpu]]
  have fa: "shl (0x3080401 :: usize) 2 OR (0 AND 3) = 0x0c201004" by simp
  have hs: "bit (0x100 :: usize) 8" by simp
  have "virt_to_phys (e_gpt ?env) = (\<lambda>a. a)" "phys_to_virt (e_gpt ?env) = (\<lambda>a. a)"
    "instruction_length ?env = (\<lambda>i. if i AND 3 = 3 then 4 else 2)"
    by (simp_all add: sample_env_def map_gpt_def)
  moreover have "base (vm_plic (m_vm sample_machine)) = 0x0c000000"
    by (simp add: sample_machine_def sample_vm_def)
  ultimately show ?thesis
    unfolding plic_fault_def Let_def t fa using assms hs by simp
qed

theorem plic_load_emulated_witness:
  "\<exists>gprs' m' v'. run_iter (sample_env (trap_guest (claim_fault 0x00052503) Map.empty)) 0
       GeneralPurposeRegisters_default sample_machine = Some (Ok gprs', m')
   \<and> get_vcpu (vcpus (m_vm m')) 0 = Ok v' \<and> get_gpr v' A0 = 0"
proof -
  let ?env = "sample_env (trap_guest (claim_fault 0x00052503) Map.empty)"
  have "decode ?env (as_u32 (0x00052503 :: usize)) = Some (Lw 10)" by (simp add: sample_env_def)
  from claim_fault_plic [OF _ _ this]
  have f: "plic_fault ?env (vm_plic (m_vm sample_machine))
      (trapped_m ?env 0 sample_machine sample_vcpu) (Lw 10) 0x0c201004" by simp
  have r: "from_raw 10 = Some A0" by code_simp
  have rd: "read_u32 (vm_plic (m_vm sample_machine)) 0x0c201004 = Ok 0"
    by (simp add: sample_machine_def sample_vm_def PlicState_new_def read_u32_def)
  have "A0 \<noteq> Zero" by simp
  with plic_load_emulated [OF sample_env_ok [OF claim_fault_dom] sample_loop_inv sample_cpu refl f r] rd
  show ?thesis by (simp only: outcome.case) (metis ucast_0)
qed



text \<open>
  Claim C29. What a guest can do to stop the hypervisor: a supervisor call with an
  extension or argument that the decoder refuses, a breakpoint instruction while no
  debugger is attached, and a guest page fault of a user-mode program all end the
  run loop with a panic.
\<close>

theorem guest_stops_hypervisor:
  assumes "env_ok env vid" and "loop_inv vid (gprs, m)"
    and "get_vcpu (vcpus (m_vm m)) vid = Ok v" and "t = trapped_m env vid m v"
    and "c = csr (hart_hw t)"
    and "(c CSR_SCAUSE = 10
            \<and> SbiMessage_from_regs (e_spec env) (map (gpr t) [A0, A1, A2, A3, A4, A5, A6, A7]) = Err e)
         \<or> (c CSR_SCAUSE = 3 \<and> gdbstub (m_vm m) = None)
         \<or> (c CSR_SCAUSE \<in> {21, 23} \<and> \<not> bit (c CSR_HSTATUS) 8)"
  shows "\<exists>w m'. run_iter env vid gprs m = Some (Panic w, m')"
proof -
  obtain v1 m1 where en: "entered vid m t v1 m1"
    and run: "enter_guest env vid gprs m =
      (omap (\<lambda>info. (info, vcpu_gprs v1)) (exit_info (e_spec env) (csr (hart_hw t)) v1), m1)"
    by (rule enter_guest_entered [OF assms(1-4)])
  note a = enteredD(6) [OF en]
  have g: "gdbstub (m_vm m1) = gdbstub (m_vm m)"
    "guest_hstatus (guest_regs (vcpu_regs v1)) = c CSR_HSTATUS"
    using en assms(5) by (simp_all add: entered_def)
  from assms(6) obtain info w m2 where "exit_info (e_spec env) (csr (hart_hw t)) v1 = Ok info"
    and "handle_exit env info (vcpu_gprs v1) m1 = Some (Panic w, m2)"
    using a g unfolding assms(5) exit_info_def
    by (elim disjE) (auto simp: handle_exit_def gdbserver_report_def)
  from run_iter_panics [OF run this] show ?thesis by blast
qed

theorem guest_stops_hypervisor_witness:
  "\<exists>w m'. run_iter (sample_env (trap_guest [CSR_SCAUSE \<mapsto> 3] Map.empty)) 0
       GeneralPurposeRegisters_default sample_machine = Some (Panic w, m')"
proof -
  let ?cs = "[CSR_SCAUSE \<mapsto> 3] :: u16 \<rightharpoonup> usize"
  have cs: "CSR_SSCRATCH \<notin> dom ?cs" "?cs CSR_SCAUSE = Some 3" by (simp_all add: csr_number_defs)
  have t: "csr (hart_hw (trapped_m (sample_env (trap_guest ?cs Map.empty)) 0 sample_machine sample_vcpu))
      CSR_SCAUSE = 3"
    using cs(2) by (rule sample_trapped)
  have "gdbstub (m_vm sample_machine) = None" by (simp add: sample_machine_def sample_vm_def)
  with t guest_stops_hypervisor [OF sample_env_ok [OF cs(1)] sample_loop_inv sample_cpu refl refl]
  show ?thesis by blast
qed

end
