(* ===== verification/Per_Cpu.thy ===== *)
theory Per_Cpu
  imports Prelude
begin

text \<open>
  The per-CPU areas of \<open>src/src/arch/riscv/smp.rs\<close> and of
  \<open>src/src/arch/aarch64/cpu.rs\<close>, which differ in the register that holds the
  pointer and in the size of the structure only. The size \<open>sz\<close> (that of the crate
  types inside is not fixed by the sources) and the page allocator of the hardware
  abstraction are parameters; areas live in a map from addresses.
\<close>

record PerCpu =
  cpu_id :: usize
  stack_top_addr :: HostVirtAddr
  vcpu_queue :: "usize list"

text \<open>
  \<open>PER_CPU_BASE\<close>, a write-once cell, the areas, the thread pointer of the CPU and
  the state of the allocator.
\<close>

record 'a percpu_hw =
  PER_CPU_BASE :: "HostPhysAddr option"
  pcpu_mem :: "usize \<rightharpoonup> PerCpu"
  tp_reg :: usize
  hal :: 'a

definition ptr_for_cpu :: "usize \<Rightarrow> usize \<Rightarrow> ('a percpu_hw, usize) hm" where
  "ptr_for_cpu sz cpu s =
     (obind (unwrap_option (PER_CPU_BASE s)) (\<lambda>b. Ok (b + cpu * sz)), s)"

definition boot_cpu_stack :: "GuestPhysAddr outcome" where
  "boot_cpu_stack = Ok 0"

definition hal_alloc :: "(usize \<Rightarrow> 'a \<Rightarrow> HostVirtAddr option \<times> 'a) \<Rightarrow> usize \<Rightarrow>
    ('a percpu_hw, HostVirtAddr) hm" where
  "hal_alloc alloc_pages n s =
     (case alloc_pages n (hal s) of (r, a) \<Rightarrow> (ok_or r NoMemory, s\<lparr>hal := a\<rparr>))"

definition setup_this_cpu :: "usize \<Rightarrow> usize \<Rightarrow> ('a percpu_hw, unit) hm" where
  "setup_this_cpu sz hart_id =
     hbind (ptr_for_cpu sz hart_id) (\<lambda>tp. hmod (\<lambda>s. s\<lparr>tp_reg := tp\<rparr>))"

text \<open>The loop over the CPUs of \<open>PerCpu::init\<close>.\<close>

primrec init_cpus :: "(usize \<Rightarrow> 'a \<Rightarrow> HostVirtAddr option \<times> 'a) \<Rightarrow> usize \<Rightarrow> usize \<Rightarrow> usize \<Rightarrow>
    usize list \<Rightarrow> ('a percpu_hw, unit) hm" where
  "init_cpus alloc_pages sz boot_hart_id stack_size [] = hret ()"
| "init_cpus alloc_pages sz boot_hart_id stack_size (cpu # cpus) =
     hbind (if cpu = boot_hart_id then hlift boot_cpu_stack
            else hal_alloc alloc_pages ((stack_size + PAGE_SIZE_4K - 1) div PAGE_SIZE_4K)) (\<lambda>stack_top.
     hbind (ptr_for_cpu sz cpu) (\<lambda>ptr.
     hseq (hmod (\<lambda>s. s\<lparr>pcpu_mem := (pcpu_mem s)(ptr \<mapsto>
              \<lparr>cpu_id = cpu, stack_top_addr = stack_top, vcpu_queue = []\<rparr>)\<rparr>))
     (init_cpus alloc_pages sz boot_hart_id stack_size cpus)))"

definition PerCpu_init :: "(usize \<Rightarrow> 'a \<Rightarrow> HostVirtAddr option \<times> 'a) \<Rightarrow> usize \<Rightarrow> usize \<Rightarrow> usize \<Rightarrow>
    ('a percpu_hw, unit) hm" where
  "PerCpu_init alloc_pages sz boot_hart_id stack_size =
     (let cpu_nums = 1; pcpu_size = sz * cpu_nums in
      hbind (hal_alloc alloc_pages ((pcpu_size + PAGE_SIZE_4K - 1) div PAGE_SIZE_4K)) (\<lambda>pcpu_pages.
      hseq (hmod (\<lambda>s. s\<lparr>PER_CPU_BASE :=
              (case PER_CPU_BASE s of None \<Rightarrow> Some pcpu_pages | Some b \<Rightarrow> Some b)\<rparr>))
      (hseq (init_cpus alloc_pages sz boot_hart_id stack_size (map of_nat [0..<unat cpu_nums]))
      (setup_this_cpu sz boot_hart_id))))"

text \<open>\<open>this_cpu\<close>; \<open>Ok None\<close> is a pointer to memory that was never initialised.\<close>

definition this_cpu :: "'a percpu_hw \<Rightarrow> PerCpu option outcome" where
  "this_cpu s =
     (if PER_CPU_BASE s = None then Panic AssertFailed
      else if tp_reg s = 0 then Panic UnwrapFailed
      else Ok (pcpu_mem s (tp_reg s)))"

text \<open>The queue part of \<open>create_vcpu\<close>; the vCPU itself is that of the architecture.\<close>

definition create_vcpu :: "PerCpu \<Rightarrow> usize \<Rightarrow> (usize \<Rightarrow> 'v) \<Rightarrow> 'v outcome \<times> PerCpu" where
  "create_vcpu self vid new_vcpu =
     (Ok (new_vcpu vid), self\<lparr>vcpu_queue := vcpu_queue self @ [vid]\<rparr>)"

section \<open>Initialisation\<close>

lemma PerCpu_init_run:
  "PerCpu_init alloc_pages sz boot stack s =
     (case alloc_pages ((sz + PAGE_SIZE_4K - 1) div PAGE_SIZE_4K) (hal s) of
        (None, a) \<Rightarrow> (Err NoMemory, s\<lparr>hal := a\<rparr>)
      | (Some p, a) \<Rightarrow>
          let b = (case PER_CPU_BASE s of None \<Rightarrow> p | Some b \<Rightarrow> b) in
          if boot = 0 then
            (Ok (), s\<lparr>hal := a, PER_CPU_BASE := Some b, tp_reg := b,
               pcpu_mem := (pcpu_mem s)(b \<mapsto> \<lparr>cpu_id = 0, stack_top_addr = 0, vcpu_queue = []\<rparr>)\<rparr>)
          else
            (case alloc_pages ((stack + PAGE_SIZE_4K - 1) div PAGE_SIZE_4K) a of
               (None, a') \<Rightarrow> (Err NoMemory, s\<lparr>hal := a', PER_CPU_BASE := Some b\<rparr>)
             | (Some q, a') \<Rightarrow>
                 (Ok (), s\<lparr>hal := a', PER_CPU_BASE := Some b, tp_reg := b + boot * sz,
                    pcpu_mem := (pcpu_mem s)(b \<mapsto>
                      \<lparr>cpu_id = 0, stack_top_addr = q, vcpu_queue = []\<rparr>)\<rparr>)))"
  by (auto simp: PerCpu_init_def hal_alloc_def setup_this_cpu_def ptr_for_cpu_def boot_cpu_stack_def
      hm_defs Let_def split: option.splits prod.splits)

text \<open>
  Claim C34. After a successful initialisation by CPU 0, with a page allocator that
  does not return the null page, \<open>this_cpu\<close> yields the area of CPU 0 with an empty
  queue. After
  initialisation by a CPU with another number, the pointer does not point to the
  one area that was initialised (unless the address arithmetic wraps onto it).
\<close>

theorem PerCpu_init_this_cpu:
  assumes "PerCpu_init alloc_pages sz boot stack s = (Ok (), s')"
    and "PER_CPU_BASE s = None" and "pcpu_mem s = Map.empty"
    and "\<forall>n a p. fst (alloc_pages n a) = Some p \<longrightarrow> p \<noteq> 0"
  shows "if boot = 0 then
      this_cpu s' = Ok (Some \<lparr>cpu_id = 0, stack_top_addr = 0, vcpu_queue = []\<rparr>)
    else boot * sz \<noteq> 0 \<and> tp_reg s' \<noteq> 0 \<longrightarrow> this_cpu s' = Ok None"
proof -
  obtain p a where al: "alloc_pages ((sz + PAGE_SIZE_4K - 1) div PAGE_SIZE_4K) (hal s) = (Some p, a)"
    using assms(1) unfolding PerCpu_init_run by (cases "alloc_pages ((sz + PAGE_SIZE_4K - 1) div PAGE_SIZE_4K) (hal s)")
      (auto split: option.splits)
  then have p: "p \<noteq> 0" using assms(4) by (metis fst_conv)
  show ?thesis
  proof (cases "boot = 0")
    case True
    then have "s' = s\<lparr>hal := a, PER_CPU_BASE := Some p, tp_reg := p,
               pcpu_mem := (pcpu_mem s)(p \<mapsto> \<lparr>cpu_id = 0, stack_top_addr = 0, vcpu_queue = []\<rparr>)\<rparr>"
      using assms(1,2) al by (simp add: PerCpu_init_run)
    with True p show ?thesis by (simp add: this_cpu_def)
  next
    case False
    then obtain q a' where "s' = s\<lparr>hal := a', PER_CPU_BASE := Some p, tp_reg := p + boot * sz,
        pcpu_mem := (pcpu_mem s)(p \<mapsto> \<lparr>cpu_id = 0, stack_top_addr = q, vcpu_queue = []\<rparr>)\<rparr>"
      using assms(1,2) al by (auto simp: PerCpu_init_run split: prod.splits option.splits)
    with False assms(3) show ?thesis by (simp add: this_cpu_def)
  qed
qed

text \<open>A bump allocator over 4 KiB pages, for the witness.\<close>

definition bump_alloc :: "usize \<Rightarrow> usize \<Rightarrow> HostVirtAddr option \<times> usize" where
  "bump_alloc n a = (if a = 0 then (None, a) else (Some a, a + n * PAGE_SIZE_4K))"

theorem PerCpu_init_this_cpu_witness:
  "this_cpu (snd (PerCpu_init bump_alloc 56 0 0x4000
      \<lparr>PER_CPU_BASE = None, pcpu_mem = Map.empty, tp_reg = 0, hal = 0x80000\<rparr>)) =
     Ok (Some \<lparr>cpu_id = 0, stack_top_addr = 0, vcpu_queue = []\<rparr>)
   \<and> this_cpu (snd (PerCpu_init bump_alloc 56 3 0x4000
      \<lparr>PER_CPU_BASE = None, pcpu_mem = Map.empty, tp_reg = 0, hal = 0x80000\<rparr>)) = Ok None"
proof -
  let ?s = "\<lparr>PER_CPU_BASE = None, pcpu_mem = Map.empty, tp_reg = 0, hal = 0x80000\<rparr> :: usize percpu_hw"
  have al: "\<forall>n a p. fst (bump_alloc n a) = Some p \<longrightarrow> p \<noteq> 0" by (simp add: bump_alloc_def)
  have run: "PerCpu_init bump_alloc 56 0 0x4000 ?s = (Ok (), snd (PerCpu_init bump_alloc 56 0 0x4000 ?s))"
    "PerCpu_init bump_alloc 56 3 0x4000 ?s = (Ok (), snd (PerCpu_init bump_alloc 56 3 0x4000 ?s))"
    "tp_reg (snd (PerCpu_init bump_alloc 56 3 0x4000 ?s)) \<noteq> 0"
    by (simp_all add: PerCpu_init_run bump_alloc_def PAGE_SIZE_4K_def)
  show ?thesis
    using PerCpu_init_this_cpu [OF run(1) _ _ al] PerCpu_init_this_cpu [OF run(2) _ _ al] run(3) by simp
qed

end
