(* ===== verification/Riscv_Detect.thy ===== *)
theory Riscv_Detect
  imports Riscv_Vcpu
begin

text \<open>
  \<open>src/src/arch/riscv/detect.rs\<close>: finding out whether the hart has the hypervisor
  extension by reading \<open>hgatp\<close> with a trap handler of its own installed, and
  \<open>init_hv_runtime\<close> of \<open>src/src/arch/riscv/mod.rs\<close>, which relies on it. Whether the
  extension exists, and what the hart reports about the illegal instruction, are
  parameters of the probing instruction.
\<close>

section \<open>State\<close>

text \<open>The registers that the detection saves, changes and restores.\<close>

record detect_hart =
  sstatus_sie :: bool
  stvec_bits :: usize
  tp :: usize
  pc :: usize

record TrapFrame =
  frame_tp :: usize
  frame_sepc :: usize
  frame_scause :: usize
  frame_stval :: usize

section \<open>Operations\<close>

definition riscv_illegal_insn_bits :: "u16 \<Rightarrow> usize" where
  "riscv_illegal_insn_bits insn =
     (if insn = 0 then 0
      else if insn AND 3 \<noteq> 3 then 2
      else if insn AND 0x1c \<noteq> 0x1c then 4
      else 0)"

text \<open>\<open>mem16\<close> is the half-word at an address of the host's own code.\<close>

definition rust_detect_trap :: "riscv_crates \<Rightarrow> (usize \<Rightarrow> u16) \<Rightarrow> TrapFrame \<Rightarrow> TrapFrame outcome" where
  "rust_detect_trap rc mem16 trap_frame =
     (let trap_frame = trap_frame\<lparr>frame_tp := frame_scause trap_frame\<rparr> in
      case scause_cause rc (frame_scause trap_frame) of
        ExceptionTrap IllegalInstruction \<Rightarrow>
          (let insn_bits = riscv_illegal_insn_bits (as_u16 (frame_stval trap_frame AND 0xffff));
               insn_bits = (if insn_bits = 0
                            then riscv_illegal_insn_bits (mem16 (frame_sepc trap_frame))
                            else insn_bits)
           in Ok (trap_frame\<lparr>frame_sepc := frame_sepc trap_frame + insn_bits\<rparr>))
      | ExceptionTrap _ \<Rightarrow> Panic Unreachable
      | InterruptTrap _ \<Rightarrow> Panic Unreachable)"

text \<open>
  \<open>on_detect_trap\<close>: the other registers are saved before and restored after the
  call, so only \<open>tp\<close> and the program counter of the interrupted code change.
\<close>

definition on_detect_trap :: "riscv_crates \<Rightarrow> (usize \<Rightarrow> u16) \<Rightarrow> usize \<Rightarrow> usize \<Rightarrow> detect_hart \<Rightarrow>
    detect_hart outcome" where
  "on_detect_trap rc mem16 scause stval h =
     obind (rust_detect_trap rc mem16 \<lparr>frame_tp = tp h, frame_sepc = pc h, frame_scause = scause,
              frame_stval = stval\<rparr>) (\<lambda>f.
       Ok (h\<lparr>tp := frame_tp f, pc := frame_sepc f\<rparr>))"

definition init_detect_trap :: "usize \<Rightarrow> usize \<Rightarrow> detect_hart \<Rightarrow> (bool \<times> usize \<times> usize) \<times> detect_hart" where
  "init_detect_trap handler param h =
     (let stored_sie = sstatus_sie h;
          h = h\<lparr>sstatus_sie := False\<rparr>;
          stored_stvec = stvec_bits h;
          trap_addr = (if handler AND 1 \<noteq> 0 then handler + 1 else handler);
          h = h\<lparr>stvec_bits := trap_addr\<rparr>;
          stored_tp = tp h;
          h = h\<lparr>tp := param\<rparr>
      in ((stored_sie, stored_stvec, stored_tp), h))"

definition restore_detect_trap :: "bool \<times> usize \<times> usize \<Rightarrow> detect_hart \<Rightarrow> usize \<times> detect_hart" where
  "restore_detect_trap saved h =
     (case saved of (s, stvec, t) \<Rightarrow>
       let ans = tp h;
           h = h\<lparr>tp := t\<rparr>;
           h = h\<lparr>stvec_bits := stvec\<rparr>;
           h = (if s then h\<lparr>sstatus_sie := True\<rparr> else h)
       in (ans, h))"

definition with_detect_trap :: "usize \<Rightarrow> usize \<Rightarrow> (detect_hart \<Rightarrow> detect_hart outcome) \<Rightarrow> detect_hart \<Rightarrow>
    (usize \<times> detect_hart) outcome" where
  "with_detect_trap handler param f h =
     (case init_detect_trap handler param h of
        (saved, h) \<Rightarrow> obind (f h) (\<lambda>h. Ok (restore_detect_trap saved h)))"

text \<open>
  The probing instruction \<open>csrr rd, 0x680\<close>, four bytes long. Without the extension
  it is an illegal instruction and the hart goes to the address in \<open>stvec\<close>; \<open>stval\<close>
  is what the hart puts there. A trap to another address is not described.
\<close>

definition csrr_hgatp :: "riscv_crates \<Rightarrow> (usize \<Rightarrow> u16) \<Rightarrow> usize \<Rightarrow> bool \<Rightarrow> usize \<Rightarrow> detect_hart \<Rightarrow>
    detect_hart outcome" where
  "csrr_hgatp rc mem16 handler has_h stval h =
     (if has_h then Ok (h\<lparr>pc := pc h + 4\<rparr>)
      else if stvec_bits h = handler then on_detect_trap rc mem16 2 stval h
      else Panic ExplicitPanic)"

definition detect_h_extension :: "riscv_crates \<Rightarrow> (usize \<Rightarrow> u16) \<Rightarrow> usize \<Rightarrow> bool \<Rightarrow> usize \<Rightarrow> detect_hart \<Rightarrow>
    (bool \<times> detect_hart) outcome" where
  "detect_h_extension rc mem16 handler has_h stval h =
     obind (with_detect_trap handler 0 (csrr_hgatp rc mem16 handler has_h stval) h) (\<lambda>(ans, h).
       Ok (ans \<noteq> 2, h))"

definition init_hv_runtime :: "riscv_crates \<Rightarrow> (usize \<Rightarrow> u16) \<Rightarrow> usize \<Rightarrow> bool \<Rightarrow> usize \<Rightarrow> detect_hart \<Rightarrow>
    riscv_hw \<Rightarrow> (detect_hart \<times> riscv_hw) outcome" where
  "init_hv_runtime rc mem16 handler has_h stval h hw =
     obind (detect_h_extension rc mem16 handler has_h stval h) (\<lambda>(found, h).
       if \<not> found then Panic ExplicitPanic else Ok (h, setup_csrs hw))"

section \<open>Properties\<close>

text \<open>The lower half-word of \<open>csrr rd, hgatp\<close>: \<open>rd\<close> in bits 7 to 11.\<close>

definition csrr_low :: "u16 \<Rightarrow> bool" where
  "csrr_low w \<longleftrightarrow> w AND 0x7f = 0x73"

lemma csrr_low_len: "csrr_low w \<Longrightarrow> riscv_illegal_insn_bits w = 4"
proof -
  assume a: "csrr_low w"
  have "w AND 3 = (w AND 0x7f) AND 3" "w AND 0x1c = (w AND 0x7f) AND 0x1c"
    by (simp_all add: and.assoc)
  then have "w AND 3 = 3" "w AND 0x1c = 0x10" using a by (simp_all add: csrr_low_def)
  moreover have "w \<noteq> 0" using a by (auto simp: csrr_low_def)
  ultimately show ?thesis by (simp add: riscv_illegal_insn_bits_def)
qed

lemma illegal_insn_bits_0 [simp]: "riscv_illegal_insn_bits 0 = 0"
  by (simp add: riscv_illegal_insn_bits_def)



end
