(* ===== verification/X86_Crates.thy ===== *)
theory X86_Crates
  imports Prelude
begin

text \<open>
  What the x86 sources take from third-party crates as plain values and pure
  functions: the bit ranges of \<open>bit_field\<close>, and the numbers that \<open>x86\<close> and
  \<open>x86_64\<close> give to MSRs, interrupt vectors, control-register bits and
  VMX controls. They are a record passed to the definitions; \<open>x86_crates_ok\<close> states
  their documented values, and \<open>x86_crates_std\<close> is a record that has them.
\<close>

record x86_crates =
  get_bit32 :: "u32 \<Rightarrow> nat \<Rightarrow> bool"
  get_bit64 :: "u64 \<Rightarrow> nat \<Rightarrow> bool"
  get_bits32 :: "u32 \<Rightarrow> nat \<Rightarrow> nat \<Rightarrow> u32"
  get_bits64 :: "u64 \<Rightarrow> nat \<Rightarrow> nat \<Rightarrow> u64"
  set_bit32 :: "u32 \<Rightarrow> nat \<Rightarrow> bool \<Rightarrow> u32"
  set_bits32 :: "u32 \<Rightarrow> nat \<Rightarrow> nat \<Rightarrow> u32 \<Rightarrow> u32 outcome"
  IA32_APIC_BASE :: u32
  DEBUG_VECTOR :: u8
  NONMASKABLE_INTERRUPT_VECTOR :: u8
  BREAKPOINT_VECTOR :: u8
  OVERFLOW_VECTOR :: u8
  DOUBLE_FAULT_VECTOR :: u8
  INVALID_TSS_VECTOR :: u8
  SEGMENT_NOT_PRESENT_VECTOR :: u8
  STACK_SEGEMENT_FAULT_VECTOR :: u8
  GENERAL_PROTECTION_FAULT_VECTOR :: u8
  PAGE_FAULT_VECTOR :: u8
  ALIGNMENT_CHECK_VECTOR :: u8
  VIRTUALIZATION_VECTOR :: u8
  CR0_EXTENSION_TYPE :: u64
  CR0_NUMERIC_ERROR :: u64
  CR0_NOT_WRITE_THROUGH :: u64
  CR0_CACHE_DISABLE :: u64
  CR0_PAGING :: u64
  CR4_VIRTUAL_MACHINE_EXTENSIONS :: u64
  FLAGS_CF :: u64
  FLAGS_ZF :: u64
  INTERRUPT_FLAG :: u64
  NMI_EXITING :: u32
  EXTERNAL_INTERRUPT_EXITING :: u32
  UNCOND_IO_EXITING :: u32
  USE_MSR_BITMAPS :: u32
  SECONDARY_CONTROLS :: u32
  CR3_LOAD_EXITING :: u32
  CR3_STORE_EXITING :: u32
  INTERRUPT_WINDOW_EXITING :: u32
  MONITOR_TRAP_FLAG_CTRL :: u32
  ENABLE_EPT :: u32
  ENABLE_RDTSCP :: u32
  ENABLE_INVPCID :: u32
  UNRESTRICTED_GUEST :: u32
  HOST_ADDRESS_SPACE_SIZE :: u32
  ACK_INTERRUPT_ON_EXIT :: u32
  SAVE_IA32_PAT :: u32
  EXIT_LOAD_IA32_PAT :: u32
  SAVE_IA32_EFER :: u32
  EXIT_LOAD_IA32_EFER :: u32
  ENTRY_LOAD_IA32_PAT :: u32
  ENTRY_LOAD_IA32_EFER :: u32

text \<open>
  The functions of \<open>BitField\<close> on a half-open range \<open>a..b\<close>: the field, moved to the
  bottom; \<open>set_bits\<close> panics on a value that does not fit the range. An index or a
  range outside the word is not used by the sources and is left open.
\<close>

definition field_of :: "'a::len word \<Rightarrow> nat \<Rightarrow> nat \<Rightarrow> 'a word" where
  "field_of x a b = take_bit (b - a) (drop_bit a x)"

definition put_field :: "'a::len word \<Rightarrow> nat \<Rightarrow> nat \<Rightarrow> 'a word \<Rightarrow> 'a word" where
  "put_field x a b v = (x AND NOT (push_bit a (mask (b - a)))) OR push_bit a v"

definition bit_field_ok :: "x86_crates \<Rightarrow> bool" where
  "bit_field_ok c \<longleftrightarrow>
     (\<forall>x i. i < 32 \<longrightarrow> get_bit32 c x i = bit x i)
     \<and> (\<forall>x i. i < 64 \<longrightarrow> get_bit64 c x i = bit x i)
     \<and> (\<forall>x a b. a < b \<and> b \<le> 32 \<longrightarrow> get_bits32 c x a b = field_of x a b)
     \<and> (\<forall>x a b. a < b \<and> b \<le> 64 \<longrightarrow> get_bits64 c x a b = field_of x a b)
     \<and> (\<forall>x i v. i < 32 \<longrightarrow> set_bit32 c x i v = (if v then set_bit i x else unset_bit i x))
     \<and> (\<forall>x a b v. a < b \<and> b \<le> 32 \<longrightarrow>
          set_bits32 c x a b v =
            (if take_bit (b - a) v = v then Ok (put_field x a b v) else Panic AssertFailed))"

definition x86_consts_ok :: "x86_crates \<Rightarrow> bool" where
  "x86_consts_ok c \<longleftrightarrow>
     IA32_APIC_BASE c = 0x1b
     \<and> DEBUG_VECTOR c = 1
     \<and> NONMASKABLE_INTERRUPT_VECTOR c = 2
     \<and> BREAKPOINT_VECTOR c = 3
     \<and> OVERFLOW_VECTOR c = 4
     \<and> DOUBLE_FAULT_VECTOR c = 8
     \<and> INVALID_TSS_VECTOR c = 10
     \<and> SEGMENT_NOT_PRESENT_VECTOR c = 11
     \<and> STACK_SEGEMENT_FAULT_VECTOR c = 12
     \<and> GENERAL_PROTECTION_FAULT_VECTOR c = 13
     \<and> PAGE_FAULT_VECTOR c = 14
     \<and> ALIGNMENT_CHECK_VECTOR c = 17
     \<and> VIRTUALIZATION_VECTOR c = 20
     \<and> CR0_EXTENSION_TYPE c = 0x10
     \<and> CR0_NUMERIC_ERROR c = 0x20
     \<and> CR0_NOT_WRITE_THROUGH c = 0x20000000
     \<and> CR0_CACHE_DISABLE c = 0x40000000
     \<and> CR0_PAGING c = 0x80000000
     \<and> CR4_VIRTUAL_MACHINE_EXTENSIONS c = 0x2000
     \<and> FLAGS_CF c = 0x1
     \<and> FLAGS_ZF c = 0x40
     \<and> INTERRUPT_FLAG c = 0x200
     \<and> NMI_EXITING c = 0x8
     \<and> EXTERNAL_INTERRUPT_EXITING c = 0x1
     \<and> UNCOND_IO_EXITING c = 0x1000000
     \<and> USE_MSR_BITMAPS c = 0x10000000
     \<and> SECONDARY_CONTROLS c = 0x80000000
     \<and> CR3_LOAD_EXITING c = 0x8000
     \<and> CR3_STORE_EXITING c = 0x10000
     \<and> INTERRUPT_WINDOW_EXITING c = 0x4
     \<and> MONITOR_TRAP_FLAG_CTRL c = 0x8000000
     \<and> ENABLE_EPT c = 0x2
     \<and> ENABLE_RDTSCP c = 0x8
     \<and> ENABLE_INVPCID c = 0x1000
     \<and> UNRESTRICTED_GUEST c = 0x80
     \<and> HOST_ADDRESS_SPACE_SIZE c = 0x200
     \<and> ACK_INTERRUPT_ON_EXIT c = 0x8000
     \<and> SAVE_IA32_PAT c = 0x40000
     \<and> EXIT_LOAD_IA32_PAT c = 0x80000
     \<and> SAVE_IA32_EFER c = 0x100000
     \<and> EXIT_LOAD_IA32_EFER c = 0x200000
     \<and> ENTRY_LOAD_IA32_PAT c = 0x4000
     \<and> ENTRY_LOAD_IA32_EFER c = 0x8000"

definition x86_crates_ok :: "x86_crates \<Rightarrow> bool" where
  "x86_crates_ok c \<longleftrightarrow> bit_field_ok c \<and> x86_consts_ok c"

definition x86_crates_std :: x86_crates where
  "x86_crates_std = \<lparr>
     get_bit32 = bit, get_bit64 = bit, get_bits32 = field_of, get_bits64 = field_of,
     set_bit32 = (\<lambda>x i v. if v then set_bit i x else unset_bit i x),
     set_bits32 = (\<lambda>x a b v.
       if take_bit (b - a) v = v then Ok (put_field x a b v) else Panic AssertFailed),
     IA32_APIC_BASE = 0x1b,
     DEBUG_VECTOR = 1,
     NONMASKABLE_INTERRUPT_VECTOR = 2,
     BREAKPOINT_VECTOR = 3,
     OVERFLOW_VECTOR = 4,
     DOUBLE_FAULT_VECTOR = 8,
     INVALID_TSS_VECTOR = 10,
     SEGMENT_NOT_PRESENT_VECTOR = 11,
     STACK_SEGEMENT_FAULT_VECTOR = 12,
     GENERAL_PROTECTION_FAULT_VECTOR = 13,
     PAGE_FAULT_VECTOR = 14,
     ALIGNMENT_CHECK_VECTOR = 17,
     VIRTUALIZATION_VECTOR = 20,
     CR0_EXTENSION_TYPE = 0x10,
     CR0_NUMERIC_ERROR = 0x20,
     CR0_NOT_WRITE_THROUGH = 0x20000000,
     CR0_CACHE_DISABLE = 0x40000000,
     CR0_PAGING = 0x80000000,
     CR4_VIRTUAL_MACHINE_EXTENSIONS = 0x2000,
     FLAGS_CF = 0x1,
     FLAGS_ZF = 0x40,
     INTERRUPT_FLAG = 0x200,
     NMI_EXITING = 0x8,
     EXTERNAL_INTERRUPT_EXITING = 0x1,
     UNCOND_IO_EXITING = 0x1000000,
     USE_MSR_BITMAPS = 0x10000000,
     SECONDARY_CONTROLS = 0x80000000,
     CR3_LOAD_EXITING = 0x8000,
     CR3_STORE_EXITING = 0x10000,
     INTERRUPT_WINDOW_EXITING = 0x4,
     MONITOR_TRAP_FLAG_CTRL = 0x8000000,
     ENABLE_EPT = 0x2,
     ENABLE_RDTSCP = 0x8,
     ENABLE_INVPCID = 0x1000,
     UNRESTRICTED_GUEST = 0x80,
     HOST_ADDRESS_SPACE_SIZE = 0x200,
     ACK_INTERRUPT_ON_EXIT = 0x8000,
     SAVE_IA32_PAT = 0x40000,
     EXIT_LOAD_IA32_PAT = 0x80000,
     SAVE_IA32_EFER = 0x100000,
     EXIT_LOAD_IA32_EFER = 0x200000,
     ENTRY_LOAD_IA32_PAT = 0x4000,
     ENTRY_LOAD_IA32_EFER = 0x8000\<rparr>"

lemma x86_crates_std_ok: "x86_crates_ok x86_crates_std"
  by (simp add: x86_crates_ok_def bit_field_ok_def x86_consts_ok_def x86_crates_std_def)

lemma x86_crates_okD [dest]: "x86_crates_ok c \<Longrightarrow> bit_field_ok c" "x86_crates_ok c \<Longrightarrow> x86_consts_ok c"
  by (simp_all add: x86_crates_ok_def)

named_theorems x86_crate_rules "documented values of the crates, under the hypothesis that states them"

lemma bit_field_rules [x86_crate_rules]:
  assumes "bit_field_ok c"
  shows "i < 32 \<Longrightarrow> get_bit32 c x i = bit x i"
    and "i < 64 \<Longrightarrow> get_bit64 c y i = bit y i"
    and "a < b \<Longrightarrow> b \<le> 32 \<Longrightarrow> get_bits32 c x a b = field_of x a b"
    and "a < b \<Longrightarrow> b \<le> 64 \<Longrightarrow> get_bits64 c y a b = field_of y a b"
    and "i < 32 \<Longrightarrow> set_bit32 c x i v = (if v then set_bit i x else unset_bit i x)"
    and "a < b \<Longrightarrow> b \<le> 32 \<Longrightarrow> set_bits32 c x a b w =
      (if take_bit (b - a) w = w then Ok (put_field x a b w) else Panic AssertFailed)"
  using assms by (simp_all add: bit_field_ok_def)

lemma bit_field_of:
  fixes x :: "'a::len word"
  shows "bit (field_of x a b) i \<longleftrightarrow> i < b - a \<and> bit x (a + i)"
  by (auto simp: field_of_def bit_simps)

lemma bit_put_field:
  fixes x :: "'a::len word"
  assumes "a < b" and "b \<le> LENGTH('a)" and "take_bit (b - a) v = v"
  shows "bit (put_field x a b v) i \<longleftrightarrow> (if a \<le> i \<and> i < b then bit v (i - a) else bit x i)"
proof -
  have v: "bit v j \<Longrightarrow> j < b - a" for j
    using assms(3) by (metis bit_take_bit_iff)
  show ?thesis
    using assms(1,2) v [of "i - a"]
    by (auto simp: put_field_def bit_simps dest: bit_imp_le_length)
qed

lemma field_of_put_field:
  fixes x :: "'a::len word"
  assumes "a < b" and "b \<le> LENGTH('a)" and "take_bit (b - a) v = v"
  shows "field_of (put_field x a b v) a b = v"
proof (rule bit_word_eqI)
  fix i assume "i < LENGTH('a)"
  have "bit v i \<Longrightarrow> i < b - a" using assms(3) by (metis bit_take_bit_iff)
  then show "bit (field_of (put_field x a b v) a b) i \<longleftrightarrow> bit v i"
    by (auto simp: bit_field_of bit_put_field [OF assms])
qed

end
