(* ===== verification/X86_Lapic.thy ===== *)
theory X86_Lapic
  imports X86_Crates
begin

text \<open>
  \<open>src/src/arch/x86_64/lapic.rs\<close>: the virtual local APIC timer of a vCPU. The time
  that \<open>H::current_time_nanos\<close> returns is an argument \<open>now\<close> of the operations that
  read the clock.
\<close>

definition APIC_FREQ_MHZ :: u64 where
  "APIC_FREQ_MHZ = 1000"

definition APIC_CYCLE_NANOS :: u64 where
  "APIC_CYCLE_NANOS = 1000 div APIC_FREQ_MHZ"

datatype TimerMode = OneShot | Periodic | TscDeadline

fun timer_mode_bits :: "TimerMode \<Rightarrow> u32" where
  "timer_mode_bits OneShot = 0"
| "timer_mode_bits Periodic = 1"
| "timer_mode_bits TscDeadline = 2"

record ApicTimer =
  lvt_timer_bits :: u32
  divide_shift :: u8
  initial_count :: u32
  last_start_ns :: u64
  deadline_ns :: u64

definition ApicTimer_new :: ApicTimer where
  "ApicTimer_new = \<lparr>lvt_timer_bits = 0x10000, divide_shift = 0, initial_count = 0,
     last_start_ns = 0, deadline_ns = 0\<rparr>"

definition is_masked :: "ApicTimer \<Rightarrow> bool" where
  "is_masked self \<longleftrightarrow> lvt_timer_bits self AND shl 1 16 \<noteq> 0"

definition is_periodic :: "ApicTimer \<Rightarrow> bool" where
  "is_periodic self \<longleftrightarrow> shr (lvt_timer_bits self) 17 AND 3 = timer_mode_bits Periodic"

definition vector :: "ApicTimer \<Rightarrow> u8" where
  "vector self = as_u8 (lvt_timer_bits self AND 0xff)"

definition lvt_timer :: "ApicTimer \<Rightarrow> u32" where
  "lvt_timer self = lvt_timer_bits self"

definition divide :: "ApicTimer \<Rightarrow> u32" where
  "divide self =
     (let dcr = as_u32 (divide_shift self - 1) AND 7 in (dcr AND 3) OR shl (dcr AND 4) 1)"

definition interval_ns :: "ApicTimer \<Rightarrow> u64" where
  "interval_ns self =
     shl (as_u64 (initial_count self) * APIC_CYCLE_NANOS) (unat (divide_shift self))"

definition current_counter :: "u64 \<Rightarrow> ApicTimer \<Rightarrow> u32 outcome" where
  "current_counter now self =
     (let elapsed_ns = now - last_start_ns self;
          elapsed_cycles = shr (elapsed_ns div APIC_CYCLE_NANOS) (unat (divide_shift self)) in
      if is_periodic self then
        (if initial_count self = 0 then Panic DivideByZero
         else Ok (initial_count self - as_u32 (elapsed_cycles mod as_u64 (initial_count self))))
      else if elapsed_cycles < as_u64 (initial_count self) then
        Ok (initial_count self - as_u32 elapsed_cycles)
      else Ok 0)"

definition start_timer :: "u64 \<Rightarrow> ApicTimer \<Rightarrow> ApicTimer" where
  "start_timer now self =
     (if initial_count self \<noteq> 0 then
        self\<lparr>last_start_ns := now, deadline_ns := now + interval_ns self\<rparr>
      else self\<lparr>deadline_ns := 0\<rparr>)"

definition check_interrupt :: "u64 \<Rightarrow> ApicTimer \<Rightarrow> bool \<times> ApicTimer" where
  "check_interrupt now self =
     (if deadline_ns self = 0 then (False, self)
      else if now \<ge> deadline_ns self then
        (let self' = (if is_periodic self
                      then self\<lparr>deadline_ns := deadline_ns self + interval_ns self\<rparr>
                      else self\<lparr>deadline_ns := 0\<rparr>)
         in (\<not> is_masked self', self'))
      else (False, self))"

definition set_lvt_timer :: "x86_crates \<Rightarrow> u64 \<Rightarrow> u32 \<Rightarrow> ApicTimer \<Rightarrow> unit outcome \<times> ApicTimer" where
  "set_lvt_timer c now bits self =
     (let timer_mode = get_bits32 c bits 17 19 in
      if timer_mode = timer_mode_bits TscDeadline then (Err NotSupported, self)
      else if timer_mode = 3 then (Err InvalidParam, self)
      else (Ok (), start_timer now (self\<lparr>lvt_timer_bits := bits\<rparr>)))"

definition set_initial_count :: "u64 \<Rightarrow> u32 \<Rightarrow> ApicTimer \<Rightarrow> unit outcome \<times> ApicTimer" where
  "set_initial_count now initial self =
     (Ok (), start_timer now (self\<lparr>initial_count := initial\<rparr>))"

definition set_divide :: "u64 \<Rightarrow> u32 \<Rightarrow> ApicTimer \<Rightarrow> unit outcome \<times> ApicTimer" where
  "set_divide now dcr self =
     (let shift = (dcr AND 3) OR shr (dcr AND 8) 1 in
      (Ok (), start_timer now (self\<lparr>divide_shift := as_u8 (shift + 1) AND 7\<rparr>)))"

section \<open>Well-formed timers\<close>

text \<open>
  The divider is at most 128, the mode is one-shot or periodic, and a timer that
  is armed counts from a non-zero value.
\<close>

definition timer_wf :: "ApicTimer \<Rightarrow> bool" where
  "timer_wf self \<longleftrightarrow> unat (divide_shift self) < 8
     \<and> field_of (lvt_timer_bits self) 17 19 \<in> {0, 1}
     \<and> (deadline_ns self \<noteq> 0 \<longrightarrow> initial_count self \<noteq> 0)"

lemma is_periodic_field: "is_periodic self \<longleftrightarrow> field_of (lvt_timer_bits self) 17 19 = 1"
proof -
  have "take_bit 2 x = x AND 3" for x :: u32
    by (simp add: take_bit_eq_mask mask_eq_exp_minus_1)
  then show ?thesis by (simp add: is_periodic_def field_of_def)
qed

lemma unat_and_7: "unat (x AND 7) < 8" for x :: u8
proof -
  have "x AND 7 = take_bit 3 x" by (simp add: take_bit_eq_mask mask_eq_exp_minus_1)
  then show ?thesis using unat_take_bit_less [of 3 x] by simp
qed

lemma start_timer_keeps [simp]:
  "lvt_timer_bits (start_timer now self) = lvt_timer_bits self"
  "divide_shift (start_timer now self) = divide_shift self"
  "initial_count (start_timer now self) = initial_count self"
  by (simp_all add: start_timer_def)

lemma start_timer_disarmed [simp]:
  "initial_count self = 0 \<Longrightarrow> deadline_ns (start_timer now self) = 0"
  by (simp add: start_timer_def)

lemma timer_wf_new: "timer_wf ApicTimer_new"
  by (simp add: timer_wf_def ApicTimer_new_def field_of_def)

lemma timer_wf_start:
  assumes "unat (divide_shift self) < 8" and "field_of (lvt_timer_bits self) 17 19 \<in> {0, 1}"
  shows "timer_wf (start_timer now self)"
  using assms start_timer_disarmed [of self now] by (auto simp: timer_wf_def)

lemma field_2_cases: "field_of (x :: u32) 17 19 \<in> {0, 1, 2, 3}"
proof -
  have "unat (field_of x 17 19) < 4" using unat_take_bit_less [of 2 "drop_bit 17 x"] by (simp add: field_of_def)
  then show ?thesis by (auto simp: word_unat_eq_iff)
qed

lemma timer_wf_set_lvt:
  assumes "bit_field_ok c" and "timer_wf self"
  shows "timer_wf (snd (set_lvt_timer c now bits self))"
  using assms field_2_cases [of bits]
  by (auto simp: set_lvt_timer_def Let_def x86_crate_rules timer_wf_def [of self] intro!: timer_wf_start)

lemma timer_wf_set_count: "timer_wf self \<Longrightarrow> timer_wf (snd (set_initial_count now n self))"
  by (auto simp: set_initial_count_def timer_wf_def [of self] intro!: timer_wf_start)

lemma timer_wf_set_divide: "timer_wf self \<Longrightarrow> timer_wf (snd (set_divide now dcr self))"
  by (auto simp: set_divide_def Let_def timer_wf_def [of self] unat_and_7 intro!: timer_wf_start)

lemma timer_wf_check: "timer_wf self \<Longrightarrow> timer_wf (snd (check_interrupt now self))"
  by (auto simp: check_interrupt_def Let_def timer_wf_def)

section \<open>Intervals\<close>

lemma APIC_CYCLE_NANOS_1 [simp]: "APIC_CYCLE_NANOS = 1"
  by (simp add: APIC_CYCLE_NANOS_def APIC_FREQ_MHZ_def)

lemma interval_bound: "n < 2 ^ 32 \<Longrightarrow> s < 8 \<Longrightarrow> n * 2 ^ s < (2 :: nat) ^ 39"
proof -
  assume "n < 2 ^ 32" "s < 8"
  then have "n * 2 ^ s < 2 ^ 32 * 2 ^ s" by simp
  also have "\<dots> \<le> 2 ^ 32 * (2 :: nat) ^ 7"
    using \<open>s < 8\<close> by (intro mult_le_mono2 power_increasing) simp_all
  finally show ?thesis by simp
qed

lemma unat_interval_ns:
  assumes "unat (divide_shift self) < 8"
  shows "unat (interval_ns self) = unat (initial_count self) * 2 ^ unat (divide_shift self)"
proof -
  have "unat (initial_count self) * 2 ^ unat (divide_shift self) < 2 ^ 39"
    using unsigned_less [of "initial_count self"] assms by (intro interval_bound) simp_all
  then have "unat (initial_count self) * 2 ^ unat (divide_shift self) < 2 ^ LENGTH(64)" by simp
  moreover have "unat (initial_count self) < 2 ^ LENGTH(32)" by (rule unsigned_less)
  then have "unat (initial_count self) < 2 ^ 64" by simp
  ultimately show ?thesis
    using assms
    by (simp add: interval_ns_def unsigned_push_bit_eq unsigned_ucast_eq take_bit_nat_eq_self
        push_bit_eq_mult [where 'a = nat])
qed

section \<open>Polling the timer\<close>

text \<open>The handler of every VM exit polls the timer once; a run of polls and their answers.\<close>

primrec polls :: "u64 list \<Rightarrow> ApicTimer \<Rightarrow> bool list \<times> ApicTimer" where
  "polls [] self = ([], self)"
| "polls (t # ts) self =
     (let (b, self') = check_interrupt t self; (bs, self'') = polls ts self' in (b # bs, self''))"

definition fired_before :: "bool list \<Rightarrow> nat \<Rightarrow> nat" where
  "fired_before bs i = length (filter id (take i bs))"

lemma fired_before_Cons:
  "fired_before (b # bs) 0 = 0"
  "fired_before (b # bs) (Suc i) = of_bool b + fired_before bs i"
  by (simp_all add: fired_before_def)

lemma polls_disarmed: "deadline_ns self = 0 \<Longrightarrow> polls ts self = (replicate (length ts) False, self)"
  by (induction ts) (simp_all add: check_interrupt_def)

lemma fired_before_replicate: "fired_before (replicate n False) i = 0"
  by (simp add: fired_before_def)

lemma length_polls [simp]: "length (fst (polls ts self)) = length ts"
  by (induction ts arbitrary: self) (simp_all add: split_def Let_def)

lemma polls_one_shot:
  assumes "\<not> is_periodic self" and "\<not> is_masked self" and "deadline_ns self \<noteq> 0"
    and "i < length ts" and "bs = fst (polls ts self)"
  shows "bs ! i \<longleftrightarrow> fired_before bs i = 0 \<and> deadline_ns self \<le> ts ! i"
  using assms
proof (induction ts arbitrary: i bs)
  case (Cons t ts)
  show ?case
  proof (cases "deadline_ns self \<le> t")
    case True
    let ?s = "self\<lparr>deadline_ns := 0\<rparr>"
    have "check_interrupt t self = (True, ?s)"
      using True Cons.prems by (simp add: check_interrupt_def is_masked_def)
    then have "bs = True # replicate (length ts) False"
      using Cons.prems polls_disarmed [of ?s ts] by simp
    then show ?thesis using True Cons.prems by (cases i) (simp_all add: fired_before_Cons)
  next
    case False
    then have "check_interrupt t self = (False, self)" by (simp add: check_interrupt_def)
    then have "bs = False # fst (polls ts self)" using Cons.prems by (simp add: split_def Let_def)
    then show ?thesis using False Cons by (cases i) (simp_all add: fired_before_Cons)
  qed
qed simp

lemma polls_periodic:
  assumes "is_periodic self" and "\<not> is_masked self" and "deadline_ns self \<noteq> 0"
    and "i < length ts" and "bs = fst (polls ts self)"
    and "unat (deadline_ns self) + length ts * unat (interval_ns self) < 2 ^ 64"
  shows "bs ! i \<longleftrightarrow>
    unat (deadline_ns self) + fired_before bs i * unat (interval_ns self) \<le> unat (ts ! i)"
  using assms
proof (induction ts arbitrary: self i bs)
  case (Cons t ts)
  show ?case
  proof (cases "deadline_ns self \<le> t")
    case True
    let ?s = "self\<lparr>deadline_ns := deadline_ns self + interval_ns self\<rparr>"
    have c: "check_interrupt t self = (True, ?s)"
      using True Cons.prems by (simp add: check_interrupt_def is_masked_def)
    then have bs: "bs = True # fst (polls ts ?s)" using Cons.prems by (simp add: split_def Let_def)
    have d: "unat (deadline_ns ?s) = unat (deadline_ns self) + unat (interval_ns self)"
      using Cons.prems(6) by (simp add: unat_add_u64)
    have p: "is_periodic ?s" "\<not> is_masked ?s" "interval_ns ?s = interval_ns self"
      using Cons.prems(1,2) by (simp_all add: is_periodic_def is_masked_def interval_ns_def)
    have nz: "deadline_ns ?s \<noteq> 0"
      using d Cons.prems(3) by (metis add_is_0 unat_eq_zero)
    show ?thesis
    proof (cases i)
      case (Suc j)
      have "unat (deadline_ns ?s) + length ts * unat (interval_ns ?s) < 2 ^ 64"
        using Cons.prems(6) d p(3) by simp
      then have "fst (polls ts ?s) ! j \<longleftrightarrow>
        unat (deadline_ns ?s) + fired_before (fst (polls ts ?s)) j * unat (interval_ns ?s) \<le> unat (ts ! j)"
        using Cons.IH [OF p(1,2) nz, of j "fst (polls ts ?s)"] Cons.prems(4) Suc by simp
      then show ?thesis using Suc bs d p(3) by (simp add: fired_before_Cons algebra_simps)
    qed (use True bs in \<open>simp add: fired_before_Cons word_le_nat_alt\<close>)
  next
    case False
    then have "check_interrupt t self = (False, self)" by (simp add: check_interrupt_def)
    then have bs: "bs = False # fst (polls ts self)" using Cons.prems by (simp add: split_def Let_def)
    show ?thesis
    proof (cases i)
      case (Suc j)
      have "unat (deadline_ns self) + length ts * unat (interval_ns self) < 2 ^ 64"
        using Cons.prems(6) by simp
      then have "fst (polls ts self) ! j \<longleftrightarrow>
        unat (deadline_ns self) + fired_before (fst (polls ts self)) j * unat (interval_ns self) \<le> unat (ts ! j)"
        using Cons.IH [OF Cons.prems(1-3), of j "fst (polls ts self)"] Cons.prems(4) Suc by simp
      then show ?thesis using Suc bs by (simp add: fired_before_Cons)
    qed (use False bs in \<open>simp add: fired_before_Cons word_le_nat_alt\<close>)
  qed
qed simp

lemma start_timer_armed:
  assumes "timer_wf self" and "initial_count self \<noteq> 0" and "unat now + unat (interval_ns self) < 2 ^ 64"
  shows "unat (deadline_ns (start_timer now self)) = unat now + unat (interval_ns self)"
    and "deadline_ns (start_timer now self) \<noteq> 0"
    and "interval_ns (start_timer now self) = interval_ns self"
    and "is_periodic (start_timer now self) = is_periodic self"
    and "is_masked (start_timer now self) = is_masked self"
proof -
  show d: "unat (deadline_ns (start_timer now self)) = unat now + unat (interval_ns self)"
    using assms by (simp add: start_timer_def unat_add_u64)
  have "unat (interval_ns self) \<noteq> 0"
    using assms(1,2) by (simp add: unat_interval_ns timer_wf_def unat_eq_zero)
  then show "deadline_ns (start_timer now self) \<noteq> 0" using d by (metis add_is_0 unat_0)
qed (simp_all add: interval_ns_def is_periodic_def is_masked_def)

text \<open>
  Claim C36. A timer that is started at time \<open>now\<close> with a non-zero count and not
  masked: of any later polls, the \<open>i\<close>-th reports an interrupt exactly when the time
  has reached \<open>now\<close> plus \<open>k + 1\<close> intervals, where \<open>k\<close> is the number of
  interrupts reported before it, and (one-shot) none has been reported before. So a
  one-shot timer fires once, and a periodic timer never fires more often than once per
  interval and catches up by one interval per poll. An interval is the count
  times the divider, as long as the times stay within 64 bits.
\<close>

theorem apic_timer_fires:
  assumes "timer_wf self" and "initial_count self \<noteq> 0" and "\<not> is_masked self"
    and "unat now + (length ts + 1) * unat (interval_ns self) < 2 ^ 64"
    and "bs = fst (polls ts (start_timer now self))" and "i < length ts"
  shows "bs ! i \<longleftrightarrow>
      (is_periodic self \<or> fired_before bs i = 0)
      \<and> unat now + (fired_before bs i + 1) * (unat (initial_count self) * 2 ^ unat (divide_shift self))
          \<le> unat (ts ! i)"
proof -
  have "unat now + unat (interval_ns self) < 2 ^ 64" using assms(4) by simp
  note armed = start_timer_armed [OF assms(1,2) this]
  have iv: "unat (interval_ns self) = unat (initial_count self) * 2 ^ unat (divide_shift self)"
    using assms(1) by (simp add: unat_interval_ns timer_wf_def)
  show ?thesis
  proof (cases "is_periodic self")
    case True
    have "unat (deadline_ns (start_timer now self))
        + length ts * unat (interval_ns (start_timer now self)) < 2 ^ 64"
      using assms(4) armed(1,3) by simp
    then show ?thesis
      using polls_periodic [of "start_timer now self" i ts bs] True armed assms(3,5,6) iv
      by (simp add: add.assoc)
  next
    case False
    then show ?thesis
      using polls_one_shot [of "start_timer now self" i ts bs] armed assms(3,5,6) iv
      by (auto simp: word_le_nat_alt)
  qed
qed

theorem apic_timer_fires_witness:
  "(let self = ApicTimer_new\<lparr>lvt_timer_bits := 0x20020, initial_count := 5\<rparr>;
        bs = fst (polls [4, 5, 6, 20, 20, 20] (start_timer 0 self))
    in timer_wf self \<and> \<not> is_masked self \<and> is_periodic self \<and> bs ! 4 \<and> fired_before bs 4 = 2)"
proof -
  let ?self = "ApicTimer_new\<lparr>lvt_timer_bits := 0x20020, initial_count := 5\<rparr>"
  let ?ts = "[4, 5, 6, 20, 20, 20] :: u64 list"
  let ?bs = "fst (polls ?ts (start_timer 0 ?self))"
  have bs: "?bs = [False, True, False, True, True, True]"
    by (simp add: check_interrupt_def start_timer_def is_masked_def is_periodic_def interval_ns_def
        ApicTimer_new_def shr_def shl_def Let_def)
  have wf: "timer_wf ?self"
    by (simp add: timer_wf_def ApicTimer_new_def field_of_def take_bit_eq_mod drop_bit_eq_div)
  have m: "\<not> is_masked ?self" "is_periodic ?self" "interval_ns ?self = 5"
    by (simp_all add: is_masked_def is_periodic_def interval_ns_def ApicTimer_new_def)
  have k: "fired_before ?bs 4 = 2" unfolding bs by (simp add: fired_before_def)
  have "?bs ! 4"
    using apic_timer_fires [OF wf _ m(1) _ refl, of 0 ?ts 4] m k by (simp add: ApicTimer_new_def)
  then show ?thesis unfolding Let_def using wf m k by blast
qed

lemma unat_sub_u64: "y \<le> x \<Longrightarrow> unat (x - y) = unat x - unat y" for x y :: u64
  by (simp add: unat_sub)

lemma of_nat_diff_u32:
  assumes "m \<le> n" and "n < 2 ^ 32"
  shows "of_nat n - of_nat m = (of_nat (n - m) :: u32)"
  using assms by (simp add: of_nat_diff)

lemma unat_as_u64 [simp]: "unat (as_u64 (x :: u32)) = unat x"
proof -
  have "unat x < 2 ^ LENGTH(32)" by (rule unsigned_less)
  then show ?thesis by (simp add: unsigned_ucast_eq take_bit_nat_eq_self)
qed

lemma as_u32_of_unat: "unat x = m \<Longrightarrow> as_u32 (x :: u64) = of_nat m"
  by auto

lemma elapsed_cycles:
  assumes "unat shift < 8" and "start \<le> now"
  shows "unat (shr ((now - start) div APIC_CYCLE_NANOS) (unat (shift :: u8)))
    = (unat now - unat start) div 2 ^ unat shift"
proof -
  have "unat now - unat start < 2 ^ 64" using unsigned_less [of now, where 'a = nat] by simp
  then show ?thesis
    using assms by (simp add: unsigned_drop_bit_eq drop_bit_eq_div [where 'a = nat] unat_sub_u64
        take_bit_nat_eq_self)
qed

text \<open>What the register of a running timer reads, in terms of the whole divided cycles \<open>e\<close> since its start.\<close>

lemma counter_periodic:
  assumes "is_periodic t" and "initial_count t \<noteq> 0" and "n = unat (initial_count t)"
    and "unat (shr ((now - last_start_ns t) div APIC_CYCLE_NANOS) (unat (divide_shift t))) = e"
  shows "current_counter now t = Ok (of_nat (n - e mod n))"
proof -
  let ?c = "shr ((now - last_start_ns t) div APIC_CYCLE_NANOS) (unat (divide_shift t))"
  have n32: "n < 2 ^ 32" using assms(3) unsigned_less [of "initial_count t", where 'a = nat] by simp
  have p: "as_u32 (?c mod as_u64 (initial_count t)) = of_nat (e mod n)"
    using assms(3,4) by (intro as_u32_of_unat) (simp add: unat_mod)
  have mod: "e mod n < n" using assms(2,3) by (simp add: unat_gt_0)
  have "current_counter now t = Ok (initial_count t - as_u32 (?c mod as_u64 (initial_count t)))"
    using assms(1,2) by (simp add: current_counter_def Let_def)
  also have "initial_count t - as_u32 (?c mod as_u64 (initial_count t)) = of_nat n - of_nat (e mod n)"
    unfolding p using assms(3) by simp
  also have "\<dots> = of_nat (n - e mod n)" using mod n32 by (intro of_nat_diff_u32) simp_all
  finally show ?thesis .
qed

lemma counter_one_shot:
  assumes "\<not> is_periodic t" and "n = unat (initial_count t)"
    and "unat (shr ((now - last_start_ns t) div APIC_CYCLE_NANOS) (unat (divide_shift t))) = e"
  shows "current_counter now t = Ok (of_nat (n - e))"
proof -
  let ?c = "shr ((now - last_start_ns t) div APIC_CYCLE_NANOS) (unat (divide_shift t))"
  have n32: "n < 2 ^ 32" using assms(2) unsigned_less [of "initial_count t", where 'a = nat] by simp
  have lt: "?c < as_u64 (initial_count t) \<longleftrightarrow> e < n" using assms(2,3) by (simp add: word_less_nat_alt)
  show ?thesis
  proof (cases "e < n")
    case True
    then have "current_counter now t = Ok (initial_count t - as_u32 ?c)"
      using assms(1) lt by (simp add: current_counter_def Let_def)
    also have "initial_count t - as_u32 ?c = of_nat n - of_nat e"
      unfolding as_u32_of_unat [OF assms(3)] using assms(2) by simp
    also have "\<dots> = of_nat (n - e)" using True n32 by (intro of_nat_diff_u32) simp_all
    finally show ?thesis .
  next
    case False
    then show ?thesis using assms(1) lt by (simp add: current_counter_def Let_def)
  qed
qed

text \<open>
  The current-count register of a timer that was started at \<open>start\<close>
  and is read at \<open>now\<close>: with \<open>e\<close> the number of whole divided cycles since the
  start, a one-shot timer reads the initial count minus \<open>e\<close>, stops at zero, and
  reads zero exactly from its deadline on; a periodic timer reads the initial count minus
  \<open>e\<close> modulo the initial count, which is never zero. Reading the register of a
  periodic timer whose initial count is zero divides by zero.
\<close>

theorem apic_counter:
  assumes "timer_wf self" and "initial_count self \<noteq> 0" and "start \<le> now"
    and "unat start + unat (interval_ns self) < 2 ^ 64"
    and "timer = start_timer start self" and "n = unat (initial_count self)"
    and "e = (unat now - unat start) div 2 ^ unat (divide_shift self)"
  shows "(if is_periodic self
      then current_counter now timer = Ok (of_nat (n - e mod n)) \<and> 0 < n - e mod n
      else current_counter now timer = Ok (of_nat (n - e)) \<and> (deadline_ns timer \<le> now \<longleftrightarrow> n \<le> e))
    \<and> (is_periodic self \<longrightarrow>
        current_counter now (self\<lparr>initial_count := 0\<rparr>) = Panic DivideByZero)"
proof -
  note armed = start_timer_armed [OF assms(1,2,4)]
  have sh: "unat (divide_shift self) < 8" using assms(1) by (simp add: timer_wf_def)
  have keeps: "last_start_ns timer = start" "divide_shift timer = divide_shift self"
    "initial_count timer = initial_count self" "is_periodic timer = is_periodic self"
    using assms(2,5) armed(4) by (simp_all add: start_timer_def)
  have e: "unat (shr ((now - last_start_ns timer) div APIC_CYCLE_NANOS) (unat (divide_shift timer))) = e"
    unfolding keeps assms(7) by (rule elapsed_cycles [OF sh assms(3)])
  note reads = counter_periodic [OF _ _ _ e] counter_one_shot [OF _ _ e]
  have mod: "e mod n < n" using assms(2,6) by (simp add: unat_gt_0)
  have "deadline_ns timer \<le> now \<longleftrightarrow> n * 2 ^ unat (divide_shift self) \<le> unat now - unat start"
    using armed(1) assms(3,5,6) sh by (auto simp: word_le_nat_alt unat_interval_ns)
  also have "\<dots> \<longleftrightarrow> n \<le> e" unfolding assms(7) by (simp add: less_eq_div_iff_mult_less_eq)
  finally have dl: "deadline_ns timer \<le> now \<longleftrightarrow> n \<le> e" .
  show ?thesis
    using reads [of n] assms(2,6) dl mod
    by (simp add: keeps) (simp add: current_counter_def is_periodic_def)
qed

theorem apic_counter_witness:
  "(let self = ApicTimer_new\<lparr>divide_shift := 1, initial_count := 5\<rparr> in
    timer_wf self \<and> \<not> is_periodic self
    \<and> current_counter 106 (start_timer 100 self) = Ok 2
    \<and> current_counter 111 (start_timer 100 self) = Ok 0)"
proof -
  let ?self = "ApicTimer_new\<lparr>divide_shift := 1, initial_count := 5\<rparr>"
  have wf: "timer_wf ?self" "initial_count ?self \<noteq> 0" "\<not> is_periodic ?self"
    by (simp_all add: timer_wf_def ApicTimer_new_def field_of_def is_periodic_def)
  have iv: "unat (100 :: u64) + unat (interval_ns ?self) < 2 ^ 64"
    by (simp add: interval_ns_def ApicTimer_new_def)
  have "current_counter 106 (start_timer 100 ?self) = Ok 2"
    using apic_counter [OF wf(1,2) _ iv refl refl refl, of 106] wf(3)
    by (simp add: ApicTimer_new_def)
  moreover have "current_counter 111 (start_timer 100 ?self) = Ok 0"
    using apic_counter [OF wf(1,2) _ iv refl refl refl, of 111] wf(3)
    by (simp add: ApicTimer_new_def)
  ultimately show ?thesis unfolding Let_def using wf by blast
qed

lemma u32_below_8_cases:
  assumes "unat (x :: u32) < 8"
  shows "x \<in> {0, 1, 2, 3, 4, 5, 6, 7}"
  using assms by (auto simp: word_unat_eq_iff)

lemma dcr_shift:
  fixes dcr :: u32
  defines "shift \<equiv> (dcr AND 3) OR shr (dcr AND 8) 1"
  shows "unat shift < 8" and "(shift AND 3) OR shl (shift AND 4) 1 = dcr AND 0xb"
proof -
  have bits: "bit (3 :: u32) i \<longleftrightarrow> i = 0 \<or> i = 1" "bit (8 :: u32) i \<longleftrightarrow> i = 3"
    "bit (4 :: u32) i \<longleftrightarrow> i = 2" "bit (0xb :: u32) i \<longleftrightarrow> i = 0 \<or> i = 1 \<or> i = 3" for i
    by (auto simp: bit_simps bit_numeral_rec numeral_eq_Suc split: nat.splits)
  have b: "bit shift i \<longleftrightarrow> (i = 0 \<or> i = 1) \<and> bit dcr i \<or> i = 2 \<and> bit dcr 3" for i
    unfolding shift_def shr_def bit_and_iff bit_or_iff bit_drop_bit_eq bits comp_def by auto
  have "take_bit 3 shift = shift"
    by (rule bit_word_eqI) (auto simp: bit_simps b)
  then show "unat shift < 8" using unat_take_bit_less [of 3 shift] by simp
  show "(shift AND 3) OR shl (shift AND 4) 1 = dcr AND 0xb"
  proof (rule bit_word_eqI)
    fix i assume "i < LENGTH(32)"
    consider "i = 0" | "i = 1" | "i = 2" | "i = 3" | "3 < i" by linarith
    then show "bit ((shift AND 3) OR shl (shift AND 4) 1) i \<longleftrightarrow> bit (dcr AND 0xb) i"
      unfolding shl_def bit_and_iff bit_or_iff bit_push_bit_iff bits b by cases auto
  qed
qed

text \<open>
  Writing the divide register and reading it back gives the three
  bits of the divider that the register has (bits 0, 1 and 3); writing the timer
  register refuses the TSC-deadline mode and the reserved mode without a change, and
  otherwise the register reads back what was written.
\<close>

theorem apic_registers_roundtrip:
  assumes "bit_field_ok c"
  shows "divide (snd (set_divide now dcr self)) = dcr AND 0xb
    \<and> (case field_of bits 17 19 of
         v \<Rightarrow> if v = 2 then set_lvt_timer c now bits self = (Err NotSupported, self)
             else if v = 3 then set_lvt_timer c now bits self = (Err InvalidParam, self)
             else fst (set_lvt_timer c now bits self) = Ok ()
               \<and> lvt_timer (snd (set_lvt_timer c now bits self)) = bits)"
proof -
  define shift :: u32 where "shift = (dcr AND 3) OR shr (dcr AND 8) 1"
  note s = dcr_shift [of dcr, folded shift_def]
  have "as_u32 ((as_u8 (shift + 1) AND 7) - 1) AND 7 = shift"
    using u32_below_8_cases [OF s(1)]
    by (elim insertE) (simp_all add: unsigned_minus_1_eq_mask mask_eq_exp_minus_1)
  moreover have "divide (snd (set_divide now dcr self)) =
      (let d = as_u32 ((as_u8 (shift + 1) AND 7) - 1) AND 7 in (d AND 3) OR shl (d AND 4) 1)"
    unfolding shift_def by (simp add: divide_def set_divide_def Let_def)
  ultimately have "divide (snd (set_divide now dcr self)) = dcr AND 0xb"
    by (simp only: Let_def s(2))
  then show ?thesis
    using assms by (simp add: set_lvt_timer_def Let_def x86_crate_rules lvt_timer_def)
qed

theorem apic_registers_roundtrip_witness:
  "bit_field_ok x86_crates_std \<and> divide (snd (set_divide 7 0xff ApicTimer_new)) = 0xb"
  using apic_registers_roundtrip [of x86_crates_std 7 "0xff" ApicTimer_new 0]
    x86_crates_okD(1) [OF x86_crates_std_ok] by simp

end
