(* ===== verification/Vmx_Defs.thy ===== *)
theory Vmx_Defs
  imports X86_Crates
begin

text \<open>
  \<open>src/src/arch/x86_64/vmx/definitions.rs\<close>: the numbers of VM exits, interruption types
  and instruction errors. \<open>try_from\<close> is what \<open>numeric_enum!\<close> derives from an
  enumeration: the variant with the given number, if there is one.
\<close>

section \<open>Instruction errors\<close>

type_synonym VmxInstructionError = u32

definition as_str :: "VmxInstructionError \<Rightarrow> string" where
  "as_str e =
     (case map_of [
         (0, ''OK''),
         (1, ''VMCALL executed in VMX root operation''),
         (2, ''VMCLEAR with invalid physical address''),
         (3, ''VMCLEAR with VMXON pointer''),
         (4, ''VMLAUNCH with non-clear VMCS''),
         (5, ''VMRESUME with non-launched VMCS''),
         (6, ''VMRESUME after VMXOFF (VMXOFF and VMXON between VMLAUNCH and VMRESUME)''),
         (7, ''VM entry with invalid control field(s)''),
         (8, ''VM entry with invalid host-state field(s)''),
         (9, ''VMPTRLD with invalid physical address''),
         (10, ''VMPTRLD with VMXON pointer''),
         (11, ''VMPTRLD with incorrect VMCS revision identifier''),
         (12, ''VMREAD/VMWRITE from/to unsupported VMCS component''),
         (13, ''VMWRITE to read-only VMCS component''),
         (15, ''VMXON executed in VMX root operation''),
         (16, ''VM entry with invalid executive-VMCS pointer''),
         (17, ''VM entry with non-launched executive VMCS''),
         (18, ''VM entry with executive-VMCS pointer not VMXON pointer (when attempting to deactivate the dual-monitor treatment of SMIs and SMM)''),
         (19, ''VMCALL with non-clear VMCS (when attempting to activate the dual-monitor treatment of SMIs and SMM)''),
         (20, ''VMCALL with invalid VM-exit control fields''),
         (22, ''VMCALL with incorrect MSEG revision identifier (when attempting to activate the dual-monitor treatment of SMIs and SMM)''),
         (23, ''VMXOFF under dual-monitor treatment of SMIs and SMM''),
         (24, ''VMCALL with invalid SMM-monitor features (when attempting to activate the dual-monitor treatment of SMIs and SMM)''),
         (25, ''VM entry with invalid VM-execution control fields in executive VMCS (when attempting to return from SMM)''),
         (26, ''VM entry with events blocked by MOV SS''),
         (28, ''Invalid operand to INVEPT/INVVPID'')] (unat e) of
        Some t \<Rightarrow> t
      | None \<Rightarrow> ''[INVALID]'')"

section \<open>Exit reasons\<close>

datatype (plugins only: size) VmxExitReason =
    EXCEPTION_NMI
  | EXTERNAL_INTERRUPT
  | TRIPLE_FAULT
  | INIT
  | SIPI
  | SMI
  | OTHER_SMI
  | INTERRUPT_WINDOW
  | NMI_WINDOW
  | TASK_SWITCH
  | CPUID
  | GETSEC
  | HLT
  | INVD
  | INVLPG
  | RDPMC
  | RDTSC
  | RSM
  | VMCALL
  | VMCLEAR
  | VMLAUNCH
  | VMPTRLD
  | VMPTRST
  | VMREAD
  | VMRESUME
  | VMWRITE
  | VMOFF
  | VMON
  | CR_ACCESS
  | DR_ACCESS
  | IO_INSTRUCTION
  | MSR_READ
  | MSR_WRITE
  | INVALID_GUEST_STATE
  | MSR_LOAD_FAIL
  | MWAIT_INSTRUCTION
  | MONITOR_TRAP_FLAG
  | MONITOR_INSTRUCTION
  | PAUSE_INSTRUCTION
  | MCE_DURING_VMENTRY
  | TPR_BELOW_THRESHOLD
  | APIC_ACCESS
  | VIRTUALIZED_EOI
  | GDTR_IDTR
  | LDTR_TR
  | EPT_VIOLATION
  | EPT_MISCONFIG
  | INVEPT
  | RDTSCP
  | PREEMPTION_TIMER
  | INVVPID
  | WBINVD
  | XSETBV
  | APIC_WRITE
  | RDRAND
  | INVPCID
  | VMFUNC
  | ENCLS
  | RDSEED
  | PML_FULL
  | XSAVES
  | XRSTORS
  | PCONFIG
  | SPP_EVENT
  | UMWAIT
  | TPAUSE
  | LOADIWKEY

primrec exit_reason_number :: "VmxExitReason \<Rightarrow> u32" where
  "exit_reason_number EXCEPTION_NMI = 0"
| "exit_reason_number EXTERNAL_INTERRUPT = 1"
| "exit_reason_number TRIPLE_FAULT = 2"
| "exit_reason_number INIT = 3"
| "exit_reason_number SIPI = 4"
| "exit_reason_number SMI = 5"
| "exit_reason_number OTHER_SMI = 6"
| "exit_reason_number INTERRUPT_WINDOW = 7"
| "exit_reason_number NMI_WINDOW = 8"
| "exit_reason_number TASK_SWITCH = 9"
| "exit_reason_number CPUID = 10"
| "exit_reason_number GETSEC = 11"
| "exit_reason_number HLT = 12"
| "exit_reason_number INVD = 13"
| "exit_reason_number INVLPG = 14"
| "exit_reason_number RDPMC = 15"
| "exit_reason_number RDTSC = 16"
| "exit_reason_number RSM = 17"
| "exit_reason_number VMCALL = 18"
| "exit_reason_number VMCLEAR = 19"
| "exit_reason_number VMLAUNCH = 20"
| "exit_reason_number VMPTRLD = 21"
| "exit_reason_number VMPTRST = 22"
| "exit_reason_number VMREAD = 23"
| "exit_reason_number VMRESUME = 24"
| "exit_reason_number VMWRITE = 25"
| "exit_reason_number VMOFF = 26"
| "exit_reason_number VMON = 27"
| "exit_reason_number CR_ACCESS = 28"
| "exit_reason_number DR_ACCESS = 29"
| "exit_reason_number IO_INSTRUCTION = 30"
| "exit_reason_number MSR_READ = 31"
| "exit_reason_number MSR_WRITE = 32"
| "exit_reason_number INVALID_GUEST_STATE = 33"
| "exit_reason_number MSR_LOAD_FAIL = 34"
| "exit_reason_number MWAIT_INSTRUCTION = 36"
| "exit_reason_number MONITOR_TRAP_FLAG = 37"
| "exit_reason_number MONITOR_INSTRUCTION = 39"
| "exit_reason_number PAUSE_INSTRUCTION = 40"
| "exit_reason_number MCE_DURING_VMENTRY = 41"
| "exit_reason_number TPR_BELOW_THRESHOLD = 43"
| "exit_reason_number APIC_ACCESS = 44"
| "exit_reason_number VIRTUALIZED_EOI = 45"
| "exit_reason_number GDTR_IDTR = 46"
| "exit_reason_number LDTR_TR = 47"
| "exit_reason_number EPT_VIOLATION = 48"
| "exit_reason_number EPT_MISCONFIG = 49"
| "exit_reason_number INVEPT = 50"
| "exit_reason_number RDTSCP = 51"
| "exit_reason_number PREEMPTION_TIMER = 52"
| "exit_reason_number INVVPID = 53"
| "exit_reason_number WBINVD = 54"
| "exit_reason_number XSETBV = 55"
| "exit_reason_number APIC_WRITE = 56"
| "exit_reason_number RDRAND = 57"
| "exit_reason_number INVPCID = 58"
| "exit_reason_number VMFUNC = 59"
| "exit_reason_number ENCLS = 60"
| "exit_reason_number RDSEED = 61"
| "exit_reason_number PML_FULL = 62"
| "exit_reason_number XSAVES = 63"
| "exit_reason_number XRSTORS = 64"
| "exit_reason_number PCONFIG = 65"
| "exit_reason_number SPP_EVENT = 66"
| "exit_reason_number UMWAIT = 67"
| "exit_reason_number TPAUSE = 68"
| "exit_reason_number LOADIWKEY = 69"

definition exit_reasons :: "VmxExitReason list" where
  "exit_reasons = [
     EXCEPTION_NMI, EXTERNAL_INTERRUPT, TRIPLE_FAULT, INIT, SIPI, SMI, OTHER_SMI,
     INTERRUPT_WINDOW, NMI_WINDOW, TASK_SWITCH, CPUID, GETSEC, HLT, INVD, INVLPG, RDPMC,
     RDTSC, RSM, VMCALL, VMCLEAR, VMLAUNCH, VMPTRLD, VMPTRST, VMREAD, VMRESUME, VMWRITE,
     VMOFF, VMON, CR_ACCESS, DR_ACCESS, IO_INSTRUCTION, MSR_READ, MSR_WRITE,
     INVALID_GUEST_STATE, MSR_LOAD_FAIL, MWAIT_INSTRUCTION, MONITOR_TRAP_FLAG,
     MONITOR_INSTRUCTION, PAUSE_INSTRUCTION, MCE_DURING_VMENTRY, TPR_BELOW_THRESHOLD,
     APIC_ACCESS, VIRTUALIZED_EOI, GDTR_IDTR, LDTR_TR, EPT_VIOLATION, EPT_MISCONFIG,
     INVEPT, RDTSCP, PREEMPTION_TIMER, INVVPID, WBINVD, XSETBV, APIC_WRITE, RDRAND,
     INVPCID, VMFUNC, ENCLS, RDSEED, PML_FULL, XSAVES, XRSTORS, PCONFIG, SPP_EVENT,
     UMWAIT, TPAUSE, LOADIWKEY]"

definition VmxExitReason_try_from :: "u32 \<Rightarrow> VmxExitReason option" where
  "VmxExitReason_try_from n = find (\<lambda>r. exit_reason_number r = n) exit_reasons"

section \<open>Interruption types\<close>

datatype VmxInterruptionType =
    IntExternal
  | IntReserved
  | IntNMI
  | IntHardException
  | IntSoftIntr
  | IntPrivSoftException
  | IntSoftException
  | IntOther

primrec int_type_number :: "VmxInterruptionType \<Rightarrow> u8" where
  "int_type_number IntExternal = 0"
| "int_type_number IntReserved = 1"
| "int_type_number IntNMI = 2"
| "int_type_number IntHardException = 3"
| "int_type_number IntSoftIntr = 4"
| "int_type_number IntPrivSoftException = 5"
| "int_type_number IntSoftException = 6"
| "int_type_number IntOther = 7"

definition int_types :: "VmxInterruptionType list" where
  "int_types = [IntExternal, IntReserved, IntNMI, IntHardException, IntSoftIntr, IntPrivSoftException,
     IntSoftException, IntOther]"

definition VmxInterruptionType_try_from :: "u8 \<Rightarrow> VmxInterruptionType option" where
  "VmxInterruptionType_try_from n = find (\<lambda>t. int_type_number t = n) int_types"

definition vector_has_error_code :: "x86_crates \<Rightarrow> u8 \<Rightarrow> bool" where
  "vector_has_error_code c vector \<longleftrightarrow> vector \<in> set [DOUBLE_FAULT_VECTOR c, INVALID_TSS_VECTOR c,
     SEGMENT_NOT_PRESENT_VECTOR c, STACK_SEGEMENT_FAULT_VECTOR c,
     GENERAL_PROTECTION_FAULT_VECTOR c, PAGE_FAULT_VECTOR c, ALIGNMENT_CHECK_VECTOR c]"

definition from_vector :: "x86_crates \<Rightarrow> u8 \<Rightarrow> VmxInterruptionType" where
  "from_vector c vector =
     (if vector = DEBUG_VECTOR c then IntPrivSoftException
      else if vector = NONMASKABLE_INTERRUPT_VECTOR c then IntNMI
      else if vector = BREAKPOINT_VECTOR c \<or> vector = OVERFLOW_VECTOR c then IntSoftException
      else if vector \<le> VIRTUALIZATION_VECTOR c then IntHardException
      else if 32 \<le> vector then IntExternal
      else IntOther)"

definition is_soft :: "VmxInterruptionType \<Rightarrow> bool" where
  "is_soft t \<longleftrightarrow> t \<in> set [IntSoftIntr, IntSoftException, IntPrivSoftException]"

section \<open>Numbers and variants\<close>

lemma exit_reasons_complete: "r \<in> set exit_reasons"
  by (cases r) (simp_all add: exit_reasons_def)

lemma exit_reason_number_small: "unat (exit_reason_number r) < 70"
  by (cases r) simp_all

lemma distinct_exit_reason_numbers: "distinct (map exit_reason_number exit_reasons)"
  by (simp add: exit_reasons_def)

text \<open>Looking up a number in a duplicate-free enumeration finds its variant.\<close>

lemma find_number:
  assumes "distinct (map f xs)" and "x \<in> set xs"
  shows "find (\<lambda>y. f y = f x) xs = Some x"
  using assms by (induction xs) (auto simp: image_iff)

lemma exit_reason_roundtrip: "VmxExitReason_try_from (exit_reason_number r) = Some r"
  unfolding VmxExitReason_try_from_def
  by (rule find_number [OF distinct_exit_reason_numbers exit_reasons_complete])

lemma exit_reason_try_from: "VmxExitReason_try_from n = Some r \<Longrightarrow> exit_reason_number r = n"
  by (auto simp: VmxExitReason_try_from_def find_Some_iff)

lemma int_type_roundtrip: "VmxInterruptionType_try_from (int_type_number t) = Some t"
  unfolding VmxInterruptionType_try_from_def
  by (rule find_number) (simp add: int_types_def, cases t, simp_all add: int_types_def)

lemma int_type_number_small: "unat (int_type_number t) < 8"
  by (cases t) simp_all

lemma int_type_try_from_small: "unat n < 8 \<Longrightarrow> VmxInterruptionType_try_from n \<noteq> None"
proof -
  assume "unat n < 8"
  then have "n \<in> {0, 1, 2, 3, 4, 5, 6, 7}" by (auto simp: word_unat_eq_iff)
  then show ?thesis by (auto simp: VmxInterruptionType_try_from_def int_types_def)
qed

end
