(* ===== verification/Byte_Memory.thy ===== *)
theory Byte_Memory
  imports Prelude
begin

text \<open>
  Memory as a function from addresses to bytes, with the little-endian loads and stores
  that \<open>ptr::read\<close>, \<open>ptr::write\<close> and references to integers in memory perform.
\<close>

section \<open>Loads and stores\<close>

definition store_bytes :: "(usize \<Rightarrow> u8) \<Rightarrow> usize \<Rightarrow> u8 list \<Rightarrow> usize \<Rightarrow> u8" where
  "store_bytes m a bs x = (if unat (x - a) < length bs then bs ! unat (x - a) else m x)"

definition load_u32 :: "(usize \<Rightarrow> u8) \<Rightarrow> usize \<Rightarrow> u32" where
  "load_u32 m a = as_u32 (m a) OR shl (as_u32 (m (a + 1))) 8
     OR shl (as_u32 (m (a + 2))) 16 OR shl (as_u32 (m (a + 3))) 24"

definition load_u64 :: "(usize \<Rightarrow> u8) \<Rightarrow> usize \<Rightarrow> u64" where
  "load_u64 m a = as_u64 (load_u32 m a) OR shl (as_u64 (load_u32 m (a + 4))) 32"

definition store_u32 :: "(usize \<Rightarrow> u8) \<Rightarrow> usize \<Rightarrow> u32 \<Rightarrow> usize \<Rightarrow> u8" where
  "store_u32 m a v = store_bytes m a [as_u8 v, as_u8 (shr v 8), as_u8 (shr v 16), as_u8 (shr v 24)]"

text \<open>Loads and stores of \<open>n\<close> bytes.\<close>

primrec load_le :: "(usize \<Rightarrow> u8) \<Rightarrow> usize \<Rightarrow> nat \<Rightarrow> usize" where
  "load_le m a 0 = 0"
| "load_le m a (Suc n) = load_le m a n OR shl (as_usize (m (a + of_nat n))) (8 * n)"

definition le_bytes :: "nat \<Rightarrow> usize \<Rightarrow> u8 list" where
  "le_bytes n v = map (\<lambda>i. as_u8 (shr v (8 * i))) [0..<n]"

definition store_le :: "(usize \<Rightarrow> u8) \<Rightarrow> usize \<Rightarrow> nat \<Rightarrow> usize \<Rightarrow> usize \<Rightarrow> u8" where
  "store_le m a n v = store_bytes m a (le_bytes n v)"

section \<open>Reads after writes\<close>

lemma store_bytes_other: "length bs \<le> unat (x - a) \<Longrightarrow> store_bytes m a bs x = m x"
  by (simp add: store_bytes_def)

lemma load_store_u32: "load_u32 (store_u32 m a v) a = v"
proof -
  have "a + 1 - a = 1" "a + 2 - a = 2" "a + 3 - a = 3" by simp_all
  then have "load_u32 (store_u32 m a v) a =
      as_u32 (as_u8 v) OR shl (as_u32 (as_u8 (shr v 8))) 8
      OR shl (as_u32 (as_u8 (shr v 16))) 16 OR shl (as_u32 (as_u8 (shr v 24))) 24"
    by (simp add: load_u32_def store_u32_def store_bytes_def)
  also have "\<dots> = v"
  proof (rule bit_word_eqI)
    fix i assume "i < LENGTH(32)"
    then consider "i < 8" | "8 \<le> i" "i < 16" | "16 \<le> i" "i < 24" | "24 \<le> i" "i < 32" by fastforce
    then show "bit (as_u32 (as_u8 v) OR shl (as_u32 (as_u8 (shr v 8))) 8
        OR shl (as_u32 (as_u8 (shr v 16))) 16 OR shl (as_u32 (as_u8 (shr v 24))) 24) i \<longleftrightarrow> bit v i"
      by cases (auto simp: bit_simps)
  qed
  finally show ?thesis .
qed

lemma load_le_cong: "(\<And>i. i < n \<Longrightarrow> m (a + of_nat i) = m' (a + of_nat i)) \<Longrightarrow> load_le m a n = load_le m' a n"
  by (induction n) simp_all

lemma load_le_store_le:
  assumes "n \<le> 8"
  shows "load_le (store_le m a n v) a n = take_bit (8 * n) v"
proof -
  have "load_le (store_le m a n v) a k = take_bit (8 * k) v" if "k \<le> n" for k
    using that
  proof (induction k)
    case (Suc k)
    then have k: "k < n" "k < 8" using assms by simp_all
    have "unat (of_nat k :: usize) = k" using k(2) by (intro unat_of_nat_usize) simp
    then have m: "store_le m a n v (a + of_nat k) = as_u8 (shr v (8 * k))"
      using k(1) by (simp add: store_le_def store_bytes_def le_bytes_def)
    have "take_bit (8 * k) v OR push_bit (8 * k) (as_usize (as_u8 (drop_bit (8 * k) v)))
        = take_bit (8 * Suc k) v"
      using k(2) by (intro bit_word_eqI) (auto simp: bit_simps)
    then show ?case using Suc k by (simp add: m)
  qed simp
  then show ?thesis by simp
qed

end
