(* ===== verification/X86_Machine.thy ===== *)
theory X86_Machine
  imports X86_Crates Byte_Memory
begin

text \<open>
  The x86 machine as the sources see it, and \<open>src/src/arch/x86_64/msr.rs\<close>. The
  instructions that the crates \<open>x86\<close>, \<open>x86_64\<close> and \<open>raw_cpuid\<close> wrap, and the hardware
  abstraction \<open>H: HyperCraftHal\<close>, and the address of the exit entry point are parameters over an abstract processor state
  \<open>'m\<close> and an abstract allocator and clock \<open>'a\<close>; host memory is a function from
  virtual addresses to bytes.
\<close>

section \<open>Parameters\<close>

text \<open>
  A VMX instruction answers whether it succeeded; a failed \<open>vmread\<close> is \<open>None\<close>. The
  descriptor-table reads give the limit and the base of the table.
\<close>

record 'm cpu_ops =
  rdmsr :: "u32 \<Rightarrow> 'm \<Rightarrow> u64"
  wrmsr :: "u32 \<Rightarrow> u64 \<Rightarrow> 'm \<Rightarrow> 'm"
  vmread :: "u32 \<Rightarrow> 'm \<Rightarrow> u64 option"
  vmwrite :: "u32 \<Rightarrow> u64 \<Rightarrow> 'm \<Rightarrow> bool \<times> 'm"
  vmclear :: "u64 \<Rightarrow> 'm \<Rightarrow> bool \<times> 'm"
  vmptrld :: "u64 \<Rightarrow> 'm \<Rightarrow> bool \<times> 'm"
  vmxon :: "u64 \<Rightarrow> 'm \<Rightarrow> bool \<times> 'm"
  vmxoff :: "'m \<Rightarrow> bool \<times> 'm"
  invept_insn :: "u64 \<Rightarrow> u64 list \<Rightarrow> 'm \<Rightarrow> 'm"
  rflags_read :: "'m \<Rightarrow> u64"
  Cr0_read :: "'m \<Rightarrow> u64"
  Cr0_read_raw :: "'m \<Rightarrow> u64"
  Cr3_read_raw :: "'m \<Rightarrow> u64"
  Cr4_read :: "'m \<Rightarrow> u64"
  Cr4_read_raw :: "'m \<Rightarrow> u64"
  Cr4_write :: "u64 \<Rightarrow> 'm \<Rightarrow> 'm"
  seg_es :: "'m \<Rightarrow> u16"
  seg_cs :: "'m \<Rightarrow> u16"
  seg_ss :: "'m \<Rightarrow> u16"
  seg_ds :: "'m \<Rightarrow> u16"
  seg_fs :: "'m \<Rightarrow> u16"
  seg_gs :: "'m \<Rightarrow> u16"
  task_tr :: "'m \<Rightarrow> u16"
  selector_index :: "u16 \<Rightarrow> u16"
  sgdt :: "'m \<Rightarrow> u16 \<times> u64"
  sidt :: "'m \<Rightarrow> u16 \<times> u64"
  feature_has_vmx :: "'m \<Rightarrow> bool option"

record 'a hal_ops =
  H_PAGE_SIZE :: usize
  H_alloc_pages :: "usize \<Rightarrow> 'a \<Rightarrow> HostVirtAddr option \<times> 'a"
  H_dealloc_pages :: "HostVirtAddr \<Rightarrow> usize \<Rightarrow> 'a \<Rightarrow> 'a"
  H_phys_to_virt :: "HostPhysAddr \<Rightarrow> HostVirtAddr"
  H_virt_to_phys :: "HostVirtAddr \<Rightarrow> HostPhysAddr"
  H_current_time_nanos :: "'a \<Rightarrow> u64"

record ('m, 'a) x86_env =
  crates :: x86_crates
  cpu :: "'m cpu_ops"
  halops :: "'a hal_ops"
  vmx_exit_symbol :: usize

text \<open>The default methods of the trait \<open>HyperCraftHal\<close> (\<open>src/src/hal.rs\<close>).\<close>

definition alloc_page :: "'a hal_ops \<Rightarrow> 'a \<Rightarrow> HostVirtAddr option \<times> 'a" where
  "alloc_page H = H_alloc_pages H 1"

definition dealloc_page :: "'a hal_ops \<Rightarrow> HostVirtAddr \<Rightarrow> 'a \<Rightarrow> 'a" where
  "dealloc_page H va = H_dealloc_pages H va 1"

section \<open>State\<close>

record ('m, 'a) x86 =
  hw :: 'm
  mem :: "usize \<Rightarrow> u8"
  xhal :: 'a

text \<open>An instruction that may fail; \<open>From<VmFail> for HyperError\<close> makes every failure \<open>BadState\<close>.\<close>

definition vm_instr :: "('m \<Rightarrow> bool \<times> 'm) \<Rightarrow> (('m, 'a, 'z) x86_scheme, unit) hm" where
  "vm_instr f s = (case f (hw s) of (b, m) \<Rightarrow> (if b then Ok () else Err BadState, s\<lparr>hw := m\<rparr>))"

section \<open>Model-specific registers\<close>

datatype (plugins only: size) Msr =
    IA32_FEATURE_CONTROL
  | IA32_PAT
  | IA32_VMX_BASIC
  | IA32_VMX_PINBASED_CTLS
  | IA32_VMX_PROCBASED_CTLS
  | IA32_VMX_EXIT_CTLS
  | IA32_VMX_ENTRY_CTLS
  | IA32_VMX_MISC
  | IA32_VMX_CR0_FIXED0
  | IA32_VMX_CR0_FIXED1
  | IA32_VMX_CR4_FIXED0
  | IA32_VMX_CR4_FIXED1
  | IA32_VMX_PROCBASED_CTLS2
  | IA32_VMX_EPT_VPID_CAP
  | IA32_VMX_TRUE_PINBASED_CTLS
  | IA32_VMX_TRUE_PROCBASED_CTLS
  | IA32_VMX_TRUE_EXIT_CTLS
  | IA32_VMX_TRUE_ENTRY_CTLS
  | IA32_EFER
  | IA32_STAR
  | IA32_LSTAR
  | IA32_CSTAR
  | IA32_FMASK
  | IA32_FS_BASE
  | IA32_GS_BASE
  | IA32_KERNEL_GSBASE

primrec Msr_number :: "Msr \<Rightarrow> u32" where
  "Msr_number Msr.IA32_FEATURE_CONTROL = 0x3a"
| "Msr_number Msr.IA32_PAT = 0x277"
| "Msr_number Msr.IA32_VMX_BASIC = 0x480"
| "Msr_number Msr.IA32_VMX_PINBASED_CTLS = 0x481"
| "Msr_number Msr.IA32_VMX_PROCBASED_CTLS = 0x482"
| "Msr_number Msr.IA32_VMX_EXIT_CTLS = 0x483"
| "Msr_number Msr.IA32_VMX_ENTRY_CTLS = 0x484"
| "Msr_number Msr.IA32_VMX_MISC = 0x485"
| "Msr_number Msr.IA32_VMX_CR0_FIXED0 = 0x486"
| "Msr_number Msr.IA32_VMX_CR0_FIXED1 = 0x487"
| "Msr_number Msr.IA32_VMX_CR4_FIXED0 = 0x488"
| "Msr_number Msr.IA32_VMX_CR4_FIXED1 = 0x489"
| "Msr_number Msr.IA32_VMX_PROCBASED_CTLS2 = 0x48b"
| "Msr_number Msr.IA32_VMX_EPT_VPID_CAP = 0x48c"
| "Msr_number Msr.IA32_VMX_TRUE_PINBASED_CTLS = 0x48d"
| "Msr_number Msr.IA32_VMX_TRUE_PROCBASED_CTLS = 0x48e"
| "Msr_number Msr.IA32_VMX_TRUE_EXIT_CTLS = 0x48f"
| "Msr_number Msr.IA32_VMX_TRUE_ENTRY_CTLS = 0x490"
| "Msr_number Msr.IA32_EFER = 0xc0000080"
| "Msr_number Msr.IA32_STAR = 0xc0000081"
| "Msr_number Msr.IA32_LSTAR = 0xc0000082"
| "Msr_number Msr.IA32_CSTAR = 0xc0000083"
| "Msr_number Msr.IA32_FMASK = 0xc0000084"
| "Msr_number Msr.IA32_FS_BASE = 0xc0000100"
| "Msr_number Msr.IA32_GS_BASE = 0xc0000101"
| "Msr_number Msr.IA32_KERNEL_GSBASE = 0xc0000102"

definition Msr_read :: "('m, 'a) x86_env \<Rightarrow> Msr \<Rightarrow> (('m, 'a, 'z) x86_scheme, u64) hm" where
  "Msr_read E self = hget (\<lambda>s. rdmsr (cpu E) (Msr_number self) (hw s))"

definition Msr_write :: "('m, 'a) x86_env \<Rightarrow> Msr \<Rightarrow> u64 \<Rightarrow> (('m, 'a, 'z) x86_scheme, unit) hm" where
  "Msr_write E self value = hmod (\<lambda>s. s\<lparr>hw := wrmsr (cpu E) (Msr_number self) value (hw s)\<rparr>)"

text \<open>\<open>bitflags!\<close>: a set of flags is its bits; \<open>contains\<close> asks for all bits of a flag.\<close>

type_synonym FeatureControlFlags = u64

definition LOCKED :: FeatureControlFlags where
  "LOCKED = shl 1 0"

definition VMXON_ENABLED_INSIDE_SMX :: FeatureControlFlags where
  "VMXON_ENABLED_INSIDE_SMX = shl 1 1"

definition VMXON_ENABLED_OUTSIDE_SMX :: FeatureControlFlags where
  "VMXON_ENABLED_OUTSIDE_SMX = shl 1 2"

definition FeatureControlFlags_all :: FeatureControlFlags where
  "FeatureControlFlags_all = LOCKED OR VMXON_ENABLED_INSIDE_SMX OR VMXON_ENABLED_OUTSIDE_SMX"

definition contains_flags :: "'w::len word \<Rightarrow> 'w word \<Rightarrow> bool" where
  "contains_flags bits f \<longleftrightarrow> bits AND f = f"

definition FeatureControl_read :: "('m, 'a) x86_env \<Rightarrow>
    (('m, 'a, 'z) x86_scheme, FeatureControlFlags) hm" where
  "FeatureControl_read E =
     hbind (Msr_read E Msr.IA32_FEATURE_CONTROL) (\<lambda>v. hret (v AND FeatureControlFlags_all))"

definition FeatureControl_write :: "('m, 'a) x86_env \<Rightarrow> FeatureControlFlags \<Rightarrow>
    (('m, 'a, 'z) x86_scheme, unit) hm" where
  "FeatureControl_write E flags =
     hbind (Msr_read E Msr.IA32_FEATURE_CONTROL) (\<lambda>old_value.
       let reserved = old_value AND NOT FeatureControlFlags_all; new_value = reserved OR flags in
       Msr_write E Msr.IA32_FEATURE_CONTROL new_value)"

record VmxBasic =
  revision_id :: u32
  region_size :: u16
  is_32bit_address :: bool
  mem_type :: u8
  io_exit_info_flag :: bool
  vmx_flex_controls :: bool

definition VMX_MEMORY_TYPE_WRITE_BACK :: u8 where
  "VMX_MEMORY_TYPE_WRITE_BACK = 6"

definition VmxBasic_read :: "('m, 'a) x86_env \<Rightarrow> (('m, 'a, 'z) x86_scheme, VmxBasic) hm" where
  "VmxBasic_read E =
     hbind (Msr_read E Msr.IA32_VMX_BASIC) (\<lambda>msr. hret \<lparr>
       revision_id = as_u32 (get_bits64 (crates E) msr 0 31),
       region_size = as_u16 (get_bits64 (crates E) msr 32 45),
       is_32bit_address = get_bit64 (crates E) msr 48,
       mem_type = as_u8 (get_bits64 (crates E) msr 50 54),
       io_exit_info_flag = get_bit64 (crates E) msr 54,
       vmx_flex_controls = get_bit64 (crates E) msr 55\<rparr>)"

end
