(* ===== verification/X86_Memory.thy ===== *)
theory X86_Memory
  imports X86_Machine
begin

text \<open>
  \<open>src/src/arch/x86_64/memory.rs\<close> and \<open>src/src/arch/x86_64/vmx/region.rs\<close>: page frames
  taken from the host, and the two structures that live in one frame each, the
  VMXON/VMCS region and the MSR bitmap. Dropping a value runs its \<open>drop\<close>.
\<close>

section \<open>Page frames\<close>

text \<open>\<open>MappingFlags\<close> of the crate \<open>page_table\<close>, as the flags that the sources set.\<close>

record NestedPageFaultInfo =
  access_read :: bool
  access_write :: bool
  access_execute :: bool
  fault_guest_paddr :: GuestPhysAddr

record PhysFrame =
  start_paddr :: HostPhysAddr

definition PhysFrame_alloc :: "('m, 'a) x86_env \<Rightarrow> (('m, 'a, 'z) x86_scheme, PhysFrame) hm" where
  "PhysFrame_alloc E s =
     (case alloc_page (halops E) (xhal s) of
        (None, a) \<Rightarrow> (Err NoMemory, s\<lparr>xhal := a\<rparr>)
      | (Some va, a) \<Rightarrow>
          (let pa = H_virt_to_phys (halops E) va in
           hseq (hassert (pa \<noteq> 0)) (hret \<lparr>start_paddr = pa\<rparr>) (s\<lparr>xhal := a\<rparr>)))"

definition as_mut_ptr :: "('m, 'a) x86_env \<Rightarrow> PhysFrame \<Rightarrow> HostVirtAddr" where
  "as_mut_ptr E self = H_phys_to_virt (halops E) (start_paddr self)"

definition fill :: "('m, 'a) x86_env \<Rightarrow> PhysFrame \<Rightarrow> u8 \<Rightarrow> (('m, 'a, 'z) x86_scheme, unit) hm" where
  "fill E self byte = hmod (\<lambda>s. s\<lparr>mem :=
     store_bytes (mem s) (as_mut_ptr E self) (replicate (unat (H_PAGE_SIZE (halops E))) byte)\<rparr>)"

definition alloc_zero :: "('m, 'a) x86_env \<Rightarrow> (('m, 'a, 'z) x86_scheme, PhysFrame) hm" where
  "alloc_zero E = hbind (PhysFrame_alloc E) (\<lambda>f. hseq (fill E f 0) (hret f))"

definition PhysFrame_uninit :: PhysFrame where
  "PhysFrame_uninit = \<lparr>start_paddr = 0\<rparr>"

definition PhysFrame_drop :: "('m, 'a) x86_env \<Rightarrow> PhysFrame \<Rightarrow> (('m, 'a, 'z) x86_scheme, unit) hm" where
  "PhysFrame_drop E self =
     hwhen (0 < start_paddr self)
       (hmod (\<lambda>s. s\<lparr>xhal :=
          dealloc_page (halops E) (H_phys_to_virt (halops E) (start_paddr self)) (xhal s)\<rparr>))"

section \<open>VMXON and VMCS regions\<close>

record VmxRegion =
  region_frame :: PhysFrame

definition VmxRegion_uninit :: VmxRegion where
  "VmxRegion_uninit = \<lparr>region_frame = PhysFrame_uninit\<rparr>"

definition VmxRegion_new :: "('m, 'a) x86_env \<Rightarrow> u32 \<Rightarrow> bool \<Rightarrow>
    (('m, 'a, 'z) x86_scheme, VmxRegion) hm" where
  "VmxRegion_new E revision shadow_indicator =
     hbind (alloc_zero E) (\<lambda>frame.
     hbind (hget (\<lambda>s. load_u32 (mem s) (as_mut_ptr E frame))) (\<lambda>w.
     hbind (hlift (set_bits32 (crates E) w 0 31 revision)) (\<lambda>w.
     hseq (hmod (\<lambda>s. s\<lparr>mem := store_u32 (mem s) (as_mut_ptr E frame)
                    (set_bit32 (crates E) w 31 shadow_indicator)\<rparr>))
     (hret \<lparr>region_frame = frame\<rparr>))))"

definition VmxRegion_phys_addr :: "VmxRegion \<Rightarrow> HostPhysAddr" where
  "VmxRegion_phys_addr self = start_paddr (region_frame self)"

definition VmxRegion_drop :: "('m, 'a) x86_env \<Rightarrow> VmxRegion \<Rightarrow> (('m, 'a, 'z) x86_scheme, unit) hm" where
  "VmxRegion_drop E self = PhysFrame_drop E (region_frame self)"

section \<open>MSR bitmaps\<close>

record MsrBitmap =
  bitmap_frame :: PhysFrame

definition passthrough_all :: "('m, 'a) x86_env \<Rightarrow> (('m, 'a, 'z) x86_scheme, MsrBitmap) hm" where
  "passthrough_all E = hbind (alloc_zero E) (\<lambda>f. hret \<lparr>bitmap_frame = f\<rparr>)"

definition intercept_all :: "('m, 'a) x86_env \<Rightarrow> (('m, 'a, 'z) x86_scheme, MsrBitmap) hm" where
  "intercept_all E =
     hbind (PhysFrame_alloc E) (\<lambda>f. hseq (fill E f 0xff) (hret \<lparr>bitmap_frame = f\<rparr>))"

definition MsrBitmap_phys_addr :: "MsrBitmap \<Rightarrow> HostPhysAddr" where
  "MsrBitmap_phys_addr self = start_paddr (bitmap_frame self)"

definition MsrBitmap_drop :: "('m, 'a) x86_env \<Rightarrow> MsrBitmap \<Rightarrow> (('m, 'a, 'z) x86_scheme, unit) hm" where
  "MsrBitmap_drop E self = PhysFrame_drop E (bitmap_frame self)"

definition set_intercept :: "('m, 'a) x86_env \<Rightarrow> MsrBitmap \<Rightarrow> u32 \<Rightarrow> bool \<Rightarrow> bool \<Rightarrow>
    (('m, 'a, 'z) x86_scheme, unit) hm" where
  "set_intercept E self msr is_write intercept =
     hbind (if msr \<le> 0x1fff then hret (if \<not> is_write then 0 else 2)
            else if 0xc0000000 \<le> msr \<and> msr \<le> 0xc0001fff then hret (if \<not> is_write then 1 else 3)
            else hpanic Unreachable) (\<lambda>k.
       let offset = k * 1024;
           bitmap = as_mut_ptr E (bitmap_frame self) + offset;
           msr = msr AND 0x1fff;
           byte = as_usize (msr div 8);
           bits = msr mod 8 in
       if 1024 \<le> byte then hpanic IndexOutOfBounds
       else hmod (\<lambda>s. s\<lparr>mem := (mem s)(bitmap + byte :=
              if intercept then mem s (bitmap + byte) OR shl 1 (unat bits)
              else mem s (bitmap + byte) AND NOT (shl 1 (unat bits)))\<rparr>))"

definition set_read_intercept :: "('m, 'a) x86_env \<Rightarrow> MsrBitmap \<Rightarrow> u32 \<Rightarrow> bool \<Rightarrow>
    (('m, 'a, 'z) x86_scheme, unit) hm" where
  "set_read_intercept E self msr intercept = set_intercept E self msr False intercept"

definition set_write_intercept :: "('m, 'a) x86_env \<Rightarrow> MsrBitmap \<Rightarrow> u32 \<Rightarrow> bool \<Rightarrow>
    (('m, 'a, 'z) x86_scheme, unit) hm" where
  "set_write_intercept E self msr intercept = set_intercept E self msr True intercept"

section \<open>What the processor reads in an MSR bitmap\<close>

text \<open>
  Intel SDM, volume 3C, section 24.6.9: the page holds four bitmaps of 1 KByte, for reads
  of the low MSRs, reads of the high MSRs, writes of the low and writes of the high
  ones; the bit of an MSR is the one with the number of its low 13 bits.
\<close>

definition msr_in_bitmap :: "u32 \<Rightarrow> bool" where
  "msr_in_bitmap msr \<longleftrightarrow> unat msr < 0x2000 \<or> 0xc0000000 \<le> unat msr \<and> unat msr < 0xc0002000"

definition msr_bit :: "u32 \<Rightarrow> bool \<Rightarrow> nat" where
  "msr_bit msr w = (if w then 0x4000 else 0) + (if 0xc0000000 \<le> unat msr then 0x2000 else 0)
     + unat msr mod 0x2000"

definition bitmap_bit :: "(usize \<Rightarrow> u8) \<Rightarrow> usize \<Rightarrow> nat \<Rightarrow> bool" where
  "bitmap_bit m p i = bit (m (p + of_nat (i div 8))) (i mod 8)"

definition intercepted :: "(usize \<Rightarrow> u8) \<Rightarrow> usize \<Rightarrow> u32 \<Rightarrow> bool \<Rightarrow> bool" where
  "intercepted m p msr w = bitmap_bit m p (msr_bit msr w)"

lemma msr_decompose:
  assumes "msr_in_bitmap a"
  obtains h r where "h \<le> 1" and "r < 0x2000" and "unat a = h * 0xc0000000 + r"
    and "\<And>w. msr_bit a w = (if w then 0x4000 else 0) + h * 0x2000 + r"
proof (cases "unat a < 0x2000")
  case True
  then show ?thesis by (intro that [of 0 "unat a"]) (simp_all add: msr_bit_def)
next
  case False
  define r where "r = unat a - 0xc0000000"
  have r: "unat a = 0xc0000000 + r" "r < 0x2000"
    using False assms by (auto simp: msr_in_bitmap_def r_def)
  have "unat a mod 0x2000 = r" using r by (simp add: mod_add_eq [symmetric])
  then show ?thesis using r by (intro that [of 1 r]) (simp_all add: msr_bit_def)
qed

lemma msr_bit_inject:
  assumes "msr_in_bitmap a" and "msr_in_bitmap b"
  shows "msr_bit a v = msr_bit b w \<longleftrightarrow> a = b \<and> v = w"
proof -
  obtain h r where a: "h \<le> 1" "r < 0x2000" "unat a = h * 0xc0000000 + r"
    "msr_bit a v = (if v then 0x4000 else 0) + h * 0x2000 + r"
    by (rule msr_decompose [OF assms(1)]) blast
  obtain k q where b: "k \<le> 1" "q < 0x2000" "unat b = k * 0xc0000000 + q"
    "msr_bit b w = (if w then 0x4000 else 0) + k * 0x2000 + q"
    by (rule msr_decompose [OF assms(2)]) blast
  have "h = 0 \<or> h = 1" "k = 0 \<or> k = 1" using a(1) b(1) by linarith+
  then have "h = k \<and> r = q \<and> v = w" if "msr_bit a v = msr_bit b w"
    using that a(2) b(2) unfolding a(4) b(4) by (elim disjE; cases v; cases w) simp_all
  then have "msr_bit a v = msr_bit b w \<Longrightarrow> a = b \<and> v = w"
    using a(3) b(3) by (simp add: word_unat_eq_iff)
  then show ?thesis by blast
qed

lemma msr_bit_less: "msr_bit msr w < 0x8000"
proof -
  have "unat msr mod 0x2000 < 0x2000" by simp
  moreover have "(if w then 0x4000 else 0) \<le> (0x4000 :: nat)" by simp
  moreover have "(if 0xc0000000 \<le> unat msr then 0x2000 else 0) \<le> (0x2000 :: nat)" by simp
  ultimately show ?thesis unfolding msr_bit_def by linarith
qed

text \<open>Setting one bit of a page changes that bit only.\<close>

lemma bitmap_bit_update:
  assumes "i < 0x8000" and "j < 0x8000"
    and "m' = m(p + of_nat (i div 8) := (if on then m (p + of_nat (i div 8)) OR shl 1 (i mod 8)
            else m (p + of_nat (i div 8)) AND NOT (shl 1 (i mod 8))))"
  shows "bitmap_bit m' p j \<longleftrightarrow> (if j = i then on else bitmap_bit m p j)"
proof -
  have same: "p + of_nat (j div 8) = p + of_nat (i div 8) \<longleftrightarrow> j div 8 = i div 8"
    using assms(1,2) by (simp add: of_nat_usize_inject)
  show ?thesis
  proof (cases "j div 8 = i div 8")
    case True
    then have "j = i \<longleftrightarrow> j mod 8 = i mod 8" by (metis div_mod_decomp)
    moreover have "i mod 8 < 8" "j mod 8 < 8" by simp_all
    ultimately show ?thesis
      using True unfolding assms(3) bitmap_bit_def same
      by (auto simp: bit_or_exp bit_andnot_exp)
  next
    case False
    then have "j \<noteq> i" by auto
    with False show ?thesis using same unfolding assms(3) bitmap_bit_def by simp
  qed
qed

lemma unat_and_1fff: "unat (x AND 0x1fff) = unat x mod 0x2000" for x :: u32
proof -
  have "x AND 0x1fff = take_bit 13 x" by (simp add: take_bit_eq_mask mask_eq_exp_minus_1)
  then show ?thesis by (simp add: take_bit_eq_mod unat_mod)
qed

text \<open>The two halves of \<open>set_intercept\<close>: where it writes, and that it panics elsewhere.\<close>

lemma set_intercept_run:
  assumes "msr_in_bitmap msr"
  shows "set_intercept E self msr w on s =
    (Ok (), s\<lparr>mem := (let p = as_mut_ptr E (bitmap_frame self); i = msr_bit msr w;
                         a = p + of_nat (i div 8) in
       (mem s)(a := if on then mem s a OR shl 1 (i mod 8) else mem s a AND NOT (shl 1 (i mod 8))))\<rparr>)"
proof -
  obtain h r where d: "h \<le> 1" "r < 0x2000" "unat msr = h * 0xc0000000 + r"
    "msr_bit msr w = (if w then 0x4000 else 0) + h * 0x2000 + r"
    by (rule msr_decompose [OF assms]) blast
  let ?k = "(if w then 2 else 0) + h"
  have h: "h = 0 \<or> h = 1" using d(1) by linarith
  have r: "unat (msr AND 0x1fff) = r"
    unfolding unat_and_1fff d(3) using d(2) h by (auto simp: mod_add_eq [symmetric])
  have b: "msr_bit msr w div 8 = ?k * 1024 + r div 8" "msr_bit msr w mod 8 = r mod 8"
    unfolding d(4) using h by (cases w; auto simp: mod_add_eq [symmetric])+
  have "unat ((msr AND 0x1fff) div 8) = r div 8" using r by (simp add: unat_div)
  then have byte: "as_usize ((msr AND 0x1fff) div 8) = of_nat (r div 8)" by (metis of_nat_unat)
  have bits: "unat ((msr AND 0x1fff) mod 8) = r mod 8"
    using r by (simp add: unat_mod)
  have lt: "\<not> 1024 \<le> (of_nat (r div 8) :: usize)"
    using d(2) by (simp add: word_le_nat_alt unat_of_nat_usize)
  have lo: "msr \<le> 0x1fff \<longleftrightarrow> h = 0" "0xc0000000 \<le> msr \<and> msr \<le> 0xc0001fff \<longleftrightarrow> h = 1"
    using d(2,3) h by (auto simp: word_le_nat_alt)
  have addr: "p + of_nat (msr_bit msr w div 8) = p + of_nat ?k * 1024 + of_nat (r div 8)" for p :: usize
    unfolding b(1) by simp
  show ?thesis
    unfolding set_intercept_def byte bits Let_def addr b(2)
    using h lo lt by (cases w) (auto simp: hm_defs)
qed

lemma set_intercept_spec:
  assumes "msr_in_bitmap msr" and "msr_in_bitmap msr'" and "set_intercept E self msr w on s = (r, s')"
  shows "r = Ok ()" and "hw s' = hw s" and "xhal s' = xhal s" and "x86.more s' = x86.more s"
    and "intercepted (mem s') (as_mut_ptr E (bitmap_frame self)) msr' w' \<longleftrightarrow>
      (if msr' = msr \<and> w' = w then on
       else intercepted (mem s) (as_mut_ptr E (bitmap_frame self)) msr' w')"
proof -
  note run = assms(3) [unfolded set_intercept_run [OF assms(1)] Let_def prod.inject]
  show "r = Ok ()" "hw s' = hw s" "xhal s' = xhal s" "x86.more s' = x86.more s" using run by auto
  have "bitmap_bit (mem s') (as_mut_ptr E (bitmap_frame self)) (msr_bit msr' w') \<longleftrightarrow>
      (if msr_bit msr' w' = msr_bit msr w then on
       else bitmap_bit (mem s) (as_mut_ptr E (bitmap_frame self)) (msr_bit msr' w'))"
    using run by (intro bitmap_bit_update [OF msr_bit_less msr_bit_less]) auto
  then show "intercepted (mem s') (as_mut_ptr E (bitmap_frame self)) msr' w' \<longleftrightarrow>
      (if msr' = msr \<and> w' = w then on
       else intercepted (mem s) (as_mut_ptr E (bitmap_frame self)) msr' w')"
    unfolding intercepted_def msr_bit_inject [OF assms(2,1)] .
qed

end
