(* ===== verification/Vmx_Fields.thy ===== *)
theory Vmx_Fields
  imports X86_Machine
begin

text \<open>
  The field enumerations of \<open>src/src/arch/x86_64/vmx/vmcs.rs\<close>, one datatype per
  enumeration with the encodings of its variants, and the accessors that the macros
  \<open>vmcs_read!\<close> and \<open>vmcs_write!\<close> define for them. Variants that several
  enumerations have are written with the name of the enumeration, as in the source.
\<close>

section \<open>Enumerations\<close>

datatype (plugins only: size) VmcsControl16 =
    VPID
  | POSTED_INTERRUPT_NOTIFICATION_VECTOR
  | EPTP_INDEX

primrec VmcsControl16_number :: "VmcsControl16 \<Rightarrow> u32" where
  "VmcsControl16_number VmcsControl16.VPID = 0x0"
| "VmcsControl16_number VmcsControl16.POSTED_INTERRUPT_NOTIFICATION_VECTOR = 0x2"
| "VmcsControl16_number VmcsControl16.EPTP_INDEX = 0x4"

datatype (plugins only: size) VmcsControl64 =
    IO_BITMAP_A_ADDR
  | IO_BITMAP_B_ADDR
  | MSR_BITMAPS_ADDR
  | VMEXIT_MSR_STORE_ADDR
  | VMEXIT_MSR_LOAD_ADDR
  | VMENTRY_MSR_LOAD_ADDR
  | EXECUTIVE_VMCS_PTR
  | PML_ADDR
  | TSC_OFFSET
  | VIRT_APIC_ADDR
  | APIC_ACCESS_ADDR
  | POSTED_INTERRUPT_DESC_ADDR
  | VM_FUNCTION_CONTROLS
  | EPTP
  | EOI_EXIT0
  | EOI_EXIT1
  | EOI_EXIT2
  | EOI_EXIT3
  | EPTP_LIST_ADDR
  | VMREAD_BITMAP_ADDR
  | VMWRITE_BITMAP_ADDR
  | VIRT_EXCEPTION_INFO_ADDR
  | XSS_EXITING_BITMAP
  | ENCLS_EXITING_BITMAP
  | SUBPAGE_PERM_TABLE_PTR
  | TSC_MULTIPLIER

primrec VmcsControl64_number :: "VmcsControl64 \<Rightarrow> u32" where
  "VmcsControl64_number VmcsControl64.IO_BITMAP_A_ADDR = 0x2000"
| "VmcsControl64_number VmcsControl64.IO_BITMAP_B_ADDR = 0x2002"
| "VmcsControl64_number VmcsControl64.MSR_BITMAPS_ADDR = 0x2004"
| "VmcsControl64_number VmcsControl64.VMEXIT_MSR_STORE_ADDR = 0x2006"
| "VmcsControl64_number VmcsControl64.VMEXIT_MSR_LOAD_ADDR = 0x2008"
| "VmcsControl64_number VmcsControl64.VMENTRY_MSR_LOAD_ADDR = 0x200a"
| "VmcsControl64_number VmcsControl64.EXECUTIVE_VMCS_PTR = 0x200c"
| "VmcsControl64_number VmcsControl64.PML_ADDR = 0x200e"
| "VmcsControl64_number VmcsControl64.TSC_OFFSET = 0x2010"
| "VmcsControl64_number VmcsControl64.VIRT_APIC_ADDR = 0x2012"
| "VmcsControl64_number VmcsControl64.APIC_ACCESS_ADDR = 0x2014"
| "VmcsControl64_number VmcsControl64.POSTED_INTERRUPT_DESC_ADDR = 0x2016"
| "VmcsControl64_number VmcsControl64.VM_FUNCTION_CONTROLS = 0x2018"
| "VmcsControl64_number VmcsControl64.EPTP = 0x201a"
| "VmcsControl64_number VmcsControl64.EOI_EXIT0 = 0x201c"
| "VmcsControl64_number VmcsControl64.EOI_EXIT1 = 0x201e"
| "VmcsControl64_number VmcsControl64.EOI_EXIT2 = 0x2020"
| "VmcsControl64_number VmcsControl64.EOI_EXIT3 = 0x2022"
| "VmcsControl64_number VmcsControl64.EPTP_LIST_ADDR = 0x2024"
| "VmcsControl64_number VmcsControl64.VMREAD_BITMAP_ADDR = 0x2026"
| "VmcsControl64_number VmcsControl64.VMWRITE_BITMAP_ADDR = 0x2028"
| "VmcsControl64_number VmcsControl64.VIRT_EXCEPTION_INFO_ADDR = 0x202a"
| "VmcsControl64_number VmcsControl64.XSS_EXITING_BITMAP = 0x202c"
| "VmcsControl64_number VmcsControl64.ENCLS_EXITING_BITMAP = 0x202e"
| "VmcsControl64_number VmcsControl64.SUBPAGE_PERM_TABLE_PTR = 0x2030"
| "VmcsControl64_number VmcsControl64.TSC_MULTIPLIER = 0x2032"

datatype (plugins only: size) VmcsControl32 =
    PINBASED_EXEC_CONTROLS
  | PRIMARY_PROCBASED_EXEC_CONTROLS
  | EXCEPTION_BITMAP
  | PAGE_FAULT_ERR_CODE_MASK
  | PAGE_FAULT_ERR_CODE_MATCH
  | CR3_TARGET_COUNT
  | VMEXIT_CONTROLS
  | VMEXIT_MSR_STORE_COUNT
  | VMEXIT_MSR_LOAD_COUNT
  | VMENTRY_CONTROLS
  | VMENTRY_MSR_LOAD_COUNT
  | VMENTRY_INTERRUPTION_INFO_FIELD
  | VMENTRY_EXCEPTION_ERR_CODE
  | VMENTRY_INSTRUCTION_LEN
  | TPR_THRESHOLD
  | SECONDARY_PROCBASED_EXEC_CONTROLS
  | PLE_GAP
  | PLE_WINDOW

primrec VmcsControl32_number :: "VmcsControl32 \<Rightarrow> u32" where
  "VmcsControl32_number VmcsControl32.PINBASED_EXEC_CONTROLS = 0x4000"
| "VmcsControl32_number VmcsControl32.PRIMARY_PROCBASED_EXEC_CONTROLS = 0x4002"
| "VmcsControl32_number VmcsControl32.EXCEPTION_BITMAP = 0x4004"
| "VmcsControl32_number VmcsControl32.PAGE_FAULT_ERR_CODE_MASK = 0x4006"
| "VmcsControl32_number VmcsControl32.PAGE_FAULT_ERR_CODE_MATCH = 0x4008"
| "VmcsControl32_number VmcsControl32.CR3_TARGET_COUNT = 0x400a"
| "VmcsControl32_number VmcsControl32.VMEXIT_CONTROLS = 0x400c"
| "VmcsControl32_number VmcsControl32.VMEXIT_MSR_STORE_COUNT = 0x400e"
| "VmcsControl32_number VmcsControl32.VMEXIT_MSR_LOAD_COUNT = 0x4010"
| "VmcsControl32_number VmcsControl32.VMENTRY_CONTROLS = 0x4012"
| "VmcsControl32_number VmcsControl32.VMENTRY_MSR_LOAD_COUNT = 0x4014"
| "VmcsControl32_number VmcsControl32.VMENTRY_INTERRUPTION_INFO_FIELD = 0x4016"
| "VmcsControl32_number VmcsControl32.VMENTRY_EXCEPTION_ERR_CODE = 0x4018"
| "VmcsControl32_number VmcsControl32.VMENTRY_INSTRUCTION_LEN = 0x401a"
| "VmcsControl32_number VmcsControl32.TPR_THRESHOLD = 0x401c"
| "VmcsControl32_number VmcsControl32.SECONDARY_PROCBASED_EXEC_CONTROLS = 0x401e"
| "VmcsControl32_number VmcsControl32.PLE_GAP = 0x4020"
| "VmcsControl32_number VmcsControl32.PLE_WINDOW = 0x4022"

datatype (plugins only: size) VmcsControlNW =
    CR0_GUEST_HOST_MASK
  | CR4_GUEST_HOST_MASK
  | CR0_READ_SHADOW
  | CR4_READ_SHADOW
  | CR3_TARGET_VALUE0
  | CR3_TARGET_VALUE1
  | CR3_TARGET_VALUE2
  | CR3_TARGET_VALUE3

primrec VmcsControlNW_number :: "VmcsControlNW \<Rightarrow> u32" where
  "VmcsControlNW_number VmcsControlNW.CR0_GUEST_HOST_MASK = 0x6000"
| "VmcsControlNW_number VmcsControlNW.CR4_GUEST_HOST_MASK = 0x6002"
| "VmcsControlNW_number VmcsControlNW.CR0_READ_SHADOW = 0x6004"
| "VmcsControlNW_number VmcsControlNW.CR4_READ_SHADOW = 0x6006"
| "VmcsControlNW_number VmcsControlNW.CR3_TARGET_VALUE0 = 0x6008"
| "VmcsControlNW_number VmcsControlNW.CR3_TARGET_VALUE1 = 0x600a"
| "VmcsControlNW_number VmcsControlNW.CR3_TARGET_VALUE2 = 0x600c"
| "VmcsControlNW_number VmcsControlNW.CR3_TARGET_VALUE3 = 0x600e"

datatype (plugins only: size) VmcsGuest16 =
    ES_SELECTOR
  | CS_SELECTOR
  | SS_SELECTOR
  | DS_SELECTOR
  | FS_SELECTOR
  | GS_SELECTOR
  | LDTR_SELECTOR
  | TR_SELECTOR
  | INTERRUPT_STATUS
  | PML_INDEX

primrec VmcsGuest16_number :: "VmcsGuest16 \<Rightarrow> u32" where
  "VmcsGuest16_number VmcsGuest16.ES_SELECTOR = 0x800"
| "VmcsGuest16_number VmcsGuest16.CS_SELECTOR = 0x802"
| "VmcsGuest16_number VmcsGuest16.SS_SELECTOR = 0x804"
| "VmcsGuest16_number VmcsGuest16.DS_SELECTOR = 0x806"
| "VmcsGuest16_number VmcsGuest16.FS_SELECTOR = 0x808"
| "VmcsGuest16_number VmcsGuest16.GS_SELECTOR = 0x80a"
| "VmcsGuest16_number VmcsGuest16.LDTR_SELECTOR = 0x80c"
| "VmcsGuest16_number VmcsGuest16.TR_SELECTOR = 0x80e"
| "VmcsGuest16_number VmcsGuest16.INTERRUPT_STATUS = 0x810"
| "VmcsGuest16_number VmcsGuest16.PML_INDEX = 0x812"

datatype (plugins only: size) VmcsGuest64 =
    LINK_PTR
  | IA32_DEBUGCTL
  | IA32_PAT
  | IA32_EFER
  | IA32_PERF_GLOBAL_CTRL
  | PDPTE0
  | PDPTE1
  | PDPTE2
  | PDPTE3
  | IA32_BNDCFGS
  | IA32_RTIT_CTL

primrec VmcsGuest64_number :: "VmcsGuest64 \<Rightarrow> u32" where
  "VmcsGuest64_number VmcsGuest64.LINK_PTR = 0x2800"
| "VmcsGuest64_number VmcsGuest64.IA32_DEBUGCTL = 0x2802"
| "VmcsGuest64_number VmcsGuest64.IA32_PAT = 0x2804"
| "VmcsGuest64_number VmcsGuest64.IA32_EFER = 0x2806"
| "VmcsGuest64_number VmcsGuest64.IA32_PERF_GLOBAL_CTRL = 0x2808"
| "VmcsGuest64_number VmcsGuest64.PDPTE0 = 0x280a"
| "VmcsGuest64_number VmcsGuest64.PDPTE1 = 0x280c"
| "VmcsGuest64_number VmcsGuest64.PDPTE2 = 0x280e"
| "VmcsGuest64_number VmcsGuest64.PDPTE3 = 0x2810"
| "VmcsGuest64_number VmcsGuest64.IA32_BNDCFGS = 0x2812"
| "VmcsGuest64_number VmcsGuest64.IA32_RTIT_CTL = 0x2814"

datatype (plugins only: size) VmcsGuest32 =
    ES_LIMIT
  | CS_LIMIT
  | SS_LIMIT
  | DS_LIMIT
  | FS_LIMIT
  | GS_LIMIT
  | LDTR_LIMIT
  | TR_LIMIT
  | GDTR_LIMIT
  | IDTR_LIMIT
  | ES_ACCESS_RIGHTS
  | CS_ACCESS_RIGHTS
  | SS_ACCESS_RIGHTS
  | DS_ACCESS_RIGHTS
  | FS_ACCESS_RIGHTS
  | GS_ACCESS_RIGHTS
  | LDTR_ACCESS_RIGHTS
  | TR_ACCESS_RIGHTS
  | INTERRUPTIBILITY_STATE
  | ACTIVITY_STATE
  | SMBASE
  | IA32_SYSENTER_CS
  | VMX_PREEMPTION_TIMER_VALUE

primrec VmcsGuest32_number :: "VmcsGuest32 \<Rightarrow> u32" where
  "VmcsGuest32_number VmcsGuest32.ES_LIMIT = 0x4800"
| "VmcsGuest32_number VmcsGuest32.CS_LIMIT = 0x4802"
| "VmcsGuest32_number VmcsGuest32.SS_LIMIT = 0x4804"
| "VmcsGuest32_number VmcsGuest32.DS_LIMIT = 0x4806"
| "VmcsGuest32_number VmcsGuest32.FS_LIMIT = 0x4808"
| "VmcsGuest32_number VmcsGuest32.GS_LIMIT = 0x480a"
| "VmcsGuest32_number VmcsGuest32.LDTR_LIMIT = 0x480c"
| "VmcsGuest32_number VmcsGuest32.TR_LIMIT = 0x480e"
| "VmcsGuest32_number VmcsGuest32.GDTR_LIMIT = 0x4810"
| "VmcsGuest32_number VmcsGuest32.IDTR_LIMIT = 0x4812"
| "VmcsGuest32_number VmcsGuest32.ES_ACCESS_RIGHTS = 0x4814"
| "VmcsGuest32_number VmcsGuest32.CS_ACCESS_RIGHTS = 0x4816"
| "VmcsGuest32_number VmcsGuest32.SS_ACCESS_RIGHTS = 0x4818"
| "VmcsGuest32_number VmcsGuest32.DS_ACCESS_RIGHTS = 0x481a"
| "VmcsGuest32_number VmcsGuest32.FS_ACCESS_RIGHTS = 0x481c"
| "VmcsGuest32_number VmcsGuest32.GS_ACCESS_RIGHTS = 0x481e"
| "VmcsGuest32_number VmcsGuest32.LDTR_ACCESS_RIGHTS = 0x4820"
| "VmcsGuest32_number VmcsGuest32.TR_ACCESS_RIGHTS = 0x4822"
| "VmcsGuest32_number VmcsGuest32.INTERRUPTIBILITY_STATE = 0x4824"
| "VmcsGuest32_number VmcsGuest32.ACTIVITY_STATE = 0x4826"
| "VmcsGuest32_number VmcsGuest32.SMBASE = 0x4828"
| "VmcsGuest32_number VmcsGuest32.IA32_SYSENTER_CS = 0x482a"
| "VmcsGuest32_number VmcsGuest32.VMX_PREEMPTION_TIMER_VALUE = 0x482e"

datatype (plugins only: size) VmcsGuestNW =
    CR0
  | CR3
  | CR4
  | ES_BASE
  | CS_BASE
  | SS_BASE
  | DS_BASE
  | FS_BASE
  | GS_BASE
  | LDTR_BASE
  | TR_BASE
  | GDTR_BASE
  | IDTR_BASE
  | DR7
  | RSP
  | RIP
  | RFLAGS
  | PENDING_DBG_EXCEPTIONS
  | IA32_SYSENTER_ESP
  | IA32_SYSENTER_EIP

primrec VmcsGuestNW_number :: "VmcsGuestNW \<Rightarrow> u32" where
  "VmcsGuestNW_number VmcsGuestNW.CR0 = 0x6800"
| "VmcsGuestNW_number VmcsGuestNW.CR3 = 0x6802"
| "VmcsGuestNW_number VmcsGuestNW.CR4 = 0x6804"
| "VmcsGuestNW_number VmcsGuestNW.ES_BASE = 0x6806"
| "VmcsGuestNW_number VmcsGuestNW.CS_BASE = 0x6808"
| "VmcsGuestNW_number VmcsGuestNW.SS_BASE = 0x680a"
| "VmcsGuestNW_number VmcsGuestNW.DS_BASE = 0x680c"
| "VmcsGuestNW_number VmcsGuestNW.FS_BASE = 0x680e"
| "VmcsGuestNW_number VmcsGuestNW.GS_BASE = 0x6810"
| "VmcsGuestNW_number VmcsGuestNW.LDTR_BASE = 0x6812"
| "VmcsGuestNW_number VmcsGuestNW.TR_BASE = 0x6814"
| "VmcsGuestNW_number VmcsGuestNW.GDTR_BASE = 0x6816"
| "VmcsGuestNW_number VmcsGuestNW.IDTR_BASE = 0x6818"
| "VmcsGuestNW_number VmcsGuestNW.DR7 = 0x681a"
| "VmcsGuestNW_number VmcsGuestNW.RSP = 0x681c"
| "VmcsGuestNW_number VmcsGuestNW.RIP = 0x681e"
| "VmcsGuestNW_number VmcsGuestNW.RFLAGS = 0x6820"
| "VmcsGuestNW_number VmcsGuestNW.PENDING_DBG_EXCEPTIONS = 0x6822"
| "VmcsGuestNW_number VmcsGuestNW.IA32_SYSENTER_ESP = 0x6824"
| "VmcsGuestNW_number VmcsGuestNW.IA32_SYSENTER_EIP = 0x6826"

datatype (plugins only: size) VmcsHost16 =
    ES_SELECTOR
  | CS_SELECTOR
  | SS_SELECTOR
  | DS_SELECTOR
  | FS_SELECTOR
  | GS_SELECTOR
  | TR_SELECTOR

primrec VmcsHost16_number :: "VmcsHost16 \<Rightarrow> u32" where
  "VmcsHost16_number VmcsHost16.ES_SELECTOR = 0xc00"
| "VmcsHost16_number VmcsHost16.CS_SELECTOR = 0xc02"
| "VmcsHost16_number VmcsHost16.SS_SELECTOR = 0xc04"
| "VmcsHost16_number VmcsHost16.DS_SELECTOR = 0xc06"
| "VmcsHost16_number VmcsHost16.FS_SELECTOR = 0xc08"
| "VmcsHost16_number VmcsHost16.GS_SELECTOR = 0xc0a"
| "VmcsHost16_number VmcsHost16.TR_SELECTOR = 0xc0c"

datatype (plugins only: size) VmcsHost64 =
    IA32_PAT
  | IA32_EFER
  | IA32_PERF_GLOBAL_CTRL

primrec VmcsHost64_number :: "VmcsHost64 \<Rightarrow> u32" where
  "VmcsHost64_number VmcsHost64.IA32_PAT = 0x2c00"
| "VmcsHost64_number VmcsHost64.IA32_EFER = 0x2c02"
| "VmcsHost64_number VmcsHost64.IA32_PERF_GLOBAL_CTRL = 0x2c04"

datatype (plugins only: size) VmcsHost32 = IA32_SYSENTER_CS

primrec VmcsHost32_number :: "VmcsHost32 \<Rightarrow> u32" where
  "VmcsHost32_number VmcsHost32.IA32_SYSENTER_CS = 0x4c00"

datatype (plugins only: size) VmcsHostNW =
    CR0
  | CR3
  | CR4
  | FS_BASE
  | GS_BASE
  | TR_BASE
  | GDTR_BASE
  | IDTR_BASE
  | IA32_SYSENTER_ESP
  | IA32_SYSENTER_EIP
  | RSP
  | RIP

primrec VmcsHostNW_number :: "VmcsHostNW \<Rightarrow> u32" where
  "VmcsHostNW_number VmcsHostNW.CR0 = 0x6c00"
| "VmcsHostNW_number VmcsHostNW.CR3 = 0x6c02"
| "VmcsHostNW_number VmcsHostNW.CR4 = 0x6c04"
| "VmcsHostNW_number VmcsHostNW.FS_BASE = 0x6c06"
| "VmcsHostNW_number VmcsHostNW.GS_BASE = 0x6c08"
| "VmcsHostNW_number VmcsHostNW.TR_BASE = 0x6c0a"
| "VmcsHostNW_number VmcsHostNW.GDTR_BASE = 0x6c0c"
| "VmcsHostNW_number VmcsHostNW.IDTR_BASE = 0x6c0e"
| "VmcsHostNW_number VmcsHostNW.IA32_SYSENTER_ESP = 0x6c10"
| "VmcsHostNW_number VmcsHostNW.IA32_SYSENTER_EIP = 0x6c12"
| "VmcsHostNW_number VmcsHostNW.RSP = 0x6c14"
| "VmcsHostNW_number VmcsHostNW.RIP = 0x6c16"

datatype (plugins only: size) VmcsReadOnly64 = GUEST_PHYSICAL_ADDR

primrec VmcsReadOnly64_number :: "VmcsReadOnly64 \<Rightarrow> u32" where
  "VmcsReadOnly64_number VmcsReadOnly64.GUEST_PHYSICAL_ADDR = 0x2400"

datatype (plugins only: size) VmcsReadOnly32 =
    VM_INSTRUCTION_ERROR
  | EXIT_REASON
  | VMEXIT_INTERRUPTION_INFO
  | VMEXIT_INTERRUPTION_ERR_CODE
  | IDT_VECTORING_INFO
  | IDT_VECTORING_ERR_CODE
  | VMEXIT_INSTRUCTION_LEN
  | VMEXIT_INSTRUCTION_INFO

primrec VmcsReadOnly32_number :: "VmcsReadOnly32 \<Rightarrow> u32" where
  "VmcsReadOnly32_number VmcsReadOnly32.VM_INSTRUCTION_ERROR = 0x4400"
| "VmcsReadOnly32_number VmcsReadOnly32.EXIT_REASON = 0x4402"
| "VmcsReadOnly32_number VmcsReadOnly32.VMEXIT_INTERRUPTION_INFO = 0x4404"
| "VmcsReadOnly32_number VmcsReadOnly32.VMEXIT_INTERRUPTION_ERR_CODE = 0x4406"
| "VmcsReadOnly32_number VmcsReadOnly32.IDT_VECTORING_INFO = 0x4408"
| "VmcsReadOnly32_number VmcsReadOnly32.IDT_VECTORING_ERR_CODE = 0x440a"
| "VmcsReadOnly32_number VmcsReadOnly32.VMEXIT_INSTRUCTION_LEN = 0x440c"
| "VmcsReadOnly32_number VmcsReadOnly32.VMEXIT_INSTRUCTION_INFO = 0x440e"

datatype (plugins only: size) VmcsReadOnlyNW =
    EXIT_QUALIFICATION
  | IO_RCX
  | IO_RSI
  | IO_RDI
  | IO_RIP
  | GUEST_LINEAR_ADDR

primrec VmcsReadOnlyNW_number :: "VmcsReadOnlyNW \<Rightarrow> u32" where
  "VmcsReadOnlyNW_number VmcsReadOnlyNW.EXIT_QUALIFICATION = 0x6400"
| "VmcsReadOnlyNW_number VmcsReadOnlyNW.IO_RCX = 0x6402"
| "VmcsReadOnlyNW_number VmcsReadOnlyNW.IO_RSI = 0x6404"
| "VmcsReadOnlyNW_number VmcsReadOnlyNW.IO_RDI = 0x6406"
| "VmcsReadOnlyNW_number VmcsReadOnlyNW.IO_RIP = 0x6408"
| "VmcsReadOnlyNW_number VmcsReadOnlyNW.GUEST_LINEAR_ADDR = 0x640a"

section \<open>Accessors\<close>

text \<open>
  The macros. A field is read with \<open>vmread\<close> and converted to the type of its
  enumeration; a value is widened and written with \<open>vmwrite\<close>.
\<close>

definition vmcs_read :: "('m, 'a) x86_env \<Rightarrow> u32 \<Rightarrow> (('m, 'a, 'z) x86_scheme, 'w::len word) hm" where
  "vmcs_read E field s =
     (case vmread (cpu E) field (hw s) of Some v \<Rightarrow> (Ok (ucast v), s) | None \<Rightarrow> (Err BadState, s))"

definition vmcs_write :: "('m, 'a) x86_env \<Rightarrow> u32 \<Rightarrow> 'w::len word \<Rightarrow>
    (('m, 'a, 'z) x86_scheme, unit) hm" where
  "vmcs_write E field value = vm_instr (vmwrite (cpu E) field (ucast value))"

definition VmcsControl16_read :: "('m, 'a) x86_env \<Rightarrow> VmcsControl16 \<Rightarrow> (('m, 'a, 'z) x86_scheme, u16) hm" where
  "VmcsControl16_read E f = vmcs_read E (VmcsControl16_number f)"

definition VmcsControl16_write :: "('m, 'a) x86_env \<Rightarrow> VmcsControl16 \<Rightarrow> u16 \<Rightarrow>
    (('m, 'a, 'z) x86_scheme, unit) hm" where
  "VmcsControl16_write E f value = vmcs_write E (VmcsControl16_number f) value"

definition VmcsControl64_read :: "('m, 'a) x86_env \<Rightarrow> VmcsControl64 \<Rightarrow> (('m, 'a, 'z) x86_scheme, u64) hm" where
  "VmcsControl64_read E f = vmcs_read E (VmcsControl64_number f)"

definition VmcsControl64_write :: "('m, 'a) x86_env \<Rightarrow> VmcsControl64 \<Rightarrow> u64 \<Rightarrow>
    (('m, 'a, 'z) x86_scheme, unit) hm" where
  "VmcsControl64_write E f value = vmcs_write E (VmcsControl64_number f) value"

definition VmcsControl32_read :: "('m, 'a) x86_env \<Rightarrow> VmcsControl32 \<Rightarrow> (('m, 'a, 'z) x86_scheme, u32) hm" where
  "VmcsControl32_read E f = vmcs_read E (VmcsControl32_number f)"

definition VmcsControl32_write :: "('m, 'a) x86_env \<Rightarrow> VmcsControl32 \<Rightarrow> u32 \<Rightarrow>
    (('m, 'a, 'z) x86_scheme, unit) hm" where
  "VmcsControl32_write E f value = vmcs_write E (VmcsControl32_number f) value"

definition VmcsControlNW_read :: "('m, 'a) x86_env \<Rightarrow> VmcsControlNW \<Rightarrow> (('m, 'a, 'z) x86_scheme, usize) hm" where
  "VmcsControlNW_read E f = vmcs_read E (VmcsControlNW_number f)"

definition VmcsControlNW_write :: "('m, 'a) x86_env \<Rightarrow> VmcsControlNW \<Rightarrow> usize \<Rightarrow>
    (('m, 'a, 'z) x86_scheme, unit) hm" where
  "VmcsControlNW_write E f value = vmcs_write E (VmcsControlNW_number f) value"

definition VmcsGuest16_read :: "('m, 'a) x86_env \<Rightarrow> VmcsGuest16 \<Rightarrow> (('m, 'a, 'z) x86_scheme, u16) hm" where
  "VmcsGuest16_read E f = vmcs_read E (VmcsGuest16_number f)"

definition VmcsGuest16_write :: "('m, 'a) x86_env \<Rightarrow> VmcsGuest16 \<Rightarrow> u16 \<Rightarrow>
    (('m, 'a, 'z) x86_scheme, unit) hm" where
  "VmcsGuest16_write E f value = vmcs_write E (VmcsGuest16_number f) value"

definition VmcsGuest64_read :: "('m, 'a) x86_env \<Rightarrow> VmcsGuest64 \<Rightarrow> (('m, 'a, 'z) x86_scheme, u64) hm" where
  "VmcsGuest64_read E f = vmcs_read E (VmcsGuest64_number f)"

definition VmcsGuest64_write :: "('m, 'a) x86_env \<Rightarrow> VmcsGuest64 \<Rightarrow> u64 \<Rightarrow>
    (('m, 'a, 'z) x86_scheme, unit) hm" where
  "VmcsGuest64_write E f value = vmcs_write E (VmcsGuest64_number f) value"

definition VmcsGuest32_read :: "('m, 'a) x86_env \<Rightarrow> VmcsGuest32 \<Rightarrow> (('m, 'a, 'z) x86_scheme, u32) hm" where
  "VmcsGuest32_read E f = vmcs_read E (VmcsGuest32_number f)"

definition VmcsGuest32_write :: "('m, 'a) x86_env \<Rightarrow> VmcsGuest32 \<Rightarrow> u32 \<Rightarrow>
    (('m, 'a, 'z) x86_scheme, unit) hm" where
  "VmcsGuest32_write E f value = vmcs_write E (VmcsGuest32_number f) value"

definition VmcsGuestNW_read :: "('m, 'a) x86_env \<Rightarrow> VmcsGuestNW \<Rightarrow> (('m, 'a, 'z) x86_scheme, usize) hm" where
  "VmcsGuestNW_read E f = vmcs_read E (VmcsGuestNW_number f)"

definition VmcsGuestNW_write :: "('m, 'a) x86_env \<Rightarrow> VmcsGuestNW \<Rightarrow> usize \<Rightarrow>
    (('m, 'a, 'z) x86_scheme, unit) hm" where
  "VmcsGuestNW_write E f value = vmcs_write E (VmcsGuestNW_number f) value"

definition VmcsHost16_read :: "('m, 'a) x86_env \<Rightarrow> VmcsHost16 \<Rightarrow> (('m, 'a, 'z) x86_scheme, u16) hm" where
  "VmcsHost16_read E f = vmcs_read E (VmcsHost16_number f)"

definition VmcsHost16_write :: "('m, 'a) x86_env \<Rightarrow> VmcsHost16 \<Rightarrow> u16 \<Rightarrow>
    (('m, 'a, 'z) x86_scheme, unit) hm" where
  "VmcsHost16_write E f value = vmcs_write E (VmcsHost16_number f) value"

definition VmcsHost64_read :: "('m, 'a) x86_env \<Rightarrow> VmcsHost64 \<Rightarrow> (('m, 'a, 'z) x86_scheme, u64) hm" where
  "VmcsHost64_read E f = vmcs_read E (VmcsHost64_number f)"

definition VmcsHost64_write :: "('m, 'a) x86_env \<Rightarrow> VmcsHost64 \<Rightarrow> u64 \<Rightarrow>
    (('m, 'a, 'z) x86_scheme, unit) hm" where
  "VmcsHost64_write E f value = vmcs_write E (VmcsHost64_number f) value"

definition VmcsHost32_read :: "('m, 'a) x86_env \<Rightarrow> VmcsHost32 \<Rightarrow> (('m, 'a, 'z) x86_scheme, u32) hm" where
  "VmcsHost32_read E f = vmcs_read E (VmcsHost32_number f)"

definition VmcsHost32_write :: "('m, 'a) x86_env \<Rightarrow> VmcsHost32 \<Rightarrow> u32 \<Rightarrow>
    (('m, 'a, 'z) x86_scheme, unit) hm" where
  "VmcsHost32_write E f value = vmcs_write E (VmcsHost32_number f) value"

definition VmcsHostNW_read :: "('m, 'a) x86_env \<Rightarrow> VmcsHostNW \<Rightarrow> (('m, 'a, 'z) x86_scheme, usize) hm" where
  "VmcsHostNW_read E f = vmcs_read E (VmcsHostNW_number f)"

definition VmcsHostNW_write :: "('m, 'a) x86_env \<Rightarrow> VmcsHostNW \<Rightarrow> usize \<Rightarrow>
    (('m, 'a, 'z) x86_scheme, unit) hm" where
  "VmcsHostNW_write E f value = vmcs_write E (VmcsHostNW_number f) value"

definition VmcsReadOnly64_read :: "('m, 'a) x86_env \<Rightarrow> VmcsReadOnly64 \<Rightarrow> (('m, 'a, 'z) x86_scheme, u64) hm" where
  "VmcsReadOnly64_read E f = vmcs_read E (VmcsReadOnly64_number f)"

definition VmcsReadOnly32_read :: "('m, 'a) x86_env \<Rightarrow> VmcsReadOnly32 \<Rightarrow> (('m, 'a, 'z) x86_scheme, u32) hm" where
  "VmcsReadOnly32_read E f = vmcs_read E (VmcsReadOnly32_number f)"

definition VmcsReadOnlyNW_read :: "('m, 'a) x86_env \<Rightarrow> VmcsReadOnlyNW \<Rightarrow> (('m, 'a, 'z) x86_scheme, usize) hm" where
  "VmcsReadOnlyNW_read E f = vmcs_read E (VmcsReadOnlyNW_number f)"

lemmas vmcs_access_defs =
  VmcsControl16_read_def VmcsControl16_write_def VmcsControl64_read_def
  VmcsControl64_write_def VmcsControl32_read_def VmcsControl32_write_def
  VmcsControlNW_read_def VmcsControlNW_write_def VmcsGuest16_read_def
  VmcsGuest16_write_def VmcsGuest64_read_def VmcsGuest64_write_def VmcsGuest32_read_def
  VmcsGuest32_write_def VmcsGuestNW_read_def VmcsGuestNW_write_def VmcsHost16_read_def
  VmcsHost16_write_def VmcsHost64_read_def VmcsHost64_write_def VmcsHost32_read_def
  VmcsHost32_write_def VmcsHostNW_read_def VmcsHostNW_write_def VmcsReadOnly64_read_def
  VmcsReadOnly32_read_def VmcsReadOnlyNW_read_def

section \<open>Encodings\<close>

text \<open>
  Intel SDM, volume 3C, section 24.11.2: bits 14:13 of an encoding give the width of
  the field (16, 64, 32 bits or natural), bits 11:10 its type (control, read-only, guest
  state, host state); bit 0 is clear for full access.
\<close>

datatype width = W16 | W64 | W32 | WNatural
datatype field_class = Control | ReadOnly | GuestState | HostState

definition encoding :: "width \<Rightarrow> field_class \<Rightarrow> u32 \<Rightarrow> bool" where
  "encoding w c n \<longleftrightarrow>
     field_of n 13 15 = (case w of W16 \<Rightarrow> 0 | W64 \<Rightarrow> 1 | W32 \<Rightarrow> 2 | WNatural \<Rightarrow> 3)
     \<and> field_of n 10 12 = (case c of Control \<Rightarrow> 0 | ReadOnly \<Rightarrow> 1 | GuestState \<Rightarrow> 2 | HostState \<Rightarrow> 3)
     \<and> field_of n 12 13 = 0 \<and> field_of n 15 32 = 0 \<and> \<not> bit n 0"

lemma encoding_unique:
  assumes "encoding w c n" and "encoding w' c' n"
  shows "w = w' \<and> c = c'"
  using assms unfolding encoding_def by (cases w; cases w'; cases c; cases c'; simp)

lemma vmcs_encodings:
  shows "encoding W16 Control (VmcsControl16_number f0)"
    and "encoding W64 Control (VmcsControl64_number f1)"
    and "encoding W32 Control (VmcsControl32_number f2)"
    and "encoding WNatural Control (VmcsControlNW_number f3)"
    and "encoding W16 GuestState (VmcsGuest16_number f4)"
    and "encoding W64 GuestState (VmcsGuest64_number f5)"
    and "encoding W32 GuestState (VmcsGuest32_number f6)"
    and "encoding WNatural GuestState (VmcsGuestNW_number f7)"
    and "encoding W16 HostState (VmcsHost16_number f8)"
    and "encoding W64 HostState (VmcsHost64_number f9)"
    and "encoding W32 HostState (VmcsHost32_number f10)"
    and "encoding WNatural HostState (VmcsHostNW_number f11)"
    and "encoding W64 ReadOnly (VmcsReadOnly64_number f12)"
    and "encoding W32 ReadOnly (VmcsReadOnly32_number f13)"
    and "encoding WNatural ReadOnly (VmcsReadOnlyNW_number f14)"
proof -
  show "encoding W16 Control (VmcsControl16_number f0)" by (cases f0) (simp_all add: encoding_def field_of_def)
  show "encoding W64 Control (VmcsControl64_number f1)" by (cases f1) (simp_all add: encoding_def field_of_def)
  show "encoding W32 Control (VmcsControl32_number f2)" by (cases f2) (simp_all add: encoding_def field_of_def)
  show "encoding WNatural Control (VmcsControlNW_number f3)" by (cases f3) (simp_all add: encoding_def field_of_def)
  show "encoding W16 GuestState (VmcsGuest16_number f4)" by (cases f4) (simp_all add: encoding_def field_of_def)
  show "encoding W64 GuestState (VmcsGuest64_number f5)" by (cases f5) (simp_all add: encoding_def field_of_def)
  show "encoding W32 GuestState (VmcsGuest32_number f6)" by (cases f6) (simp_all add: encoding_def field_of_def)
  show "encoding WNatural GuestState (VmcsGuestNW_number f7)" by (cases f7) (simp_all add: encoding_def field_of_def)
  show "encoding W16 HostState (VmcsHost16_number f8)" by (cases f8) (simp_all add: encoding_def field_of_def)
  show "encoding W64 HostState (VmcsHost64_number f9)" by (cases f9) (simp_all add: encoding_def field_of_def)
  show "encoding W32 HostState (VmcsHost32_number f10)" by (cases f10) (simp_all add: encoding_def field_of_def)
  show "encoding WNatural HostState (VmcsHostNW_number f11)" by (cases f11) (simp_all add: encoding_def field_of_def)
  show "encoding W64 ReadOnly (VmcsReadOnly64_number f12)" by (cases f12) (simp_all add: encoding_def field_of_def)
  show "encoding W32 ReadOnly (VmcsReadOnly32_number f13)" by (cases f13) (simp_all add: encoding_def field_of_def)
  show "encoding WNatural ReadOnly (VmcsReadOnlyNW_number f14)" by (cases f14) (simp_all add: encoding_def field_of_def)
qed

lemma vmcs_number_inject:
  shows "VmcsControl16_number a0 = VmcsControl16_number b0 \<longleftrightarrow> a0 = b0"
    and "VmcsControl64_number a1 = VmcsControl64_number b1 \<longleftrightarrow> a1 = b1"
    and "VmcsControl32_number a2 = VmcsControl32_number b2 \<longleftrightarrow> a2 = b2"
    and "VmcsControlNW_number a3 = VmcsControlNW_number b3 \<longleftrightarrow> a3 = b3"
    and "VmcsGuest16_number a4 = VmcsGuest16_number b4 \<longleftrightarrow> a4 = b4"
    and "VmcsGuest64_number a5 = VmcsGuest64_number b5 \<longleftrightarrow> a5 = b5"
    and "VmcsGuest32_number a6 = VmcsGuest32_number b6 \<longleftrightarrow> a6 = b6"
    and "VmcsGuestNW_number a7 = VmcsGuestNW_number b7 \<longleftrightarrow> a7 = b7"
    and "VmcsHost16_number a8 = VmcsHost16_number b8 \<longleftrightarrow> a8 = b8"
    and "VmcsHost64_number a9 = VmcsHost64_number b9 \<longleftrightarrow> a9 = b9"
    and "VmcsHost32_number a10 = VmcsHost32_number b10 \<longleftrightarrow> a10 = b10"
    and "VmcsHostNW_number a11 = VmcsHostNW_number b11 \<longleftrightarrow> a11 = b11"
    and "VmcsReadOnly64_number a12 = VmcsReadOnly64_number b12 \<longleftrightarrow> a12 = b12"
    and "VmcsReadOnly32_number a13 = VmcsReadOnly32_number b13 \<longleftrightarrow> a13 = b13"
    and "VmcsReadOnlyNW_number a14 = VmcsReadOnlyNW_number b14 \<longleftrightarrow> a14 = b14"
proof -
  show "VmcsControl16_number a0 = VmcsControl16_number b0 \<longleftrightarrow> a0 = b0" by (cases a0; cases b0; simp)
  show "VmcsControl64_number a1 = VmcsControl64_number b1 \<longleftrightarrow> a1 = b1" by (cases a1; cases b1; simp)
  show "VmcsControl32_number a2 = VmcsControl32_number b2 \<longleftrightarrow> a2 = b2" by (cases a2; cases b2; simp)
  show "VmcsControlNW_number a3 = VmcsControlNW_number b3 \<longleftrightarrow> a3 = b3" by (cases a3; cases b3; simp)
  show "VmcsGuest16_number a4 = VmcsGuest16_number b4 \<longleftrightarrow> a4 = b4" by (cases a4; cases b4; simp)
  show "VmcsGuest64_number a5 = VmcsGuest64_number b5 \<longleftrightarrow> a5 = b5" by (cases a5; cases b5; simp)
  show "VmcsGuest32_number a6 = VmcsGuest32_number b6 \<longleftrightarrow> a6 = b6" by (cases a6; cases b6; simp)
  show "VmcsGuestNW_number a7 = VmcsGuestNW_number b7 \<longleftrightarrow> a7 = b7" by (cases a7; cases b7; simp)
  show "VmcsHost16_number a8 = VmcsHost16_number b8 \<longleftrightarrow> a8 = b8" by (cases a8; cases b8; simp)
  show "VmcsHost64_number a9 = VmcsHost64_number b9 \<longleftrightarrow> a9 = b9" by (cases a9; cases b9; simp)
  show "VmcsHost32_number a10 = VmcsHost32_number b10 \<longleftrightarrow> a10 = b10" by (cases a10; cases b10; simp)
  show "VmcsHostNW_number a11 = VmcsHostNW_number b11 \<longleftrightarrow> a11 = b11" by (cases a11; cases b11; simp)
  show "VmcsReadOnly64_number a12 = VmcsReadOnly64_number b12 \<longleftrightarrow> a12 = b12" by (cases a12; cases b12; simp)
  show "VmcsReadOnly32_number a13 = VmcsReadOnly32_number b13 \<longleftrightarrow> a13 = b13" by (cases a13; cases b13; simp)
  show "VmcsReadOnlyNW_number a14 = VmcsReadOnlyNW_number b14 \<longleftrightarrow> a14 = b14" by (cases a14; cases b14; simp)
qed

text \<open>Any field of the VMCS.\<close>

datatype VmcsField =
    FControl16 VmcsControl16
  | FControl64 VmcsControl64
  | FControl32 VmcsControl32
  | FControlNW VmcsControlNW
  | FGuest16 VmcsGuest16
  | FGuest64 VmcsGuest64
  | FGuest32 VmcsGuest32
  | FGuestNW VmcsGuestNW
  | FHost16 VmcsHost16
  | FHost64 VmcsHost64
  | FHost32 VmcsHost32
  | FHostNW VmcsHostNW
  | FReadOnly64 VmcsReadOnly64
  | FReadOnly32 VmcsReadOnly32
  | FReadOnlyNW VmcsReadOnlyNW

primrec field_number :: "VmcsField \<Rightarrow> u32" where
  "field_number (FControl16 f) = VmcsControl16_number f"
| "field_number (FControl64 f) = VmcsControl64_number f"
| "field_number (FControl32 f) = VmcsControl32_number f"
| "field_number (FControlNW f) = VmcsControlNW_number f"
| "field_number (FGuest16 f) = VmcsGuest16_number f"
| "field_number (FGuest64 f) = VmcsGuest64_number f"
| "field_number (FGuest32 f) = VmcsGuest32_number f"
| "field_number (FGuestNW f) = VmcsGuestNW_number f"
| "field_number (FHost16 f) = VmcsHost16_number f"
| "field_number (FHost64 f) = VmcsHost64_number f"
| "field_number (FHost32 f) = VmcsHost32_number f"
| "field_number (FHostNW f) = VmcsHostNW_number f"
| "field_number (FReadOnly64 f) = VmcsReadOnly64_number f"
| "field_number (FReadOnly32 f) = VmcsReadOnly32_number f"
| "field_number (FReadOnlyNW f) = VmcsReadOnlyNW_number f"

primrec field_width :: "VmcsField \<Rightarrow> width" where
  "field_width (FControl16 f) = W16"
| "field_width (FControl64 f) = W64"
| "field_width (FControl32 f) = W32"
| "field_width (FControlNW f) = WNatural"
| "field_width (FGuest16 f) = W16"
| "field_width (FGuest64 f) = W64"
| "field_width (FGuest32 f) = W32"
| "field_width (FGuestNW f) = WNatural"
| "field_width (FHost16 f) = W16"
| "field_width (FHost64 f) = W64"
| "field_width (FHost32 f) = W32"
| "field_width (FHostNW f) = WNatural"
| "field_width (FReadOnly64 f) = W64"
| "field_width (FReadOnly32 f) = W32"
| "field_width (FReadOnlyNW f) = WNatural"

primrec field_class_of :: "VmcsField \<Rightarrow> field_class" where
  "field_class_of (FControl16 f) = Control"
| "field_class_of (FControl64 f) = Control"
| "field_class_of (FControl32 f) = Control"
| "field_class_of (FControlNW f) = Control"
| "field_class_of (FGuest16 f) = GuestState"
| "field_class_of (FGuest64 f) = GuestState"
| "field_class_of (FGuest32 f) = GuestState"
| "field_class_of (FGuestNW f) = GuestState"
| "field_class_of (FHost16 f) = HostState"
| "field_class_of (FHost64 f) = HostState"
| "field_class_of (FHost32 f) = HostState"
| "field_class_of (FHostNW f) = HostState"
| "field_class_of (FReadOnly64 f) = ReadOnly"
| "field_class_of (FReadOnly32 f) = ReadOnly"
| "field_class_of (FReadOnlyNW f) = ReadOnly"

lemma field_encoding: "encoding (field_width f) (field_class_of f) (field_number f)"
  by (cases f) (simp_all add: vmcs_encodings)

lemma field_number_inject: "field_number f = field_number g \<longleftrightarrow> f = g"
proof
  assume eq: "field_number f = field_number g"
  have "field_width f = field_width g \<and> field_class_of f = field_class_of g"
    using encoding_unique [OF field_encoding [of f]] field_encoding [of g] eq by simp
  then show "f = g" using eq by (cases f; cases g; simp add: vmcs_number_inject)
qed simp

text \<open>
  Claim C40. The encodings of the VMCS fields are well formed: for every field of every
  enumeration, the width and type bits are those of the enumeration that lists it,
  and no two fields share an encoding.
\<close>

theorem vmcs_field_encodings:
  "encoding (field_width f) (field_class_of f) (field_number f)
   \<and> (field_number f = field_number g \<longleftrightarrow> f = g)"
  using field_encoding field_number_inject by blast

end
