(* ===== verification/Vmx_Access.thy ===== *)
theory Vmx_Access
  imports Vmx_Fields
begin

text \<open>
  What the x86 theories assume of \<open>vmread\<close> and \<open>vmwrite\<close>, and the calculus in which
  sequences of VMCS accesses are proved: \<open>does_writes\<close> says of a computation which
  fields it writes, in order, and that it does nothing else.
\<close>

section \<open>The processor\<close>

text \<open>
  What the code relies on of \<open>vmread\<close> and \<open>vmwrite\<close>: a field that the processor
  has and that is not read-only can be written, reads back what was written, cut to its
  width, and the write changes no other field and nothing else of the processor that
  the code reads.
\<close>

definition writable :: "u32 \<Rightarrow> bool" where
  "writable f \<longleftrightarrow> field_of f 10 12 \<noteq> 1"

definition field_trunc :: "u32 \<Rightarrow> u64 \<Rightarrow> u64" where
  "field_trunc f v =
     (if field_of f 13 15 = 0 then take_bit 16 v else if field_of f 13 15 = 2 then take_bit 32 v else v)"

definition cpu_obs :: "'m cpu_ops \<Rightarrow> 'm \<Rightarrow> (u32 \<Rightarrow> u64) \<times> u64 list \<times> u16 list \<times> (u16 \<times> u64) list" where
  "cpu_obs C m = (\<lambda>n. rdmsr C n m,
     [Cr0_read C m, Cr0_read_raw C m, Cr3_read_raw C m, Cr4_read C m, Cr4_read_raw C m],
     [seg_es C m, seg_cs C m, seg_ss C m, seg_ds C m, seg_fs C m, seg_gs C m, task_tr C m],
     [sgdt C m, sidt C m])"

definition vmcs_ok :: "'m cpu_ops \<Rightarrow> bool" where
  "vmcs_ok C \<longleftrightarrow> (\<forall>f v m. vmread C f m \<noteq> None \<and> writable f \<longrightarrow>
     fst (vmwrite C f v m)
     \<and> (\<forall>g. vmread C g (snd (vmwrite C f v m)) =
          (if g = f then Some (field_trunc f v) else vmread C g m))
     \<and> cpu_obs C (snd (vmwrite C f v m)) = cpu_obs C m)"

text \<open>The current VMCS, as far as the enumerations reach.\<close>

definition vmcs :: "('m, 'a) x86_env \<Rightarrow> ('m, 'a, 'z) x86_scheme \<Rightarrow> u32 \<Rightarrow> u64 option" where
  "vmcs E s f = vmread (cpu E) f (hw s)"

definition vmcs_loaded :: "('m, 'a) x86_env \<Rightarrow> ('m, 'a, 'z) x86_scheme \<Rightarrow> bool" where
  "vmcs_loaded E s \<longleftrightarrow> (\<forall>f. vmcs E s (field_number f) \<noteq> None)"

text \<open>
  A computation that writes the listed fields, in this order, and does nothing else.
  The fields of the list are writable fields of the enumerations.
\<close>

definition apply_writes :: "(u32 \<times> u64) list \<Rightarrow> (u32 \<rightharpoonup> u64) \<Rightarrow> (u32 \<rightharpoonup> u64)" where
  "apply_writes ws V = fold (\<lambda>(f, v) V. V(f \<mapsto> field_trunc f v)) ws V"

definition does_writes :: "('m, 'a) x86_env \<Rightarrow> (u32 \<times> u64) list \<Rightarrow>
    (('m, 'a, 'z) x86_scheme, unit) hm \<Rightarrow> ('m, 'a, 'z) x86_scheme \<Rightarrow> bool" where
  "does_writes E ws c s \<longleftrightarrow> (\<exists>m. c s = (Ok (), s\<lparr>hw := m\<rparr>)
     \<and> (\<lambda>f. vmread (cpu E) f m) = apply_writes ws (vmcs E s)
     \<and> cpu_obs (cpu E) m = cpu_obs (cpu E) (hw s))"

lemma apply_writes_Nil [simp]: "apply_writes [] V = V"
  by (simp add: apply_writes_def)

lemma apply_writes_Cons [simp]:
  "apply_writes ((f, v) # ws) V = apply_writes ws (V(f \<mapsto> field_trunc f v))"
  by (simp add: apply_writes_def)

lemma apply_writes_append [simp]: "apply_writes (ws @ ws') V = apply_writes ws' (apply_writes ws V)"
  by (simp add: apply_writes_def)

lemma apply_writes_other: "f \<notin> fst ` set ws \<Longrightarrow> apply_writes ws V f = V f"
  by (induction ws arbitrary: V) auto

lemma apply_writes_loaded: "V f \<noteq> None \<Longrightarrow> apply_writes ws V f \<noteq> None"
  by (induction ws arbitrary: V) auto

lemma writable_number: "field_class_of f \<noteq> ReadOnly \<Longrightarrow> writable (field_number f)"
  using field_encoding [of f] by (cases "field_class_of f") (simp_all add: writable_def encoding_def)

lemma does_writes_hret [simp]: "does_writes E [] (hret ()) s"
  by (auto simp: does_writes_def hret_def vmcs_def fun_eq_iff intro!: exI [of _ "hw s"])

lemma does_writes_one:
  assumes "vmcs_ok (cpu E)" and "vmcs_loaded E s" and "field_class_of f \<noteq> ReadOnly"
  shows "does_writes E [(field_number f, ucast v)] (vmcs_write E (field_number f) v) s"
proof -
  let ?n = "field_number f"
  have "vmread (cpu E) ?n (hw s) \<noteq> None" using assms(2) by (simp add: vmcs_loaded_def vmcs_def)
  moreover have "writable ?n" by (rule writable_number [OF assms(3)])
  ultimately have w: "fst (vmwrite (cpu E) ?n (ucast v) (hw s))
      \<and> (\<forall>g. vmread (cpu E) g (snd (vmwrite (cpu E) ?n (ucast v) (hw s))) =
           (if g = ?n then Some (field_trunc ?n (ucast v)) else vmread (cpu E) g (hw s)))
      \<and> cpu_obs (cpu E) (snd (vmwrite (cpu E) ?n (ucast v) (hw s))) = cpu_obs (cpu E) (hw s)"
    using assms(1) unfolding vmcs_ok_def by blast
  show ?thesis
    unfolding does_writes_def
    by (rule exI [of _ "snd (vmwrite (cpu E) ?n (ucast v) (hw s))"])
      (use w in \<open>auto simp: vmcs_write_def vm_instr_def vmcs_def fun_eq_iff split: prod.splits\<close>)
qed

lemma does_writes_seq:
  assumes "does_writes E ws c s"
    and "\<And>s'. s' = s\<lparr>hw := hw s'\<rparr> \<Longrightarrow> vmcs E s' = apply_writes ws (vmcs E s) \<Longrightarrow>
      cpu_obs (cpu E) (hw s') = cpu_obs (cpu E) (hw s) \<Longrightarrow> does_writes E ws' d s'"
  shows "does_writes E (ws @ ws') (hseq c d) s"
proof -
  obtain m where m: "c s = (Ok (), s\<lparr>hw := m\<rparr>)"
    "(\<lambda>f. vmread (cpu E) f m) = apply_writes ws (vmcs E s)"
    "cpu_obs (cpu E) m = cpu_obs (cpu E) (hw s)"
    using assms(1) by (auto simp: does_writes_def)
  have v: "vmcs E (s\<lparr>hw := m\<rparr>) = apply_writes ws (vmcs E s)" using m(2) by (simp add: vmcs_def fun_eq_iff)
  then have "does_writes E ws' d (s\<lparr>hw := m\<rparr>)" using m(3) by (intro assms(2)) simp_all
  then show ?thesis using m v by (auto simp: does_writes_def hm_defs)
qed

lemma does_writesD:
  assumes "does_writes E ws c s" and "c s = (r, s')"
  shows "r = Ok ()" and "s' = s\<lparr>hw := hw s'\<rparr>" and "vmcs E s' = apply_writes ws (vmcs E s)"
    and "cpu_obs (cpu E) (hw s') = cpu_obs (cpu E) (hw s)"
  using assms by (auto simp: does_writes_def vmcs_def [abs_def])

lemma loaded_after_writes:
  "vmcs_loaded E s \<Longrightarrow> vmcs E s' = apply_writes ws (vmcs E s) \<Longrightarrow> vmcs_loaded E s'"
  using apply_writes_loaded by (fastforce simp: vmcs_loaded_def)

lemma does_writes_field:
  assumes "vmcs_ok (cpu E)" and "vmcs_loaded E s"
  shows "does_writes E [(VmcsControl16_number f0, ucast v0)] (VmcsControl16_write E f0 v0) s"
    and "does_writes E [(VmcsControl64_number f1, ucast v1)] (VmcsControl64_write E f1 v1) s"
    and "does_writes E [(VmcsControl32_number f2, ucast v2)] (VmcsControl32_write E f2 v2) s"
    and "does_writes E [(VmcsControlNW_number f3, ucast v3)] (VmcsControlNW_write E f3 v3) s"
    and "does_writes E [(VmcsGuest16_number f4, ucast v4)] (VmcsGuest16_write E f4 v4) s"
    and "does_writes E [(VmcsGuest64_number f5, ucast v5)] (VmcsGuest64_write E f5 v5) s"
    and "does_writes E [(VmcsGuest32_number f6, ucast v6)] (VmcsGuest32_write E f6 v6) s"
    and "does_writes E [(VmcsGuestNW_number f7, ucast v7)] (VmcsGuestNW_write E f7 v7) s"
    and "does_writes E [(VmcsHost16_number f8, ucast v8)] (VmcsHost16_write E f8 v8) s"
    and "does_writes E [(VmcsHost64_number f9, ucast v9)] (VmcsHost64_write E f9 v9) s"
    and "does_writes E [(VmcsHost32_number f10, ucast v10)] (VmcsHost32_write E f10 v10) s"
    and "does_writes E [(VmcsHostNW_number f11, ucast v11)] (VmcsHostNW_write E f11 v11) s"
  unfolding vmcs_access_defs
  using does_writes_one [OF assms, of "FControl16 f0" v0]
    does_writes_one [OF assms, of "FControl64 f1" v1]
    does_writes_one [OF assms, of "FControl32 f2" v2]
    does_writes_one [OF assms, of "FControlNW f3" v3]
    does_writes_one [OF assms, of "FGuest16 f4" v4]
    does_writes_one [OF assms, of "FGuest64 f5" v5]
    does_writes_one [OF assms, of "FGuest32 f6" v6]
    does_writes_one [OF assms, of "FGuestNW f7" v7]
    does_writes_one [OF assms, of "FHost16 f8" v8]
    does_writes_one [OF assms, of "FHost64 f9" v9]
    does_writes_one [OF assms, of "FHost32 f10" v10]
    does_writes_one [OF assms, of "FHostNW f11" v11]
  by simp_all

text \<open>A value of the type of an enumeration fits the fields of the enumeration.\<close>

lemma field_trunc_typed [simp]:
  "encoding W16 c n \<Longrightarrow> field_trunc n (ucast (v :: u16)) = ucast v"
  "encoding W32 c n \<Longrightarrow> field_trunc n (ucast (w :: u32)) = ucast w"
  "encoding W64 c n \<Longrightarrow> field_trunc n x = x"
  "encoding WNatural c n \<Longrightarrow> field_trunc n x = x"
proof -
  have "take_bit 16 (ucast v :: u64) = ucast v" "take_bit 32 (ucast w :: u64) = ucast w"
    by (rule bit_word_eqI; auto simp: bit_simps dest: bit_imp_le_length)+
  then show "encoding W16 c n \<Longrightarrow> field_trunc n (ucast v) = ucast v"
    "encoding W32 c n \<Longrightarrow> field_trunc n (ucast w) = ucast w"
    "encoding W64 c n \<Longrightarrow> field_trunc n x = x" "encoding WNatural c n \<Longrightarrow> field_trunc n x = x"
    by (simp_all add: field_trunc_def encoding_def)
qed

lemma vmcs_read_loaded:
  "vmcs_loaded E s \<Longrightarrow> vmcs_read E (field_number f) s = (Ok (ucast (the (vmcs E s (field_number f)))), s)"
  by (auto simp: vmcs_loaded_def vmcs_read_def vmcs_def split: option.splits)

lemma VmcsReadOnly32_read_loaded:
  "vmcs_loaded E s \<Longrightarrow>
   VmcsReadOnly32_read E f s = (Ok (as_u32 (the (vmcs E s (VmcsReadOnly32_number f)))), s)"
  using vmcs_read_loaded [of E s "FReadOnly32 f"] by (simp add: VmcsReadOnly32_read_def)

lemma does_writes_cong: "c s = d s \<Longrightarrow> does_writes E ws c s \<longleftrightarrow> does_writes E ws d s"
  by (simp add: does_writes_def)

section \<open>Sequences of accesses\<close>

text \<open>
  \<open>writes E o ws c\<close>: on any loaded VMCS and with the processor's other registers as in \<open>o\<close>,
  \<open>c\<close> succeeds and does the writes \<open>ws\<close>. The rules compose it along lists of writes.
\<close>

definition writes :: "('m, 'a) x86_env \<Rightarrow> (u32 \<Rightarrow> u64) \<times> u64 list \<times> u16 list \<times> (u16 \<times> u64) list \<Rightarrow>
    (u32 \<times> u64) list \<Rightarrow> (('m, 'a, 'z) x86_scheme, unit) hm \<Rightarrow> bool" where
  "writes E ob ws c \<longleftrightarrow> (\<forall>s. vmcs_loaded E s \<and> cpu_obs (cpu E) (hw s) = ob \<longrightarrow> does_writes E ws c s)"

named_theorems writes_intros "composition of VMCS writes"

lemma hseqs_flatten: "hseqs (hseqs xs # ys) = hseqs (xs @ ys)"
  by (induction xs) (simp_all add: hseq_def hbind_assoc)

lemma hseqs_append: "hseqs (xs @ ys) = hseq (hseqs xs) (hseqs ys)"
  by (induction xs) (simp_all add: hseq_def hbind_assoc)

lemma writes_Nil [writes_intros]: "writes E ob [] (hseqs [])"
  by (simp add: writes_def)

lemma writes_Cons [writes_intros]:
  assumes "writes E ob [w] c" and "writes E ob ws (hseqs cs)"
  shows "writes E ob (w # ws) (hseqs (c # cs))"
proof -
  have "does_writes E ([w] @ ws) (hseq c (hseqs cs)) s"
    if "vmcs_loaded E s" "cpu_obs (cpu E) (hw s) = ob" for s
    using assms that by (intro does_writes_seq) (auto simp: writes_def loaded_after_writes)
  then show ?thesis by (simp add: writes_def)
qed

lemma writes_fields [writes_intros]:
  assumes "vmcs_ok (cpu E)"
  shows "writes E ob [(VmcsControl16_number f0, ucast v0)] (VmcsControl16_write E f0 v0)"
    and "writes E ob [(VmcsControl64_number f1, ucast v1)] (VmcsControl64_write E f1 v1)"
    and "writes E ob [(VmcsControl32_number f2, ucast v2)] (VmcsControl32_write E f2 v2)"
    and "writes E ob [(VmcsControlNW_number f3, ucast v3)] (VmcsControlNW_write E f3 v3)"
    and "writes E ob [(VmcsGuest16_number f4, ucast v4)] (VmcsGuest16_write E f4 v4)"
    and "writes E ob [(VmcsGuest64_number f5, ucast v5)] (VmcsGuest64_write E f5 v5)"
    and "writes E ob [(VmcsGuest32_number f6, ucast v6)] (VmcsGuest32_write E f6 v6)"
    and "writes E ob [(VmcsGuestNW_number f7, ucast v7)] (VmcsGuestNW_write E f7 v7)"
    and "writes E ob [(VmcsHost16_number f8, ucast v8)] (VmcsHost16_write E f8 v8)"
    and "writes E ob [(VmcsHost64_number f9, ucast v9)] (VmcsHost64_write E f9 v9)"
    and "writes E ob [(VmcsHost32_number f10, ucast v10)] (VmcsHost32_write E f10 v10)"
    and "writes E ob [(VmcsHostNW_number f11, ucast v11)] (VmcsHostNW_write E f11 v11)"
  unfolding writes_def
  by (intro allI impI, elim conjE, rule does_writes_field [OF assms], assumption)+

lemma writes_field_eq:
  assumes "vmcs_ok (cpu E)"
  shows "w = (VmcsControl16_number f0, ucast v0) \<Longrightarrow> writes E ob [w] (VmcsControl16_write E f0 v0)"
    and "w = (VmcsControl64_number f1, ucast v1) \<Longrightarrow> writes E ob [w] (VmcsControl64_write E f1 v1)"
    and "w = (VmcsControl32_number f2, ucast v2) \<Longrightarrow> writes E ob [w] (VmcsControl32_write E f2 v2)"
    and "w = (VmcsControlNW_number f3, ucast v3) \<Longrightarrow> writes E ob [w] (VmcsControlNW_write E f3 v3)"
    and "w = (VmcsGuest16_number f4, ucast v4) \<Longrightarrow> writes E ob [w] (VmcsGuest16_write E f4 v4)"
    and "w = (VmcsGuest64_number f5, ucast v5) \<Longrightarrow> writes E ob [w] (VmcsGuest64_write E f5 v5)"
    and "w = (VmcsGuest32_number f6, ucast v6) \<Longrightarrow> writes E ob [w] (VmcsGuest32_write E f6 v6)"
    and "w = (VmcsGuestNW_number f7, ucast v7) \<Longrightarrow> writes E ob [w] (VmcsGuestNW_write E f7 v7)"
    and "w = (VmcsHost16_number f8, ucast v8) \<Longrightarrow> writes E ob [w] (VmcsHost16_write E f8 v8)"
    and "w = (VmcsHost64_number f9, ucast v9) \<Longrightarrow> writes E ob [w] (VmcsHost64_write E f9 v9)"
    and "w = (VmcsHost32_number f10, ucast v10) \<Longrightarrow> writes E ob [w] (VmcsHost32_write E f10 v10)"
    and "w = (VmcsHostNW_number f11, ucast v11) \<Longrightarrow> writes E ob [w] (VmcsHostNW_write E f11 v11)"
  by (simp_all only: writes_fields [OF assms])

lemma writes_Msr_read [writes_intros]:
  assumes "writes E ob ws (k (fst ob (Msr_number n)))"
  shows "writes E ob ws (hbind (Msr_read E n) k)"
proof -
  have "hbind (Msr_read E n) k s = k (fst ob (Msr_number n)) s" if "cpu_obs (cpu E) (hw s) = ob" for s
    using that by (auto simp: Msr_read_def hbind_def hget_def cpu_obs_def)
  then show ?thesis using assms by (simp add: writes_def does_writes_def)
qed

text \<open>The value of a field after a list of writes: the last one, if there is one.\<close>

lemma apply_writes_last:
  "apply_writes ws V f = (case map_of (rev ws) f of Some v \<Rightarrow> Some (field_trunc f v) | None \<Rightarrow> V f)"
  by (induction ws arbitrary: V) (auto simp: map_add_def split: option.splits)

text \<open>
  \<open>only_writes E F c\<close>: whatever \<open>c\<close> returns, it changes nothing but VMCS fields in \<open>F\<close>, and the
  VMCS stays loaded.
\<close>

definition only_writes :: "('m, 'a) x86_env \<Rightarrow> u32 set \<Rightarrow> (('m, 'a, 'z) x86_scheme, 'b) hm \<Rightarrow> bool" where
  "only_writes E F c \<longleftrightarrow> (\<forall>s r s'. vmcs_loaded E s \<and> c s = (r, s') \<longrightarrow>
     s' = s\<lparr>hw := hw s'\<rparr> \<and> vmcs_loaded E s' \<and> (\<forall>f. f \<notin> F \<longrightarrow> vmcs E s' f = vmcs E s f))"

named_theorems only_writes_intros "composition of only_writes"

lemma only_writesD:
  assumes "only_writes E F c" and "vmcs_loaded E s" and "c s = (r, s')"
  shows "s' = s\<lparr>hw := hw s'\<rparr>" and "vmcs_loaded E s'" and "f \<notin> F \<Longrightarrow> vmcs E s' f = vmcs E s f"
  using assms by (auto simp: only_writes_def)

lemma only_writes_pure [only_writes_intros]:
  "only_writes E F (hret x)" "only_writes E F (herr e)" "only_writes E F (hpanic p)"
  "only_writes E F (hget g)" "only_writes E F (hlift q)" "only_writes E F (hassert b)"
  by (auto simp: only_writes_def hm_defs)

lemma only_writes_hbind [only_writes_intros]:
  assumes "only_writes E F m" and "\<And>x. only_writes E F (k x)"
  shows "only_writes E F (hbind m k)"
  unfolding only_writes_def
proof (intro allI impI, elim conjE)
  fix s r s' assume l: "vmcs_loaded E s" and run: "hbind m k s = (r, s')"
  obtain q t where m: "m s = (q, t)" by fastforce
  note M = only_writesD [OF assms(1) l m]
  show "s' = s\<lparr>hw := hw s'\<rparr> \<and> vmcs_loaded E s' \<and> (\<forall>f. f \<notin> F \<longrightarrow> vmcs E s' f = vmcs E s f)"
  proof (cases q)
    case (Ok x)
    then have "k x t = (r, s')" using run m by (simp add: hbind_def)
    note K = only_writesD [OF assms(2) M(2) this]
    have "s' = s\<lparr>hw := hw s'\<rparr>" using M(1) K(1) by (metis x86.update_convs(1) x86.surjective)
    then show ?thesis using M(3) K(2,3) by simp
  qed (use M run m in \<open>auto simp: hbind_def\<close>)
qed

lemma only_writes_hseq [only_writes_intros]:
  "only_writes E F m \<Longrightarrow> only_writes E F n \<Longrightarrow> only_writes E F (hseq m n)"
  unfolding hseq_def by (intro only_writes_hbind)

lemma only_writes_hseqs [only_writes_intros]:
  "only_writes E F (hseqs [])"
  "only_writes E F m \<Longrightarrow> only_writes E F (hseqs ms) \<Longrightarrow> only_writes E F (hseqs (m # ms))"
  by (simp_all add: only_writes_pure only_writes_hseq)

lemma only_writes_if [only_writes_intros]:
  "only_writes E F m \<Longrightarrow> only_writes E F n \<Longrightarrow> only_writes E F (if b then m else n)"
  by simp

lemma only_writes_Msr_read [only_writes_intros]: "only_writes E F (Msr_read E n)"
  unfolding Msr_read_def by (rule only_writes_pure)

lemma only_writes_mono: "only_writes E F c \<Longrightarrow> F \<subseteq> F' \<Longrightarrow> only_writes E F' c"
  unfolding only_writes_def by blast

lemma does_writes_only:
  assumes "\<And>s. vmcs_loaded E s \<Longrightarrow> does_writes E ws c s" and "fst ` set ws \<subseteq> F"
  shows "only_writes E F c"
  unfolding only_writes_def
proof (intro allI impI, elim conjE)
  fix s r s' assume l: "vmcs_loaded E s" and run: "c s = (r, s')"
  note D = does_writesD [OF assms(1) [OF l] run]
  show "s' = s\<lparr>hw := hw s'\<rparr> \<and> vmcs_loaded E s' \<and> (\<forall>f. f \<notin> F \<longrightarrow> vmcs E s' f = vmcs E s f)"
    using D(2) loaded_after_writes [OF l D(3)] assms(2) apply_writes_other D(3) by fastforce
qed

lemma only_writes_field [only_writes_intros]:
  assumes "vmcs_ok (cpu E)"
  shows "VmcsControl16_number f0 \<in> F \<Longrightarrow> only_writes E F (VmcsControl16_write E f0 v0)"
    and "VmcsControl64_number f1 \<in> F \<Longrightarrow> only_writes E F (VmcsControl64_write E f1 v1)"
    and "VmcsControl32_number f2 \<in> F \<Longrightarrow> only_writes E F (VmcsControl32_write E f2 v2)"
    and "VmcsControlNW_number f3 \<in> F \<Longrightarrow> only_writes E F (VmcsControlNW_write E f3 v3)"
    and "VmcsGuest16_number f4 \<in> F \<Longrightarrow> only_writes E F (VmcsGuest16_write E f4 v4)"
    and "VmcsGuest64_number f5 \<in> F \<Longrightarrow> only_writes E F (VmcsGuest64_write E f5 v5)"
    and "VmcsGuest32_number f6 \<in> F \<Longrightarrow> only_writes E F (VmcsGuest32_write E f6 v6)"
    and "VmcsGuestNW_number f7 \<in> F \<Longrightarrow> only_writes E F (VmcsGuestNW_write E f7 v7)"
    and "VmcsHost16_number f8 \<in> F \<Longrightarrow> only_writes E F (VmcsHost16_write E f8 v8)"
    and "VmcsHost64_number f9 \<in> F \<Longrightarrow> only_writes E F (VmcsHost64_write E f9 v9)"
    and "VmcsHost32_number f10 \<in> F \<Longrightarrow> only_writes E F (VmcsHost32_write E f10 v10)"
    and "VmcsHostNW_number f11 \<in> F \<Longrightarrow> only_writes E F (VmcsHostNW_write E f11 v11)"
  by (rule does_writes_only, rule does_writes_field [OF assms], assumption, simp)+

end
