(* ===== verification/X86_Sample.thy ===== *)
theory X86_Sample
  imports Vmx_Access
begin

text \<open>
  A concrete processor and host on which the hypotheses of the x86 theories hold: the VMCS
  is a function from encodings to values, pages are handed out one after another, and the
  clock is a number. The witnesses are stated on it.
\<close>

record std_cpu =
  c_vmcs :: "u32 \<Rightarrow> u64"
  c_msr :: "u32 \<Rightarrow> u64"
  c_cr4 :: u64
  c_vmxon :: bool

definition std_cpu_ops :: "std_cpu cpu_ops" where
  "std_cpu_ops = \<lparr>
     rdmsr = (\<lambda>n m. c_msr m n),
     wrmsr = (\<lambda>n v m. m\<lparr>c_msr := (c_msr m)(n := v)\<rparr>),
     vmread = (\<lambda>f m. Some (c_vmcs m f)),
     vmwrite = (\<lambda>f v m. (True, m\<lparr>c_vmcs := (c_vmcs m)(f := field_trunc f v)\<rparr>)),
     vmclear = (\<lambda>p m. (True, m)), vmptrld = (\<lambda>p m. (True, m)),
     vmxon = (\<lambda>p m. (\<not> c_vmxon m, m\<lparr>c_vmxon := True\<rparr>)),
     vmxoff = (\<lambda>m. (c_vmxon m, m\<lparr>c_vmxon := False\<rparr>)),
     invept_insn = (\<lambda>t d m. m), rflags_read = (\<lambda>m. 2),
     Cr0_read = (\<lambda>m. 0x80000031), Cr0_read_raw = (\<lambda>m. 0x80000031), Cr3_read_raw = (\<lambda>m. 0x1000),
     Cr4_read = c_cr4, Cr4_read_raw = c_cr4, Cr4_write = (\<lambda>v m. m\<lparr>c_cr4 := v\<rparr>),
     seg_es = (\<lambda>m. 0), seg_cs = (\<lambda>m. 8), seg_ss = (\<lambda>m. 16), seg_ds = (\<lambda>m. 0), seg_fs = (\<lambda>m. 0),
     seg_gs = (\<lambda>m. 0), task_tr = (\<lambda>m. 24), selector_index = (\<lambda>x. drop_bit 3 x),
     sgdt = (\<lambda>m. (0x3f, 0x2000)), sidt = (\<lambda>m. (0xfff, 0x3000)),
     feature_has_vmx = (\<lambda>m. Some True)\<rparr>"

record std_hal =
  next_va :: usize
  clock :: u64

definition std_hal_ops :: "std_hal hal_ops" where
  "std_hal_ops = \<lparr>
     H_PAGE_SIZE = 0x1000,
     H_alloc_pages = (\<lambda>n a. (Some (next_va a), a\<lparr>next_va := next_va a + n * 0x1000\<rparr>)),
     H_dealloc_pages = (\<lambda>va n a. a),
     H_phys_to_virt = (\<lambda>a. a), H_virt_to_phys = (\<lambda>a. a),
     H_current_time_nanos = clock\<rparr>"

definition std_env :: "(std_cpu, std_hal) x86_env" where
  "std_env = \<lparr>crates = x86_crates_std, cpu = std_cpu_ops, halops = std_hal_ops, vmx_exit_symbol = 0x4000\<rparr>"

text \<open>
  Capability MSRs that allow every control, and the basic VMX information of a processor
  that the sources accept.
\<close>

definition std_msr :: "u32 \<Rightarrow> u64" where
  "std_msr n = (if n = Msr_number Msr.IA32_VMX_BASIC then 0x00d8100000000001
     else if n \<in> {0x48b, 0x48d, 0x48e, 0x48f, 0x490} then 0xffffffff00000016
     else 0)"

definition std_state :: "(std_cpu, std_hal) x86" where
  "std_state = \<lparr>hw = \<lparr>c_vmcs = (\<lambda>f. 0), c_msr = std_msr, c_cr4 = 0x20, c_vmxon = False\<rparr>,
     mem = (\<lambda>a. 0xaa), xhal = \<lparr>next_va = 0x10000, clock = 0\<rparr>\<rparr>"

lemma std_env_simps [simp]:
  "crates std_env = x86_crates_std" "cpu std_env = std_cpu_ops" "halops std_env = std_hal_ops"
  by (simp_all add: std_env_def)

lemma std_vmcs_ok: "vmcs_ok std_cpu_ops"
  by (simp add: vmcs_ok_def std_cpu_ops_def cpu_obs_def)

lemma std_loaded: "vmcs_loaded std_env s"
  by (simp add: vmcs_loaded_def vmcs_def std_cpu_ops_def)

lemma std_vmcs: "vmcs std_env s f = Some (c_vmcs (hw s) f)"
  by (simp add: vmcs_def std_cpu_ops_def)

lemmas std_bit_field_ok = x86_crates_okD(1) [OF x86_crates_std_ok]

end
