(* ===== verification/Vmx_Vmcs.thy ===== *)
theory Vmx_Vmcs
  imports Vmx_Defs X86_Memory X86_Sample
begin

text \<open>
  \<open>src/src/arch/x86_64/vmx/vmcs.rs\<close> beyond the field enumerations: VMX controls, the EPT
  pointer, the decoding of VM-exit information and the injection of events.
\<close>

section \<open>Controls\<close>

definition set_control :: "('m, 'a) x86_env \<Rightarrow> VmcsControl32 \<Rightarrow> Msr \<Rightarrow> u32 \<Rightarrow> u32 \<Rightarrow> u32 \<Rightarrow>
    (('m, 'a, 'z) x86_scheme, unit) hm" where
  "set_control E control capability_msr old_value to_set to_clear =
     hbind (Msr_read E capability_msr) (\<lambda>cap.
       let allowed0 = as_u32 cap; allowed1 = as_u32 (shr cap 32) in
       hseq (hassert (allowed0 AND allowed1 = allowed0))
       (if to_set AND to_clear \<noteq> 0 then herr InvalidParam
        else if allowed1 AND to_set \<noteq> to_set then herr InvalidParam
        else if allowed0 AND to_clear \<noteq> 0 then herr InvalidParam
        else
          let flexible = NOT allowed0 AND allowed1;
              unknown = flexible AND NOT (to_set OR to_clear);
              default = unknown AND old_value;
              fixed1 = allowed0 in
          VmcsControl32_write E control (fixed1 OR default OR to_set)))"

section \<open>The EPT pointer\<close>

definition MEM_TYPE_UC :: u64 where "MEM_TYPE_UC = shl 0 0"
definition MEM_TYPE_WB :: u64 where "MEM_TYPE_WB = shl 6 0"
definition WALK_LENGTH_1 :: u64 where "WALK_LENGTH_1 = shl 0 3"
definition WALK_LENGTH_2 :: u64 where "WALK_LENGTH_2 = shl 1 3"
definition WALK_LENGTH_3 :: u64 where "WALK_LENGTH_3 = shl 2 3"
definition WALK_LENGTH_4 :: u64 where "WALK_LENGTH_4 = shl 3 3"
definition ENABLE_ACCESSED_DIRTY :: u64 where "ENABLE_ACCESSED_DIRTY = shl 1 6"

definition from_table_phys :: "HostPhysAddr \<Rightarrow> u64" where
  "from_table_phys pml4_paddr =
     (let aligned_addr = pml4_paddr AND NOT (PAGE_SIZE_4K - 1); flags = as_u64 aligned_addr in
      flags OR MEM_TYPE_WB OR WALK_LENGTH_4 OR ENABLE_ACCESSED_DIRTY)"

definition vmx_capture_status :: "('m, 'a) x86_env \<Rightarrow> (('m, 'a, 'z) x86_scheme, unit) hm" where
  "vmx_capture_status E =
     hbind (hget (\<lambda>s. rflags_read (cpu E) (hw s))) (\<lambda>flags.
       if contains_flags flags (FLAGS_ZF (crates E)) then herr BadState
       else if contains_flags flags (FLAGS_CF (crates E)) then herr BadState
       else hret ())"

datatype InvEptType = SingleContext | Global

primrec InvEptType_number :: "InvEptType \<Rightarrow> u64" where
  "InvEptType_number SingleContext = 1"
| "InvEptType_number Global = 2"

definition invept :: "('m, 'a) x86_env \<Rightarrow> InvEptType \<Rightarrow> u64 \<Rightarrow> (('m, 'a, 'z) x86_scheme, unit) hm" where
  "invept E inv_type eptp =
     (let invept_desc = [eptp, 0] in
      hseq (hmod (\<lambda>s. s\<lparr>hw := invept_insn (cpu E) (InvEptType_number inv_type) invept_desc (hw s)\<rparr>))
      (vmx_capture_status E))"

definition set_ept_pointer :: "('m, 'a) x86_env \<Rightarrow> HostPhysAddr \<Rightarrow> (('m, 'a, 'z) x86_scheme, unit) hm" where
  "set_ept_pointer E pml4_paddr =
     (let eptp = from_table_phys pml4_paddr in
      hseq (VmcsControl64_write E EPTP eptp) (invept E SingleContext eptp))"

section \<open>VM-exit information\<close>

definition instruction_error :: "('m, 'a) x86_env \<Rightarrow> (('m, 'a, 'z) x86_scheme, VmxInstructionError) hm" where
  "instruction_error E = hunwrap (VmcsReadOnly32_read E VM_INSTRUCTION_ERROR)"

record VmxExitInfo =
  entry_failure :: bool
  exit_reason :: VmxExitReason
  exit_instruction_length :: u32
  guest_rip :: usize

definition exit_info :: "('m, 'a) x86_env \<Rightarrow> (('m, 'a, 'z) x86_scheme, VmxExitInfo) hm" where
  "exit_info E =
     hbind (VmcsReadOnly32_read E EXIT_REASON) (\<lambda>full_reason.
     hbind (hlift (unwrap_option (VmxExitReason_try_from (get_bits32 (crates E) full_reason 0 16)))) (\<lambda>reason.
     hbind (VmcsReadOnly32_read E VMEXIT_INSTRUCTION_LEN) (\<lambda>len.
     hbind (VmcsGuestNW_read E VmcsGuestNW.RIP) (\<lambda>rip.
     hret \<lparr>entry_failure = get_bit32 (crates E) full_reason 31, exit_reason = reason,
       exit_instruction_length = len, guest_rip = rip\<rparr>))))"

record VmxInterruptInfo =
  int_vector :: u8
  int_type :: VmxInterruptionType
  err_code :: "u32 option"
  valid :: bool

definition VmxInterruptInfo_from :: "x86_crates \<Rightarrow> u8 \<Rightarrow> u32 option \<Rightarrow> VmxInterruptInfo" where
  "VmxInterruptInfo_from c vec err =
     \<lparr>int_vector = vec, int_type = from_vector c vec, err_code = err, valid = True\<rparr>"

definition VmxInterruptInfo_bits :: "x86_crates \<Rightarrow> VmxInterruptInfo \<Rightarrow> u32" where
  "VmxInterruptInfo_bits c self =
     (let bits = as_u32 (int_vector self);
          bits = bits OR shl (as_u32 (int_type_number (int_type self))) 8;
          bits = set_bit32 c bits 11 (err_code self \<noteq> None) in
      set_bit32 c bits 31 (valid self))"

definition interrupt_exit_info :: "('m, 'a) x86_env \<Rightarrow> (('m, 'a, 'z) x86_scheme, VmxInterruptInfo) hm" where
  "interrupt_exit_info E =
     hbind (VmcsReadOnly32_read E VMEXIT_INTERRUPTION_INFO) (\<lambda>info.
     hbind (hlift (unwrap_option
              (VmxInterruptionType_try_from (as_u8 (get_bits32 (crates E) info 8 11))))) (\<lambda>ty.
     hbind (if get_bit32 (crates E) info 11
            then hbind (VmcsReadOnly32_read E VMEXIT_INTERRUPTION_ERR_CODE) (\<lambda>e. hret (Some e))
            else hret None) (\<lambda>err.
     hret \<lparr>int_vector = as_u8 (get_bits32 (crates E) info 0 8), int_type = ty, err_code = err,
       valid = get_bit32 (crates E) info 31\<rparr>)))"

record VmxIoExitInfo =
  access_size :: u8
  is_in :: bool
  is_string :: bool
  is_repeat :: bool
  port :: u16

definition io_exit_info :: "('m, 'a) x86_env \<Rightarrow> (('m, 'a, 'z) x86_scheme, VmxIoExitInfo) hm" where
  "io_exit_info E =
     hbind (VmcsReadOnlyNW_read E EXIT_QUALIFICATION) (\<lambda>qualification. hret \<lparr>
       access_size = as_u8 (get_bits64 (crates E) qualification 0 3) + 1,
       is_in = get_bit64 (crates E) qualification 3,
       is_string = get_bit64 (crates E) qualification 4,
       is_repeat = get_bit64 (crates E) qualification 5,
       port = as_u16 (get_bits64 (crates E) qualification 16 32)\<rparr>)"

definition ept_violation_info :: "('m, 'a) x86_env \<Rightarrow> (('m, 'a, 'z) x86_scheme, NestedPageFaultInfo) hm" where
  "ept_violation_info E =
     hbind (VmcsReadOnlyNW_read E EXIT_QUALIFICATION) (\<lambda>qualification.
     hbind (VmcsReadOnly64_read E GUEST_PHYSICAL_ADDR) (\<lambda>addr. hret \<lparr>
       access_read = get_bit64 (crates E) qualification 0,
       access_write = get_bit64 (crates E) qualification 1,
       access_execute = get_bit64 (crates E) qualification 2,
       fault_guest_paddr = as_usize addr\<rparr>))"

section \<open>Event injection\<close>

definition vmcs_inject_event :: "('m, 'a) x86_env \<Rightarrow> u8 \<Rightarrow> u32 option \<Rightarrow>
    (('m, 'a, 'z) x86_scheme, unit) hm" where
  "vmcs_inject_event E vec err =
     hbind (if vector_has_error_code (crates E) vec
            then (case err of
                Some e \<Rightarrow> hret (Some e)
              | None \<Rightarrow> hbind (hunwrap (VmcsReadOnly32_read E VMEXIT_INTERRUPTION_ERR_CODE))
                          (\<lambda>e. hret (Some e)))
            else hret None) (\<lambda>err.
     let int_info = VmxInterruptInfo_from (crates E) vec err in
     hseq (case err_code int_info of
             Some e \<Rightarrow> VmcsControl32_write E VMENTRY_EXCEPTION_ERR_CODE e
           | None \<Rightarrow> hret ())
     (hseq (hwhen (is_soft (int_type int_info))
              (hbind (VmcsReadOnly32_read E VMEXIT_INSTRUCTION_LEN)
                 (\<lambda>len. VmcsControl32_write E VMENTRY_INSTRUCTION_LEN len)))
     (VmcsControl32_write E VMENTRY_INTERRUPTION_INFO_FIELD
        (VmxInterruptInfo_bits (crates E) int_info))))"

lemma and_absorb_iff: "a AND b = a \<longleftrightarrow> (\<forall>i. bit a i \<longrightarrow> bit b i)" for a b :: "'w::len word"
  by (metis bit_and_iff bit_word_eqI)

lemma and_disjoint_iff: "a AND b = 0 \<longleftrightarrow> (\<forall>i. \<not> (bit a i \<and> bit b i))" for a b :: "'w::len word"
proof
  assume "a AND b = 0"
  then have "\<not> bit (a AND b) i" for i by simp
  then show "\<forall>i. \<not> (bit a i \<and> bit b i)" by (simp add: bit_and_iff)
next
  assume "\<forall>i. \<not> (bit a i \<and> bit b i)"
  then show "a AND b = 0" by (intro bit_word_eqI) (simp add: bit_and_iff)
qed

text \<open>The value that \<open>set_control\<close> writes, and when it does.\<close>

definition control_value :: "u64 \<Rightarrow> u32 \<Rightarrow> u32 \<Rightarrow> u32 \<Rightarrow> u32" where
  "control_value cap old st cl =
     (let a0 = as_u32 cap; a1 = as_u32 (shr cap 32) in
      a0 OR ((NOT a0 AND a1) AND NOT (st OR cl)) AND old OR st)"

lemma set_control_run:
  "set_control E control msr old st cl s =
     (let cap = rdmsr (cpu E) (Msr_number msr) (hw s); a0 = as_u32 cap; a1 = as_u32 (shr cap 32) in
      if a0 AND a1 \<noteq> a0 then (Panic AssertFailed, s)
      else if st AND cl \<noteq> 0 \<or> a1 AND st \<noteq> st \<or> a0 AND cl \<noteq> 0 then (Err InvalidParam, s)
      else VmcsControl32_write E control (control_value cap old st cl) s)"
  by (simp add: set_control_def control_value_def Msr_read_def hm_defs Let_def)

lemma control_value_bits:
  assumes "st AND cl = 0" and "as_u32 cap AND cl = 0"
  shows "control_value cap old st cl AND st = st" and "control_value cap old st cl AND cl = 0"
  using assms unfolding and_disjoint_iff and_absorb_iff and.commute [of _ st]
  by (auto simp: control_value_def bit_simps Let_def)

lemma set_control_Ok:
  assumes "vmcs_ok (cpu E)" and "vmcs_loaded E s" and "set_control E control msr old st cl s = (Ok (), s')"
  shows "\<exists>v :: u32. vmcs E s' = (vmcs E s)(VmcsControl32_number control \<mapsto> as_u64 v)
    \<and> v AND st = st \<and> v AND cl = 0 \<and> s' = s\<lparr>hw := hw s'\<rparr>"
proof -
  let ?v = "control_value (rdmsr (cpu E) (Msr_number msr) (hw s)) old st cl"
  have c: "st AND cl = 0" "as_u32 (rdmsr (cpu E) (Msr_number msr) (hw s)) AND cl = 0"
    and w: "VmcsControl32_write E control ?v s = (Ok (), s')"
    using assms(3) unfolding set_control_run Let_def by (auto split: if_splits)
  note W = does_writesD [OF does_writes_field(3) [OF assms(1,2), of control ?v] w]
  have "field_trunc (VmcsControl32_number control) (as_u64 ?v) = as_u64 ?v"
    by (rule field_trunc_typed(2) [OF vmcs_encodings(3)])
  then show ?thesis
    using W(2,3) control_value_bits [OF c] by (intro exI [of _ ?v]) simp
qed

section \<open>Properties\<close>

text \<open>
  Claim C21. Setting a VMX control: with \<open>a0\<close> and \<open>a1\<close> the two halves of the capability
  MSR (the bits that must be one and the bits that may be one), the call panics
  if they contradict each other, and is refused without a change if a bit is both to be
  set and to be cleared, is to be set but may not be one, or is to be cleared but
  must be one. Otherwise exactly the control field changes, and each bit of it is one if
  it must be or is to be set, zero if it may not be one or is to be cleared, and
  as in the old value otherwise.
\<close>

theorem set_control_spec:
  assumes "vmcs_ok (cpu E)" and "vmcs_loaded E s"
    and "a0 = as_u32 (rdmsr (cpu E) (Msr_number msr) (hw s))"
    and "a1 = as_u32 (shr (rdmsr (cpu E) (Msr_number msr) (hw s)) 32)"
    and "set_control E control msr old st cl s = (r, s')"
  shows "if \<exists>i. bit a0 i \<and> \<not> bit a1 i then r = Panic AssertFailed \<and> s' = s
    else if \<exists>i. bit st i \<and> bit cl i \<or> bit st i \<and> \<not> bit a1 i \<or> bit cl i \<and> bit a0 i
      then r = Err InvalidParam \<and> s' = s
    else r = Ok () \<and> (\<exists>v :: u32. vmcs E s' = (vmcs E s)(VmcsControl32_number control \<mapsto> as_u64 v)
      \<and> (\<forall>i. bit v i \<longleftrightarrow> (if bit a0 i \<or> bit st i then True
            else if \<not> bit a1 i \<or> bit cl i then False else bit old i)))"
proof -
  have c1: "(\<exists>i. bit a0 i \<and> \<not> bit a1 i) \<longleftrightarrow> a0 AND a1 \<noteq> a0"
    unfolding and_absorb_iff by blast
  have c2: "(\<exists>i. bit st i \<and> bit cl i \<or> bit st i \<and> \<not> bit a1 i \<or> bit cl i \<and> bit a0 i) \<longleftrightarrow>
      st AND cl \<noteq> 0 \<or> a1 AND st \<noteq> st \<or> a0 AND cl \<noteq> 0"
    unfolding and.commute [of a1] and_absorb_iff and_disjoint_iff by blast
  define v where "v = control_value (rdmsr (cpu E) (Msr_number msr) (hw s)) old st cl"
  note run = set_control_run [of E control msr old st cl s, unfolded Let_def assms(3,4) [symmetric] v_def [symmetric]]
  have bits: "\<forall>i. bit v i \<longleftrightarrow> (if bit a0 i \<or> bit st i then True
      else if \<not> bit a1 i \<or> bit cl i then False else bit old i)"
    by (auto simp: v_def control_value_def Let_def assms(3,4) bit_simps dest: bit_imp_le_length)
  have tr: "field_trunc (VmcsControl32_number control) (as_u64 v) = as_u64 v"
    by (rule field_trunc_typed(2) [OF vmcs_encodings(3)])
  have "r = Ok () \<and> vmcs E s' = (vmcs E s)(VmcsControl32_number control \<mapsto> as_u64 v)"
    if "VmcsControl32_write E control v s = (r, s')"
    using does_writesD(1,3) [OF does_writes_field(3) [OF assms(1,2), of control v] that] tr by simp
  then have "VmcsControl32_write E control v s = (r, s') \<Longrightarrow>
      r = Ok () \<and> (\<exists>v :: u32. vmcs E s' = (vmcs E s)(VmcsControl32_number control \<mapsto> as_u64 v)
      \<and> (\<forall>i. bit v i \<longleftrightarrow> (if bit a0 i \<or> bit st i then True
            else if \<not> bit a1 i \<or> bit cl i then False else bit old i)))"
    using bits by blast
  then show ?thesis
    using assms(5) unfolding c1 c2 run
    by (cases "a0 AND a1 \<noteq> a0"; cases "st AND cl \<noteq> 0 \<or> a1 AND st \<noteq> st \<or> a0 AND cl \<noteq> 0";
        simp only: if_True if_False simp_thms prod.inject)
qed

theorem set_control_spec_witness:
  "\<exists>s'. set_control std_env PINBASED_EXEC_CONTROLS Msr.IA32_VMX_TRUE_PINBASED_CTLS 0x20 9 2 std_state
       = (Err InvalidParam, s')
   \<and> (\<exists>s'. set_control std_env PINBASED_EXEC_CONTROLS Msr.IA32_VMX_TRUE_PINBASED_CTLS 0x20 9 0 std_state
       = (Ok (), s'))"
proof -
  let ?run = "\<lambda>cl. set_control std_env PINBASED_EXEC_CONTROLS Msr.IA32_VMX_TRUE_PINBASED_CTLS 0x20 9 cl std_state"
  have a: "as_u32 (rdmsr (cpu std_env) (Msr_number Msr.IA32_VMX_TRUE_PINBASED_CTLS) (hw std_state)) = 0x16"
    "as_u32 (shr (rdmsr (cpu std_env) (Msr_number Msr.IA32_VMX_TRUE_PINBASED_CTLS) (hw std_state)) 32) = 0xffffffff"
    by (simp_all add: std_cpu_ops_def std_state_def std_msr_def)
  have sp: "if (0x16 AND 0xffffffff :: u32) \<noteq> 0x16 then r = Panic AssertFailed \<and> s' = std_state
      else if (9 :: u32) AND cl \<noteq> 0 \<or> (9 AND 0xffffffff :: u32) \<noteq> 9 \<or> cl AND 0x16 \<noteq> 0
        then r = Err InvalidParam \<and> s' = std_state
      else r = Ok ()" if "?run cl = (r, s')" for cl r s'
    using set_control_spec [OF _ std_loaded a [symmetric] that] std_vmcs_ok
    unfolding and_absorb_iff and_disjoint_iff by (auto split: if_splits)
  obtain r s' r' s'' where "?run 2 = (r, s')" "?run 0 = (r', s'')" by fastforce
  with sp [OF this(1)] sp [OF this(2)] show ?thesis by auto
qed

section \<open>Interruption information\<close>

lemma bit_int_type_number: "bit (int_type_number t) i \<Longrightarrow> i < 3"
proof -
  assume b: "bit (int_type_number t) i"
  have "take_bit 3 (int_type_number t) = int_type_number t" by (cases t) simp_all
  then show "i < 3" using b by (metis bit_take_bit_iff)
qed

lemma bit_interrupt_info:
  assumes "bit_field_ok c"
  shows "bit (VmxInterruptInfo_bits c self) i \<longleftrightarrow>
    (if i < 8 then bit (int_vector self) i
     else if i < 11 then bit (int_type_number (int_type self)) (i - 8)
     else if i = 11 then err_code self \<noteq> None
     else i = 31 \<and> valid self)"
proof -
  have v: "bit (int_vector self) i \<Longrightarrow> i < 8" using bit_imp_le_length [of "int_vector self" i] by simp
  have t: "bit (int_type_number (int_type self)) (i - 8) \<Longrightarrow> i < 11"
    using bit_int_type_number [of "int_type self" "i - 8"] by simp
  show ?thesis
    using v t unfolding VmxInterruptInfo_bits_def Let_def bit_field_rules(5) [OF assms, of 31, simplified]
      bit_field_rules(5) [OF assms, of 11, simplified]
    by (auto simp: bit_simps)
qed

lemma interrupt_info_fields:
  assumes "bit_field_ok c"
  shows "as_u8 (field_of (VmxInterruptInfo_bits c self) 0 8) = int_vector self"
    and "as_u8 (field_of (VmxInterruptInfo_bits c self) 8 11) = int_type_number (int_type self)"
    and "bit (VmxInterruptInfo_bits c self) 11 \<longleftrightarrow> err_code self \<noteq> None"
    and "bit (VmxInterruptInfo_bits c self) 31 \<longleftrightarrow> valid self"
proof -
  show "as_u8 (field_of (VmxInterruptInfo_bits c self) 0 8) = int_vector self"
    by (rule bit_word_eqI) (auto simp: bit_ucast_iff bit_field_of bit_interrupt_info [OF assms])
  show "as_u8 (field_of (VmxInterruptInfo_bits c self) 8 11) = int_type_number (int_type self)"
    by (rule bit_word_eqI)
      (auto simp: bit_ucast_iff bit_field_of bit_interrupt_info [OF assms] dest: bit_int_type_number)
qed (simp_all add: bit_interrupt_info [OF assms])

text \<open>
  Decoding the interruption information of a VM exit inverts the encoding that is
  used for VM entries: if the two exit fields hold the encoding of \<open>info\<close> and its error
  code, \<open>interrupt_exit_info\<close> returns \<open>info\<close> and changes nothing.
\<close>

theorem interrupt_info_roundtrip:
  assumes "bit_field_ok (crates E)"
    and "vmcs E s (VmcsReadOnly32_number VMEXIT_INTERRUPTION_INFO) =
      Some (as_u64 (VmxInterruptInfo_bits (crates E) info))"
    and "\<And>e. err_code info = Some e \<Longrightarrow>
      vmcs E s (VmcsReadOnly32_number VMEXIT_INTERRUPTION_ERR_CODE) = Some (as_u64 e)"
  shows "interrupt_exit_info E s = (Ok info, s)"
proof -
  have "as_u32 (as_u64 x) = x" for x :: u32 by (rule bit_word_eqI) (simp add: bit_simps)
  moreover have "get_bits32 (crates E) x 0 8 = field_of x 0 8"
    "get_bits32 (crates E) x 8 11 = field_of x 8 11"
    "get_bit32 (crates E) x 11 = bit x 11" "get_bit32 (crates E) x 31 = bit x 31" for x
    using assms(1) by (simp_all add: bit_field_rules)
  ultimately show ?thesis
    using assms(2,3)
    by (cases "err_code info")
      (simp_all add: interrupt_exit_info_def vmcs_access_defs vmcs_read_def hm_defs vmcs_def
        interrupt_info_fields [OF assms(1)] int_type_roundtrip)
qed

theorem interrupt_info_roundtrip_witness:
  "\<exists>s :: (std_cpu, std_hal) x86. interrupt_exit_info std_env s =
     (Ok \<lparr>int_vector = 14, int_type = IntHardException, err_code = Some 5, valid = True\<rparr>, s)"
proof -
  let ?info = "\<lparr>int_vector = 14, int_type = IntHardException, err_code = Some 5, valid = True\<rparr>"
  let ?s = "std_state\<lparr>hw := (hw std_state)\<lparr>c_vmcs := (\<lambda>f. 0)(
      0x4404 := as_u64 (VmxInterruptInfo_bits x86_crates_std ?info), 0x4406 := 5)\<rparr>\<rparr>"
  have "interrupt_exit_info std_env ?s = (Ok ?info, ?s)"
    by (rule interrupt_info_roundtrip) (simp_all add: std_bit_field_ok std_vmcs)
  then show ?thesis by blast
qed

text \<open>The writes of \<open>inject_event\<close>.\<close>

definition inject_err :: "('m, 'a) x86_env \<Rightarrow> ('m, 'a, 'z) x86_scheme \<Rightarrow> u8 \<Rightarrow> u32 option \<Rightarrow> u32 option" where
  "inject_err E s vec err =
     (if vector_has_error_code (crates E) vec
      then Some (case err of Some e \<Rightarrow> e
             | None \<Rightarrow> as_u32 (the (vmcs E s (VmcsReadOnly32_number VMEXIT_INTERRUPTION_ERR_CODE))))
      else None)"

definition inject_writes :: "('m, 'a) x86_env \<Rightarrow> ('m, 'a, 'z) x86_scheme \<Rightarrow> u8 \<Rightarrow> u32 option \<Rightarrow>
    (u32 \<times> u64) list" where
  "inject_writes E s vec err =
     (case inject_err E s vec err of
        Some e \<Rightarrow> [(VmcsControl32_number VMENTRY_EXCEPTION_ERR_CODE, as_u64 e)] | None \<Rightarrow> [])
     @ (if is_soft (from_vector (crates E) vec)
        then [(VmcsControl32_number VMENTRY_INSTRUCTION_LEN, as_u64 (as_u32
               (the (vmcs E s (VmcsReadOnly32_number VMEXIT_INSTRUCTION_LEN)))))] else [])
     @ [(VmcsControl32_number VMENTRY_INTERRUPTION_INFO_FIELD,
         as_u64 (VmxInterruptInfo_bits (crates E)
           (VmxInterruptInfo_from (crates E) vec (inject_err E s vec err))))]"

text \<open>The three steps of the injection: the error code that the vector calls for, the instruction length
  of a software exception, and the information field.\<close>

lemma inject_err_run:
  assumes "vmcs_loaded E s"
  shows "hbind (if vector_has_error_code (crates E) vec
      then (case err of
          Some e \<Rightarrow> hret (Some e)
        | None \<Rightarrow> hbind (hunwrap (VmcsReadOnly32_read E VMEXIT_INTERRUPTION_ERR_CODE)) (\<lambda>e. hret (Some e)))
      else hret None) k s = k (inject_err E s vec err) s"
  by (cases err) (simp_all add: hm_defs VmcsReadOnly32_read_loaded [OF assms] inject_err_def)

abbreviation err_writes :: "u32 option \<Rightarrow> (u32 \<times> u64) list" where
  "err_writes err \<equiv> (case err of
     Some e \<Rightarrow> [(VmcsControl32_number VMENTRY_EXCEPTION_ERR_CODE, as_u64 e)] | None \<Rightarrow> [])"

abbreviation len_writes :: "bool \<Rightarrow> u64 option \<Rightarrow> (u32 \<times> u64) list" where
  "len_writes soft len \<equiv> (if soft
     then [(VmcsControl32_number VMENTRY_INSTRUCTION_LEN, as_u64 (as_u32 (the len)))] else [])"

lemma inject_len_writes:
  assumes "vmcs_ok (cpu E)" and l: "vmcs_loaded E s"
    and "B = hwhen soft (hbind (VmcsReadOnly32_read E VMEXIT_INSTRUCTION_LEN)
      (\<lambda>len. VmcsControl32_write E VMENTRY_INSTRUCTION_LEN len))"
  shows "does_writes E (len_writes soft (vmcs E s (VmcsReadOnly32_number VMEXIT_INSTRUCTION_LEN))) B s"
proof (cases soft)
  case True
  let ?W = "VmcsControl32_write E VMENTRY_INSTRUCTION_LEN
      (as_u32 (the (vmcs E s (VmcsReadOnly32_number VMEXIT_INSTRUCTION_LEN))))"
  have b: "B s = ?W s"
    using True assms(3) by (simp add: hm_defs VmcsReadOnly32_read_loaded [OF l])
  show ?thesis
    unfolding if_P [OF True] does_writes_cong [of B s ?W, OF b]
    by (rule does_writes_field [OF assms(1) l])
qed (simp add: assms(3) hwhen_def)

lemma inject_event_writes:
  assumes "vmcs_ok (cpu E)" and "vmcs_loaded E s"
  shows "does_writes E (inject_writes E s vec err) (vmcs_inject_event E vec err) s"
proof -
  let ?err = "inject_err E s vec err"
  let ?info = "VmxInterruptInfo_from (crates E) vec ?err"
  let ?soft = "is_soft (from_vector (crates E) vec)"
  define A :: "(('a, 'b, 'c) x86_scheme, unit) hm" where "A = (case ?err of
      Some e \<Rightarrow> VmcsControl32_write E VMENTRY_EXCEPTION_ERR_CODE e | None \<Rightarrow> hret ())"
  define B :: "(('a, 'b, 'c) x86_scheme, unit) hm" where "B = hwhen ?soft
      (hbind (VmcsReadOnly32_read E VMEXIT_INSTRUCTION_LEN)
         (\<lambda>len. VmcsControl32_write E VMENTRY_INSTRUCTION_LEN len))"
  define C :: "(('a, 'b, 'c) x86_scheme, unit) hm" where "C =
      VmcsControl32_write E VMENTRY_INTERRUPTION_INFO_FIELD (VmxInterruptInfo_bits (crates E) ?info)"
  have "err_code ?info = ?err" "int_type ?info = from_vector (crates E) vec"
    by (simp_all add: VmxInterruptInfo_from_def)
  then have run: "vmcs_inject_event E vec err s = hseq A (hseq B C) s"
    unfolding vmcs_inject_event_def inject_err_run [OF assms(2)] A_def B_def C_def Let_def
    by simp
  have A: "does_writes E (err_writes ?err) A s"
    unfolding A_def by (cases ?err) (simp_all only: option.case does_writes_hret does_writes_field [OF assms])
  have B: "does_writes E (len_writes ?soft (vmcs E s (VmcsReadOnly32_number VMEXIT_INSTRUCTION_LEN))) B s1"
    if "vmcs E s1 = apply_writes (err_writes ?err) (vmcs E s)" for s1
  proof -
    have "vmcs E s1 (VmcsReadOnly32_number VMEXIT_INSTRUCTION_LEN) =
        vmcs E s (VmcsReadOnly32_number VMEXIT_INSTRUCTION_LEN)"
      unfolding that by (rule apply_writes_other) (cases ?err, simp_all)
    with inject_len_writes [OF assms(1) loaded_after_writes [OF assms(2) that] B_def] show ?thesis by (simp only:)
  qed
  have C: "does_writes E [(VmcsControl32_number VMENTRY_INTERRUPTION_INFO_FIELD,
      as_u64 (VmxInterruptInfo_bits (crates E) ?info))] C s2" if "vmcs_loaded E s2" for s2
    unfolding C_def by (rule does_writes_field [OF assms(1) that])
  show ?thesis
    unfolding does_writes_cong [of "vmcs_inject_event E vec err" s "hseq A (hseq B C)", OF run]
      inject_writes_def
    by (rule does_writes_seq [OF A], rule does_writes_seq [OF B], assumption, rule C)
      (rule loaded_after_writes [OF loaded_after_writes [OF assms(2)]])
qed

lemma vector_sets:
  assumes "x86_crates_ok c"
  shows "vector_has_error_code c vec \<longleftrightarrow> unat vec \<in> {8, 10, 11, 12, 13, 14, 17}"
    and "is_soft (from_vector c vec) \<longleftrightarrow> unat vec \<in> {1, 3, 4}"
proof -
  have co: "x86_consts_ok c" using assms by auto
  show "vector_has_error_code c vec \<longleftrightarrow> unat vec \<in> {8, 10, 11, 12, 13, 14, 17}"
    using co by (auto simp: vector_has_error_code_def x86_consts_ok_def word_unat_eq_iff)
  show "is_soft (from_vector c vec) \<longleftrightarrow> unat vec \<in> {1, 3, 4}"
    using co by (auto simp: is_soft_def from_vector_def x86_consts_ok_def word_unat_eq_iff)
qed

lemma injected_info_fields:
  assumes "x86_crates_ok (crates E)"
    and "w = VmxInterruptInfo_bits (crates E) (VmxInterruptInfo_from (crates E) vec (inject_err E s vec err))"
  shows "field_of w 0 8 = as_u32 vec"
    and "field_of w 8 11 = as_u32 (int_type_number (from_vector (crates E) vec))"
    and "bit w 11 \<longleftrightarrow> vector_has_error_code (crates E) vec" and "bit w 31" and "field_of w 12 31 = 0"
proof -
  have bf: "bit_field_ok (crates E)" using assms(1) by auto
  have wb: "bit w i \<longleftrightarrow> (if i < 8 then bit vec i
      else if i < 11 then bit (int_type_number (from_vector (crates E) vec)) (i - 8)
      else if i = 11 then vector_has_error_code (crates E) vec else i = 31)" for i
    unfolding assms(2) bit_interrupt_info [OF bf] by (simp add: VmxInterruptInfo_from_def inject_err_def)
  show "field_of w 0 8 = as_u32 vec"
    by (rule bit_word_eqI) (auto simp: bit_field_of wb bit_ucast_iff dest: bit_imp_le_length)
  show "field_of w 8 11 = as_u32 (int_type_number (from_vector (crates E) vec))"
    by (rule bit_word_eqI) (auto simp: bit_field_of wb bit_ucast_iff dest: bit_int_type_number)
  show "bit w 11 \<longleftrightarrow> vector_has_error_code (crates E) vec" and "bit w 31" by (simp_all add: wb)
  show "field_of w 12 31 = 0" by (rule bit_word_eqI) (auto simp: bit_field_of wb)
qed

text \<open>
  Claim C22. Injecting an event: the entry-interruption field gets the vector, the
  type of the vector, the error-code flag exactly for the vectors that push one, and the
  valid bit, all other bits zero; the entry error code is the given one or, without one,
  that of the last exit; the entry instruction length is that of the last exit for
  software exceptions; and no other field of the VMCS changes.
\<close>

theorem inject_event_spec:
  assumes "x86_crates_ok (crates E)" and "vmcs_ok (cpu E)" and "vmcs_loaded E s"
    and "vmcs_inject_event E vec err s = (r, s')"
  shows "r = Ok ()
    \<and> (\<exists>w :: u32. vmcs E s' (VmcsControl32_number VMENTRY_INTERRUPTION_INFO_FIELD) = Some (as_u64 w)
        \<and> field_of w 0 8 = as_u32 vec
        \<and> field_of w 8 11 = as_u32 (int_type_number (from_vector (crates E) vec))
        \<and> (bit w 11 \<longleftrightarrow> unat vec \<in> {8, 10, 11, 12, 13, 14, 17}) \<and> bit w 31 \<and> field_of w 12 31 = 0)
    \<and> (unat vec \<in> {8, 10, 11, 12, 13, 14, 17} \<longrightarrow>
        vmcs E s' (VmcsControl32_number VMENTRY_EXCEPTION_ERR_CODE) = Some (as_u64 (case err of Some e \<Rightarrow> e
          | None \<Rightarrow> as_u32 (the (vmcs E s (VmcsReadOnly32_number VMEXIT_INTERRUPTION_ERR_CODE))))))
    \<and> (unat vec \<in> {1, 3, 4} \<longrightarrow>
        vmcs E s' (VmcsControl32_number VMENTRY_INSTRUCTION_LEN) =
          Some (as_u64 (as_u32 (the (vmcs E s (VmcsReadOnly32_number VMEXIT_INSTRUCTION_LEN))))))
    \<and> (\<forall>f. f \<noteq> VmcsControl32_number VMENTRY_INTERRUPTION_INFO_FIELD
          \<and> (f = VmcsControl32_number VMENTRY_EXCEPTION_ERR_CODE \<longrightarrow> unat vec \<notin> {8, 10, 11, 12, 13, 14, 17})
          \<and> (f = VmcsControl32_number VMENTRY_INSTRUCTION_LEN \<longrightarrow> unat vec \<notin> {1, 3, 4})
        \<longrightarrow> vmcs E s' f = vmcs E s f)"
proof -
  note D = does_writesD [OF inject_event_writes [OF assms(2,3)] assms(4)]
  note sets = vector_sets [OF assms(1), of vec]
  define w where "w = VmxInterruptInfo_bits (crates E)
      (VmxInterruptInfo_from (crates E) vec (inject_err E s vec err))"
  note w = injected_info_fields [OF assms(1) w_def]
  have V: "vmcs E s' = apply_writes (inject_writes E s vec err) (vmcs E s)" by (rule D(3))
  have tr: "field_trunc (VmcsControl32_number c) (as_u64 (x :: u32)) = as_u64 x" for c x
    by (rule field_trunc_typed(2) [OF vmcs_encodings(3)])
  have P: "vmcs E s' = (vmcs E s)
      (VmcsControl32_number VMENTRY_EXCEPTION_ERR_CODE :=
         (if vector_has_error_code (crates E) vec
          then map_option as_u64 (inject_err E s vec err)
          else vmcs E s (VmcsControl32_number VMENTRY_EXCEPTION_ERR_CODE)),
       VmcsControl32_number VMENTRY_INSTRUCTION_LEN :=
         (if is_soft (from_vector (crates E) vec)
          then Some (as_u64 (as_u32 (the (vmcs E s (VmcsReadOnly32_number VMEXIT_INSTRUCTION_LEN)))))
          else vmcs E s (VmcsControl32_number VMENTRY_INSTRUCTION_LEN)),
       VmcsControl32_number VMENTRY_INTERRUPTION_INFO_FIELD := Some (as_u64 w))"
    unfolding V inject_writes_def w_def
    by (auto simp: inject_err_def tr fun_eq_iff vmcs_number_inject(3) simp del: VmcsControl32_number.simps
        VmcsReadOnly32_number.simps)
  show ?thesis
    unfolding sets [symmetric]
    using D(1) w
    by (auto simp: P inject_err_def)
qed

theorem inject_event_spec_witness:
  "\<exists>s'. vmcs_inject_event std_env 14 (Some 5) std_state = (Ok (), s')
     \<and> vmcs std_env s' (VmcsControl32_number VMENTRY_EXCEPTION_ERR_CODE) = Some 5"
proof -
  obtain r s' where run: "vmcs_inject_event std_env 14 (Some 5) std_state = (r, s')" by fastforce
  show ?thesis
    using inject_event_spec [OF _ _ std_loaded run] x86_crates_std_ok std_vmcs_ok run
    by (simp del: VmcsControl32_number.simps)
qed

end
