(* ===== verification/Vmx_Percpu.thy ===== *)
theory Vmx_Percpu
  imports X86_Memory X86_Sample
begin

text \<open>
  \<open>src/src/arch/x86_64/vmx/percpu.rs\<close>, \<open>src/src/arch/x86_64/percpu.rs\<close>,
  \<open>src/src/arch/x86_64/vmx/detect.rs\<close> and \<open>init_hv_runtime\<close> of
  \<open>src/src/arch/x86_64/mod.rs\<close>: switching hardware virtualisation on and off on a
  physical CPU. The per-CPU structure is part of the state.
\<close>

section \<open>Detection\<close>

definition has_hardware_support :: "('m, 'a) x86_env \<Rightarrow> (('m, 'a, 'z) x86_scheme, bool) hm" where
  "has_hardware_support E = hget (\<lambda>s.
     case feature_has_vmx (cpu E) (hw s) of Some b \<Rightarrow> b | None \<Rightarrow> False)"

definition init_hv_runtime :: "('m, 'a) x86_env \<Rightarrow> (('m, 'a, 'z) x86_scheme, unit) hm" where
  "init_hv_runtime E =
     hbind (has_hardware_support E) (\<lambda>b. if \<not> b then hpanic ExplicitPanic else hret ())"

section \<open>Per-CPU state\<close>

record VmxPerCpuState =
  vmcs_revision_id :: u32
  vmx_region :: VmxRegion

record PerCpu =
  cpu_id :: usize
  arch :: VmxPerCpuState

record ('m, 'a) percpu_x86 = "('m, 'a) x86" +
  percpu :: PerCpu

definition VmxPerCpuState_new :: VmxPerCpuState where
  "VmxPerCpuState_new = \<lparr>vmcs_revision_id = 0, vmx_region = VmxRegion_uninit\<rparr>"

definition PerCpu_new :: "usize \<Rightarrow> PerCpu" where
  "PerCpu_new cid = \<lparr>cpu_id = cid, arch = VmxPerCpuState_new\<rparr>"

definition is_enabled :: "('m, 'a) x86_env \<Rightarrow> (('m, 'a, 'z) x86_scheme, bool) hm" where
  "is_enabled E = hget (\<lambda>s.
     contains_flags (Cr4_read (cpu E) (hw s)) (CR4_VIRTUAL_MACHINE_EXTENSIONS (crates E)))"

definition set_arch :: "(VmxPerCpuState \<Rightarrow> VmxPerCpuState) \<Rightarrow>
    (('m, 'a, 'z) percpu_x86_scheme, unit) hm" where
  "set_arch f = hmod (\<lambda>s. s\<lparr>percpu := (percpu s)\<lparr>arch := f (arch (percpu s))\<rparr>\<rparr>)"

text \<open>Assigning to \<open>vmx_region\<close> drops the region that was there.\<close>

definition assign_region :: "('m, 'a) x86_env \<Rightarrow> VmxRegion \<Rightarrow>
    (('m, 'a, 'z) percpu_x86_scheme, unit) hm" where
  "assign_region E r =
     hbind (hget (\<lambda>s. vmx_region (arch (percpu s)))) (\<lambda>old.
     hseq (VmxRegion_drop E old) (set_arch (\<lambda>a. a\<lparr>vmx_region := r\<rparr>)))"

text \<open>The macro \<open>cr_is_valid!\<close>.\<close>

definition cr_is_valid :: "u64 \<Rightarrow> u64 \<Rightarrow> u64 \<Rightarrow> bool" where
  "cr_is_valid value fixed0 fixed1 \<longleftrightarrow> NOT fixed0 OR value \<noteq> 0 \<and> fixed1 OR NOT value \<noteq> 0"

text \<open>The end of \<open>hardware_enable\<close>, after all checks.\<close>

definition vmxon_this_cpu :: "('m, 'a) x86_env \<Rightarrow> VmxBasic \<Rightarrow>
    (('m, 'a, 'z) percpu_x86_scheme, unit) hm" where
  "vmxon_this_cpu E vmx_basic =
     hseq (set_arch (\<lambda>a. a\<lparr>vmcs_revision_id := revision_id vmx_basic\<rparr>))
     (hbind (VmxRegion_new E (revision_id vmx_basic) False) (\<lambda>region.
     hseq (assign_region E region)
     (hseq (hmod (\<lambda>s. s\<lparr>hw := Cr4_write (cpu E)
              (Cr4_read (cpu E) (hw s) OR CR4_VIRTUAL_MACHINE_EXTENSIONS (crates E)) (hw s)\<rparr>))
     (vm_instr (vmxon (cpu E) (as_u64 (VmxRegion_phys_addr region)))))))"

definition VmxPerCpuState_hardware_enable :: "('m, 'a) x86_env \<Rightarrow>
    (('m, 'a, 'z) percpu_x86_scheme, unit) hm" where
  "VmxPerCpuState_hardware_enable E =
     hbind (has_hardware_support E) (\<lambda>support.
     if \<not> support then herr NotSupported else
     hbind (is_enabled E) (\<lambda>enabled.
     if enabled then herr Disabled else
     hbind (FeatureControl_read E) (\<lambda>ctrl.
     let locked = contains_flags ctrl LOCKED;
         vmxon_outside = contains_flags ctrl VMXON_ENABLED_OUTSIDE_SMX in
     hseq (if \<not> locked then FeatureControl_write E (ctrl OR LOCKED OR VMXON_ENABLED_OUTSIDE_SMX)
           else if \<not> vmxon_outside then herr NotSupported else hret ())
     (hbind (hget (\<lambda>s. Cr0_read (cpu E) (hw s))) (\<lambda>cr0.
     hbind (Msr_read E Msr.IA32_VMX_CR0_FIXED0) (\<lambda>cr0_fixed0.
     hbind (Msr_read E Msr.IA32_VMX_CR0_FIXED1) (\<lambda>cr0_fixed1.
     if \<not> cr_is_valid cr0 cr0_fixed0 cr0_fixed1 then herr BadState else
     hbind (hget (\<lambda>s. Cr4_read (cpu E) (hw s))) (\<lambda>cr4.
     hbind (Msr_read E Msr.IA32_VMX_CR4_FIXED0) (\<lambda>cr4_fixed0.
     hbind (Msr_read E Msr.IA32_VMX_CR4_FIXED1) (\<lambda>cr4_fixed1.
     if \<not> cr_is_valid cr4 cr4_fixed0 cr4_fixed1 then herr BadState else
     hbind (VmxBasic_read E) (\<lambda>vmx_basic.
     if as_usize (region_size vmx_basic) \<noteq> H_PAGE_SIZE (halops E) then herr NotSupported else
     if mem_type vmx_basic \<noteq> VMX_MEMORY_TYPE_WRITE_BACK then herr NotSupported else
     if is_32bit_address vmx_basic then herr NotSupported else
     if \<not> io_exit_info_flag vmx_basic then herr NotSupported else
     if \<not> vmx_flex_controls vmx_basic then herr NotSupported else
     vmxon_this_cpu E vmx_basic)))))))))))"

definition VmxPerCpuState_hardware_disable :: "('m, 'a) x86_env \<Rightarrow>
    (('m, 'a, 'z) percpu_x86_scheme, unit) hm" where
  "VmxPerCpuState_hardware_disable E =
     hbind (is_enabled E) (\<lambda>enabled.
     if \<not> enabled then herr BadState else
     hseq (vm_instr (vmxoff (cpu E)))
     (hseq (hmod (\<lambda>s. s\<lparr>hw := Cr4_write (cpu E)
              (Cr4_read (cpu E) (hw s) AND NOT (CR4_VIRTUAL_MACHINE_EXTENSIONS (crates E))) (hw s)\<rparr>))
     (assign_region E VmxRegion_uninit)))"

text \<open>The wrappers of \<open>percpu.rs\<close> pass the results on, apart from a log message.\<close>

definition PerCpu_hardware_enable :: "('m, 'a) x86_env \<Rightarrow> (('m, 'a, 'z) percpu_x86_scheme, unit) hm" where
  "PerCpu_hardware_enable E = VmxPerCpuState_hardware_enable E"

definition PerCpu_hardware_disable :: "('m, 'a) x86_env \<Rightarrow> (('m, 'a, 'z) percpu_x86_scheme, unit) hm" where
  "PerCpu_hardware_disable E = VmxPerCpuState_hardware_disable E"

definition PerCpu_drop :: "('m, 'a) x86_env \<Rightarrow> (('m, 'a, 'z) percpu_x86_scheme, unit) hm" where
  "PerCpu_drop E =
     hseq (hbind (is_enabled E) (\<lambda>b. hwhen b (hunwrap (PerCpu_hardware_disable E))))
       (hbind (hget (\<lambda>s. vmx_region (arch (percpu s)))) (VmxRegion_drop E))"

section \<open>Regions\<close>

lemma PhysFrame_alloc_Ok:
  assumes "PhysFrame_alloc E s = (Ok f, s')"
  shows "start_paddr f \<noteq> 0" and "hw s' = hw s" and "mem s' = mem s" and "x86.more s' = x86.more s"
  using assms by (auto simp: PhysFrame_alloc_def hm_defs Let_def split: prod.splits option.splits if_splits)

lemma alloc_zero_Ok:
  assumes "alloc_zero E s = (Ok f, s')"
  shows "start_paddr f \<noteq> 0" and "hw s' = hw s" and "x86.more s' = x86.more s"
    and "mem s' = store_bytes (mem s) (as_mut_ptr E f) (replicate (unat (H_PAGE_SIZE (halops E))) 0)"
proof -
  obtain s1 where a: "PhysFrame_alloc E s = (Ok f, s1)"
    and s': "s' = s1\<lparr>mem := store_bytes (mem s1) (as_mut_ptr E f)
        (replicate (unat (H_PAGE_SIZE (halops E))) 0)\<rparr>"
    using assms by (auto simp: alloc_zero_def fill_def hbind_eq_Ok hseq_eq_Ok hret_def hmod_def)
  show "start_paddr f \<noteq> 0" "hw s' = hw s" "x86.more s' = x86.more s"
    "mem s' = store_bytes (mem s) (as_mut_ptr E f) (replicate (unat (H_PAGE_SIZE (halops E))) 0)"
    using PhysFrame_alloc_Ok [OF a] unfolding s' by simp_all
qed

lemma VmxRegion_new_Ok:
  assumes "bit_field_ok (crates E)" and "VmxRegion_new E rid False s = (Ok r, s')"
  shows "start_paddr (region_frame r) \<noteq> 0" and "hw s' = hw s" and "x86.more s' = x86.more s"
    and "load_u32 (mem s') (as_mut_ptr E (region_frame r)) = rid" and "\<not> bit rid 31"
proof -
  obtain f s1 w where a: "alloc_zero E s = (Ok f, s1)"
    and w: "set_bits32 (crates E) (load_u32 (mem s1) (as_mut_ptr E f)) 0 31 rid = Ok w"
    and s': "s' = s1\<lparr>mem := store_u32 (mem s1) (as_mut_ptr E f) (set_bit32 (crates E) w 31 False)\<rparr>"
    and r: "r = \<lparr>region_frame = f\<rparr>"
    using assms(2)
    by (auto simp: VmxRegion_new_def hbind_eq_Ok hseq_eq_Ok hret_def hmod_def hget_def hlift_def)
  have fits: "take_bit 31 rid = rid" and w': "w = put_field (load_u32 (mem s1) (as_mut_ptr E f)) 0 31 rid"
    using w bit_field_rules(6) [OF assms(1), of 0 31] by (auto split: if_splits)
  show nb: "\<not> bit rid 31" using fits by (metis bit_take_bit_iff less_irrefl)
  have "set_bit32 (crates E) w 31 False = rid"
  proof (rule bit_word_eqI)
    fix i assume "i < LENGTH(32)"
    then show "bit (set_bit32 (crates E) w 31 False) i \<longleftrightarrow> bit rid i"
      using nb bit_put_field [of 0 31 rid, OF _ _ ] fits
      by (cases "i = 31") (simp_all add: bit_field_rules [OF assms(1)] w' bit_simps bit_put_field)
  qed
  then show "load_u32 (mem s') (as_mut_ptr E (region_frame r)) = rid"
    by (simp add: s' r load_store_u32)
  show "start_paddr (region_frame r) \<noteq> 0" "hw s' = hw s" "x86.more s' = x86.more s"
    using alloc_zero_Ok [OF a] by (simp_all add: s' r)
qed

section \<open>Properties\<close>

text \<open>
  Intel SDM, volume 3D, appendices A.7 and A.8: a control register may be used in VMX
  operation if it has a one wherever the first mask has one, and a zero wherever the second
  mask has zero.
\<close>

definition cr_allowed :: "u64 \<Rightarrow> u64 \<Rightarrow> u64 \<Rightarrow> bool" where
  "cr_allowed value fixed0 fixed1 \<longleftrightarrow> (\<forall>i < 64. (bit fixed0 i \<longrightarrow> bit value i) \<and> (bit value i \<longrightarrow> bit fixed1 i))"

text \<open>
  The check of a control register that is made before VMX is switched on refuses
  only two combinations of values, zero where every bit is required and all ones
  where none is allowed; it accepts everything that the processor allows, but also any
  other value, for instance a register that lacks all required bits but has some other bit.
\<close>

theorem cr_check_accepts:
  "(cr_is_valid v f0 f1 \<longleftrightarrow> \<not> (v = 0 \<and> f0 = NOT 0) \<and> \<not> (v = NOT 0 \<and> f1 = 0))
   \<and> \<not> cr_allowed 0x10 0x80000021 0xffffffff \<and> cr_is_valid 0x10 0x80000021 0xffffffff"
proof -
  have "NOT a = 0 \<longleftrightarrow> a = NOT 0" for a :: u64 by (metis bit.double_compl)
  then have z: "NOT a OR b = 0 \<longleftrightarrow> b = 0 \<and> a = NOT 0" for a b :: u64 by (auto simp: or_eq_0_iff)
  have "\<not> cr_allowed 0x10 0x80000021 0xffffffff"
    unfolding cr_allowed_def by (auto intro!: exI [of _ 0])
  then show ?thesis
    unfolding cr_is_valid_def or.commute [of f1] z by auto
qed

text \<open>
  What the code relies on of the control-register accessors: writing CR4 and reading it, and
  that the VMX instructions leave it alone.
\<close>

definition cr4_ok :: "'m cpu_ops \<Rightarrow> bool" where
  "cr4_ok C \<longleftrightarrow> (\<forall>v m. Cr4_read C (Cr4_write C v m) = v)
     \<and> (\<forall>p m. Cr4_read C (snd (vmxon C p m)) = Cr4_read C m)
     \<and> (\<forall>m. Cr4_read C (snd (vmxoff C m)) = Cr4_read C m)"

definition vmx_enabled :: "('m, 'a) x86_env \<Rightarrow> ('m, 'a, 'z) x86_scheme \<Rightarrow> bool" where
  "vmx_enabled E s \<longleftrightarrow>
     contains_flags (Cr4_read (cpu E) (hw s)) (CR4_VIRTUAL_MACHINE_EXTENSIONS (crates E))"

lemma is_enabled_run: "is_enabled E s = (Ok (vmx_enabled E s), s)"
  by (simp add: is_enabled_def hget_def vmx_enabled_def)

definition region_ptr :: "('m, 'a) x86_env \<Rightarrow> ('m, 'a, 'z) percpu_x86_scheme \<Rightarrow> HostVirtAddr" where
  "region_ptr E s = as_mut_ptr E (region_frame (vmx_region (arch (percpu s))))"

lemma contains_flags_or [simp]: "contains_flags (x OR f) f"
  by (simp add: contains_flags_def bit_eq_iff bit_simps)

lemma contains_flags_andnot: "f \<noteq> 0 \<Longrightarrow> \<not> contains_flags (x AND NOT f) f"
proof -
  have "(x AND NOT f) AND f = 0" by (simp add: and.assoc)
  then show "f \<noteq> 0 \<Longrightarrow> \<not> contains_flags (x AND NOT f) f" by (simp add: contains_flags_def)
qed

lemma assign_region_run:
  "\<exists>s'. assign_region E r s = (Ok (), s') \<and> hw s' = hw s \<and> mem s' = mem s
     \<and> arch (percpu s') = (arch (percpu s))\<lparr>vmx_region := r\<rparr>
     \<and> xhal s' = (if 0 < start_paddr (region_frame (vmx_region (arch (percpu s))))
                  then dealloc_page (halops E) (region_ptr E s) (xhal s) else xhal s)"
  by (simp add: assign_region_def VmxRegion_drop_def PhysFrame_drop_def set_arch_def hm_defs
      region_ptr_def as_mut_ptr_def)

lemma percpu_of_more: "x86.more s = x86.more t \<Longrightarrow> percpu s = percpu t"
  by (cases s; cases t) simp

lemma enable_tail:
  assumes "vmxon_this_cpu E vmx_basic s = (Ok (), s')" and "rid = revision_id vmx_basic"
    and "bit_field_ok (crates E)" and "cr4_ok (cpu E)"
  shows "vmx_enabled E s' \<and> vmcs_revision_id (arch (percpu s')) = rid
    \<and> load_u32 (mem s') (region_ptr E s') = rid
    \<and> start_paddr (region_frame (vmx_region (arch (percpu s')))) \<noteq> 0"
proof -
  let ?s0 = "s\<lparr>percpu := (percpu s)\<lparr>arch := (arch (percpu s))\<lparr>vmcs_revision_id := rid\<rparr>\<rparr>\<rparr>"
  have sa: "set_arch (\<lambda>a. a\<lparr>vmcs_revision_id := rid\<rparr>) s = (Ok (), ?s0)"
    by (simp add: set_arch_def hmod_def)
  obtain r s1 where new: "VmxRegion_new E rid False ?s0 = (Ok r, s1)"
    and rest: "hseq (assign_region E r)
     (hseq (hmod (\<lambda>s. s\<lparr>hw := Cr4_write (cpu E)
              (Cr4_read (cpu E) (hw s) OR CR4_VIRTUAL_MACHINE_EXTENSIONS (crates E)) (hw s)\<rparr>))
     (vm_instr (vmxon (cpu E) (as_u64 (VmxRegion_phys_addr r))))) s1 = (Ok (), s')"
    using assms(1) unfolding vmxon_this_cpu_def assms(2) [symmetric]
      hseq_run [of "set_arch (\<lambda>a. a\<lparr>vmcs_revision_id := rid\<rparr>)" s, OF sa] hbind_eq_Ok
    by blast
  note R = VmxRegion_new_Ok [OF assms(3) new]
  obtain s2 where s2: "assign_region E r s1 = (Ok (), s2)" "mem s2 = mem s1"
    "arch (percpu s2) = (arch (percpu s1))\<lparr>vmx_region := r\<rparr>"
    using assign_region_run [of E r s1] by blast
  let ?m = "Cr4_write (cpu E) (Cr4_read (cpu E) (hw s2) OR CR4_VIRTUAL_MACHINE_EXTENSIONS (crates E)) (hw s2)"
  have s': "s' = s2\<lparr>hw := snd (vmxon (cpu E) (as_u64 (VmxRegion_phys_addr r)) ?m)\<rparr>"
    using rest unfolding hseq_run [of "assign_region E r" s1, OF s2(1)]
    by (auto simp: hseq_def hbind_def hmod_def vm_instr_def split: prod.splits if_splits)
  have "percpu s1 = percpu ?s0" by (rule percpu_of_more [OF R(3)])
  then show ?thesis
    using R(1,4) assms(4) s2
    by (simp add: s' vmx_enabled_def cr4_ok_def region_ptr_def)
qed

lemma herr_guard: "(if b then herr e else m) s = (Ok y, u) \<longleftrightarrow> \<not> b \<and> m s = (Ok y, u)"
  by (simp add: herr_def)

text \<open>
  Claim C37. Switching VMX on succeeds only where it is supported and not yet on; after it, the
  CPU is enabled, a second call is refused, and the VMXON region is a non-null page
  whose first word is the revision identifier. Switching VMX off again succeeds if
  the instruction does, leaves the CPU disabled and without a region, and gives the
  page back to the host.
\<close>

theorem hardware_enable_disable:
  assumes "x86_crates_ok (crates E)" and "cr4_ok (cpu E)"
    and "\<And>m m'. feature_has_vmx (cpu E) m = feature_has_vmx (cpu E) m'"
    and "PerCpu_hardware_enable E s = (Ok (), s1)"
  shows "\<not> vmx_enabled E s \<and> feature_has_vmx (cpu E) (hw s) = Some True
    \<and> vmx_enabled E s1 \<and> PerCpu_hardware_enable E s1 = (Err Disabled, s1)
    \<and> start_paddr (region_frame (vmx_region (arch (percpu s1)))) \<noteq> 0
    \<and> load_u32 (mem s1) (region_ptr E s1) = vmcs_revision_id (arch (percpu s1))
    \<and> (fst (vmxoff (cpu E) (hw s1)) \<longrightarrow> (\<exists>s2. PerCpu_hardware_disable E s1 = (Ok (), s2)
         \<and> \<not> vmx_enabled E s2 \<and> vmx_region (arch (percpu s2)) = VmxRegion_uninit
         \<and> xhal s2 = dealloc_page (halops E) (region_ptr E s1) (xhal s1)))"
proof -
  have bf: "bit_field_ok (crates E)" and co: "x86_consts_ok (crates E)" using assms(1) by auto
  have ok: "VmxPerCpuState_hardware_enable E s = (Ok (), s1)"
    using assms(4) by (simp add: PerCpu_hardware_enable_def)
  have pre: "\<not> vmx_enabled E s \<and> feature_has_vmx (cpu E) (hw s) = Some True"
    using ok unfolding VmxPerCpuState_hardware_enable_def hbind_eq_Ok
    by (auto simp: has_hardware_support_def hget_def is_enabled_run hbind_def herr_def
        split: if_splits option.splits)
  obtain vmx_basic t where tail: "vmxon_this_cpu E vmx_basic t = (Ok (), s1)"
    using ok unfolding VmxPerCpuState_hardware_enable_def Let_def
    by (auto simp only: hbind_eq_Ok hseq_eq_Ok herr_guard)
  note T = enable_tail [OF tail refl bf assms(2)]
  have "PerCpu_hardware_enable E s1 = (Err Disabled, s1)"
    using T pre assms(3) [of "hw s1" "hw s"]
    by (simp add: PerCpu_hardware_enable_def VmxPerCpuState_hardware_enable_def has_hardware_support_def
        hget_def is_enabled_run hbind_def herr_def)
  moreover have "\<exists>s2. PerCpu_hardware_disable E s1 = (Ok (), s2)
         \<and> \<not> vmx_enabled E s2 \<and> vmx_region (arch (percpu s2)) = VmxRegion_uninit
         \<and> xhal s2 = dealloc_page (halops E) (region_ptr E s1) (xhal s1)"
    if off: "fst (vmxoff (cpu E) (hw s1))"
  proof -
    let ?m = "snd (vmxoff (cpu E) (hw s1))"
    let ?m' = "Cr4_write (cpu E) (Cr4_read (cpu E) ?m AND NOT (CR4_VIRTUAL_MACHINE_EXTENSIONS (crates E))) ?m"
    have "PerCpu_hardware_disable E s1 = assign_region E VmxRegion_uninit (s1\<lparr>hw := ?m'\<rparr>)"
      using T off by (cases "vmxoff (cpu E) (hw s1)")
        (simp add: PerCpu_hardware_disable_def VmxPerCpuState_hardware_disable_def
          is_enabled_run hbind_def hseq_def vm_instr_def hmod_def)
    moreover have "CR4_VIRTUAL_MACHINE_EXTENSIONS (crates E) \<noteq> 0"
      using co by (simp add: x86_consts_ok_def)
    ultimately show ?thesis
      using assign_region_run [of E VmxRegion_uninit "s1\<lparr>hw := ?m'\<rparr>"] T assms(2)
      by (auto simp: vmx_enabled_def cr4_ok_def contains_flags_andnot region_ptr_def word_gt_0)
  qed
  ultimately show ?thesis using pre T by simp
qed

definition std_percpu :: "(std_cpu, std_hal) percpu_x86" where
  "std_percpu = x86.extend std_state (percpu_x86.fields (PerCpu_new 0))"

lemma std_percpu_simps [simp]:
  "hw std_percpu = hw std_state" "mem std_percpu = mem std_state" "xhal std_percpu = xhal std_state"
  "percpu std_percpu = PerCpu_new 0"
  by (simp_all add: std_percpu_def x86.defs percpu_x86.defs std_state_def)

lemma std_basic:
  "VmxBasic_read std_env s = (Ok \<lparr>revision_id = 1, region_size = 0x1000, is_32bit_address = False,
     mem_type = 6, io_exit_info_flag = True, vmx_flex_controls = True\<rparr>, s)"
  if "c_msr (hw s) (Msr_number Msr.IA32_VMX_BASIC) = 0x00d8100000000001"
  using that
  by (simp add: VmxBasic_read_def Msr_read_def hm_defs std_cpu_ops_def x86_crates_std_def field_of_def)

lemma std_vmxon:
  assumes "revision_id basic = 1" and "\<not> c_vmxon (hw s)" and "next_va (xhal s) \<noteq> 0"
  shows "\<exists>s1. vmxon_this_cpu std_env basic s = (Ok (), s1) \<and> c_vmxon (hw s1)"
  using assms
  by (simp add: vmxon_this_cpu_def VmxRegion_new_def alloc_zero_def PhysFrame_alloc_def alloc_page_def
      fill_def assign_region_def VmxRegion_drop_def PhysFrame_drop_def set_arch_def vm_instr_def
      std_hal_ops_def std_cpu_ops_def x86_crates_std_def hm_defs Let_def)

lemma std_enable:
  "\<exists>s1. PerCpu_hardware_enable std_env std_percpu = (Ok (), s1) \<and> c_vmxon (hw s1)"
proof -
  let ?s = "std_percpu\<lparr>hw := (hw std_state)\<lparr>c_msr := std_msr(0x3a := 5)\<rparr>\<rparr>"
  let ?b = "\<lparr>revision_id = 1, region_size = 0x1000, is_32bit_address = False,
     mem_type = 6, io_exit_info_flag = True, vmx_flex_controls = True\<rparr>"
  have b: "VmxBasic_read std_env ?s = (Ok ?b, ?s)" by (rule std_basic) (simp add: std_msr_def)
  have "PerCpu_hardware_enable std_env std_percpu = vmxon_this_cpu std_env ?b ?s"
    unfolding PerCpu_hardware_enable_def VmxPerCpuState_hardware_enable_def
    using b by (simp add: has_hardware_support_def is_enabled_def FeatureControl_read_def FeatureControl_write_def
      Msr_read_def Msr_write_def hm_defs std_cpu_ops_def std_state_def std_msr_def contains_flags_def
      x86_crates_std_def LOCKED_def VMXON_ENABLED_OUTSIDE_SMX_def VMXON_ENABLED_INSIDE_SMX_def
      FeatureControlFlags_all_def cr_is_valid_def VMX_MEMORY_TYPE_WRITE_BACK_def std_hal_ops_def)
  then show ?thesis using std_vmxon [of ?b ?s] by (simp add: std_state_def)
qed

theorem hardware_enable_disable_witness:
  "\<exists>s1 s2. PerCpu_hardware_enable std_env std_percpu = (Ok (), s1)
     \<and> PerCpu_hardware_disable std_env s1 = (Ok (), s2) \<and> \<not> vmx_enabled std_env s2"
proof -
  have "cr4_ok std_cpu_ops" by (simp add: cr4_ok_def std_cpu_ops_def)
  then show ?thesis
    using hardware_enable_disable [of std_env std_percpu] x86_crates_std_ok std_enable
    by (auto simp: std_cpu_ops_def)
qed

end
