(* ===== verification/Vmx_Vcpu.thy ===== *)
theory Vmx_Vcpu
  imports Vmx_Vmcs Vmx_Percpu X86_Lapic Gdb_Stub
begin

text \<open>
  \<open>src/src/arch/x86_64/vmx/vcpu.rs\<close> up to the VM-exit handler, the registers of
  \<open>src/src/arch/x86_64/regs.rs\<close>, and \<open>create_vcpu\<close> of
  \<open>src/src/arch/x86_64/percpu.rs\<close>: the state of a vCPU, the setup of its VMCS and MSR
  bitmap, and the queue of pending events. The vCPU is part of the state; the nested
  page table \<open>G\<close> is the parameter record of \<open>Gdb_Stub\<close>.
\<close>

section \<open>State\<close>

record GeneralRegisters =
  rax :: u64
  rcx :: u64
  rdx :: u64
  rbx :: u64
  unused_rsp :: u64
  rbp :: u64
  rsi :: u64
  rdi :: u64
  r8 :: u64
  r9 :: u64
  r10 :: u64
  r11 :: u64
  r12 :: u64
  r13 :: u64
  r14 :: u64
  r15 :: u64

definition GeneralRegisters_default :: GeneralRegisters where
  "GeneralRegisters_default = \<lparr>rax = 0, rcx = 0, rdx = 0, rbx = 0, unused_rsp = 0, rbp = 0, rsi = 0,
     rdi = 0, r8 = 0, r9 = 0, r10 = 0, r11 = 0, r12 = 0, r13 = 0, r14 = 0, r15 = 0\<rparr>"

record ('g, 'i) VmxVcpu =
  guest_regs :: GeneralRegisters
  host_stack_top :: u64
  vmcs_region :: VmxRegion
  msr_bitmap :: MsrBitmap
  apic_timer :: ApicTimer
  pending_events :: "(u8 \<times> u32 option) list"
  ept :: 'g
  gdbstub :: "'i GdbStubStateMachine option"
  breakpoints :: "usize \<rightharpoonup> usize \<times> u8 list"

record ('m, 'a, 'g, 'i) vcpu_x86 = "('m, 'a) x86" +
  self :: "('g, 'i) VmxVcpu"

section \<open>Accessors\<close>

definition stack_pointer :: "('m, 'a) x86_env \<Rightarrow> (('m, 'a, 'z) x86_scheme, usize) hm" where
  "stack_pointer E = hunwrap (VmcsGuestNW_read E VmcsGuestNW.RSP)"

definition set_stack_pointer :: "('m, 'a) x86_env \<Rightarrow> usize \<Rightarrow> (('m, 'a, 'z) x86_scheme, unit) hm" where
  "set_stack_pointer E rsp = hunwrap (VmcsGuestNW_write E VmcsGuestNW.RSP rsp)"

definition rip :: "('m, 'a) x86_env \<Rightarrow> (('m, 'a, 'z) x86_scheme, usize) hm" where
  "rip E = hunwrap (VmcsGuestNW_read E VmcsGuestNW.RIP)"

definition set_rip :: "('m, 'a) x86_env \<Rightarrow> usize \<Rightarrow> (('m, 'a, 'z) x86_scheme, unit) hm" where
  "set_rip E v = hunwrap (VmcsGuestNW_write E VmcsGuestNW.RIP v)"

definition advance_rip :: "('m, 'a) x86_env \<Rightarrow> u8 \<Rightarrow> (('m, 'a, 'z) x86_scheme, unit) hm" where
  "advance_rip E instr_len =
     hbind (VmcsGuestNW_read E VmcsGuestNW.RIP) (\<lambda>v.
       VmcsGuestNW_write E VmcsGuestNW.RIP (v + as_usize instr_len))"

definition cr0 :: "('m, 'a) x86_env \<Rightarrow> (('m, 'a, 'z) x86_scheme, usize) hm" where
  "cr0 E = hunwrap (VmcsGuestNW_read E VmcsGuestNW.CR0)"

definition cr3 :: "('m, 'a) x86_env \<Rightarrow> (('m, 'a, 'z) x86_scheme, usize) hm" where
  "cr3 E = hunwrap (VmcsGuestNW_read E VmcsGuestNW.CR3)"

definition inject_event :: "u8 \<Rightarrow> u32 option \<Rightarrow> (('m, 'a, 'g, 'i) vcpu_x86, unit) hm" where
  "inject_event vec err = hmod (\<lambda>s. s\<lparr>self := (self s)\<lparr>
     pending_events := pending_events (self s) @ [(vec, err)]\<rparr>\<rparr>)"

definition set_monitor_trap_flag :: "('m, 'a) x86_env \<Rightarrow> bool \<Rightarrow> (('m, 'a, 'z) x86_scheme, unit) hm" where
  "set_monitor_trap_flag E on =
     hbind (VmcsControl32_read E PRIMARY_PROCBASED_EXEC_CONTROLS) (\<lambda>ctrl.
       let bits = MONITOR_TRAP_FLAG_CTRL (crates E);
           ctrl = (if on then ctrl OR bits else ctrl AND NOT bits) in
       VmcsControl32_write E PRIMARY_PROCBASED_EXEC_CONTROLS ctrl)"

definition set_interrupt_window :: "('m, 'a) x86_env \<Rightarrow> bool \<Rightarrow> (('m, 'a, 'z) x86_scheme, unit) hm" where
  "set_interrupt_window E on =
     hbind (VmcsControl32_read E PRIMARY_PROCBASED_EXEC_CONTROLS) (\<lambda>ctrl.
       let bits = INTERRUPT_WINDOW_EXITING (crates E);
           ctrl = (if on then ctrl OR bits else ctrl AND NOT bits) in
       VmcsControl32_write E PRIMARY_PROCBASED_EXEC_CONTROLS ctrl)"

section \<open>Setup\<close>

text \<open>The MSRs 0x800 to 0x83f of the x2APIC, in the order of the loop.\<close>

definition x2apic_msrs :: "u32 list" where
  "x2apic_msrs = map of_nat [0x800..<0x840]"

definition setup_msr_bitmap :: "('m, 'a) x86_env \<Rightarrow> ('g, 'i) VmxVcpu \<Rightarrow>
    (('m, 'a, 'z) x86_scheme, unit) hm" where
  "setup_msr_bitmap E vcpu =
     (let intercept_both = (\<lambda>msr.
        hseq (set_read_intercept E (msr_bitmap vcpu) msr True)
             (set_write_intercept E (msr_bitmap vcpu) msr True)) in
      hseq (intercept_both (IA32_APIC_BASE (crates E)))
      (hseqs (map intercept_both x2apic_msrs)))"

text \<open>\<open>get_tr_base\<close>: the base of the task-state segment, from the descriptor table in memory.\<close>

definition gdt_entry :: "(usize \<Rightarrow> u8) \<Rightarrow> u16 \<times> u64 \<Rightarrow> usize \<Rightarrow> u64 outcome" where
  "gdt_entry m gdt i =
     (let table_len = (as_usize (fst gdt) + 1) div 8 in
      if i < table_len then Ok (load_u64 m (snd gdt + 8 * i)) else Panic IndexOutOfBounds)"

definition get_tr_base :: "('m, 'a) x86_env \<Rightarrow> (usize \<Rightarrow> u8) \<Rightarrow> u16 \<Rightarrow> u16 \<times> u64 \<Rightarrow> u64 outcome" where
  "get_tr_base E m tr gdt =
     (let i = as_usize (selector_index (cpu E) tr) in
      obind (gdt_entry m gdt i) (\<lambda>entry.
        if entry AND shl 1 47 \<noteq> 0 then
          (let base_low = get_bits64 (crates E) entry 16 40 OR shl (get_bits64 (crates E) entry 56 64) 24 in
           obind (gdt_entry m gdt (i + 1)) (\<lambda>next.
             let base_high = next AND 0xffffffff in Ok (base_low OR shl base_high 32)))
        else Ok 0))"

definition hw_read :: "('m \<Rightarrow> 'v) \<Rightarrow> (('m, 'a, 'z) x86_scheme, 'v) hm" where
  "hw_read f = hget (\<lambda>s. f (hw s))"

definition setup_vmcs_host :: "('m, 'a) x86_env \<Rightarrow> (('m, 'a, 'z) x86_scheme, unit) hm" where
  "setup_vmcs_host E =
     (let C = cpu E in
      hseqs [
        hbind (Msr_read E Msr.IA32_PAT) (VmcsHost64_write E VmcsHost64.IA32_PAT),
        hbind (Msr_read E Msr.IA32_EFER) (VmcsHost64_write E VmcsHost64.IA32_EFER),
        hbind (hw_read (Cr0_read_raw C)) (\<lambda>v. VmcsHostNW_write E VmcsHostNW.CR0 (as_usize v)),
        hbind (hw_read (Cr3_read_raw C)) (\<lambda>v. VmcsHostNW_write E VmcsHostNW.CR3 (as_usize v)),
        hbind (hw_read (Cr4_read_raw C)) (\<lambda>v. VmcsHostNW_write E VmcsHostNW.CR4 (as_usize v)),
        hbind (hw_read (seg_es C)) (VmcsHost16_write E VmcsHost16.ES_SELECTOR),
        hbind (hw_read (seg_cs C)) (VmcsHost16_write E VmcsHost16.CS_SELECTOR),
        hbind (hw_read (seg_ss C)) (VmcsHost16_write E VmcsHost16.SS_SELECTOR),
        hbind (hw_read (seg_ds C)) (VmcsHost16_write E VmcsHost16.DS_SELECTOR),
        hbind (hw_read (seg_fs C)) (VmcsHost16_write E VmcsHost16.FS_SELECTOR),
        hbind (hw_read (seg_gs C)) (VmcsHost16_write E VmcsHost16.GS_SELECTOR),
        hbind (Msr_read E Msr.IA32_FS_BASE) (\<lambda>v. VmcsHostNW_write E VmcsHostNW.FS_BASE (as_usize v)),
        hbind (Msr_read E Msr.IA32_GS_BASE) (\<lambda>v. VmcsHostNW_write E VmcsHostNW.GS_BASE (as_usize v)),
        hbind (hw_read (task_tr C)) (\<lambda>tr.
        hbind (hw_read (sgdt C)) (\<lambda>gdtp.
        hbind (hw_read (sidt C)) (\<lambda>idtp.
        hseqs [
          VmcsHost16_write E VmcsHost16.TR_SELECTOR tr,
          hbind (hget mem) (\<lambda>m. hbind (hlift (get_tr_base E m tr gdtp)) (\<lambda>b.
            VmcsHostNW_write E VmcsHostNW.TR_BASE (as_usize b))),
          VmcsHostNW_write E VmcsHostNW.GDTR_BASE (as_usize (snd gdtp)),
          VmcsHostNW_write E VmcsHostNW.IDTR_BASE (as_usize (snd idtp))]))),
        VmcsHostNW_write E VmcsHostNW.RIP (vmx_exit_symbol E),
        VmcsHostNW_write E VmcsHostNW.IA32_SYSENTER_ESP 0,
        VmcsHostNW_write E VmcsHostNW.IA32_SYSENTER_EIP 0,
        VmcsHost32_write E VmcsHost32.IA32_SYSENTER_CS 0])"

text \<open>The macro \<open>set_guest_segment!\<close>, with the four fields that it concatenates.\<close>

definition set_guest_segment :: "('m, 'a) x86_env \<Rightarrow>
    VmcsGuest16 \<times> VmcsGuestNW \<times> VmcsGuest32 \<times> VmcsGuest32 \<Rightarrow> u32 \<Rightarrow> (('m, 'a, 'z) x86_scheme, unit) hm" where
  "set_guest_segment E seg access_rights =
     (case seg of (sel, base, lim, ar) \<Rightarrow> hseqs [
        VmcsGuest16_write E sel 0, VmcsGuestNW_write E base 0,
        VmcsGuest32_write E lim 0xffff, VmcsGuest32_write E ar access_rights])"

definition setup_vmcs_guest :: "('m, 'a) x86_env \<Rightarrow> GuestPhysAddr \<Rightarrow>
    (('m, 'a, 'z) x86_scheme, unit) hm" where
  "setup_vmcs_guest E entry =
     (let c = crates E;
          cr0_guest = CR0_EXTENSION_TYPE c OR CR0_NUMERIC_ERROR c;
          cr0_host_owned = CR0_NUMERIC_ERROR c OR CR0_NOT_WRITE_THROUGH c OR CR0_CACHE_DISABLE c;
          cr0_read_shadow = CR0_NUMERIC_ERROR c;
          cr4_guest = CR4_VIRTUAL_MACHINE_EXTENSIONS c;
          cr4_host_owned = CR4_VIRTUAL_MACHINE_EXTENSIONS c;
          cr4_read_shadow = 0 in
      hseqs [
        VmcsGuestNW_write E VmcsGuestNW.CR0 (as_usize cr0_guest),
        VmcsControlNW_write E CR0_GUEST_HOST_MASK (as_usize cr0_host_owned),
        VmcsControlNW_write E CR0_READ_SHADOW (as_usize cr0_read_shadow),
        VmcsGuestNW_write E VmcsGuestNW.CR4 (as_usize cr4_guest),
        VmcsControlNW_write E CR4_GUEST_HOST_MASK (as_usize cr4_host_owned),
        VmcsControlNW_write E CR4_READ_SHADOW cr4_read_shadow,
        set_guest_segment E (VmcsGuest16.ES_SELECTOR, ES_BASE, ES_LIMIT, ES_ACCESS_RIGHTS) 0x93,
        set_guest_segment E (VmcsGuest16.CS_SELECTOR, CS_BASE, CS_LIMIT, CS_ACCESS_RIGHTS) 0x9b,
        set_guest_segment E (VmcsGuest16.SS_SELECTOR, SS_BASE, SS_LIMIT, SS_ACCESS_RIGHTS) 0x93,
        set_guest_segment E (VmcsGuest16.DS_SELECTOR, DS_BASE, DS_LIMIT, DS_ACCESS_RIGHTS) 0x93,
        set_guest_segment E (VmcsGuest16.FS_SELECTOR, VmcsGuestNW.FS_BASE, FS_LIMIT, FS_ACCESS_RIGHTS) 0x93,
        set_guest_segment E (VmcsGuest16.GS_SELECTOR, VmcsGuestNW.GS_BASE, GS_LIMIT, GS_ACCESS_RIGHTS) 0x93,
        set_guest_segment E (VmcsGuest16.TR_SELECTOR, VmcsGuestNW.TR_BASE, TR_LIMIT, TR_ACCESS_RIGHTS) 0x8b,
        set_guest_segment E (LDTR_SELECTOR, LDTR_BASE, LDTR_LIMIT, LDTR_ACCESS_RIGHTS) 0x82,
        VmcsGuestNW_write E VmcsGuestNW.GDTR_BASE 0,
        VmcsGuest32_write E GDTR_LIMIT 0xffff,
        VmcsGuestNW_write E VmcsGuestNW.IDTR_BASE 0,
        VmcsGuest32_write E IDTR_LIMIT 0xffff,
        VmcsGuestNW_write E VmcsGuestNW.CR3 0,
        VmcsGuestNW_write E DR7 0x400,
        VmcsGuestNW_write E VmcsGuestNW.RSP 0,
        VmcsGuestNW_write E VmcsGuestNW.RIP entry,
        VmcsGuestNW_write E RFLAGS 0x2,
        VmcsGuestNW_write E PENDING_DBG_EXCEPTIONS 0,
        VmcsGuestNW_write E VmcsGuestNW.IA32_SYSENTER_ESP 0,
        VmcsGuestNW_write E VmcsGuestNW.IA32_SYSENTER_EIP 0,
        VmcsGuest32_write E VmcsGuest32.IA32_SYSENTER_CS 0,
        VmcsGuest32_write E INTERRUPTIBILITY_STATE 0,
        VmcsGuest32_write E ACTIVITY_STATE 0,
        VmcsGuest32_write E VMX_PREEMPTION_TIMER_VALUE 0,
        VmcsGuest64_write E LINK_PTR 0xffffffffffffffff,
        VmcsGuest64_write E IA32_DEBUGCTL 0,
        hbind (Msr_read E Msr.IA32_PAT) (VmcsGuest64_write E VmcsGuest64.IA32_PAT),
        VmcsGuest64_write E VmcsGuest64.IA32_EFER 0])"

text \<open>The controls, in the order of the source.\<close>

definition setup_vmcs_control :: "('m, 'a) x86_env \<Rightarrow> 'g gpt_ops \<Rightarrow> ('g, 'i) VmxVcpu \<Rightarrow>
    (('m, 'a, 'z) x86_scheme, unit) hm" where
  "setup_vmcs_control E G vcpu =
     (let c = crates E in
      hseqs [
        hbind (Msr_read E Msr.IA32_VMX_PINBASED_CTLS) (\<lambda>old.
          set_control E PINBASED_EXEC_CONTROLS Msr.IA32_VMX_TRUE_PINBASED_CTLS (as_u32 old)
            (NMI_EXITING c OR EXTERNAL_INTERRUPT_EXITING c) 0),
        hbind (Msr_read E Msr.IA32_VMX_PROCBASED_CTLS) (\<lambda>old.
          set_control E PRIMARY_PROCBASED_EXEC_CONTROLS Msr.IA32_VMX_TRUE_PROCBASED_CTLS (as_u32 old)
            (UNCOND_IO_EXITING c OR USE_MSR_BITMAPS c OR SECONDARY_CONTROLS c)
            (CR3_LOAD_EXITING c OR CR3_STORE_EXITING c)),
        set_control E SECONDARY_PROCBASED_EXEC_CONTROLS Msr.IA32_VMX_PROCBASED_CTLS2 0
          (ENABLE_EPT c OR ENABLE_RDTSCP c OR ENABLE_INVPCID c OR UNRESTRICTED_GUEST c) 0,
        hbind (Msr_read E Msr.IA32_VMX_EXIT_CTLS) (\<lambda>old.
          set_control E VMEXIT_CONTROLS Msr.IA32_VMX_TRUE_EXIT_CTLS (as_u32 old)
            (HOST_ADDRESS_SPACE_SIZE c OR ACK_INTERRUPT_ON_EXIT c OR SAVE_IA32_PAT c
               OR EXIT_LOAD_IA32_PAT c OR SAVE_IA32_EFER c OR EXIT_LOAD_IA32_EFER c) 0),
        hbind (Msr_read E Msr.IA32_VMX_ENTRY_CTLS) (\<lambda>old.
          set_control E VMENTRY_CONTROLS Msr.IA32_VMX_TRUE_ENTRY_CTLS (as_u32 old)
            (ENTRY_LOAD_IA32_PAT c OR ENTRY_LOAD_IA32_EFER c) 0),
        set_ept_pointer E (root_paddr G (ept vcpu)),
        VmcsControl32_write E VMEXIT_MSR_STORE_COUNT 0,
        VmcsControl32_write E VMEXIT_MSR_LOAD_COUNT 0,
        VmcsControl32_write E VMENTRY_MSR_LOAD_COUNT 0,
        VmcsControl32_write E EXCEPTION_BITMAP (shl 1 (unat (BREAKPOINT_VECTOR c))),
        VmcsControl64_write E IO_BITMAP_A_ADDR 0,
        VmcsControl64_write E IO_BITMAP_B_ADDR 0,
        VmcsControl64_write E MSR_BITMAPS_ADDR (as_u64 (MsrBitmap_phys_addr (msr_bitmap vcpu)))])"

definition setup_vmcs :: "('m, 'a) x86_env \<Rightarrow> 'g gpt_ops \<Rightarrow> ('g, 'i) VmxVcpu \<Rightarrow> GuestPhysAddr \<Rightarrow>
    (('m, 'a, 'z) x86_scheme, unit) hm" where
  "setup_vmcs E G vcpu entry =
     (let paddr = as_u64 (VmxRegion_phys_addr (vmcs_region vcpu)) in
      hseqs [
        vm_instr (vmclear (cpu E) paddr),
        vm_instr (vmptrld (cpu E) paddr),
        setup_vmcs_host E,
        setup_vmcs_guest E entry,
        setup_vmcs_control E G vcpu])"

section \<open>Creating and dropping a vCPU\<close>

definition VmxVcpu_drop :: "('m, 'a) x86_env \<Rightarrow> ('g, 'i) VmxVcpu \<Rightarrow> (('m, 'a, 'z) x86_scheme, unit) hm" where
  "VmxVcpu_drop E vcpu =
     hseqs [
       hunwrap (vm_instr (vmclear (cpu E) (as_u64 (VmxRegion_phys_addr (vmcs_region vcpu))))),
       VmxRegion_drop E (vmcs_region vcpu),
       MsrBitmap_drop E (msr_bitmap vcpu)]"

text \<open>An early return with \<open>?\<close> drops the values that are live.\<close>

definition drop_on_err :: "('s, 'a) hm \<Rightarrow> ('s, unit) hm \<Rightarrow> ('s, 'a) hm" where
  "drop_on_err m d s = (case m s of
       (Err e, t) \<Rightarrow> hseq d (herr e) t
     | r \<Rightarrow> r)"

definition VmxVcpu_new :: "('m, 'a) x86_env \<Rightarrow> 'g gpt_ops \<Rightarrow> VmxPerCpuState \<Rightarrow> GuestPhysAddr \<Rightarrow> 'g \<Rightarrow>
    (('m, 'a, 'z) x86_scheme, ('g, 'i) VmxVcpu) hm" where
  "VmxVcpu_new E G pcpu entry g =
     hbind (VmxRegion_new E (vmcs_revision_id pcpu) False) (\<lambda>region.
     hbind (drop_on_err (passthrough_all E) (VmxRegion_drop E region)) (\<lambda>bitmap.
     let vcpu = \<lparr>guest_regs = GeneralRegisters_default, host_stack_top = 0, vmcs_region = region,
           msr_bitmap = bitmap, apic_timer = ApicTimer_new, pending_events = [], ept = g,
           gdbstub = None, breakpoints = Map.empty\<rparr> in
     hseq (drop_on_err (hseq (setup_msr_bitmap E vcpu) (setup_vmcs E G vcpu entry)) (VmxVcpu_drop E vcpu))
     (hret vcpu)))"

definition create_vcpu :: "('m, 'a) x86_env \<Rightarrow> 'g gpt_ops \<Rightarrow> GuestPhysAddr \<Rightarrow> 'g \<Rightarrow>
    (('m, 'a, 'z) percpu_x86_scheme, ('g, 'i) VmxVcpu) hm" where
  "create_vcpu E G entry g =
     hbind (is_enabled E) (\<lambda>enabled.
       if \<not> enabled then herr BadState
       else hbind (hget (\<lambda>s. arch (percpu s))) (\<lambda>pcpu. VmxVcpu_new E G pcpu entry g))"

section \<open>Pending events\<close>

definition allow_interrupt :: "('m, 'a) x86_env \<Rightarrow> (('m, 'a, 'z) x86_scheme, bool) hm" where
  "allow_interrupt E =
     hbind (hunwrap (VmcsGuestNW_read E RFLAGS)) (\<lambda>rflags.
     hbind (hunwrap (VmcsGuest32_read E INTERRUPTIBILITY_STATE)) (\<lambda>block_state.
       hret (as_u64 rflags AND INTERRUPT_FLAG (crates E) \<noteq> 0 \<and> block_state = 0)))"

definition check_pending_events :: "('m, 'a) x86_env \<Rightarrow> (('m, 'a, 'g, 'i) vcpu_x86, unit) hm" where
  "check_pending_events E =
     hbind (hget (\<lambda>s. pending_events (self s))) (\<lambda>q.
       case q of
         [] \<Rightarrow> hret ()
       | event # rest \<Rightarrow>
           hbind (if fst event < 32 then hret True else allow_interrupt E) (\<lambda>inject_now.
             if inject_now then
               hseq (vmcs_inject_event E (fst event) (snd event))
                 (hmod (\<lambda>s. s\<lparr>self := (self s)\<lparr>pending_events := tl (pending_events (self s))\<rparr>\<rparr>))
             else set_interrupt_window E True))"

end
