(* ===== verification/Vmx_Setup.thy ===== *)
theory Vmx_Setup
  imports Vmx_Vcpu
begin

text \<open>
  What \<open>VmxVcpu::new\<close> sets up: which MSRs are intercepted, and with which state and
  controls the guest starts.
\<close>

section \<open>The MSR bitmap\<close>

text \<open>
  \<open>intercepts E b S s s'\<close>: from \<open>s\<close> to \<open>s'\<close>, exactly the MSRs in \<open>S\<close> became intercepted in the
  bitmap \<open>b\<close>, for reads and for writes, and only memory changed.
\<close>

definition intercepts :: "('m, 'a) x86_env \<Rightarrow> MsrBitmap \<Rightarrow> u32 set \<Rightarrow> ('m, 'a, 'z) x86_scheme \<Rightarrow>
    ('m, 'a, 'z) x86_scheme \<Rightarrow> bool" where
  "intercepts E b S s s' \<longleftrightarrow> hw s' = hw s \<and> xhal s' = xhal s \<and> x86.more s' = x86.more s
     \<and> (\<forall>msr w. msr_in_bitmap msr \<longrightarrow>
          (intercepted (mem s') (as_mut_ptr E (bitmap_frame b)) msr w \<longleftrightarrow>
             msr \<in> S \<or> intercepted (mem s) (as_mut_ptr E (bitmap_frame b)) msr w))"

lemma intercepts_trans:
  "intercepts E b S s t \<Longrightarrow> intercepts E b T t u \<Longrightarrow> intercepts E b (S \<union> T) s u"
  by (auto simp: intercepts_def)

lemma intercept_both:
  assumes "msr_in_bitmap msr"
    and "hseq (set_read_intercept E b msr True) (set_write_intercept E b msr True) s = (r, s')"
  shows "r = Ok () \<and> intercepts E b {msr} s s'"
proof -
  obtain r1 t where r1: "set_intercept E b msr False True s = (r1, t)" by fastforce
  note A = set_intercept_spec [OF assms(1) _ r1]
  have "set_intercept E b msr True True t = (r, s')"
    using assms(2) r1 A(1) [OF assms(1)]
    by (simp add: set_read_intercept_def set_write_intercept_def hseq_def hbind_def)
  note B = set_intercept_spec [OF assms(1) _ this]
  show ?thesis
    unfolding intercepts_def
    using A(2-5) B(2-5) B(1) [OF assms(1)] assms(1) by auto
qed

lemma intercept_list:
  assumes "\<And>msr. msr \<in> set msrs \<Longrightarrow> msr_in_bitmap msr"
    and "hseqs (map (\<lambda>msr. hseq (set_read_intercept E b msr True) (set_write_intercept E b msr True)) msrs) s
      = (r, s')"
  shows "r = Ok () \<and> intercepts E b (set msrs) s s'"
  using assms
proof (induction msrs arbitrary: s)
  case Nil
  then show ?case by (auto simp: hret_def intercepts_def)
next
  case (Cons msr msrs)
  obtain r1 t where t: "hseq (set_read_intercept E b msr True) (set_write_intercept E b msr True) s = (r1, t)"
    by fastforce
  have A: "r1 = Ok () \<and> intercepts E b {msr} s t"
    using Cons.prems(1) by (intro intercept_both [OF _ t]) simp
  then have "r = Ok () \<and> intercepts E b (set msrs) t s'"
    using Cons t by (simp add: hseq_run)
  then show ?case using A intercepts_trans [of E b "{msr}" s t "set msrs" s'] by simp
qed

lemma set_x2apic_msrs: "set x2apic_msrs = {msr. 0x800 \<le> unat msr \<and> unat msr < 0x840}"
proof -
  have "msr \<in> set x2apic_msrs" if "0x800 \<le> unat msr" "unat msr < 0x840" for msr
    using that unfolding x2apic_msrs_def set_map by (intro image_eqI [of _ _ "unat msr"]) (simp_all del: upt_rec_numeral)
  moreover have "0x800 \<le> unat msr \<and> unat msr < 0x840" if "msr \<in> set x2apic_msrs" for msr
    using that unfolding x2apic_msrs_def by (auto simp: unat_of_nat simp del: upt_rec_numeral)
  ultimately show ?thesis by blast
qed

text \<open>
  Claim C38. After \<open>setup_msr_bitmap\<close> on a clear bitmap, the MSRs that make the guest exit on
  a read or a write are exactly \<open>IA32_APIC_BASE\<close> and the x2APIC registers 0x800 to 0x83f,
  out of all MSRs that the bitmap covers; the call does not fail and changes memory only.
\<close>

theorem setup_msr_bitmap_intercepts:
  assumes "x86_crates_ok (crates E)" and "setup_msr_bitmap E vcpu s = (r, s')"
    and "\<And>msr w. msr_in_bitmap msr \<Longrightarrow>
      \<not> intercepted (mem s) (as_mut_ptr E (bitmap_frame (msr_bitmap vcpu))) msr w"
    and "msr_in_bitmap msr"
  shows "r = Ok () \<and> hw s' = hw s \<and> xhal s' = xhal s
    \<and> (intercepted (mem s') (as_mut_ptr E (bitmap_frame (msr_bitmap vcpu))) msr w \<longleftrightarrow>
        msr = 0x1b \<or> 0x800 \<le> unat msr \<and> unat msr \<le> 0x83f)"
proof -
  have base: "IA32_APIC_BASE (crates E) = 0x1b" using assms(1) by (auto simp: x86_consts_ok_def)
  have "hseqs (map (\<lambda>msr. hseq (set_read_intercept E (msr_bitmap vcpu) msr True)
      (set_write_intercept E (msr_bitmap vcpu) msr True)) (0x1b # x2apic_msrs)) s = (r, s')"
    using assms(2) by (simp add: setup_msr_bitmap_def Let_def base)
  moreover have "msr_in_bitmap msr" if "msr \<in> set (0x1b # x2apic_msrs)" for msr
    using that by (auto simp: set_x2apic_msrs msr_in_bitmap_def)
  ultimately have "r = Ok () \<and> intercepts E (msr_bitmap vcpu) (set (0x1b # x2apic_msrs)) s s'"
    by (intro intercept_list)
  then show ?thesis
    using assms(3,4) by (auto simp: intercepts_def set_x2apic_msrs)
qed

definition std_vcpu :: "(unit, unit) VmxVcpu" where
  "std_vcpu = \<lparr>guest_regs = GeneralRegisters_default, host_stack_top = 0,
     vmcs_region = \<lparr>region_frame = \<lparr>start_paddr = 0x10000\<rparr>\<rparr>,
     msr_bitmap = \<lparr>bitmap_frame = \<lparr>start_paddr = 0x11000\<rparr>\<rparr>, apic_timer = ApicTimer_new,
     pending_events = [], ept = (), gdbstub = None, breakpoints = Map.empty\<rparr>"

theorem setup_msr_bitmap_intercepts_witness:
  "intercepted (mem (snd (setup_msr_bitmap std_env std_vcpu (std_state\<lparr>mem := \<lambda>a. 0\<rparr>)))) 0x11000 0x802 True
   \<and> \<not> intercepted (mem (snd (setup_msr_bitmap std_env std_vcpu (std_state\<lparr>mem := \<lambda>a. 0\<rparr>)))) 0x11000 0xc0000080 True"
proof -
  let ?s = "std_state\<lparr>mem := \<lambda>a. 0\<rparr>"
  let ?r = "setup_msr_bitmap std_env std_vcpu ?s"
  have z: "\<not> intercepted (mem ?s) p msr w" for p msr w
    by (simp add: intercepted_def bitmap_bit_def)
  have a: "as_mut_ptr std_env (bitmap_frame (msr_bitmap std_vcpu)) = 0x11000"
    by (simp add: as_mut_ptr_def std_vcpu_def std_hal_ops_def)
  have c: "x86_crates_ok (crates std_env)" using x86_crates_std_ok by simp
  have m: "msr_in_bitmap 0x802" "msr_in_bitmap 0xc0000080" by (simp_all add: msr_in_bitmap_def)
  show ?thesis
    using setup_msr_bitmap_intercepts [OF c prod.collapse [symmetric, of ?r] z m(1), of True]
      setup_msr_bitmap_intercepts [OF c prod.collapse [symmetric, of ?r] z m(2), of True]
    unfolding a by simp
qed

section \<open>The guest state\<close>

text \<open>
  The state in which the guest starts: real mode, with every segment at base zero and 64 KByte
  long, interrupts off, at the given entry point.
\<close>

definition boot_fields :: "GuestPhysAddr \<Rightarrow> u64 \<Rightarrow> (u32 \<times> u64) list" where
  "boot_fields entry pat = [
     (VmcsGuestNW_number VmcsGuestNW.CR0, 0x30),
     (VmcsControlNW_number VmcsControlNW.CR0_GUEST_HOST_MASK, 0x60000020),
     (VmcsControlNW_number VmcsControlNW.CR0_READ_SHADOW, 0x20),
     (VmcsGuestNW_number VmcsGuestNW.CR4, 0x2000),
     (VmcsControlNW_number VmcsControlNW.CR4_GUEST_HOST_MASK, 0x2000),
     (VmcsControlNW_number VmcsControlNW.CR4_READ_SHADOW, 0),
     (VmcsGuest16_number VmcsGuest16.ES_SELECTOR, 0),
     (VmcsGuestNW_number VmcsGuestNW.ES_BASE, 0),
     (VmcsGuest32_number VmcsGuest32.ES_LIMIT, 0xffff),
     (VmcsGuest32_number VmcsGuest32.ES_ACCESS_RIGHTS, 0x93),
     (VmcsGuest16_number VmcsGuest16.CS_SELECTOR, 0),
     (VmcsGuestNW_number VmcsGuestNW.CS_BASE, 0),
     (VmcsGuest32_number VmcsGuest32.CS_LIMIT, 0xffff),
     (VmcsGuest32_number VmcsGuest32.CS_ACCESS_RIGHTS, 0x9b),
     (VmcsGuest16_number VmcsGuest16.SS_SELECTOR, 0),
     (VmcsGuestNW_number VmcsGuestNW.SS_BASE, 0),
     (VmcsGuest32_number VmcsGuest32.SS_LIMIT, 0xffff),
     (VmcsGuest32_number VmcsGuest32.SS_ACCESS_RIGHTS, 0x93),
     (VmcsGuest16_number VmcsGuest16.DS_SELECTOR, 0),
     (VmcsGuestNW_number VmcsGuestNW.DS_BASE, 0),
     (VmcsGuest32_number VmcsGuest32.DS_LIMIT, 0xffff),
     (VmcsGuest32_number VmcsGuest32.DS_ACCESS_RIGHTS, 0x93),
     (VmcsGuest16_number VmcsGuest16.FS_SELECTOR, 0),
     (VmcsGuestNW_number VmcsGuestNW.FS_BASE, 0),
     (VmcsGuest32_number VmcsGuest32.FS_LIMIT, 0xffff),
     (VmcsGuest32_number VmcsGuest32.FS_ACCESS_RIGHTS, 0x93),
     (VmcsGuest16_number VmcsGuest16.GS_SELECTOR, 0),
     (VmcsGuestNW_number VmcsGuestNW.GS_BASE, 0),
     (VmcsGuest32_number VmcsGuest32.GS_LIMIT, 0xffff),
     (VmcsGuest32_number VmcsGuest32.GS_ACCESS_RIGHTS, 0x93),
     (VmcsGuest16_number VmcsGuest16.TR_SELECTOR, 0),
     (VmcsGuestNW_number VmcsGuestNW.TR_BASE, 0),
     (VmcsGuest32_number VmcsGuest32.TR_LIMIT, 0xffff),
     (VmcsGuest32_number VmcsGuest32.TR_ACCESS_RIGHTS, 0x8b),
     (VmcsGuest16_number VmcsGuest16.LDTR_SELECTOR, 0),
     (VmcsGuestNW_number VmcsGuestNW.LDTR_BASE, 0),
     (VmcsGuest32_number VmcsGuest32.LDTR_LIMIT, 0xffff),
     (VmcsGuest32_number VmcsGuest32.LDTR_ACCESS_RIGHTS, 0x82),
     (VmcsGuestNW_number VmcsGuestNW.GDTR_BASE, 0),
     (VmcsGuest32_number VmcsGuest32.GDTR_LIMIT, 0xffff),
     (VmcsGuestNW_number VmcsGuestNW.IDTR_BASE, 0),
     (VmcsGuest32_number VmcsGuest32.IDTR_LIMIT, 0xffff),
     (VmcsGuestNW_number VmcsGuestNW.CR3, 0),
     (VmcsGuestNW_number VmcsGuestNW.DR7, 0x400),
     (VmcsGuestNW_number VmcsGuestNW.RSP, 0),
     (VmcsGuestNW_number VmcsGuestNW.RIP, entry),
     (VmcsGuestNW_number VmcsGuestNW.RFLAGS, 2),
     (VmcsGuestNW_number VmcsGuestNW.PENDING_DBG_EXCEPTIONS, 0),
     (VmcsGuestNW_number VmcsGuestNW.IA32_SYSENTER_ESP, 0),
     (VmcsGuestNW_number VmcsGuestNW.IA32_SYSENTER_EIP, 0),
     (VmcsGuest32_number VmcsGuest32.IA32_SYSENTER_CS, 0),
     (VmcsGuest32_number VmcsGuest32.INTERRUPTIBILITY_STATE, 0),
     (VmcsGuest32_number VmcsGuest32.ACTIVITY_STATE, 0),
     (VmcsGuest32_number VmcsGuest32.VMX_PREEMPTION_TIMER_VALUE, 0),
     (VmcsGuest64_number VmcsGuest64.LINK_PTR, 0xffffffffffffffff),
     (VmcsGuest64_number VmcsGuest64.IA32_DEBUGCTL, 0),
     (VmcsGuest64_number VmcsGuest64.IA32_PAT, pat),
     (VmcsGuest64_number VmcsGuest64.IA32_EFER, 0)]"

lemma writes_segment:
  assumes "vmcs_ok (cpu E)"
    and "w1 = (VmcsGuest16_number sel, 0)" and "w2 = (VmcsGuestNW_number base, 0)"
    and "w3 = (VmcsGuest32_number lim, 0xffff)" and "w4 = (VmcsGuest32_number ar, as_u64 rights)"
    and "writes E ob ws (hseqs cs)"
  shows "writes E ob (w1 # w2 # w3 # w4 # ws)
    (hseqs (set_guest_segment E (sel, base, lim, ar) rights # cs))"
  unfolding set_guest_segment_def prod.case hseqs_flatten append.simps
  using assms(2-6) by (intro writes_Cons writes_field_eq [OF assms(1)]) simp_all

lemma setup_vmcs_guest_writes:
  assumes "vmcs_ok (cpu E)" and "x86_consts_ok (crates E)"
  shows "writes E ob (boot_fields entry (fst ob (Msr_number Msr.IA32_PAT))) (setup_vmcs_guest E entry)"
  unfolding setup_vmcs_guest_def boot_fields_def Let_def
  by (rule writes_Nil writes_segment [OF assms(1)] writes_Cons writes_Msr_read
        writes_field_eq [OF assms(1)] | (use assms(2) in \<open>simp add: x86_consts_ok_def\<close>; fail) |
      (simp; fail))+

section \<open>Host state and controls\<close>

text \<open>
  What the code relies on of the VMX instructions around a new VMCS: after a successful
  \<open>vmptrld\<close> the fields can be read, and \<open>invept\<close> changes no field.
\<close>

definition vmx_ok :: "'m cpu_ops \<Rightarrow> bool" where
  "vmx_ok C \<longleftrightarrow> vmcs_ok C
     \<and> (\<forall>t d m f. vmread C f (invept_insn C t d m) = vmread C f m)
     \<and> (\<forall>p m f. fst (vmptrld C p m) \<longrightarrow> vmread C (field_number f) (snd (vmptrld C p m)) \<noteq> None)"

lemma vmx_ok_vmcs [dest]: "vmx_ok C \<Longrightarrow> vmcs_ok C"
  by (simp add: vmx_ok_def)

lemma only_writes_hw_read [only_writes_intros]: "only_writes E F (hw_read g)"
  unfolding hw_read_def by (rule only_writes_pure)

lemma only_writes_set_control [only_writes_intros]:
  "vmcs_ok (cpu E) \<Longrightarrow> VmcsControl32_number control \<in> F \<Longrightarrow>
   only_writes E F (set_control E control msr old st cl)"
  unfolding set_control_def Let_def by (intro only_writes_intros)

lemma only_writes_ept_pointer [only_writes_intros]:
  assumes "vmx_ok (cpu E)" and "VmcsControl64_number EPTP \<in> F"
  shows "only_writes E F (set_ept_pointer E p)"
proof -
  have "only_writes E F (hmod (\<lambda>s. s\<lparr>hw := invept_insn (cpu E) t d (hw s)\<rparr>))" for t d
    using assms(1) by (auto simp: only_writes_def hmod_def vmcs_loaded_def vmcs_def vmx_ok_def)
  then show ?thesis
    unfolding set_ept_pointer_def invept_def vmx_capture_status_def Let_def
    using assms by (intro only_writes_intros) (auto simp: vmx_ok_def)
qed

lemma only_writes_hseqs_list:
  "(\<And>m. m \<in> set ms \<Longrightarrow> only_writes E F m) \<Longrightarrow> only_writes E F (hseqs ms)"
  by (induction ms) (simp_all add: only_writes_pure only_writes_hseq)

text \<open>
  In a list of steps that succeeds, the value of a field is the one that a step left, if no
  later step writes the field.
\<close>

lemma hseqs_step:
  assumes "hseqs L s = (Ok (), s')" and "vmcs_loaded E s" and "k < length L"
    and "L ! k = c"
    and "\<And>m. m \<in> set L \<Longrightarrow> only_writes E UNIV m"
    and "\<And>m. m \<in> set (drop (Suc k) L) \<Longrightarrow> only_writes E (- {f}) m"
  shows "\<exists>t t'. vmcs_loaded E t \<and> c t = (Ok (), t') \<and> vmcs E s' f = vmcs E t' f"
proof -
  have L: "L = take k L @ c # drop (Suc k) L"
    using id_take_nth_drop [OF assms(3)] by (simp add: assms(4))
  obtain t t' where t: "hseqs (take k L) s = (Ok (), t)" "c t = (Ok (), t')"
    "hseqs (drop (Suc k) L) t' = (Ok (), s')"
    using assms(1) by (subst (asm) L) (auto simp: hseqs_append hseq_eq_Ok)
  have "vmcs_loaded E t"
    by (rule only_writesD(2) [OF only_writes_hseqs_list assms(2) t(1)])
      (auto intro: assms(5) dest: in_set_takeD)
  moreover from this have "vmcs_loaded E t'"
    using only_writesD(2) [of E UNIV c t, OF assms(5) _ t(2)] assms(3,4) by (metis nth_mem)
  then have "vmcs E s' f = vmcs E t' f"
    using only_writesD(3) [OF only_writes_hseqs_list [OF assms(6)] _ t(3)] by simp
  ultimately show ?thesis using t(2) by blast
qed

corollary hseqs_value:
  assumes "hseqs L s = (Ok (), s')" and "vmcs_loaded E s" and "k < length L"
    and "\<And>t t'. vmcs_loaded E t \<Longrightarrow> (L ! k) t = (Ok (), t') \<Longrightarrow> Q (vmcs E t' f)"
    and "\<And>m. m \<in> set L \<Longrightarrow> only_writes E UNIV m"
    and "\<And>m. m \<in> set (drop (Suc k) L) \<Longrightarrow> only_writes E (- {f}) m"
  shows "Q (vmcs E s' f)"
  using hseqs_step [OF assms(1-3) refl assms(5,6)] assms(4) by metis

definition class_fields :: "field_class \<Rightarrow> u32 set" where
  "class_fields c = {field_number f |f. field_class_of f = c}"

lemma class_fields_number: "field_class_of f = c \<Longrightarrow> field_number f \<in> class_fields c"
  by (auto simp: class_fields_def)

lemma class_fields_member [simp]:
  "VmcsHost16_number h0 \<in> class_fields HostState" "VmcsHost32_number h1 \<in> class_fields HostState"
  "VmcsHost64_number h2 \<in> class_fields HostState" "VmcsHostNW_number h3 \<in> class_fields HostState"
  "VmcsControl32_number c1 \<in> class_fields Control" "VmcsControl64_number c2 \<in> class_fields Control"
  "VmcsControlNW_number c3 \<in> class_fields Control"
  using class_fields_number [of "FHost16 h0"] class_fields_number [of "FHost32 h1"]
    class_fields_number [of "FHost64 h2"] class_fields_number [of "FHostNW h3"]
    class_fields_number [of "FControl32 c1"] class_fields_number [of "FControl64 c2"]
    class_fields_number [of "FControlNW c3"] by simp_all

lemma setup_vmcs_host_only:
  assumes "vmcs_ok (cpu E)"
  shows "only_writes E (class_fields HostState) (setup_vmcs_host E)"
  unfolding setup_vmcs_host_def Let_def
  by (intro only_writes_intros assms class_fields_member)

text \<open>The fields that the controls occupy.\<close>

definition control_fields :: "u32 list" where
  "control_fields = map VmcsControl32_number [PINBASED_EXEC_CONTROLS, PRIMARY_PROCBASED_EXEC_CONTROLS,
       SECONDARY_PROCBASED_EXEC_CONTROLS, VMEXIT_CONTROLS, VMENTRY_CONTROLS, VMEXIT_MSR_STORE_COUNT,
       VMEXIT_MSR_LOAD_COUNT, VMENTRY_MSR_LOAD_COUNT, EXCEPTION_BITMAP]
     @ map VmcsControl64_number [EPTP, IO_BITMAP_A_ADDR, IO_BITMAP_B_ADDR, MSR_BITMAPS_ADDR]"

lemma setup_vmcs_control_only:
  assumes "vmx_ok (cpu E)"
  shows "only_writes E (set control_fields) (setup_vmcs_control E G vcpu)"
  unfolding setup_vmcs_control_def Let_def
  by (intro only_writes_intros assms vmx_ok_vmcs) (simp_all add: control_fields_def)

text \<open>The controls after a successful setup.\<close>

lemma vmcs_write_value:
  assumes "vmcs_ok (cpu E)" and "vmcs_loaded E t"
  shows "VmcsControl32_write E f v t = (Ok (), t') \<Longrightarrow> vmcs E t' (VmcsControl32_number f) = Some (as_u64 v)"
    and "VmcsControl64_write E g w t = (Ok (), t') \<Longrightarrow> vmcs E t' (VmcsControl64_number g) = Some w"
    and "VmcsHostNW_write E h x t = (Ok (), t') \<Longrightarrow> vmcs E t' (VmcsHostNW_number h) = Some x"
proof -
  show "VmcsControl32_write E f v t = (Ok (), t') \<Longrightarrow> vmcs E t' (VmcsControl32_number f) = Some (as_u64 v)"
    using does_writesD(3) [OF does_writes_field(3) [OF assms]] field_trunc_typed(2) [OF vmcs_encodings(3)]
    by simp
  show "VmcsControl64_write E g w t = (Ok (), t') \<Longrightarrow> vmcs E t' (VmcsControl64_number g) = Some w"
    using does_writesD(3) [OF does_writes_field(2) [OF assms]] field_trunc_typed(3) [OF vmcs_encodings(2)]
    by simp
  show "VmcsHostNW_write E h x t = (Ok (), t') \<Longrightarrow> vmcs E t' (VmcsHostNW_number h) = Some x"
    using does_writesD(3) [OF does_writes_field(12) [OF assms]] field_trunc_typed(4) [OF vmcs_encodings(12)]
    by simp
qed

lemma hbind_Msr_read: "hbind (Msr_read E n) k s = k (rdmsr (cpu E) (Msr_number n) (hw s)) s"
  by (simp add: Msr_read_def hbind_def hget_def)

lemma setup_vmcs_host_rip:
  fixes E :: "('m, 'a) x86_env" and s :: "('m, 'a, 'z) x86_scheme"
  assumes "vmcs_ok (cpu E)" and "vmcs_loaded E s" and "setup_vmcs_host E s = (Ok (), s')"
  shows "vmcs E s' (VmcsHostNW_number VmcsHostNW.RIP) = Some (vmx_exit_symbol E)"
proof -
  note L = assms(3) [unfolded setup_vmcs_host_def Let_def]
  have "\<exists>t t' :: ('m, 'a, 'z) x86_scheme. vmcs_loaded E t \<and> VmcsHostNW_write E VmcsHostNW.RIP (vmx_exit_symbol E) t = (Ok (), t')
    \<and> vmcs E s' (VmcsHostNW_number VmcsHostNW.RIP) = vmcs E t' (VmcsHostNW_number VmcsHostNW.RIP)"
    by (rule hseqs_step [OF L assms(2), where k = 14 and f = "VmcsHostNW_number VmcsHostNW.RIP"
          and c = "VmcsHostNW_write E VmcsHostNW.RIP (vmx_exit_symbol E)"])
      (auto intro!: only_writes_intros assms(1))
  then show ?thesis using vmcs_write_value(3) [OF assms(1)] by metis
qed

lemma set_ept_pointer_value:
  assumes "vmx_ok (cpu E)" and "vmcs_loaded E t" and "set_ept_pointer E p t = (Ok (), t')"
  shows "vmcs E t' (VmcsControl64_number EPTP) = Some (from_table_phys p)"
proof -
  obtain u where u: "VmcsControl64_write E EPTP (from_table_phys p) t = (Ok (), u)"
    "invept E SingleContext (from_table_phys p) u = (Ok (), t')"
    using assms(3) by (auto simp: set_ept_pointer_def Let_def hseq_eq_Ok)
  have "t' = u\<lparr>hw := invept_insn (cpu E) 1 [from_table_phys p, 0] (hw u)\<rparr>"
    using u(2) by (auto simp: invept_def vmx_capture_status_def hm_defs split: if_splits)
  then have "vmcs E t' f = vmcs E u f" for f using assms(1) by (simp add: vmx_ok_def vmcs_def)
  then show ?thesis using vmcs_write_value(2) [OF _ assms(2) u(1)] assms(1) by (simp add: vmx_ok_def)
qed

lemma set_control_value:
  assumes "vmcs_ok (cpu E)" and "vmcs_loaded E t" and "set_control E control msr old st cl t = (Ok (), t')"
  shows "\<exists>v :: u32. vmcs E t' (VmcsControl32_number control) = Some (as_u64 v) \<and> v AND st = st \<and> v AND cl = 0"
  using set_control_Ok [OF assms] by auto

lemma setup_vmcs_control_values:
  fixes E :: "('m, 'a) x86_env" and s :: "('m, 'a, 'z) x86_scheme"
  assumes "vmx_ok (cpu E)" and "x86_consts_ok (crates E)" and "vmcs_loaded E s"
    and "setup_vmcs_control E G vcpu s = (Ok (), s')"
  shows "\<exists>v :: u32. vmcs E s' (VmcsControl32_number PINBASED_EXEC_CONTROLS) = Some (as_u64 v) \<and> v AND 9 = 9"
    and "\<exists>v :: u32. vmcs E s' (VmcsControl32_number PRIMARY_PROCBASED_EXEC_CONTROLS) = Some (as_u64 v)
      \<and> v AND 0x91000000 = 0x91000000 \<and> v AND 0x18000 = 0"
    and "\<exists>v :: u32. vmcs E s' (VmcsControl32_number SECONDARY_PROCBASED_EXEC_CONTROLS) = Some (as_u64 v)
      \<and> v AND 0x108a = 0x108a"
    and "vmcs E s' (VmcsControl64_number EPTP) = Some (from_table_phys (root_paddr G (ept vcpu)))"
    and "vmcs E s' (VmcsControl32_number EXCEPTION_BITMAP) = Some 8"
    and "vmcs E s' (VmcsControl64_number MSR_BITMAPS_ADDR) =
      Some (as_u64 (MsrBitmap_phys_addr (msr_bitmap vcpu)))"
proof -
  have ok: "vmcs_ok (cpu E)" using assms(1) by blast
  note L = assms(4) [unfolded setup_vmcs_control_def Let_def]
  note own = only_writes_intros assms(1) ok
  have kc: "NMI_EXITING (crates E) OR EXTERNAL_INTERRUPT_EXITING (crates E) = 9"
    "UNCOND_IO_EXITING (crates E) OR USE_MSR_BITMAPS (crates E) OR SECONDARY_CONTROLS (crates E) = 0x91000000"
    "CR3_LOAD_EXITING (crates E) OR CR3_STORE_EXITING (crates E) = 0x18000"
    "ENABLE_EPT (crates E) OR ENABLE_RDTSCP (crates E) OR ENABLE_INVPCID (crates E)
       OR UNRESTRICTED_GUEST (crates E) = 0x108a"
    "shl 1 (unat (BREAKPOINT_VECTOR (crates E))) = (8 :: u32)"
    using assms(2) by (simp_all add: x86_consts_ok_def)
  note val = hseqs_value [OF L [unfolded kc] assms(3)]
  show "\<exists>v :: u32. vmcs E s' (VmcsControl32_number PINBASED_EXEC_CONTROLS) = Some (as_u64 v)
      \<and> v AND 9 = 9"
    by (rule val [where k = 0 and f = "VmcsControl32_number PINBASED_EXEC_CONTROLS"
          and Q = "\<lambda>x. \<exists>v :: u32. x = Some (as_u64 v) \<and> v AND 9 = 9"])
      (use set_control_value [OF ok] in \<open>fastforce simp: hbind_Msr_read intro!: own\<close>)+
  show "\<exists>v :: u32. vmcs E s' (VmcsControl32_number PRIMARY_PROCBASED_EXEC_CONTROLS) = Some (as_u64 v)
      \<and> v AND 0x91000000 = 0x91000000 \<and> v AND 0x18000 = 0"
    by (rule val [where k = 1 and f = "VmcsControl32_number PRIMARY_PROCBASED_EXEC_CONTROLS"
          and Q = "\<lambda>x. \<exists>v :: u32. x = Some (as_u64 v) \<and> v AND 0x91000000 = 0x91000000 \<and> v AND 0x18000 = 0"])
      (use set_control_value [OF ok] in \<open>fastforce simp: hbind_Msr_read intro!: own\<close>)+
  show "\<exists>v :: u32. vmcs E s' (VmcsControl32_number SECONDARY_PROCBASED_EXEC_CONTROLS) = Some (as_u64 v)
      \<and> v AND 0x108a = 0x108a"
    by (rule val [where k = 2 and f = "VmcsControl32_number SECONDARY_PROCBASED_EXEC_CONTROLS"
          and Q = "\<lambda>x. \<exists>v :: u32. x = Some (as_u64 v) \<and> v AND 0x108a = 0x108a"])
      (use set_control_value [OF ok] in \<open>fastforce simp: hbind_Msr_read intro!: own\<close>)+
  show "vmcs E s' (VmcsControl64_number EPTP) = Some (from_table_phys (root_paddr G (ept vcpu)))"
    by (rule val [where k = 5 and f = "VmcsControl64_number EPTP"
          and Q = "\<lambda>x. x = Some (from_table_phys (root_paddr G (ept vcpu)))"])
      (use set_ept_pointer_value [OF assms(1)] in \<open>fastforce intro!: own\<close>)+
  show "vmcs E s' (VmcsControl32_number EXCEPTION_BITMAP) = Some 8"
    by (rule val [where k = 9 and f = "VmcsControl32_number EXCEPTION_BITMAP"
          and Q = "\<lambda>x. x = Some 8"])
      (use vmcs_write_value(1) [OF ok, of _ EXCEPTION_BITMAP 8] in \<open>fastforce intro!: own\<close>)+
  show "vmcs E s' (VmcsControl64_number MSR_BITMAPS_ADDR) = Some (as_u64 (MsrBitmap_phys_addr (msr_bitmap vcpu)))"
    by (rule val [where k = 12 and f = "VmcsControl64_number MSR_BITMAPS_ADDR"
          and Q = "\<lambda>x. x = Some (as_u64 (MsrBitmap_phys_addr (msr_bitmap vcpu)))"])
      (use vmcs_write_value(2) [OF ok] in \<open>fastforce intro!: own\<close>)+
qed

section \<open>A new vCPU\<close>

lemma zero_page_clear:
  assumes "unat (H_PAGE_SIZE (halops E)) = 0x1000"
  shows "\<not> intercepted (store_bytes m p (replicate (unat (H_PAGE_SIZE (halops E))) 0)) p msr w"
proof -
  have "msr_bit msr w div 8 < 0x1000" using msr_bit_less [of msr w] by simp
  then show ?thesis
    using assms by (simp add: intercepted_def bitmap_bit_def store_bytes_def unat_of_nat_usize)
qed

lemma distinct_boot_fields: "distinct (map fst (boot_fields entry pat))"
  by (simp add: boot_fields_def)

lemma boot_fields_all:
  "list_all (\<lambda>(f, v). field_trunc f v = v) (boot_fields entry pat)"
  "list_all (\<lambda>(f, v). f \<notin> set control_fields) (boot_fields entry pat)"
  "list_all (\<lambda>(f, v). field_of f 10 12 \<noteq> 3) (boot_fields entry pat)"
  by (simp_all add: boot_fields_def field_trunc_def control_fields_def field_of_def)

lemma boot_fields_fit: "(f, v) \<in> set (boot_fields entry pat) \<Longrightarrow> field_trunc f v = v"
  using boot_fields_all(1) unfolding list_all_iff by fast

lemma boot_fields_not_control: "(f, v) \<in> set (boot_fields entry pat) \<Longrightarrow> f \<notin> set control_fields"
  using boot_fields_all(2) unfolding list_all_iff by fast

lemma boot_fields_not_host:
  assumes "(f, v) \<in> set (boot_fields entry pat)"
  shows "f \<notin> class_fields HostState"
proof
  assume "f \<in> class_fields HostState"
  then obtain g where "f = field_number g" "field_class_of g = HostState" by (auto simp: class_fields_def)
  then have "field_of f 10 12 = 3" using field_encoding [of g] by (simp add: encoding_def)
  then show False using boot_fields_all(3) assms unfolding list_all_iff by fast
qed

lemma host_not_boot_field: "VmcsHostNW_number h \<notin> fst ` set (boot_fields entry pat)"
proof
  assume "VmcsHostNW_number h \<in> fst ` set (boot_fields entry pat)"
  then obtain x where x: "VmcsHostNW_number h = fst x" "x \<in> set (boot_fields entry pat)" by (rule imageE)
  have "(VmcsHostNW_number h, snd x) \<in> set (boot_fields entry pat)" unfolding x(1) using x(2) by simp
  from boot_fields_not_host [OF this] show False using class_fields_member(4) [of h] by (rule notE)
qed

lemma writesD:
  "writes E ob ws c \<Longrightarrow> vmcs_loaded E s \<Longrightarrow> cpu_obs (cpu E) (hw s) = ob \<Longrightarrow> does_writes E ws c s"
  by (simp add: writes_def)

lemma drop_on_err_Ok: "drop_on_err m d s = (Ok x, t) \<longleftrightarrow> m s = (Ok x, t)"
  by (auto simp: drop_on_err_def hseq_eq_Ok herr_def split: prod.splits outcome.splits)

lemma setup_vmcs_Ok:
  assumes "vmx_ok (cpu E)" and "x86_consts_ok (crates E)" and "setup_vmcs E G vcpu entry s = (Ok (), s')"
  obtains u where "vmcs_loaded E u" and "mem s' = mem s"
    and "setup_vmcs_control E G vcpu u = (Ok (), s')"
    and "vmcs E u (VmcsHostNW_number VmcsHostNW.RIP) = Some (vmx_exit_symbol E)"
    and "\<exists>pat. \<forall>(f, v) \<in> set (boot_fields entry pat). vmcs E s' f = Some v"
proof -
  have ok: "vmcs_ok (cpu E)" using assms(1) by blast
  let ?p = "as_u64 (VmxRegion_phys_addr (vmcs_region vcpu))"
  obtain s1 s2 s3 s4 where st: "vm_instr (vmclear (cpu E) ?p) s = (Ok (), s1)"
    "vm_instr (vmptrld (cpu E) ?p) s1 = (Ok (), s2)" "setup_vmcs_host E s2 = (Ok (), s3)"
    "setup_vmcs_guest E entry s3 = (Ok (), s4)" "setup_vmcs_control E G vcpu s4 = (Ok (), s')"
    using assms(3) by (auto simp: setup_vmcs_def Let_def hseq_eq_Ok hret_def)
  have m2: "mem s2 = mem s" using st(1,2) by (auto simp: vm_instr_def split: prod.splits if_splits)
  have l2: "vmcs_loaded E s2"
    using st(2) assms(1)
    by (auto simp: vm_instr_def vmcs_loaded_def vmcs_def vmx_ok_def split: prod.splits if_splits)
      (metis fst_conv snd_conv option.discI)
  note H = only_writesD [OF setup_vmcs_host_only [OF ok] l2 st(3)]
  let ?ob = "cpu_obs (cpu E) (hw s3)"
  define pat where "pat = fst ?ob (Msr_number Msr.IA32_PAT)"
  have "does_writes E (boot_fields entry pat) (setup_vmcs_guest E entry) s3"
    unfolding pat_def by (rule writesD [OF setup_vmcs_guest_writes [OF ok assms(2)] H(2) refl])
  note G = does_writesD [OF this st(4)]
  have l4: "vmcs_loaded E s4" by (rule loaded_after_writes [OF H(2) G(3)])
  note C = only_writesD [OF setup_vmcs_control_only [OF assms(1)] l4 st(5)]
  have "vmcs E s' f = Some v" if "(f, v) \<in> set (boot_fields entry pat)" for f v
  proof -
    have "map_of (rev (boot_fields entry pat)) f = Some v"
      using that distinct_boot_fields [of entry pat] by (simp add: map_of_eq_Some_iff rev_map [symmetric])
    then show ?thesis
      using C(3) [OF boot_fields_not_control [OF that]] G(3) boot_fields_fit [OF that]
      by (simp add: apply_writes_last)
  qed
  moreover have "vmcs E s4 (VmcsHostNW_number VmcsHostNW.RIP) = Some (vmx_exit_symbol E)"
  proof -
    have "VmcsHostNW_number VmcsHostNW.RIP \<notin> fst ` set (boot_fields entry pat)"
      by (rule host_not_boot_field)
    then show ?thesis
      using setup_vmcs_host_rip [OF ok l2 st(3)] G(3) by (simp add: apply_writes_other del: VmcsHostNW_number.simps)
  qed
  moreover have "mem s' = mem s" using m2 H(1) G(2) C(1) by (metis x86.select_convs(2) x86.update_convs(1) x86.surjective)
  ultimately show ?thesis using that [OF l4 _ st(5)] by blast
qed


text \<open>On the sample processor every step of the set-up succeeds.\<close>

definition std_runs :: "((std_cpu, std_hal) x86, 'b) hm \<Rightarrow> bool" where
  "std_runs m \<longleftrightarrow> (\<forall>s. c_msr (hw s) = std_msr \<longrightarrow> (\<exists>x t. m s = (Ok x, t) \<and> c_msr (hw t) = std_msr))"

lemma std_runs_hbind [intro]: "std_runs m \<Longrightarrow> (\<And>x. std_runs (f x)) \<Longrightarrow> std_runs (hbind m f)"
  unfolding std_runs_def hbind_def by fastforce

lemma std_runs_hseq [intro]: "std_runs m \<Longrightarrow> std_runs n \<Longrightarrow> std_runs (hseq m n)"
  unfolding hseq_def by (rule std_runs_hbind)

lemma std_runs_hseqs [intro]: "list_all std_runs ms \<Longrightarrow> std_runs (hseqs ms)"
  by (induction ms) (simp_all add: std_runs_hseq, simp add: std_runs_def hret_def)

lemma std_runs_pure [simp]: "std_runs (hret x)" "std_runs (hget g)" "std_runs (hw_read h)"
  "std_runs (Msr_read std_env n)"
  by (simp_all add: std_runs_def hret_def hget_def hw_read_def Msr_read_def)

lemma std_runs_write [simp]: "std_runs (vmcs_write std_env f v)"
  by (simp add: std_runs_def vmcs_write_def vm_instr_def std_cpu_ops_def)

lemma std_runs_control [simp]:
  assumes "msr \<in> {Msr.IA32_VMX_TRUE_PINBASED_CTLS, Msr.IA32_VMX_TRUE_PROCBASED_CTLS,
    Msr.IA32_VMX_PROCBASED_CTLS2, Msr.IA32_VMX_TRUE_EXIT_CTLS, Msr.IA32_VMX_TRUE_ENTRY_CTLS}"
    and "st AND cl = 0" and "0x16 AND cl = 0"
  shows "std_runs (set_control std_env ctl msr old st cl)"
proof -
  have m: "std_msr (Msr_number msr) = 0xffffffff00000016" using assms(1) by (auto simp: std_msr_def)
  have "as_u32 (0xffffffff00000016 :: u64) = 0x16" "as_u32 (shr (0xffffffff00000016 :: u64) 32) = 0xffffffff"
    by (simp_all add: shr_def)
  moreover have n: "(0xffffffff00000016 :: u32) = 0x16" by simp
  moreover have "0xffffffff AND st = st"
  proof -
    have "(0xffffffff :: u32) = -1" by simp
    then show ?thesis by (simp only: and.left_neutral)
  qed
  ultimately show ?thesis
    unfolding std_runs_def set_control_def Let_def Msr_read_def vmcs_access_defs
    using assms(2,3) std_runs_write
    by (auto simp: hm_defs m n std_cpu_ops_def vmcs_write_def vm_instr_def)
qed

lemma std_runs_tr_base: "\<exists>b. get_tr_base std_env m 24 (0x3f, 0x2000) = Ok b"
  by (simp add: get_tr_base_def gdt_entry_def std_cpu_ops_def Let_def)

lemma hw_read_const: "hbind (hw_read (\<lambda>m. c)) f = f c"
  by (simp add: hw_read_def hm_defs fun_eq_iff)

lemma std_runs_host: "std_runs (setup_vmcs_host std_env)"
proof -
  have tr: "std_runs (hbind (hget mem) (\<lambda>m. hbind (hlift (get_tr_base std_env m 24 (0x3f, 0x2000)))
      (\<lambda>b. VmcsHostNW_write std_env VmcsHostNW.TR_BASE (as_usize b))))"
    using std_runs_tr_base std_runs_write
    by (fastforce simp: std_runs_def hm_defs vmcs_access_defs)
  have d: "task_tr std_cpu_ops = (\<lambda>m. 24)" "sgdt std_cpu_ops = (\<lambda>m. (0x3f, 0x2000))"
    "sidt std_cpu_ops = (\<lambda>m. (0xfff, 0x3000))" by (simp_all add: std_cpu_ops_def)
  show ?thesis
    unfolding setup_vmcs_host_def Let_def std_env_simps d hw_read_const
    using tr by (simp add: std_runs_hseq std_runs_hbind vmcs_access_defs)
qed

lemma std_runs_guest: "std_runs (setup_vmcs_guest std_env entry)"
  unfolding setup_vmcs_guest_def set_guest_segment_def Let_def vmcs_access_defs
  by (simp add: std_runs_hseq std_runs_hbind)

lemma std_runs_controls: "std_runs (setup_vmcs_control std_env G vcpu)"
proof -
  have "std_runs (invept std_env t e)" for t e
    by (simp add: std_runs_def invept_def vmx_capture_status_def hm_defs std_cpu_ops_def
        x86_crates_std_def contains_flags_def)
  then show ?thesis
    unfolding setup_vmcs_control_def set_ept_pointer_def Let_def
    by (simp add: std_runs_hbind std_runs_hseq x86_crates_std_def vmcs_access_defs)
qed

lemma std_runs_setup: "std_runs (setup_vmcs std_env G vcpu entry)"
proof -
  have "std_runs (vm_instr (vmclear std_cpu_ops p))" "std_runs (vm_instr (vmptrld std_cpu_ops p))" for p
    by (simp_all add: std_runs_def vm_instr_def std_cpu_ops_def)
  then show ?thesis
    by (simp add: setup_vmcs_def Let_def std_runs_hseq std_runs_host std_runs_guest std_runs_controls)
qed

lemma std_runs_msr_bitmap: "std_runs (setup_msr_bitmap std_env vcpu)"
proof -
  have "std_runs (set_intercept std_env b msr w True)" if "msr_in_bitmap msr" for b msr w
    using that by (simp add: std_runs_def set_intercept_run Let_def)
  moreover have "\<forall>msr \<in> set (0x1b # x2apic_msrs). msr_in_bitmap msr"
    by (auto simp: set_x2apic_msrs msr_in_bitmap_def)
  moreover have "IA32_APIC_BASE x86_crates_std = 0x1b" by (simp add: x86_crates_std_def)
  ultimately show ?thesis
    unfolding setup_msr_bitmap_def Let_def set_read_intercept_def set_write_intercept_def
    by (intro std_runs_hseq std_runs_hseqs) (auto simp: list_all_iff intro!: std_runs_hseq)
qed

lemma std_runs_frames: "std_runs (drop_on_err m d)" if "std_runs m"
  using that by (fastforce simp: std_runs_def drop_on_err_def)

lemma std_alloc:
  assumes "next_va (xhal s) \<noteq> 0"
  shows "\<exists>t. alloc_zero std_env s = (Ok \<lparr>start_paddr = next_va (xhal s)\<rparr>, t) \<and> hw t = hw s
    \<and> next_va (xhal t) = next_va (xhal s) + 0x1000"
  using assms by (simp add: alloc_zero_def PhysFrame_alloc_def fill_def alloc_page_def std_hal_ops_def hm_defs)

lemma std_region:
  assumes "next_va (xhal s) \<noteq> 0"
  shows "\<exists>reg t. VmxRegion_new std_env 1 False s = (Ok reg, t) \<and> hw t = hw s
    \<and> next_va (xhal t) = next_va (xhal s) + 0x1000"
proof -
  obtain t where "alloc_zero std_env s = (Ok \<lparr>start_paddr = next_va (xhal s)\<rparr>, t)" "hw t = hw s"
    "next_va (xhal t) = next_va (xhal s) + 0x1000"
    using std_alloc [OF assms] by blast
  then show ?thesis by (simp add: VmxRegion_new_def hm_defs x86_crates_std_def)
qed

lemma std_new:
  assumes "vmcs_revision_id pcpu = 1"
  shows "\<exists>(vcpu :: ('g, 'i) VmxVcpu) s'. VmxVcpu_new std_env G pcpu entry g std_state = (Ok vcpu, s')"
proof -
  obtain reg t where r: "VmxRegion_new std_env (vmcs_revision_id pcpu) False std_state = (Ok reg, t)"
      "hw t = hw std_state" "next_va (xhal t) = 0x11000"
    using std_region [of std_state] assms by (auto simp: std_state_def)
  obtain b u where b: "passthrough_all std_env t = (Ok b, u)" "hw u = hw std_state"
    using std_alloc [of t] r by (auto simp: passthrough_all_def hm_defs)
  have "std_runs (drop_on_err (hseq (setup_msr_bitmap std_env vcpu) (setup_vmcs std_env G vcpu entry))
     (VmxVcpu_drop std_env vcpu))" for vcpu :: "('g, 'i) VmxVcpu"
    by (intro std_runs_frames std_runs_hseq std_runs_setup std_runs_msr_bitmap)
  moreover have "c_msr (hw u) = std_msr" by (simp add: b std_state_def)
  ultimately have d: "\<exists>t'. drop_on_err (hseq (setup_msr_bitmap std_env vcpu) (setup_vmcs std_env G vcpu entry))
     (VmxVcpu_drop std_env vcpu) u = (Ok (), t')" for vcpu :: "('g, 'i) VmxVcpu"
    unfolding std_runs_def by fastforce
  have b': "drop_on_err (passthrough_all std_env) (VmxRegion_drop std_env reg) t = (Ok b, u)"
    using b(1) by (simp add: drop_on_err_Ok)
  show ?thesis
    unfolding VmxVcpu_new_def hbind_run [of "VmxRegion_new std_env (vmcs_revision_id pcpu) False" std_state, OF r(1)]
      hbind_run [of "drop_on_err (passthrough_all std_env) (VmxRegion_drop std_env reg)" t, OF b'] Let_def
    by (rule exE [OF d]) (rule exI, rule exI, erule hseq_run [THEN trans], simp add: hret_def)
qed


end
