(* ===== verification/X86_Gdb.thy ===== *)
theory X86_Gdb
  imports Vmx_Vcpu
begin

text \<open>
  \<open>src/src/arch/x86_64/gdb.rs\<close>: the debugger interface of an x86 vCPU. The target operations
  run on the state of the vCPU; \<open>None\<close> as result is the error \<open>Errno(1)\<close>. The stub and
  the loop that feeds it are those of \<open>Gdb_Stub\<close>.
\<close>

section \<open>Target operations\<close>

definition get_page :: "('m, 'a) x86_env \<Rightarrow> 'g gpt_ops \<Rightarrow> usize \<Rightarrow>
    (('m, 'a, 'g, 'i) vcpu_x86, (usize \<times> usize) option) hm" where
  "get_page E G addr =
     hbind (cr3 E) (\<lambda>root.
     hbind (hget (\<lambda>s. ept (self s))) (\<lambda>g.
       hlift (page_query G g root
         (\<lambda>guest_addr. obind (unwrap (translate G g guest_addr)) (\<lambda>host_addr.
            Ok (H_phys_to_virt (halops E) host_addr)))
         addr)))"

text \<open>The part of \<open>X86_64CoreRegs\<close> that the sources access.\<close>

record X86_64CoreRegs =
  core_regs :: "u64 list"
  core_rip :: u64

definition read_registers :: "('m, 'a) x86_env \<Rightarrow> X86_64CoreRegs \<Rightarrow>
    (('m, 'a, 'g, 'i) vcpu_x86, X86_64CoreRegs) hm" where
  "read_registers E regs =
     hbind (hget (\<lambda>s. guest_regs (self s))) (\<lambda>gpr.
     hbind (stack_pointer E) (\<lambda>rsp.
     hbind (rip E) (\<lambda>pc.
       hret (regs\<lparr>
         core_regs := [rax gpr, rbx gpr, rcx gpr, rdx gpr, rsi gpr, rdi gpr, rbp gpr, as_u64 rsp,
           r8 gpr, r9 gpr, r10 gpr, r11 gpr, r12 gpr, r13 gpr, r14 gpr, r15 gpr],
         core_rip := as_u64 pc\<rparr>))))"

definition write_registers :: "('m, 'a) x86_env \<Rightarrow> X86_64CoreRegs \<Rightarrow>
    (('m, 'a, 'g, 'i) vcpu_x86, unit) hm" where
  "write_registers E regs =
     (let x = (\<lambda>i. core_regs regs ! i) in
      hseqs [
        hmod (\<lambda>s. s\<lparr>self := (self s)\<lparr>guest_regs := (guest_regs (self s))\<lparr>
          rax := x 0, rbx := x 1, rcx := x 2, rdx := x 3, rsi := x 4, rdi := x 5, rbp := x 6,
          r8 := x 8, r9 := x 9, r10 := x 10, r11 := x 11, r12 := x 12, r13 := x 13, r14 := x 14,
          r15 := x 15\<rparr>\<rparr>\<rparr>),
        set_stack_pointer E (as_usize (x 7)),
        set_rip E (as_usize (core_rip regs))])"

text \<open>
  The address and length of a memory access: with paging off the address is physical;
  otherwise the access is cut at the end of the page.
\<close>

definition access_window :: "('m, 'a) x86_env \<Rightarrow> 'g gpt_ops \<Rightarrow> u64 \<Rightarrow> usize \<Rightarrow>
    (('m, 'a, 'g, 'i) vcpu_x86, (usize \<times> usize) option) hm" where
  "access_window E G start_addr count =
     hbind (cr0 E) (\<lambda>c.
       if contains_flags (as_u64 c) (CR0_PAGING (crates E)) then
         hbind (get_page E G (as_usize start_addr)) (\<lambda>page. case page of
             None \<Rightarrow> hret None
           | Some (paddr, page_size) \<Rightarrow>
               if page_size = 0 then hpanic DivideByZero
               else hret (Some (paddr, min count (page_size - paddr mod page_size))))
       else hret (Some (as_usize start_addr, count)))"

text \<open>The value of a call whose error becomes \<open>Errno(1)\<close>.\<close>

fun errno :: "'b outcome \<Rightarrow> 'b option outcome" where
  "errno (Ok x) = Ok (Some x)"
| "errno (Err e) = Ok None"
| "errno (Panic p) = Panic p"

definition ept_write :: "'g gpt_ops \<Rightarrow> usize \<Rightarrow> u8 list \<Rightarrow> (('m, 'a, 'g, 'i) vcpu_x86, unit option) hm" where
  "ept_write G addr bs s =
     (case write_guest_phys_addrs G (ept (self s)) addr bs of
        (r, g) \<Rightarrow> (errno r, s\<lparr>self := (self s)\<lparr>ept := g\<rparr>\<rparr>))"

definition read_addrs :: "('m, 'a) x86_env \<Rightarrow> 'g gpt_ops \<Rightarrow> u64 \<Rightarrow> u8 list \<Rightarrow>
    (('m, 'a, 'g, 'i) vcpu_x86, (nat \<times> u8 list) option) hm" where
  "read_addrs E G start_addr data =
     hbind (access_window E G start_addr (of_nat (length data))) (\<lambda>w. case w of
         None \<Rightarrow> hret None
       | Some (addr, count) \<Rightarrow>
           hbind (hget (\<lambda>s. ept (self s))) (\<lambda>g.
           hbind (hlift (errno (read_guest_phys_addrs G g addr count))) (\<lambda>r.
             hret (map_option (\<lambda>bs. (length bs, bs @ drop (length bs) data)) r))))"

definition write_addrs :: "('m, 'a) x86_env \<Rightarrow> 'g gpt_ops \<Rightarrow> u64 \<Rightarrow> u8 list \<Rightarrow>
    (('m, 'a, 'g, 'i) vcpu_x86, unit option) hm" where
  "write_addrs E G start_addr data =
     hbind (access_window E G start_addr (of_nat (length data))) (\<lambda>w. case w of
         None \<Rightarrow> hret None
       | Some (addr, count) \<Rightarrow> ept_write G addr (take (unat count) data))"

definition resume :: "(('m, 'a, 'g, 'i) vcpu_x86, unit) hm" where
  "resume = hret ()"

definition step :: "('m, 'a) x86_env \<Rightarrow> (('m, 'a, 'g, 'i) vcpu_x86, unit) hm" where
  "step E = set_monitor_trap_flag E True"

definition add_sw_breakpoint :: "('m, 'a) x86_env \<Rightarrow> 'g gpt_ops \<Rightarrow> u64 \<Rightarrow>
    (('m, 'a, 'g, 'i) vcpu_x86, bool) hm" where
  "add_sw_breakpoint E G bp_addr =
     hbind (cr0 E) (\<lambda>c.
     hbind (if contains_flags (as_u64 c) (CR0_PAGING (crates E))
            then hbind (cr3 E) (\<lambda>root. hbind (get_page E G root) (\<lambda>page. hret (map_option fst page)))
            else hret (Some (as_usize bp_addr))) (\<lambda>addr.
     case addr of
       None \<Rightarrow> hret False
     | Some addr \<Rightarrow>
         hbind (hget (\<lambda>s. ept (self s))) (\<lambda>g.
         hbind (hlift (errno (read_guest_phys_addrs G g addr 1))) (\<lambda>inst.
         case inst of
           None \<Rightarrow> hret False
         | Some inst \<Rightarrow>
             hbind (ept_write G addr [0xcc]) (\<lambda>w.
             case w of
               None \<Rightarrow> hret False
             | Some _ \<Rightarrow>
                 hseq (hmod (\<lambda>s. s\<lparr>self := (self s)\<lparr>breakpoints :=
                   (breakpoints (self s))(as_usize bp_addr \<mapsto> (addr, inst))\<rparr>\<rparr>))
                 (hret True))))))"

definition remove_sw_breakpoint :: "'g gpt_ops \<Rightarrow> u64 \<Rightarrow> (('m, 'a, 'g, 'i) vcpu_x86, bool option) hm" where
  "remove_sw_breakpoint G bp_addr =
     hbind (hget (\<lambda>s. breakpoints (self s) (as_usize bp_addr))) (\<lambda>b.
     case b of
       Some (addr, inst) \<Rightarrow>
         hseq (hmod (\<lambda>s. s\<lparr>self := (self s)\<lparr>breakpoints := (breakpoints (self s))(as_usize bp_addr := None)\<rparr>\<rparr>))
         (hbind (ept_write G addr inst) (\<lambda>r. hret (map_option (\<lambda>_. True) r)))
     | None \<Rightarrow> hret (Some False))"

section \<open>The server loop\<close>

abbreviation set_gdbstub :: "'i GdbStubStateMachine option \<Rightarrow> ('m, 'a, 'g, 'i) vcpu_x86 \<Rightarrow>
    ('m, 'a, 'g, 'i) vcpu_x86" where
  "set_gdbstub d s \<equiv> s\<lparr>self := (self s)\<lparr>gdbstub := d\<rparr>\<rparr>"

definition gdbserver_init :: "(('m, 'a, 'g, 'i) vcpu_x86, 'i) gdb_ops \<Rightarrow> ('m, 'a, 'g, 'i) vcpu_x86 \<Rightarrow>
    ('m, 'a, 'g, 'i) vcpu_x86" where
  "gdbserver_init go s =
     (case run_state_machine go s of
        (Some gdb, s) \<Rightarrow> set_gdbstub (Some gdb) s
      | (None, s) \<Rightarrow> s)"

definition gdbserver_loop :: "(('m, 'a, 'g, 'i) vcpu_x86, 'i) gdb_ops \<Rightarrow> ('m, 'a, 'g, 'i) vcpu_x86 \<Rightarrow>
    (unit outcome \<times> ('m, 'a, 'g, 'i) vcpu_x86) option" where
  "gdbserver_loop go s =
     (case gdbstub (self s) of
        None \<Rightarrow> Some (Ok (), s)
      | Some gdb \<Rightarrow>
          map_option (\<lambda>(r, s). case r of
              Ok gdb \<Rightarrow> (Ok (), set_gdbstub (Some gdb) s)
            | Err e \<Rightarrow> (Err e, s)
            | Panic p \<Rightarrow> (Panic p, s))
          (gdb_loop go gdb (set_gdbstub None s)))"

definition gdbserver_report :: "(('m, 'a, 'g, 'i) vcpu_x86, 'i) gdb_ops \<Rightarrow> ('m, 'a, 'g, 'i) vcpu_x86 \<Rightarrow>
    (unit outcome \<times> ('m, 'a, 'g, 'i) vcpu_x86) option" where
  "gdbserver_report go s =
     (case gdbstub (self s) of
        None \<Rightarrow> Some (Panic UnwrapFailed, s)
      | Some gdb \<Rightarrow>
          (let s = set_gdbstub None s in
           case gdb of
             StubRunning gdb_inner \<Rightarrow>
               (case report_stop go gdb_inner s of
                  (Some gdb_state, s) \<Rightarrow> gdbserver_loop go (set_gdbstub (Some gdb_state) s)
                | (None, s) \<Rightarrow> Some (Ok (), s))
           | _ \<Rightarrow> gdbserver_loop go (set_gdbstub (Some gdb) s)))"

section \<open>What the debugger can do to a vCPU\<close>

inductive target_step :: "('m, 'a) x86_env \<Rightarrow> 'g gpt_ops \<Rightarrow> ('m, 'a, 'g, 'i) vcpu_x86 \<Rightarrow>
    ('m, 'a, 'g, 'i) vcpu_x86 \<Rightarrow> bool" for E G where
  write_registers: "target_step E G s (snd (write_registers E regs s))"
| write_addrs: "target_step E G s (snd (write_addrs E G a data s))"
| step: "target_step E G s (snd (step E s))"
| add_sw_breakpoint: "target_step E G s (snd (add_sw_breakpoint E G a s))"
| remove_sw_breakpoint: "target_step E G s (snd (remove_sw_breakpoint G a s))"

abbreviation target_steps :: "('m, 'a) x86_env \<Rightarrow> 'g gpt_ops \<Rightarrow> ('m, 'a, 'g, 'i) vcpu_x86 \<Rightarrow>
    ('m, 'a, 'g, 'i) vcpu_x86 \<Rightarrow> bool" where
  "target_steps E G \<equiv> (target_step E G)\<^sup>*\<^sup>*"

text \<open>The crate changes the vCPU through the target operations only.\<close>

definition gdb_ok :: "('m, 'a) x86_env \<Rightarrow> 'g gpt_ops \<Rightarrow>
    (('m, 'a, 'g, 'i) vcpu_x86, 'i) gdb_ops \<Rightarrow> bool" where
  "gdb_ok E G go \<longleftrightarrow>
     (\<forall>i s b. target_steps E G s (snd (incoming_data go i s b)))
     \<and> (\<forall>i s. target_steps E G s (snd (report_stop go i s)))
     \<and> (\<forall>s. target_steps E G s (snd (run_state_machine go s)))"

text \<open>
  What a debugger leaves alone: the queue of events, the timer, the clock, and every field of
  the VMCS but the guest's stack pointer, its program counter and the controls that hold
  the monitor trap flag.
\<close>

definition debug_fields :: "u32 set" where
  "debug_fields = {VmcsGuestNW_number VmcsGuestNW.RSP, VmcsGuestNW_number VmcsGuestNW.RIP,
     VmcsControl32_number PRIMARY_PROCBASED_EXEC_CONTROLS}"

definition vcpu_keeps :: "('m, 'a) x86_env \<Rightarrow> ('m, 'a, 'g, 'i) vcpu_x86 \<Rightarrow>
    ('m, 'a, 'g, 'i) vcpu_x86 \<Rightarrow> bool" where
  "vcpu_keeps E s t \<longleftrightarrow> vmcs_loaded E t \<and> pending_events (self t) = pending_events (self s)
     \<and> apic_timer (self t) = apic_timer (self s) \<and> xhal t = xhal s
     \<and> (\<forall>f. f \<notin> debug_fields \<longrightarrow> vmcs E t f = vmcs E s f)"

lemma vcpu_keeps_refl: "vmcs_loaded E s \<Longrightarrow> vcpu_keeps E s s"
  by (simp add: vcpu_keeps_def)

lemma vcpu_keeps_trans: "vcpu_keeps E s t \<Longrightarrow> vcpu_keeps E t u \<Longrightarrow> vcpu_keeps E s u"
  by (simp add: vcpu_keeps_def)

lemma vmcs_self [simp]:
  "vmcs E (s\<lparr>self := v\<rparr>) = vmcs E s" "vmcs_loaded E (s\<lparr>self := v\<rparr>) = vmcs_loaded E s"
  for s :: "('m, 'a, 'g, 'i) vcpu_x86"
  by (simp_all add: vmcs_loaded_def vmcs_def fun_eq_iff)

lemma vcpu_keeps_gdbstub [simp]:
  "vcpu_keeps E s (set_gdbstub d t) = vcpu_keeps E s t"
  "vcpu_keeps E (set_gdbstub d s) t = vcpu_keeps E s t"
  by (simp_all add: vcpu_keeps_def)

lemma vcpu_keeps_only_writes:
  assumes "only_writes E F c" and "F \<subseteq> debug_fields"
  shows "preserves (vcpu_keeps E s) c"
proof (rule preservesI)
  fix t assume t: "vcpu_keeps E s t"
  obtain r t' where c: "c t = (r, t')" by fastforce
  have l: "vmcs_loaded E t" using t by (simp add: vcpu_keeps_def)
  note W = only_writesD [OF assms(1) l c]
  have "self t' = self t" "xhal t' = xhal t"
    by (subst W(1), simp)+
  moreover have "\<forall>f. f \<notin> debug_fields \<longrightarrow> vmcs E t' f = vmcs E t f" using W(3) assms(2) by blast
  ultimately show "vcpu_keeps E s (snd (c t))"
    using t W(2) by (simp add: c vcpu_keeps_def)
qed

lemma only_writes_hunwrap [only_writes_intros]: "only_writes E F c \<Longrightarrow> only_writes E F (hunwrap c)"
  by (auto simp: only_writes_def hunwrap_def split: prod.splits)

lemma only_writes_read [only_writes_intros]:
  "only_writes E F (VmcsGuestNW_read E f)" "only_writes E F (VmcsControl32_read E g)"
  by (auto simp: only_writes_def VmcsGuestNW_read_def VmcsControl32_read_def vmcs_read_def
      split: option.splits)

lemma accessors_only:
  "only_writes E {} (cr0 E)" "only_writes E {} (cr3 E)"
  by (simp_all add: cr0_def cr3_def only_writes_intros)

lemma set_monitor_trap_flag_only:
  assumes "vmcs_ok (cpu E)"
  shows "only_writes E {VmcsControl32_number PRIMARY_PROCBASED_EXEC_CONTROLS} (set_monitor_trap_flag E on)"
  unfolding set_monitor_trap_flag_def Let_def
  by (intro only_writes_hbind only_writes_read only_writes_field [OF assms]) simp

lemma vcpu_keeps_accessors [preserves_intros]:
  "preserves (vcpu_keeps E s) (cr0 E)" "preserves (vcpu_keeps E s) (cr3 E)"
  using vcpu_keeps_only_writes [OF accessors_only(1)] vcpu_keeps_only_writes [OF accessors_only(2)]
  by simp_all

lemma vcpu_keeps_ept_write [preserves_intros]: "preserves (vcpu_keeps E s) (ept_write G a bs)"
  by (rule preservesI) (auto simp: ept_write_def vcpu_keeps_def split: prod.splits)

lemma vcpu_keeps_get_page [preserves_intros]: "preserves (vcpu_keeps E s) (get_page E G a)"
  unfolding get_page_def by (intro preserves_intros)

lemma vcpu_keeps_window [preserves_intros]:
  "preserves (vcpu_keeps E s) (access_window E G a n)"
  unfolding access_window_def
  by (auto intro!: preserves_intros split: option.splits prod.splits if_splits)

lemma vcpu_keeps_breakpoints [preserves_intros]:
  "preserves (vcpu_keeps E s) (hmod (\<lambda>s. s\<lparr>self := (self s)\<lparr>breakpoints := f s\<rparr>\<rparr>))"
  by (rule preservesI) (simp add: hmod_def vcpu_keeps_def)

lemma target_step_vcpu:
  assumes "vmcs_ok (cpu E)" and "target_step E G s t" and "vmcs_loaded E s"
  shows "vcpu_keeps E s t"
proof -
  note start = vcpu_keeps_refl [OF assms(3)]
  have w: "preserves (vcpu_keeps E s) (write_registers E regs)" for regs
  proof -
    have "preserves (vcpu_keeps E s) (hmod (\<lambda>s. s\<lparr>self := (self s)\<lparr>guest_regs := g s\<rparr>\<rparr>))" for g
      by (rule preservesI) (simp add: hmod_def vcpu_keeps_def)
    moreover have "preserves (vcpu_keeps E s) (set_stack_pointer E v)"
      "preserves (vcpu_keeps E s) (set_rip E v)" for v
      unfolding set_stack_pointer_def set_rip_def
      by (rule vcpu_keeps_only_writes [where F = debug_fields],
          simp_all add: only_writes_intros assms(1) debug_fields_def)+
    ultimately show ?thesis
      unfolding write_registers_def Let_def by (intro preserves_intros) auto
  qed
  have m: "preserves (vcpu_keeps E s) (step E)"
    unfolding step_def
    by (rule vcpu_keeps_only_writes [OF set_monitor_trap_flag_only [OF assms(1)]])
      (simp add: debug_fields_def)
  have d: "preserves (vcpu_keeps E s) (write_addrs E G a data)" for a data
    unfolding write_addrs_def by (auto intro!: preserves_intros split: option.splits prod.splits)
  have b: "preserves (vcpu_keeps E s) (add_sw_breakpoint E G a)" for a
    unfolding add_sw_breakpoint_def
    by (auto intro!: preserves_intros split: option.splits if_splits)
  have r: "preserves (vcpu_keeps E s) (remove_sw_breakpoint G a)" for a
    unfolding remove_sw_breakpoint_def
    by (auto intro!: preserves_intros split: option.splits prod.splits)
  from assms(2) show ?thesis
    by cases (simp_all add: preservesD [OF w start] preservesD [OF m start] preservesD [OF d start]
        preservesD [OF b start] preservesD [OF r start])
qed

lemma target_steps_vcpu:
  assumes "vmcs_ok (cpu E)" and "target_steps E G s t" and "vmcs_loaded E s"
  shows "vcpu_keeps E s t"
  using assms(2)
proof induction
  case base
  then show ?case by (rule vcpu_keeps_refl [OF assms(3)])
next
  case (step t u)
  then show ?case
    using target_step_vcpu [OF assms(1) step(2)] vcpu_keeps_trans
    by (auto simp: vcpu_keeps_def)
qed

lemma gdbserver_loop_keeps:
  assumes "vmcs_ok (cpu E)" and "gdb_ok E G go" and "vmcs_loaded E s"
    and "gdbserver_loop go s = Some (r, t)"
  shows "vcpu_keeps E s t"
proof (cases "gdbstub (self s)")
  case None
  with assms show ?thesis by (simp add: gdbserver_loop_def vcpu_keeps_refl)
next
  case (Some gdb)
  then obtain r1 t1 where loop: "gdb_loop go gdb (set_gdbstub None s) = Some (r1, t1)"
    using assms(4) by (auto simp: gdbserver_loop_def)
  have "vcpu_keeps E s (snd (incoming_data go i u b))" if "vcpu_keeps E s u" for i u b
  proof -
    have "target_steps E G u (snd (incoming_data go i u b))" using assms(2) by (simp add: gdb_ok_def)
    moreover have "vmcs_loaded E u" using that by (simp add: vcpu_keeps_def)
    ultimately show ?thesis using target_steps_vcpu [OF assms(1)] vcpu_keeps_trans that by blast
  qed
  from gdb_loop_inv [of "vcpu_keeps E s", OF this loop] vcpu_keeps_refl [OF assms(3)]
  have "vcpu_keeps E s t1" by simp
  moreover have "t = t1 \<or> (\<exists>d. t = set_gdbstub d t1)"
    using assms(4) Some loop by (auto simp: gdbserver_loop_def split: outcome.splits)
  ultimately show ?thesis by auto
qed

lemma gdbserver_report_keeps:
  assumes "vmcs_ok (cpu E)" and "gdb_ok E G go" and "vmcs_loaded E s"
    and "gdbserver_report go s = Some (r, t)"
  shows "vcpu_keeps E s t"
proof (cases "gdbstub (self s)")
  case None
  with assms show ?thesis by (simp add: gdbserver_report_def vcpu_keeps_refl)
next
  case (Some gdb)
  let ?s = "set_gdbstub None s"
  show ?thesis
  proof (cases "\<exists>i. gdb = StubRunning i")
    case True
    then obtain i where i: "gdb = StubRunning i" by blast
    obtain x u where rep: "report_stop go i ?s = (x, u)" by fastforce
    have "target_steps E G ?s u" using assms(2) rep unfolding gdb_ok_def by (metis snd_conv)
    from target_steps_vcpu [OF assms(1) this] assms(3) have u: "vcpu_keeps E s u" by simp
    then have l: "vmcs_loaded E u" by (simp add: vcpu_keeps_def)
    show ?thesis
    proof (cases x)
      case None
      with u assms(4) Some i rep show ?thesis by (simp add: gdbserver_report_def)
    next
      case (Some d)
      with assms(4) \<open>gdbstub (self s) = _\<close> i rep
      have "gdbserver_loop go (set_gdbstub (Some d) u) = Some (r, t)"
        by (simp add: gdbserver_report_def)
      from gdbserver_loop_keeps [OF assms(1,2) _ this] l have "vcpu_keeps E u t" by simp
      with u show ?thesis by (rule vcpu_keeps_trans)
    qed
  next
    case False
    then have "gdbserver_loop go (set_gdbstub (Some gdb) s) = Some (r, t)"
      using assms(4) Some by (cases gdb) (auto simp: gdbserver_report_def)
    from gdbserver_loop_keeps [OF assms(1,2) _ this] assms(3) show ?thesis by simp
  qed
qed

section \<open>Registers and breakpoints\<close>

lemma cr_read_state: "cr0 E s = (r, t) \<Longrightarrow> t = s" "cr3 E s = (r, t) \<Longrightarrow> t = s"
  by (auto simp: cr0_def cr3_def hunwrap_def VmcsGuestNW_read_def vmcs_read_def
      split: option.splits prod.splits)

lemma get_page_state: "get_page E G a s = (r, t) \<Longrightarrow> t = s"
  unfolding get_page_def
  by (auto simp: hbind_def hget_def hlift_def split: prod.splits outcome.splits dest: cr_read_state)

text \<open>
  Where \<open>add_sw_breakpoint\<close> puts its instruction: at the address itself without paging, and
  with paging at the physical address of the page that the value of CR3 lies in, if it is taken as
  a virtual address.
\<close>

definition breakpoint_addr :: "('m, 'a) x86_env \<Rightarrow> 'g gpt_ops \<Rightarrow> ('m, 'a, 'g, 'i) vcpu_x86 \<Rightarrow>
    u64 \<Rightarrow> usize \<Rightarrow> bool" where
  "breakpoint_addr E G s bp_addr addr \<longleftrightarrow> (\<exists>c. cr0 E s = (Ok c, s) \<and>
     (if contains_flags (as_u64 c) (CR0_PAGING (crates E))
      then \<exists>root page_size. cr3 E s = (Ok root, s) \<and> get_page E G root s = (Ok (Some (addr, page_size)), s)
      else addr = as_usize bp_addr))"

lemma x86_add_breakpoint_Ok:
  assumes "add_sw_breakpoint E G a s = (Ok True, s')"
  obtains addr inst g where "breakpoint_addr E G s a addr"
    and "read_guest_phys_addrs G (ept (self s)) addr 1 = Ok inst"
    and "write_guest_phys_addrs G (ept (self s)) addr [0xcc] = (Ok (), g)"
    and "s' = s\<lparr>self := (self s)\<lparr>ept := g, breakpoints := (breakpoints (self s))(as_usize a \<mapsto> (addr, inst))\<rparr>\<rparr>"
proof -
  define K :: "usize option \<Rightarrow> (('a, 'b, 'c, 'd) vcpu_x86, bool) hm" where "K = (\<lambda>w. case w of
       None \<Rightarrow> hret False
     | Some addr \<Rightarrow>
         hbind (hget (\<lambda>s. ept (self s))) (\<lambda>g.
         hbind (hlift (errno (read_guest_phys_addrs G g addr 1))) (\<lambda>inst.
         case inst of
           None \<Rightarrow> hret False
         | Some inst \<Rightarrow>
             hbind (ept_write G addr [0xcc]) (\<lambda>w.
             case w of
               None \<Rightarrow> hret False
             | Some _ \<Rightarrow>
                 hseq (hmod (\<lambda>s. s\<lparr>self := (self s)\<lparr>breakpoints :=
                   (breakpoints (self s))(as_usize a \<mapsto> (addr, inst))\<rparr>\<rparr>))
                 (hret True)))))"
  define W :: "usize \<Rightarrow> (('a, 'b, 'c, 'd) vcpu_x86, usize option) hm" where
    "W c = (if contains_flags (as_u64 c) (CR0_PAGING (crates E))
      then hbind (cr3 E) (\<lambda>root. hbind (get_page E G root) (\<lambda>page. hret (map_option fst page)))
      else hret (Some (as_usize a)))" for c
  have "hbind (cr0 E) (\<lambda>c. hbind (W c) K) s = (Ok True, s')"
    using assms unfolding add_sw_breakpoint_def K_def W_def .
  then obtain c w t where c: "cr0 E s = (Ok c, s)" and w: "W c s = (Ok w, t)"
    and rest: "K w t = (Ok True, s')"
    using cr_read_state(1) unfolding hbind_eq_Ok by metis
  have t: "t = s"
    using w by (auto simp: W_def hbind_eq_Ok hret_def split: if_splits dest: cr_read_state get_page_state)
  obtain addr where addr: "w = Some addr" using rest by (cases w) (auto simp: K_def hret_def)
  have "breakpoint_addr E G s a addr"
    using w c unfolding addr t breakpoint_addr_def W_def
    by (auto simp: hbind_eq_Ok hret_def split: if_splits dest: cr_read_state get_page_state)
  moreover obtain inst g where "read_guest_phys_addrs G (ept (self s)) addr 1 = Ok inst"
    "write_guest_phys_addrs G (ept (self s)) addr [0xcc] = (Ok (), g)"
    "s' = s\<lparr>self := (self s)\<lparr>ept := g, breakpoints := (breakpoints (self s))(as_usize a \<mapsto> (addr, inst))\<rparr>\<rparr>"
    using rest unfolding addr t K_def
    by (cases "read_guest_phys_addrs G (ept (self s)) addr 1";
        cases "write_guest_phys_addrs G (ept (self s)) addr [0xcc]"; cases "fst (write_guest_phys_addrs G (ept (self s)) addr [0xcc])")
      (auto simp: hm_defs ept_write_def)
  ultimately show thesis by (rule that)
qed

text \<open>
  Claim C31. Setting a breakpoint on x86 and removing it again: \<open>int3\<close> replaces one byte
  of guest memory and no other, and removing the breakpoint gives back every byte and the table of
  breakpoints. The byte is the one at the requested address only while paging is off. With
  paging on it is the one that the value of CR3, taken as a virtual address, is mapped to,
  whatever address was requested.
\<close>

theorem x86_breakpoint_roundtrip:
  assumes "gpt_ok G bytes" and "breakpoints (self s) (as_usize a) = None"
    and "add_sw_breakpoint E G a s = (Ok True, s1)"
  shows "\<exists>addr inst s2. breakpoint_addr E G s a addr
    \<and> breakpoints (self s1) = (breakpoints (self s))(as_usize a \<mapsto> (addr, inst))
    \<and> bytes (ept (self s1)) = (bytes (ept (self s)))(addr \<mapsto> 0xcc)
    \<and> remove_sw_breakpoint G a s1 = (Ok (Some True), s2)
    \<and> bytes (ept (self s2)) = bytes (ept (self s)) \<and> breakpoints (self s2) = breakpoints (self s)
    \<and> (\<forall>b addr'. (\<exists>c. cr0 E s = (Ok c, s) \<and> contains_flags (as_u64 c) (CR0_PAGING (crates E)))
         \<and> breakpoint_addr E G s b addr' \<longrightarrow> addr' = addr)"
proof -
  obtain addr inst g where ad: "breakpoint_addr E G s a addr"
    and rd: "read_guest_phys_addrs G (ept (self s)) addr 1 = Ok inst"
    and wr: "write_guest_phys_addrs G (ept (self s)) addr [0xcc] = (Ok (), g)"
    and s1: "s1 = s\<lparr>self := (self s)\<lparr>ept := g, breakpoints := (breakpoints (self s))(as_usize a \<mapsto> (addr, inst))\<rparr>\<rparr>"
    using assms(3) by (rule x86_add_breakpoint_Ok)
  have off: "unat (x - addr) < 1 \<longleftrightarrow> x = addr" for x :: usize
    using unat_eq_zero [of "x - addr"] by (auto simp: less_Suc_eq)
  have len: "length inst = 1" using gpt_read(1) [OF assms(1) rd] by simp
  have inst: "bytes (ept (self s)) addr = Some (inst ! 0)"
    using gpt_read(2) [OF assms(1) rd, of 0] by simp
  have b1: "bytes g = (bytes (ept (self s)))(addr \<mapsto> 0xcc)"
    using gpt_write(1) [OF assms(1) wr] off by (auto simp: fun_eq_iff)
  then have "bytes g x \<noteq> None" if "x \<in> set (range_addrs addr (length inst))" for x
    using that by (auto simp: set_range_addrs len)
  then obtain g2 where wr2: "write_guest_phys_addrs G g addr inst = (Ok (), g2)"
    using gpt_write_succeeds [OF assms(1)] by blast
  have "bytes g2 = bytes (ept (self s))"
    using gpt_write(1) [OF assms(1) wr2] off b1 inst by (auto simp: fun_eq_iff len)
  moreover define s2 where
    "s2 = s1\<lparr>self := (self s1)\<lparr>breakpoints := (breakpoints (self s1))(as_usize a := None), ept := g2\<rparr>\<rparr>"
  have rm: "remove_sw_breakpoint G a s1 = (Ok (Some True), s2)"
    using wr2 by (simp add: remove_sw_breakpoint_def hm_defs ept_write_def s1 s2_def)
  have bp: "breakpoints (self s2) = breakpoints (self s)"
    "breakpoints (self s1) = (breakpoints (self s))(as_usize a \<mapsto> (addr, inst))"
    using assms(2) by (auto simp: s1 s2_def fun_eq_iff)
  have one: "\<forall>b addr'. (\<exists>c. cr0 E s = (Ok c, s) \<and> contains_flags (as_u64 c) (CR0_PAGING (crates E)))
      \<and> breakpoint_addr E G s b addr' \<longrightarrow> addr' = addr"
    using ad by (auto simp: breakpoint_addr_def)
  have "ept (self s1) = g" "ept (self s2) = g2" by (simp_all add: s1 s2_def)
  ultimately show ?thesis
    using ad b1 rm bp one by (intro exI [of _ addr] exI [of _ inst] exI [of _ s2] conjI) (simp_all only:)
qed

text \<open>A vCPU of the concrete processor, with one byte of guest memory.\<close>

definition std_vcpu :: "(usize \<rightharpoonup> u8, unit) VmxVcpu" where
  "std_vcpu = \<lparr>guest_regs = GeneralRegisters_default, host_stack_top = 0,
     vmcs_region = \<lparr>region_frame = \<lparr>start_paddr = 0x10000\<rparr>\<rparr>,
     msr_bitmap = \<lparr>bitmap_frame = \<lparr>start_paddr = 0x11000\<rparr>\<rparr>,
     apic_timer = ApicTimer_new, pending_events = [], ept = [0x7c00 \<mapsto> 0x90], gdbstub = None,
     breakpoints = Map.empty\<rparr>"

definition std_vcpu_state :: "(std_cpu, std_hal, usize \<rightharpoonup> u8, unit) vcpu_x86" where
  "std_vcpu_state = \<lparr>hw = hw std_state, mem = mem std_state, xhal = xhal std_state, self = std_vcpu\<rparr>"

lemma std_cr0: "cr0 std_env s = (Ok (c_vmcs (hw s) (VmcsGuestNW_number VmcsGuestNW.CR0)), s)"
  by (simp add: cr0_def hunwrap_def VmcsGuestNW_read_def vmcs_read_def std_cpu_ops_def)

lemma std_add_breakpoint:
  "\<exists>s1. add_sw_breakpoint std_env map_gpt 0x7c00 std_vcpu_state = (Ok True, s1)"
  by (simp add: add_sw_breakpoint_def hm_defs std_cr0 std_vcpu_state_def std_state_def std_vcpu_def
      contains_flags_def x86_crates_std_def map_gpt_def range_addrs_def ept_write_def)

theorem x86_breakpoint_roundtrip_witness:
  "\<exists>s1 s2. add_sw_breakpoint std_env map_gpt 0x7c00 std_vcpu_state = (Ok True, s1)
    \<and> ept (self s1) 0x7c00 = Some 0xcc \<and> remove_sw_breakpoint map_gpt 0x7c00 s1 = (Ok (Some True), s2)
    \<and> ept (self s2) = [0x7c00 \<mapsto> 0x90]"
proof -
  obtain s1 where s1: "add_sw_breakpoint std_env map_gpt 0x7c00 std_vcpu_state = (Ok True, s1)"
    using std_add_breakpoint by blast
  have n: "breakpoints (self std_vcpu_state) (as_usize (0x7c00 :: u64)) = None"
    by (simp add: std_vcpu_state_def std_vcpu_def)
  obtain addr s2 where a: "breakpoint_addr std_env map_gpt std_vcpu_state 0x7c00 addr"
    and b: "ept (self s1) = (ept (self std_vcpu_state))(addr \<mapsto> 0xcc)"
    and r: "remove_sw_breakpoint map_gpt 0x7c00 s1 = (Ok (Some True), s2)"
    "ept (self s2) = ept (self std_vcpu_state)"
    using x86_breakpoint_roundtrip [OF map_gpt_ok n s1] by blast
  have "addr = 0x7c00"
    using a by (simp add: breakpoint_addr_def std_cr0 std_vcpu_state_def std_state_def
        contains_flags_def x86_crates_std_def)
  with s1 b r show ?thesis by (auto simp: std_vcpu_state_def std_vcpu_def)
qed

text \<open>The debugger reads back the registers that it wrote.\<close>

lemma x86_registers_roundtrip:
  assumes "vmcs_ok (cpu E)" and "vmcs_loaded E s" and "length (core_regs regs) = 16"
    and "write_registers E regs s = (r, s')"
  shows "r = Ok () \<and> read_registers E regs0 s'
    = (Ok (regs0\<lparr>core_regs := core_regs regs, core_rip := core_rip regs\<rparr>), s')"
proof -
  let ?x = "\<lambda>i. core_regs regs ! i"
  let ?rsp = "VmcsGuestNW_number VmcsGuestNW.RSP" and ?rip = "VmcsGuestNW_number VmcsGuestNW.RIP"
  define s1 where "s1 = s\<lparr>self := (self s)\<lparr>guest_regs := (guest_regs (self s))\<lparr>
      rax := ?x 0, rbx := ?x 1, rcx := ?x 2, rdx := ?x 3, rsi := ?x 4, rdi := ?x 5, rbp := ?x 6,
      r8 := ?x 8, r9 := ?x 9, r10 := ?x 10, r11 := ?x 11, r12 := ?x 12, r13 := ?x 13, r14 := ?x 14,
      r15 := ?x 15\<rparr>\<rparr>\<rparr>"
  have l1: "vmcs_loaded E s1" using assms(2) by (simp add: s1_def)
  obtain q2 s2 where w2: "VmcsGuestNW_write E VmcsGuestNW.RSP (?x 7) s1 = (q2, s2)" by fastforce
  note D2 = does_writesD [OF does_writes_field(8) [OF assms(1) l1] w2]
  have l2: "vmcs_loaded E s2" by (rule loaded_after_writes [OF l1 D2(3)])
  obtain q3 s3 where w3: "VmcsGuestNW_write E VmcsGuestNW.RIP (core_rip regs) s2 = (q3, s3)" by fastforce
  note D3 = does_writesD [OF does_writes_field(8) [OF assms(1) l2] w3]
  have l3: "vmcs_loaded E s3" by (rule loaded_after_writes [OF l2 D3(3)])
  have run: "write_registers E regs s = (Ok (), s3)"
    using w2 w3 D2(1) D3(1)
    by (simp add: write_registers_def Let_def hm_defs s1_def set_stack_pointer_def set_rip_def)
  have tr: "field_trunc (VmcsGuestNW_number f) v = v" for f v
    by (rule field_trunc_typed(4) [OF vmcs_encodings(8)])
  have v: "vmcs E s3 ?rsp = Some (?x 7)" "vmcs E s3 ?rip = Some (core_rip regs)"
    using D2(3) D3(3) tr [of VmcsGuestNW.RSP "?x 7"] tr [of VmcsGuestNW.RIP "core_rip regs"] by simp_all
  have "self s3 = self s1" by (subst D3(2), simp, subst D2(2), simp)
  moreover have "VmcsGuestNW_read E f s3 = (Ok (the (vmcs E s3 (VmcsGuestNW_number f))), s3)" for f
    using vmcs_read_loaded [OF l3, of "FGuestNW f", where 'd = 64] by (simp add: VmcsGuestNW_read_def)
  moreover have "[?x 0, ?x (Suc 0), ?x 2, ?x 3, ?x 4, ?x 5, ?x 6, ?x 7, ?x 8, ?x 9, ?x 10, ?x 11, ?x 12,
      ?x 13, ?x 14, ?x 15] = core_regs regs"
    using assms(3) by (auto simp: length_Suc_conv numeral_eq_Suc)
  ultimately show ?thesis
    using assms(4) run v by (simp add: read_registers_def hm_defs stack_pointer_def rip_def s1_def)
qed

end
