(* ===== verification/Vmx_Exit.thy ===== *)
theory Vmx_Exit
  imports X86_Gdb
begin

text \<open>
  The world switch and the VM-exit handler of \<open>src/src/arch/x86_64/vmx/vcpu.rs\<close> with
  the assembly of \<open>src/src/arch/x86_64/regs.rs\<close>: \<open>run\<close>, \<open>vmx_launch\<close>, \<open>vmx_exit\<close> and
  \<open>vmexit_handler\<close>. The assembly runs on registers and bytes; the vCPU is laid out in memory
  as \<open>repr(C)\<close> says when it runs and read back afterwards. The handler of the embedding
  hypervisor (\<open>H::vmexit_handler\<close>) is a parameter, which may not return.
\<close>

section \<open>The assembly\<close>

datatype gpr = R_rax | R_rcx | R_rdx | R_rbx | R_rsp | R_rbp | R_rsi | R_rdi
  | R_r8 | R_r9 | R_r10 | R_r11 | R_r12 | R_r13 | R_r14 | R_r15

datatype instr =
    Push gpr
  | Pop gpr
  | Sub_rsp u64
  | Add_rsp u64
  | Mov gpr gpr
  | Load gpr gpr u64
  | Store gpr u64 gpr

record asm =
  gprs :: "gpr \<Rightarrow> u64"
  amem :: "usize \<Rightarrow> u8"

definition load8 :: "(usize \<Rightarrow> u8) \<Rightarrow> usize \<Rightarrow> u64" where
  "load8 m a = load_le m a 8"

definition store8 :: "(usize \<Rightarrow> u8) \<Rightarrow> usize \<Rightarrow> u64 \<Rightarrow> usize \<Rightarrow> u8" where
  "store8 m a v = store_le m a 8 v"

fun exec_instr :: "instr \<Rightarrow> asm \<Rightarrow> asm" where
  "exec_instr (Push r) a =
     (let sp = gprs a R_rsp - 8 in
      a\<lparr>gprs := (gprs a)(R_rsp := sp), amem := store8 (amem a) sp (gprs a r)\<rparr>)"
| "exec_instr (Pop r) a =
     (let sp = gprs a R_rsp in
      a\<lparr>gprs := (gprs a)(R_rsp := sp + 8, r := load8 (amem a) sp)\<rparr>)"
| "exec_instr (Sub_rsp n) a = a\<lparr>gprs := (gprs a)(R_rsp := gprs a R_rsp - n)\<rparr>"
| "exec_instr (Add_rsp n) a = a\<lparr>gprs := (gprs a)(R_rsp := gprs a R_rsp + n)\<rparr>"
| "exec_instr (Mov d r) a = a\<lparr>gprs := (gprs a)(d := gprs a r)\<rparr>"
| "exec_instr (Load d r n) a = a\<lparr>gprs := (gprs a)(d := load8 (amem a) (gprs a r + n))\<rparr>"
| "exec_instr (Store r n v) a = a\<lparr>amem := store8 (amem a) (gprs a r + n) (gprs a v)\<rparr>"

primrec exec :: "instr list \<Rightarrow> asm \<Rightarrow> asm" where
  "exec [] a = a"
| "exec (i # is) a = exec is (exec_instr i a)"

definition save_regs_to_stack :: "instr list" where
  "save_regs_to_stack =
     [Push R_r15, Push R_r14, Push R_r13, Push R_r12, Push R_r11, Push R_r10, Push R_r9, Push R_r8,
      Push R_rdi, Push R_rsi, Push R_rbp, Sub_rsp 8, Push R_rbx, Push R_rdx, Push R_rcx, Push R_rax]"

definition restore_regs_from_stack :: "instr list" where
  "restore_regs_from_stack =
     [Pop R_rax, Pop R_rcx, Pop R_rdx, Pop R_rbx, Add_rsp 8, Pop R_rbp, Pop R_rsi, Pop R_rdi,
      Pop R_r8, Pop R_r9, Pop R_r10, Pop R_r11, Pop R_r12, Pop R_r13, Pop R_r14, Pop R_r15]"

section \<open>The vCPU in memory\<close>

text \<open>\<open>size_of::<GeneralRegisters>()\<close>, which is the offset of \<open>host_stack_top\<close>.\<close>

definition host_stack_top_offset :: u64 where
  "host_stack_top_offset = 128"

definition slot :: "usize \<Rightarrow> nat \<Rightarrow> usize" where
  "slot base k = base + 8 * of_nat k"

definition vcpu_words :: "('g, 'i) VmxVcpu \<Rightarrow> u64 list" where
  "vcpu_words v = (let g = guest_regs v in
     [rax g, rcx g, rdx g, rbx g, unused_rsp g, rbp g, rsi g, rdi g,
      r8 g, r9 g, r10 g, r11 g, r12 g, r13 g, r14 g, r15 g, host_stack_top v])"

primrec store_words :: "usize \<Rightarrow> nat \<Rightarrow> u64 list \<Rightarrow> (usize \<Rightarrow> u8) \<Rightarrow> usize \<Rightarrow> u8" where
  "store_words base k [] m = m"
| "store_words base k (x # xs) m = store_words base (Suc k) xs (store8 m (slot base k) x)"

definition vcpu_image :: "usize \<Rightarrow> ('g, 'i) VmxVcpu \<Rightarrow> (usize \<Rightarrow> u8) \<Rightarrow> usize \<Rightarrow> u8" where
  "vcpu_image base v m = store_words base 0 (vcpu_words v) m"

definition load_vcpu :: "(usize \<Rightarrow> u8) \<Rightarrow> usize \<Rightarrow> ('g, 'i) VmxVcpu \<Rightarrow> ('g, 'i) VmxVcpu" where
  "load_vcpu m base v = (let w = (\<lambda>k. load8 m (slot base k)) in
     v\<lparr>guest_regs := \<lparr>rax = w 0, rcx = w 1, rdx = w 2, rbx = w 3, unused_rsp = w 4, rbp = w 5, rsi = w 6,
         rdi = w 7, r8 = w 8, r9 = w 9, r10 = w 10, r11 = w 11, r12 = w 12, r13 = w 13, r14 = w 14,
         r15 = w 15\<rparr>,
       host_stack_top := w 16\<rparr>)"

section \<open>Handling a VM exit\<close>

type_synonym ('m, 'a, 'g, 'i) exit_fn =
  "('m, 'a, 'g, 'i) vcpu_x86 \<Rightarrow> (unit outcome \<times> ('m, 'a, 'g, 'i) vcpu_x86) option"

definition handle_monitor_trap_flag :: "('m, 'a) x86_env \<Rightarrow> (('m, 'a, 'g, 'i) vcpu_x86, 'i) gdb_ops \<Rightarrow>
    ('m, 'a, 'g, 'i) exit_fn" where
  "handle_monitor_trap_flag E go s =
     (case set_monitor_trap_flag E False s of
        (Ok _, s) \<Rightarrow> gdbserver_report go s
      | r \<Rightarrow> Some r)"

definition check_timer :: "('m, 'a) x86_env \<Rightarrow> (('m, 'a, 'g, 'i) vcpu_x86, unit) hm" where
  "check_timer E =
     hbind (hget (\<lambda>s. H_current_time_nanos (halops E) (xhal s))) (\<lambda>now.
     hbind (hget (\<lambda>s. check_interrupt now (apic_timer (self s)))) (\<lambda>(fired, timer).
     hseq (hmod (\<lambda>s. s\<lparr>self := (self s)\<lparr>apic_timer := timer\<rparr>\<rparr>))
     (hwhen fired (inject_event (vector timer) None))))"

text \<open>The match on the exit reason.\<close>

definition exit_dispatch :: "('m, 'a) x86_env \<Rightarrow> (('m, 'a, 'g, 'i) vcpu_x86, 'i) gdb_ops \<Rightarrow>
    ('m, 'a, 'g, 'i) exit_fn \<Rightarrow> VmxExitReason \<Rightarrow> ('m, 'a, 'g, 'i) exit_fn" where
  "exit_dispatch E go H_vmexit_handler reason s =
     (case reason of
        INTERRUPT_WINDOW \<Rightarrow> Some (set_interrupt_window E False s)
      | MONITOR_TRAP_FLAG \<Rightarrow> handle_monitor_trap_flag E go s
      | EXCEPTION_NMI \<Rightarrow> gdbserver_report go s
      | _ \<Rightarrow> H_vmexit_handler s)"

definition vmexit_handler :: "('m, 'a) x86_env \<Rightarrow> (('m, 'a, 'g, 'i) vcpu_x86, 'i) gdb_ops \<Rightarrow>
    ('m, 'a, 'g, 'i) exit_fn \<Rightarrow> ('m, 'a, 'g, 'i) exit_fn" where
  "vmexit_handler E go H_vmexit_handler s =
     (case hunwrap (exit_info E) s of
        (Ok info, s) \<Rightarrow>
          if entry_failure info then Some (Panic ExplicitPanic, s)
          else
            (case exit_dispatch E go H_vmexit_handler (exit_reason info) s of
               None \<Rightarrow> None
             | Some (Panic p, s) \<Rightarrow> Some (Panic p, s)
             | Some (Err e, s) \<Rightarrow> Some (Panic ExplicitPanic, s)
             | Some (Ok _, s) \<Rightarrow>
                 Some (hseq (check_timer E) (hunwrap (check_pending_events E)) s))
      | (Err e, s) \<Rightarrow> Some (Err e, s)
      | (Panic p, s) \<Rightarrow> Some (Panic p, s))"

section \<open>Entering and leaving the guest\<close>

text \<open>
  \<open>vmenter\<close> says whether \<open>vmlaunch\<close> or \<open>vmresume\<close> succeeds; if it does, the result is the
  register file the guest is entered with (its RSP comes from the VMCS).
\<close>

definition vmx_entry_failed :: "('m, 'a) x86_env \<Rightarrow> (('m, 'a, 'z) x86_scheme, 'b) hm" where
  "vmx_entry_failed E = hbind (instruction_error E) (\<lambda>_. hpanic ExplicitPanic)"

definition vmx_enter :: "('m, 'a) x86_env \<Rightarrow> ('m \<Rightarrow> bool) \<Rightarrow> (gpr \<Rightarrow> u64) \<Rightarrow>
    (('m, 'a, 'z) x86_scheme, gpr \<Rightarrow> u64) hm" where
  "vmx_enter E vmenter regs =
     hbind (hget (\<lambda>s. vmenter (hw s))) (\<lambda>ok. if ok then hret regs else vmx_entry_failed E)"

definition vmx_launch :: "('m, 'a) x86_env \<Rightarrow> ('m \<Rightarrow> bool) \<Rightarrow> (gpr \<Rightarrow> u64) \<Rightarrow>
    (('m, 'a, 'g, 'i) vcpu_x86, gpr \<Rightarrow> u64) hm" where
  "vmx_launch E vmenter regs s =
     (let base = regs R_rdi;
          a = exec ([Store R_rdi host_stack_top_offset R_rsp, Mov R_rsp R_rdi] @ restore_regs_from_stack)
                \<lparr>gprs = regs, amem = vcpu_image base (self s) (mem s)\<rparr>
      in vmx_enter E vmenter (gprs a) (s\<lparr>self := load_vcpu (amem a) base (self s)\<rparr>))"

definition run :: "('m, 'a) x86_env \<Rightarrow> (('m, 'a, 'g, 'i) vcpu_x86, 'i) gdb_ops \<Rightarrow> ('m \<Rightarrow> bool) \<Rightarrow>
    usize \<Rightarrow> (gpr \<Rightarrow> u64) \<Rightarrow> ('m, 'a, 'g, 'i) vcpu_x86 \<Rightarrow>
    ((gpr \<Rightarrow> u64) outcome \<times> ('m, 'a, 'g, 'i) vcpu_x86) option" where
  "run E go vmenter base regs s =
     (case gdbserver_loop go s of
        None \<Rightarrow> None
      | Some (Ok _, s) \<Rightarrow>
          Some (hseq (hunwrap (VmcsHostNW_write E VmcsHostNW.RSP (base + host_stack_top_offset)))
            (vmx_launch E vmenter (regs(R_rdi := base))) s)
      | Some (Err e, s) \<Rightarrow> Some (Err e, s)
      | Some (Panic p, s) \<Rightarrow> Some (Panic p, s))"

text \<open>
  \<open>vmx_exit\<close>. A VM exit loads RSP from the VMCS and leaves the guest's other registers. The handler
  works on the vCPU at the address in RDI; \<open>call_regs\<close> is what the call does to the registers.
\<close>

definition vmx_exit :: "('m, 'a) x86_env \<Rightarrow> (('m, 'a, 'g, 'i) vcpu_x86, 'i) gdb_ops \<Rightarrow>
    ('m, 'a, 'g, 'i) exit_fn \<Rightarrow> ('m \<Rightarrow> bool) \<Rightarrow> ((gpr \<Rightarrow> u64) \<Rightarrow> gpr \<Rightarrow> u64) \<Rightarrow> usize \<Rightarrow>
    (gpr \<Rightarrow> u64) \<Rightarrow> ('m, 'a, 'g, 'i) vcpu_x86 \<Rightarrow>
    ((gpr \<Rightarrow> u64) outcome \<times> ('m, 'a, 'g, 'i) vcpu_x86) option" where
  "vmx_exit E go H_vmexit_handler vmenter call_regs base guest s =
     (let a = exec (save_regs_to_stack @
                [Mov R_r15 R_rsp, Mov R_rdi R_rsp, Load R_rsp R_rsp host_stack_top_offset])
                \<lparr>gprs = guest(R_rsp := the (vmcs E s (VmcsHostNW_number VmcsHostNW.RSP))),
                  amem = vcpu_image base (self s) (mem s)\<rparr>;
          this = gprs a R_rdi
      in case vmexit_handler E go H_vmexit_handler (s\<lparr>self := load_vcpu (amem a) this (self s)\<rparr>) of
           None \<Rightarrow> None
         | Some (Ok _, s) \<Rightarrow>
             (let b = exec (Mov R_rsp R_r15 # restore_regs_from_stack)
                    \<lparr>gprs = call_regs (gprs a), amem = vcpu_image this (self s) (mem s)\<rparr>
              in Some (vmx_enter E vmenter (gprs b) (s\<lparr>self := load_vcpu (amem b) this (self s)\<rparr>)))
         | Some (Err e, s) \<Rightarrow> Some (Err e, s)
         | Some (Panic p, s) \<Rightarrow> Some (Panic p, s))"

section \<open>Loads after stores\<close>

lemma vcpu_slot_distance:
  assumes "j \<noteq> k" and "j < 17" and "k < 17" and "i < 8"
  shows "8 \<le> unat (slot base k + of_nat i - slot base j)"
proof (cases "j < k")
  case True
  then have e: "slot base k + of_nat i - slot base j = of_nat (8 * (k - j) + i)"
    by (simp add: slot_def of_nat_diff algebra_simps)
  have u: "unat (of_nat (8 * (k - j) + i) :: usize) = 8 * (k - j) + i"
    using assms by (intro unat_of_nat_usize) simp
  show ?thesis unfolding e u using True by simp
next
  case False
  define d where "d = 8 * (j - k) - i"
  have d: "0 < d" "d \<le> 136" "8 * j = d + 8 * k + i" using False assms by (auto simp: d_def)
  have "(8 * of_nat j :: usize) = of_nat d + 8 * of_nat k + of_nat i"
    using arg_cong [OF d(3), of "of_nat :: nat \<Rightarrow> usize"] by simp
  then have e: "slot base k + of_nat i - slot base j = - of_nat d"
    by (simp add: slot_def algebra_simps)
  show ?thesis
  proof (rule ccontr)
    assume "\<not> ?thesis"
    then have n: "unat (- of_nat d :: usize) < 8" by (simp add: e)
    have "of_nat (d + unat (- of_nat d :: usize)) = (0 :: usize)" by simp
    moreover have "unat (of_nat (d + unat (- of_nat d :: usize)) :: usize) = d + unat (- of_nat d :: usize)"
      using d(2) n by (intro unat_of_nat_usize) simp
    ultimately show False using d(1) by (metis add_is_0 less_numeral_extra(3) unat_0)
  qed
qed

lemma load8_store8:
  assumes "j < 17" and "k < 17"
  shows "load8 (store8 m (slot base j) v) (slot base k) = (if j = k then v else load8 m (slot base k))"
proof (cases "j = k")
  case True
  then show ?thesis using load_le_store_le [of 8 m "slot base k" v] by (simp add: load8_def store8_def take_bit_word_eq_self)
next
  case False
  have "load_le (store_le m (slot base j) 8 v) (slot base k) 8 = load_le m (slot base k) 8"
    by (rule load_le_cong)
      (use vcpu_slot_distance [OF False assms] in \<open>simp add: store_le_def store_bytes_def le_bytes_def not_less [symmetric]\<close>)
  then show ?thesis using False by (simp add: load8_def store8_def)
qed

lemma load8_store_words:
  "i + length xs \<le> 17 \<Longrightarrow> k < 17 \<Longrightarrow> load8 (store_words base i xs m) (slot base k) =
    (if i \<le> k \<and> k < i + length xs then xs ! (k - i) else load8 m (slot base k))"
proof (induction xs arbitrary: i m)
  case (Cons x xs)
  then show ?case by (auto simp: load8_store8 nth_Cons' Suc_diff_le dest: le_antisym)
qed auto

section \<open>Saving and restoring registers\<close>

lemma slot_push: "0 < k \<Longrightarrow> slot base k - 8 = slot base (k - 1)"
  by (cases k) (simp_all add: slot_def algebra_simps)

lemma slot_pop: "slot base k + 8 = slot base (Suc k)"
  by (simp add: slot_def algebra_simps)

lemma slot_top: "slot base 0 = base" "base + 128 = slot base 16"
  by (simp_all add: slot_def)

lemma slot_0_top: "slot base 0 + 128 = slot base 16"
  by (simp add: slot_def)

text \<open>The register file that a \<open>GeneralRegisters\<close> stands for, and the other way round.\<close>

primrec reg_value :: "GeneralRegisters \<Rightarrow> gpr \<Rightarrow> u64" where
  "reg_value g R_rax = rax g"
| "reg_value g R_rcx = rcx g"
| "reg_value g R_rdx = rdx g"
| "reg_value g R_rbx = rbx g"
| "reg_value g R_rsp = unused_rsp g"
| "reg_value g R_rbp = rbp g"
| "reg_value g R_rsi = rsi g"
| "reg_value g R_rdi = rdi g"
| "reg_value g R_r8 = r8 g"
| "reg_value g R_r9 = r9 g"
| "reg_value g R_r10 = r10 g"
| "reg_value g R_r11 = r11 g"
| "reg_value g R_r12 = r12 g"
| "reg_value g R_r13 = r13 g"
| "reg_value g R_r14 = r14 g"
| "reg_value g R_r15 = r15 g"

definition saved_regs :: "(gpr \<Rightarrow> u64) \<Rightarrow> GeneralRegisters \<Rightarrow> GeneralRegisters" where
  "saved_regs r g = \<lparr>rax = r R_rax, rcx = r R_rcx, rdx = r R_rdx, rbx = r R_rbx, unused_rsp = unused_rsp g,
     rbp = r R_rbp, rsi = r R_rsi, rdi = r R_rdi, r8 = r R_r8, r9 = r R_r9, r10 = r R_r10, r11 = r R_r11,
     r12 = r R_r12, r13 = r R_r13, r14 = r R_r14, r15 = r R_r15\<rparr>"

lemma reg_value_saved: "reg_value (saved_regs r g) q = (if q = R_rsp then unused_rsp g else r q)"
  by (cases q) (simp_all add: saved_regs_def)

lemma length_vcpu_words: "length (vcpu_words v) = 17"
  by (simp add: vcpu_words_def Let_def)

lemma load_image: "k < 17 \<Longrightarrow> load8 (vcpu_image base v m) (slot base k) = vcpu_words v ! k"
  by (simp add: vcpu_image_def load8_store_words length_vcpu_words)

lemma load_vcpu_image: "load_vcpu (vcpu_image base v m) base v = v"
  by (simp add: load_vcpu_def load_image vcpu_words_def Let_def)

lemma asm_exec_append: "exec (xs @ ys) a = exec ys (exec xs a)"
  by (induction xs arbitrary: a) simp_all

lemma asm_exec_save:
  assumes "gprs a R_rsp = slot base 16"
  shows "gprs (exec save_regs_to_stack a) = (gprs a)(R_rsp := slot base 0)"
    and "load_vcpu (amem (exec save_regs_to_stack a)) base v =
      v\<lparr>guest_regs := saved_regs (gprs a) (guest_regs (load_vcpu (amem a) base v)),
        host_stack_top := load8 (amem a) (slot base 16)\<rparr>"
    and "load8 (amem (exec save_regs_to_stack a)) (slot base 16) = load8 (amem a) (slot base 16)"
  using assms
  by (simp_all add: save_regs_to_stack_def Let_def slot_push load8_store8 load_vcpu_def saved_regs_def)

lemma asm_exec_restore:
  assumes "gprs a R_rsp = slot base 0"
  shows "amem (exec restore_regs_from_stack a) = amem a"
    and "gprs (exec restore_regs_from_stack a) q =
      (if q = R_rsp then slot base 16 else reg_value (guest_regs (load_vcpu (amem a) base v)) q)"
  using assms
  by (simp_all add: restore_regs_from_stack_def Let_def slot_pop load_vcpu_def eval_nat_numeral)
    (cases q; simp add: eval_nat_numeral)

text \<open>The System V calling convention: a call keeps the callee-saved registers.\<close>

definition abi_ok :: "((gpr \<Rightarrow> u64) \<Rightarrow> gpr \<Rightarrow> u64) \<Rightarrow> bool" where
  "abi_ok call_regs \<longleftrightarrow>
     (\<forall>r. \<forall>q \<in> {R_rbx, R_rsp, R_rbp, R_r12, R_r13, R_r14, R_r15}. call_regs r q = r q)"

definition guest_file :: "usize \<Rightarrow> ('g, 'i) VmxVcpu \<Rightarrow> gpr \<Rightarrow> u64" where
  "guest_file base v q = (if q = R_rsp then base + host_stack_top_offset else reg_value (guest_regs v) q)"

lemma launch_run:
  assumes "vmenter (hw s)" and "regs R_rdi = base"
  shows "vmx_launch E vmenter regs s =
    (Ok (guest_file base (self s)), s\<lparr>self := (self s)\<lparr>host_stack_top := regs R_rsp\<rparr>\<rparr>)"
proof -
  define b where "b = exec [Store R_rdi host_stack_top_offset R_rsp, Mov R_rsp R_rdi]
    \<lparr>gprs = regs, amem = vcpu_image base (self s) (mem s)\<rparr>"
  define c where "c = exec restore_regs_from_stack b"
  have m: "load8 (amem b) (slot base k) = (if k = 16 then regs R_rsp else vcpu_words (self s) ! k)"
    if "k < 17" for k
    using that assms(2) by (simp add: b_def host_stack_top_offset_def slot_top(2) load8_store8 load_image)
  have v: "load_vcpu (amem b) base (self s) = (self s)\<lparr>host_stack_top := regs R_rsp\<rparr>"
    unfolding load_vcpu_def Let_def by (simp add: m) (simp add: vcpu_words_def Let_def)
  have "gprs b R_rsp = slot base 0" using assms(2) by (simp add: b_def slot_top(1))
  note r = asm_exec_restore [OF this, folded c_def]
  have "gprs c = guest_file base (self s)"
    using r(2) [where v = "self s"] v
    by (simp add: fun_eq_iff guest_file_def slot_top(2) host_stack_top_offset_def)
  moreover have "vmx_launch E vmenter regs s =
      vmx_enter E vmenter (gprs c) (s\<lparr>self := load_vcpu (amem c) base (self s)\<rparr>)"
    unfolding vmx_launch_def Let_def asm_exec_append c_def b_def assms(2) ..
  ultimately show ?thesis using assms(1) r(1) v by (simp add: vmx_enter_def hm_defs)
qed

lemma vmx_exit_run:
  assumes "abi_ok call_regs"
    and "vmcs E s (VmcsHostNW_number VmcsHostNW.RSP) = Some (base + host_stack_top_offset)"
    and "vmexit_handler E go hv (s\<lparr>self := (self s)\<lparr>guest_regs := saved_regs guest (guest_regs (self s))\<rparr>\<rparr>)
      = Some (Ok (), t)"
    and "vmenter (hw t)"
  shows "vmx_exit E go hv vmenter call_regs base guest s = Some (Ok (guest_file base (self t)), t)"
proof -
  define z where "z = \<lparr>gprs = guest(R_rsp := slot base 16), amem = vcpu_image base (self s) (mem s)\<rparr>"
  define y where "y = exec save_regs_to_stack z"
  define a where "a = exec [Mov R_r15 R_rsp, Mov R_rdi R_rsp, Load R_rsp R_rsp host_stack_top_offset] y"
  have "gprs z R_rsp = slot base 16" by (simp add: z_def)
  note sv = asm_exec_save [OF this, folded y_def]
  have g: "gprs a R_rdi = base" "gprs a R_r15 = slot base 0" "amem a = amem y"
    using sv(1) by (simp_all add: a_def slot_top(1))
  have v: "load_vcpu (amem a) base (self s) = (self s)\<lparr>guest_regs := saved_regs guest (guest_regs (self s))\<rparr>"
    unfolding g(3) sv(2)
    by (simp add: z_def load_image load_vcpu_image vcpu_words_def Let_def saved_regs_def)
  define b where "b = \<lparr>gprs = (call_regs (gprs a))(R_rsp := slot base 0),
    amem = vcpu_image base (self t) (mem t)\<rparr>"
  define c where "c = exec restore_regs_from_stack b"
  have mv: "exec_instr (Mov R_rsp R_r15) \<lparr>gprs = call_regs (gprs a), amem = vcpu_image base (self t) (mem t)\<rparr> = b"
    using assms(1) g(2) by (simp add: b_def abi_ok_def)
  have "gprs b R_rsp = slot base 0" by (simp add: b_def)
  note r = asm_exec_restore [OF this, folded c_def]
  have "gprs c = guest_file base (self t)"
    using r(2) [where v = "self t"]
    by (simp add: b_def load_vcpu_image fun_eq_iff guest_file_def slot_top(2) host_stack_top_offset_def)
  moreover have "amem c = vcpu_image base (self t) (mem t)" using r(1) by (simp add: b_def)
  moreover have "exec (save_regs_to_stack @
        [Mov R_r15 R_rsp, Mov R_rdi R_rsp, Load R_rsp R_rsp host_stack_top_offset])
        \<lparr>gprs = guest(R_rsp := the (vmcs E s (VmcsHostNW_number VmcsHostNW.RSP))),
          amem = vcpu_image base (self s) (mem s)\<rparr> = a"
    unfolding asm_exec_append a_def y_def z_def assms(2) option.sel host_stack_top_offset_def slot_top(2) ..
  ultimately show ?thesis
    using assms(4) unfolding vmx_exit_def Let_def
    by (simp only: g(1) v assms(3) exec.simps mv option.case prod.case outcome.case c_def [symmetric])
      (simp add: vmx_enter_def hm_defs load_vcpu_image)
qed

text \<open>
  Claim C2. The switch between host and guest: \<open>run\<close> enters the guest with the registers of the
  vCPU, keeps the host's stack pointer in it, and makes VM exits find the end of the
  register area through the stack pointer. At a VM exit the handler then sees exactly the
  registers that the guest had, and the guest is resumed with exactly the registers that the handler
  left in the vCPU, for any handler whose call keeps the callee-saved registers.
\<close>

theorem world_switch:
  assumes "vmcs_ok (cpu E)" and "gdbserver_loop go s = Some (Ok (), s1)" and "vmcs_loaded E s1"
    and "\<And>m. vmenter m" and "abi_ok call_regs"
  shows "\<exists>t. run E go vmenter base regs s = Some (Ok (guest_file base (self s1)), t)
    \<and> self t = (self s1)\<lparr>host_stack_top := regs R_rsp\<rparr>
    \<and> vmcs E t = (vmcs E s1)(VmcsHostNW_number VmcsHostNW.RSP \<mapsto> base + host_stack_top_offset)
    \<and> (\<forall>guest m u. vmread (cpu E) (VmcsHostNW_number VmcsHostNW.RSP) m = Some (base + host_stack_top_offset)
        \<and> vmexit_handler E go hv (t\<lparr>hw := m,
            self := (self t)\<lparr>guest_regs := saved_regs guest (guest_regs (self t))\<rparr>\<rparr>) = Some (Ok (), u)
        \<longrightarrow> vmx_exit E go hv vmenter call_regs base guest (t\<lparr>hw := m\<rparr>) = Some (Ok (guest_file base (self u)), u))"
proof -
  obtain q s2 where w: "VmcsHostNW_write E VmcsHostNW.RSP (base + host_stack_top_offset) s1 = (q, s2)"
    by fastforce
  note D = does_writesD [OF does_writes_field(12) [OF assms(1,3)] w]
  have tr: "field_trunc (VmcsHostNW_number VmcsHostNW.RSP) v = v" for v
    by (rule field_trunc_typed(4) [OF vmcs_encodings(12)])
  have s2: "self s2 = self s1" by (subst D(2)) simp
  define t where "t = s2\<lparr>self := (self s2)\<lparr>host_stack_top := regs R_rsp\<rparr>\<rparr>"
  have "run E go vmenter base regs s = Some (Ok (guest_file base (self s1)), t)"
    using assms(2,4) w D(1) launch_run [of vmenter s2 "regs(R_rdi := base)" base E] s2
    by (simp add: run_def hm_defs t_def)
  moreover have "vmcs E t = (vmcs E s1)(VmcsHostNW_number VmcsHostNW.RSP \<mapsto> base + host_stack_top_offset)"
    using D(3) tr [of "base + host_stack_top_offset"] by (simp add: t_def)
  moreover have "vmx_exit E go hv vmenter call_regs base guest (t\<lparr>hw := m\<rparr>) = Some (Ok (guest_file base (self u)), u)"
    if "vmread (cpu E) (VmcsHostNW_number VmcsHostNW.RSP) m = Some (base + host_stack_top_offset)"
      "vmexit_handler E go hv (t\<lparr>hw := m,
          self := (self t)\<lparr>guest_regs := saved_regs guest (guest_regs (self t))\<rparr>\<rparr>) = Some (Ok (), u)"
    for guest m u
    by (rule vmx_exit_run [OF assms(5)]) (use that assms(4) in \<open>simp_all add: vmcs_def\<close>)
  ultimately show ?thesis using s2 by (intro exI [of _ t]) (auto simp: t_def)
qed

theorem world_switch_witness:
  "\<exists>t. run std_env sample_stub (\<lambda>_. True) 0x5000 (\<lambda>_. 7) std_vcpu_state =
      Some (Ok (guest_file 0x5000 std_vcpu), t)
    \<and> host_stack_top (self t) = 7"
proof -
  have "gdbserver_loop sample_stub std_vcpu_state = Some (Ok (), std_vcpu_state)"
    by (simp add: gdbserver_loop_def std_vcpu_state_def std_vcpu_def)
  moreover have "abi_ok (\<lambda>r. r)" by (simp add: abi_ok_def)
  moreover have "vmcs_ok (cpu std_env)" by (simp add: std_vmcs_ok)
  ultimately obtain t where "run std_env sample_stub (\<lambda>_. True) 0x5000 (\<lambda>_. 7) std_vcpu_state =
      Some (Ok (guest_file 0x5000 (self std_vcpu_state)), t)"
    "self t = (self std_vcpu_state)\<lparr>host_stack_top := 7\<rparr>"
    using world_switch [of std_env sample_stub std_vcpu_state std_vcpu_state "\<lambda>_. True" "\<lambda>r. r" "0x5000" "\<lambda>_. 7"]
      std_loaded by blast
  then show ?thesis by (simp add: std_vcpu_state_def)
qed

section \<open>The queue of events\<close>

text \<open>
  The contract of the queue: the oldest event leaves it if it is an exception or the guest takes
  interrupts; otherwise it stays.
\<close>

fun queue_step :: "bool \<Rightarrow> (u8 \<times> u32 option) list \<Rightarrow> u8 option \<times> (u8 \<times> u32 option) list" where
  "queue_step takes [] = (None, [])"
| "queue_step takes (e # es) = (if fst e < 32 \<or> takes then (Some (fst e), es) else (None, e # es))"

text \<open>
  What the processor sees at the next VM entry: whether the guest takes interrupts, the vector
  of the event to be injected, and whether the guest exits as soon as it takes interrupts.
\<close>

definition interruptible :: "('m, 'a) x86_env \<Rightarrow> ('m, 'a, 'z) x86_scheme \<Rightarrow> bool" where
  "interruptible E s \<longleftrightarrow>
     the (vmcs E s (VmcsGuestNW_number RFLAGS)) AND INTERRUPT_FLAG (crates E) \<noteq> 0
     \<and> as_u32 (the (vmcs E s (VmcsGuest32_number INTERRUPTIBILITY_STATE))) = 0"

definition entry_info :: "('m, 'a) x86_env \<Rightarrow> ('m, 'a, 'z) x86_scheme \<Rightarrow> u32" where
  "entry_info E s = as_u32 (the (vmcs E s (VmcsControl32_number VMENTRY_INTERRUPTION_INFO_FIELD)))"

definition entry_event :: "('m, 'a) x86_env \<Rightarrow> ('m, 'a, 'z) x86_scheme \<Rightarrow> u8 option" where
  "entry_event E s = (if bit (entry_info E s) 31 then Some (as_u8 (field_of (entry_info E s) 0 8)) else None)"

definition window_open :: "('m, 'a) x86_env \<Rightarrow> ('m, 'a, 'z) x86_scheme \<Rightarrow> bool" where
  "window_open E s \<longleftrightarrow>
     contains_flags (as_u32 (the (vmcs E s (VmcsControl32_number PRIMARY_PROCBASED_EXEC_CONTROLS))))
       (INTERRUPT_WINDOW_EXITING (crates E))"

lemma u32_u64 [simp]: "as_u32 (as_u64 (x :: u32)) = x"
  by (rule bit_word_eqI) (auto simp: bit_simps)

lemma typed_reads:
  assumes "vmcs_loaded E s"
  shows "VmcsGuestNW_read E f s = (Ok (the (vmcs E s (VmcsGuestNW_number f))), s)"
    and "VmcsGuest32_read E g s = (Ok (as_u32 (the (vmcs E s (VmcsGuest32_number g)))), s)"
    and "VmcsControl32_read E h s = (Ok (as_u32 (the (vmcs E s (VmcsControl32_number h)))), s)"
  using vmcs_read_loaded [OF assms, of "FGuestNW f", where 'd = 64]
    vmcs_read_loaded [OF assms, of "FGuest32 g", where 'd = 32]
    vmcs_read_loaded [OF assms, of "FControl32 h", where 'd = 32]
  by (simp_all add: VmcsGuestNW_read_def VmcsGuest32_read_def VmcsControl32_read_def)

lemma allow_interrupt_run: "vmcs_loaded E s \<Longrightarrow> allow_interrupt E s = (Ok (interruptible E s), s)"
  by (simp add: allow_interrupt_def hm_defs typed_reads interruptible_def)

lemma set_interrupt_window_run:
  assumes "vmcs_ok (cpu E)" and "vmcs_loaded E s" and "set_interrupt_window E on s = (r, t)"
  shows "r = Ok ()" and "t = s\<lparr>hw := hw t\<rparr>" and "vmcs_loaded E t"
    and "f \<noteq> VmcsControl32_number PRIMARY_PROCBASED_EXEC_CONTROLS \<Longrightarrow> vmcs E t f = vmcs E s f"
    and "on \<Longrightarrow> window_open E t"
proof -
  let ?p = "VmcsControl32_number PRIMARY_PROCBASED_EXEC_CONTROLS"
  let ?c = "as_u32 (the (vmcs E s ?p))" and ?b = "INTERRUPT_WINDOW_EXITING (crates E)"
  let ?v = "if on then ?c OR ?b else ?c AND NOT ?b"
  have w: "VmcsControl32_write E PRIMARY_PROCBASED_EXEC_CONTROLS ?v s = (r, t)"
    using assms(3) by (simp add: set_interrupt_window_def hbind_def typed_reads(3) [OF assms(2)] Let_def
        del: VmcsControl32_number.simps)
  note D = does_writesD [OF does_writes_field(3) [OF assms(1,2)] w]
  have tr: "field_trunc ?p (as_u64 x) = as_u64 x" for x :: u32
    by (rule field_trunc_typed(2) [OF vmcs_encodings(3)])
  show "r = Ok ()" "t = s\<lparr>hw := hw t\<rparr>" by (fact D(1) D(2))+
  show "vmcs_loaded E t" by (rule loaded_after_writes [OF assms(2) D(3)])
  show "f \<noteq> ?p \<Longrightarrow> vmcs E t f = vmcs E s f" using D(3) by (simp del: VmcsControl32_number.simps)
  have "vmcs E t ?p = Some (as_u64 ?v)"
    using D(3) tr [of ?v] by (simp del: VmcsControl32_number.simps)
  then show "on \<Longrightarrow> window_open E t"
    by (simp add: window_open_def del: VmcsControl32_number.simps)
qed

lemma inject_fields:
  "f \<in> fst ` set (inject_writes E s vec err) \<Longrightarrow>
   f \<in> {VmcsControl32_number VMENTRY_EXCEPTION_ERR_CODE, VmcsControl32_number VMENTRY_INSTRUCTION_LEN,
     VmcsControl32_number VMENTRY_INTERRUPTION_INFO_FIELD}"
  by (auto simp: inject_writes_def split: option.splits if_splits)

lemma inject_run:
  assumes "bit_field_ok (crates E)" and "vmcs_ok (cpu E)" and "vmcs_loaded E s"
    and "vmcs_inject_event E vec err s = (r, t)"
  shows "r = Ok ()" and "t = s\<lparr>hw := hw t\<rparr>" and "vmcs_loaded E t" and "entry_event E t = Some vec"
    and "interruptible E t = interruptible E s"
proof -
  note D = does_writesD [OF inject_event_writes [OF assms(2,3)] assms(4)]
  let ?i = "VmcsControl32_number VMENTRY_INTERRUPTION_INFO_FIELD"
  let ?info = "VmxInterruptInfo_from (crates E) vec (inject_err E s vec err)"
  show "r = Ok ()" "t = s\<lparr>hw := hw t\<rparr>" by (fact D(1) D(2))+
  show "vmcs_loaded E t" by (rule loaded_after_writes [OF assms(3) D(3)])
  have "field_trunc ?i (as_u64 x) = as_u64 x" for x :: u32
    by (rule field_trunc_typed(2) [OF vmcs_encodings(3)])
  then have "vmcs E t ?i = Some (as_u64 (VmxInterruptInfo_bits (crates E) ?info))"
    unfolding D(3) inject_writes_def by (simp del: VmcsControl32_number.simps)
  then have "entry_info E t = VmxInterruptInfo_bits (crates E) ?info"
    by (simp add: entry_info_def del: VmcsControl32_number.simps)
  then show "entry_event E t = Some vec"
    using interrupt_info_fields(1,4) [OF assms(1), of ?info]
    by (simp add: entry_event_def VmxInterruptInfo_from_def)
  have "vmcs E t f = vmcs E s f" if "f \<in> {VmcsGuestNW_number RFLAGS, VmcsGuest32_number INTERRUPTIBILITY_STATE}" for f
    unfolding D(3) by (rule apply_writes_other) (use that in \<open>auto dest!: inject_fields\<close>)
  then show "interruptible E t = interruptible E s"
    by (simp only: interruptible_def insert_iff simp_thms)
qed

text \<open>\<open>check_pending_events\<close> implements a step of the queue.\<close>

lemma check_pending_events_step:
  assumes "bit_field_ok (crates E)" and "vmcs_ok (cpu E)" and "vmcs_loaded E s" and "\<not> bit (entry_info E s) 31"
    and "check_pending_events E s = (r, t)"
  shows "r = Ok () \<and> vmcs_loaded E t \<and> interruptible E t = interruptible E s
    \<and> (entry_event E t, pending_events (self t)) = queue_step (interruptible E s) (pending_events (self s))
    \<and> (pending_events (self t) \<noteq> [] \<and> entry_event E t = None \<longrightarrow> window_open E t)
    \<and> (\<exists>m. t = s\<lparr>hw := m, self := (self s)\<lparr>pending_events := pending_events (self t)\<rparr>\<rparr>)"
proof (cases "pending_events (self s)")
  case Nil
  have none: "entry_event E s = None" using assms(4) by (simp add: entry_event_def)
  have "r = Ok ()" "t = s" using assms(5) Nil by (simp_all add: check_pending_events_def hm_defs)
  moreover have "s = s\<lparr>hw := hw s, self := (self s)\<lparr>pending_events := pending_events (self s)\<rparr>\<rparr>" by simp
  ultimately show ?thesis using Nil none assms(3) by (auto intro!: exI [of _ "hw s"])
next
  case (Cons e es)
  have now: "(if fst e < 32 then hret True else allow_interrupt E) s = (Ok (fst e < 32 \<or> interruptible E s), s)"
    by (simp add: allow_interrupt_run [OF assms(3)] hret_def)
  show ?thesis
  proof (cases "fst e < 32 \<or> interruptible E s")
    case True
    obtain q u where u: "vmcs_inject_event E (fst e) (snd e) s = (q, u)" by fastforce
    note I = inject_run [OF assms(1-3) u]
    have su: "self u = self s" by (subst I(2)) simp
    have run: "r = Ok ()" "t = u\<lparr>self := (self u)\<lparr>pending_events := es\<rparr>\<rparr>"
      using assms(5) u I(1) True su
      by (simp_all add: check_pending_events_def Cons hbind_def hget_def now hseq_def hmod_def)
    have ev: "entry_event E t = entry_event E u" "interruptible E t = interruptible E u" "vmcs_loaded E t"
      using I(3) by (simp_all add: run(2) entry_event_def entry_info_def interruptible_def)
    have "t = s\<lparr>hw := hw u, self := (self s)\<lparr>pending_events := es\<rparr>\<rparr>"
      unfolding run(2) su by (subst I(2)) simp
    then show ?thesis using run ev I(4,5) Cons True by (auto intro!: exI [of _ "hw u"])
  next
    case False
    then have "set_interrupt_window E True s = (r, t)"
      using assms(5)
      by (simp add: check_pending_events_def Cons hbind_def hget_def allow_interrupt_run [OF assms(3)])
    note W = set_interrupt_window_run [OF assms(2,3) this]
    have st: "self t = self s" by (subst W(2)) simp
    have "vmcs E t (VmcsControl32_number VMENTRY_INTERRUPTION_INFO_FIELD) =
        vmcs E s (VmcsControl32_number VMENTRY_INTERRUPTION_INFO_FIELD)"
      "vmcs E t (VmcsGuestNW_number RFLAGS) = vmcs E s (VmcsGuestNW_number RFLAGS)"
      "vmcs E t (VmcsGuest32_number INTERRUPTIBILITY_STATE) = vmcs E s (VmcsGuest32_number INTERRUPTIBILITY_STATE)"
      by (rule W(4), simp)+
    then have "entry_event E t = None" "interruptible E t = interruptible E s"
      using assms(4) by (simp_all only: entry_event_def entry_info_def interruptible_def if_False)
    moreover have "t = s\<lparr>hw := hw t, self := (self s)\<lparr>pending_events := pending_events (self t)\<rparr>\<rparr>"
      by (subst W(2)) (simp add: st)
    ultimately show ?thesis using W(1,3,5) Cons False st by auto
  qed
qed

text \<open>
  What the handler of the embedding hypervisor may do to the vCPU: it keeps the VMCS loaded, pushes
  events with \<open>inject_event\<close> only, and leaves the injection field of the VMCS alone, which no
  public operation of a vCPU writes.
\<close>

definition exit_keeps :: "('m, 'a) x86_env \<Rightarrow> ('m, 'a, 'g, 'i) vcpu_x86 \<Rightarrow> ('m, 'a, 'g, 'i) vcpu_x86 \<Rightarrow> bool" where
  "exit_keeps E s t \<longleftrightarrow> vmcs_loaded E t \<and> entry_info E t = entry_info E s
     \<and> (\<exists>new. pending_events (self t) = pending_events (self s) @ new)"

definition hv_ok :: "('m, 'a) x86_env \<Rightarrow> ('m, 'a, 'g, 'i) exit_fn \<Rightarrow> bool" where
  "hv_ok E hv \<longleftrightarrow> (\<forall>s r t. vmcs_loaded E s \<and> hv s = Some (r, t) \<longrightarrow> exit_keeps E s t)"

lemma exit_keeps_vcpu: "vcpu_keeps E s t \<Longrightarrow> exit_keeps E s t"
  by (auto simp: vcpu_keeps_def exit_keeps_def entry_info_def debug_fields_def)

lemma exit_keeps_trans:
  assumes "exit_keeps E s t" and "exit_keeps E t u"
  shows "exit_keeps E s u"
  using assms by (auto simp: exit_keeps_def)

lemma exit_info_state: "hunwrap (exit_info E) s = (r, t) \<Longrightarrow> t = s"
  by (auto simp: exit_info_def hm_defs VmcsReadOnly32_read_def VmcsGuestNW_read_def vmcs_read_def
      split: option.splits prod.splits outcome.splits)

lemma handle_monitor_trap_flag_keeps:
  assumes "vmcs_ok (cpu E)" and "gdb_ok E G go" and "vmcs_loaded E s"
    and "handle_monitor_trap_flag E go s = Some (r, t)"
  shows "vcpu_keeps E s t"
proof -
  obtain q u where m: "set_monitor_trap_flag E False s = (q, u)" by fastforce
  have "preserves (vcpu_keeps E s) (set_monitor_trap_flag E False)"
    by (rule vcpu_keeps_only_writes [OF set_monitor_trap_flag_only [OF assms(1)]])
      (simp add: debug_fields_def)
  from preserves_result [OF this vcpu_keeps_refl [OF assms(3)] m] have u: "vcpu_keeps E s u" .
  show ?thesis
  proof (cases q)
    case (Ok x)
    then have "gdbserver_report go u = Some (r, t)"
      using assms(4) m by (simp add: handle_monitor_trap_flag_def)
    from gdbserver_report_keeps [OF assms(1,2) _ this] u show ?thesis
      using vcpu_keeps_trans by (auto simp: vcpu_keeps_def)
  qed (use assms(4) m u in \<open>auto simp: handle_monitor_trap_flag_def\<close>)
qed

lemma exit_dispatch_keeps:
  assumes "vmcs_ok (cpu E)" and "gdb_ok E G go" and "hv_ok E hv" and "vmcs_loaded E s"
    and "exit_dispatch E go hv reason s = Some (r, t)"
  shows "exit_keeps E s t"
proof -
  consider "reason = INTERRUPT_WINDOW" | "reason = MONITOR_TRAP_FLAG" | "reason = EXCEPTION_NMI"
    | "exit_dispatch E go hv reason s = hv s"
    by (cases reason) (simp_all add: exit_dispatch_def)
  then show ?thesis
  proof cases
    case 1
    then have w: "set_interrupt_window E False s = (r, t)" using assms(5) by (simp add: exit_dispatch_def)
    note W = set_interrupt_window_run [OF assms(1,4) w]
    have "self t = self s" by (subst W(2)) simp
    then show ?thesis
      using W(3) W(4) [of "VmcsControl32_number VMENTRY_INTERRUPTION_INFO_FIELD"]
      by (simp add: exit_keeps_def entry_info_def)
  next
    case 2
    then show ?thesis
      using handle_monitor_trap_flag_keeps [OF assms(1,2,4)] assms(5) exit_keeps_vcpu
      by (simp add: exit_dispatch_def)
  next
    case 3
    then show ?thesis
      using gdbserver_report_keeps [OF assms(1,2,4)] assms(5) exit_keeps_vcpu
      by (simp add: exit_dispatch_def)
  next
    case 4
    then show ?thesis using assms(3,4,5) unfolding hv_ok_def by metis
  qed
qed

text \<open>The timer's event, if it fires.\<close>

definition timer_events :: "('m, 'a) x86_env \<Rightarrow> ('m, 'a, 'g, 'i) vcpu_x86 \<Rightarrow> (u8 \<times> u32 option) list" where
  "timer_events E s = (if fst (check_interrupt (H_current_time_nanos (halops E) (xhal s)) (apic_timer (self s)))
     then [(vector (apic_timer (self s)), None)] else [])"

lemma check_timer_run:
  "\<exists>v. check_timer E s = (Ok (), s\<lparr>self := v\<rparr>) \<and> pending_events v = pending_events (self s) @ timer_events E s"
proof -
  let ?c = "check_interrupt (H_current_time_nanos (halops E) (xhal s)) (apic_timer (self s))"
  have "vector (snd ?c) = vector (apic_timer (self s))"
    by (simp add: check_interrupt_def vector_def Let_def)
  then show ?thesis
    by (cases ?c) (auto simp: check_timer_def hm_defs inject_event_def timer_events_def)
qed

lemma vmexit_handler_Ok:
  assumes "vmexit_handler E go hv s = Some (Ok (), t)"
  obtains info u where "exit_info E s = (Ok info, s)" and "\<not> entry_failure info"
    and "exit_dispatch E go hv (exit_reason info) s = Some (Ok (), u)"
    and "hseq (check_timer E) (hunwrap (check_pending_events E)) u = (Ok (), t)"
proof -
  obtain q s1 where i: "hunwrap (exit_info E) s = (q, s1)" by fastforce
  have s1: "s1 = s" by (rule exit_info_state [OF i])
  obtain info where q: "q = Ok info"
    using assms i by (cases q) (auto simp: vmexit_handler_def)
  have run: "(if entry_failure info then Some (Panic ExplicitPanic, s)
      else case exit_dispatch E go hv (exit_reason info) s of
          None \<Rightarrow> None
        | Some (Panic p, s) \<Rightarrow> Some (Panic p, s)
        | Some (Err e, s) \<Rightarrow> Some (Panic ExplicitPanic, s)
        | Some (Ok _, s) \<Rightarrow> Some (hseq (check_timer E) (hunwrap (check_pending_events E)) s))
      = Some (Ok (), t)"
    using assms unfolding vmexit_handler_def i q s1 by simp
  have "exit_info E s = (Ok info, s)"
    using i unfolding q s1 by (auto simp: hunwrap_def split: prod.splits)
  with run show thesis
    using that by (auto split: if_splits option.splits outcome.splits prod.splits)
qed

lemma vmexit_handler_step:
  assumes "bit_field_ok (crates E)" and "vmcs_ok (cpu E)" and "vmcs_loaded E u" and "\<not> bit (entry_info E u) 31"
    and "hseq (check_timer E) (hunwrap (check_pending_events E)) u = (r, t)"
  shows "r = Ok () \<and> vmcs_loaded E t \<and> interruptible E t = interruptible E u
    \<and> (entry_event E t, pending_events (self t)) =
        queue_step (interruptible E u) (pending_events (self u) @ timer_events E u)
    \<and> (pending_events (self t) \<noteq> [] \<and> entry_event E t = None \<longrightarrow> window_open E t)"
proof -
  obtain v where v: "check_timer E u = (Ok (), u\<lparr>self := v\<rparr>)"
    and p: "pending_events v = pending_events (self u) @ timer_events E u"
    using check_timer_run [of E u] by blast
  let ?w = "u\<lparr>self := v\<rparr>"
  obtain q t' where c: "check_pending_events E ?w = (q, t')" by fastforce
  have "vmcs_loaded E ?w" "\<not> bit (entry_info E ?w) 31" "interruptible E ?w = interruptible E u"
    using assms(3,4) by (simp_all add: entry_info_def interruptible_def)
  with check_pending_events_step [OF assms(1,2) _ _ c] p
  have *: "q = Ok () \<and> vmcs_loaded E t' \<and> interruptible E t' = interruptible E u
    \<and> (entry_event E t', pending_events (self t')) =
        queue_step (interruptible E u) (pending_events (self u) @ timer_events E u)
    \<and> (pending_events (self t') \<noteq> [] \<and> entry_event E t' = None \<longrightarrow> window_open E t')"
    by simp
  moreover have "r = q" "t = t'"
    using assms(5) c * by (simp_all add: hseq_run [of "check_timer E" u, OF v] hunwrap_def)
  ultimately show ?thesis by simp
qed

lemma vmexit_handler_queue:
  assumes "bit_field_ok (crates E)" and "vmcs_ok (cpu E)" and "gdb_ok E G go" and "hv_ok E hv"
    and "vmcs_loaded E s" and "\<not> bit (entry_info E s) 31" and "vmexit_handler E go hv s = Some (Ok (), t)"
  shows "vmcs_loaded E t
    \<and> (\<exists>new. (entry_event E t, pending_events (self t)) =
        queue_step (interruptible E t) (pending_events (self s) @ new))
    \<and> (pending_events (self t) \<noteq> [] \<and> entry_event E t = None \<longrightarrow> window_open E t)"
proof -
  obtain info :: VmxExitInfo and u where d: "exit_dispatch E go hv (exit_reason info) s = Some (Ok (), u)"
    and c: "hseq (check_timer E) (hunwrap (check_pending_events E)) u = (Ok (), t)"
    using assms(7) by (rule vmexit_handler_Ok) blast
  have k: "exit_keeps E s u" by (rule exit_dispatch_keeps [OF assms(2-5) d])
  then have "vmcs_loaded E u" "\<not> bit (entry_info E u) 31" using assms(6) by (simp_all add: exit_keeps_def)
  from vmexit_handler_step [OF assms(1,2) this c] k show ?thesis
    by (auto simp: exit_keeps_def)
qed


lemma vcpu_stub_ok: "gdb_ok E G sample_stub"
  by (simp add: gdb_ok_def sample_stub_def)

text \<open>A vCPU with an interrupt waiting, whose guest has exited with \<open>HLT\<close>.\<close>

definition waiting_vcpu :: "u64 \<Rightarrow> u64 \<Rightarrow> (std_cpu, std_hal, usize \<rightharpoonup> u8, unit) vcpu_x86" where
  "waiting_vcpu reason flags = std_vcpu_state\<lparr>
     hw := (hw std_vcpu_state)\<lparr>c_vmcs := (c_vmcs (hw std_vcpu_state))
       (VmcsReadOnly32_number EXIT_REASON := reason, VmcsGuestNW_number RFLAGS := flags)\<rparr>,
     self := (self std_vcpu_state)\<lparr>pending_events := [(0x20, None)]\<rparr>\<rparr>"

lemma waiting_vcpu_facts:
  "pending_events (self (waiting_vcpu reason flags)) = [(0x20, None)]"
  "entry_info std_env (waiting_vcpu reason flags) = 0"
  "timer_events std_env (waiting_vcpu reason flags) = []"
  by (simp_all add: waiting_vcpu_def std_vcpu_state_def std_vcpu_def std_state_def entry_info_def std_vmcs
      timer_events_def check_interrupt_def ApicTimer_new_def)

lemma waiting_vcpu_interruptible: "interruptible std_env (waiting_vcpu reason flags) \<longleftrightarrow> flags AND 0x200 \<noteq> 0"
  by (simp add: waiting_vcpu_def std_vcpu_state_def std_vcpu_def std_state_def std_vmcs interruptible_def
      x86_crates_std_def)

lemma exit_info_run:
  assumes "vmcs_loaded E s"
    and "full = as_u32 (the (vmcs E s (VmcsReadOnly32_number EXIT_REASON)))"
    and "VmxExitReason_try_from (get_bits32 (crates E) full 0 16) = Some reason"
  shows "\<exists>info. exit_info E s = (Ok info, s) \<and> entry_failure info = get_bit32 (crates E) full 31
    \<and> exit_reason info = reason"
  using assms(2,3)
  by (simp add: exit_info_def hm_defs VmcsReadOnly32_read_loaded [OF assms(1)] typed_reads [OF assms(1)])

lemma std_exit_info:
  assumes "n = exit_reason_number reason" and "field_of n 0 16 = n" and "\<not> bit n 31"
  shows "\<exists>info. exit_info std_env (waiting_vcpu (as_u64 n) flags) = (Ok info, waiting_vcpu (as_u64 n) flags)
    \<and> \<not> entry_failure info \<and> exit_reason info = reason"
proof -
  have "n = as_u32 (the (vmcs std_env (waiting_vcpu (as_u64 n) flags) (VmcsReadOnly32_number EXIT_REASON)))"
    by (simp add: std_vmcs waiting_vcpu_def)
  from exit_info_run [OF std_loaded this, of reason] assms exit_reason_roundtrip [of reason]
  show ?thesis by (simp add: x86_crates_std_def)
qed

lemma std_exits:
  "\<exists>info. exit_info std_env (waiting_vcpu 7 flags) = (Ok info, waiting_vcpu 7 flags)
    \<and> \<not> entry_failure info \<and> exit_reason info = INTERRUPT_WINDOW"
  "\<exists>info. exit_info std_env (waiting_vcpu 12 flags) = (Ok info, waiting_vcpu 12 flags)
    \<and> \<not> entry_failure info \<and> exit_reason info = HLT"
  using std_exit_info [of 7 INTERRUPT_WINDOW flags] std_exit_info [of 12 HLT flags]
  by (simp_all add: field_of_def)

text \<open>An embedding hypervisor that does nothing, and the exit of the halted guest under it.\<close>

definition idle_hv :: "('m, 'a, 'g, 'i) exit_fn" where
  "idle_hv s = Some (Ok (), s)"

lemma idle_hv_ok: "hv_ok E idle_hv"
  by (auto simp: hv_ok_def idle_hv_def exit_keeps_def)

lemma std_halt:
  "\<exists>t. vmexit_handler std_env sample_stub idle_hv (waiting_vcpu 12 flags) = Some (Ok (), t)
    \<and> (interruptible std_env t \<longleftrightarrow> flags AND 0x200 \<noteq> 0)"
proof -
  let ?s = "waiting_vcpu 12 flags"
  obtain info where i: "exit_info std_env ?s = (Ok info, ?s)" "\<not> entry_failure info" "exit_reason info = HLT"
    using std_exits(2) by blast
  obtain q t where c: "hseq (check_timer std_env) (hunwrap (check_pending_events std_env)) ?s = (q, t)"
    by fastforce
  have "q = Ok ()" "interruptible std_env t \<longleftrightarrow> flags AND 0x200 \<noteq> 0"
    using vmexit_handler_step [OF _ _ std_loaded _ c] std_bit_field_ok std_vmcs_ok
    by (simp_all add: waiting_vcpu_facts waiting_vcpu_interruptible)
  then show ?thesis
    using i c by (simp add: vmexit_handler_def hunwrap_def exit_dispatch_def idle_hv_def)
qed


text \<open>
  Claim C23. An exit for the interrupt window delivers what waits for it: the handler returns, and if
  the guest takes interrupts now, the oldest event is injected at the next VM entry and
  leaves the queue; behind the waiting events the queue has the timer's event, if the timer has
  fired, and nothing else.
\<close>

theorem interrupt_window_delivers:
  assumes "bit_field_ok (crates E)" and "vmcs_ok (cpu E)" and "vmcs_loaded E s" and "\<not> bit (entry_info E s) 31"
    and "exit_info E s = (Ok info, s)" and "\<not> entry_failure info" and "exit_reason info = INTERRUPT_WINDOW"
    and "interruptible E s" and "pending_events (self s) = e # es"
  shows "\<exists>t. vmexit_handler E go hv s = Some (Ok (), t) \<and> entry_event E t = Some (fst e)
    \<and> pending_events (self t) = es @ timer_events E s"
proof -
  obtain r u where w: "set_interrupt_window E False s = (r, u)" by fastforce
  note W = set_interrupt_window_run [OF assms(2,3) w]
  have u: "self u = self s" "xhal u = xhal s" by (subst W(2), simp)+
  have f: "vmcs E u (VmcsControl32_number VMENTRY_INTERRUPTION_INFO_FIELD) =
        vmcs E s (VmcsControl32_number VMENTRY_INTERRUPTION_INFO_FIELD)"
      "vmcs E u (VmcsGuestNW_number RFLAGS) = vmcs E s (VmcsGuestNW_number RFLAGS)"
      "vmcs E u (VmcsGuest32_number INTERRUPTIBILITY_STATE) = vmcs E s (VmcsGuest32_number INTERRUPTIBILITY_STATE)"
    by (rule W(4), simp)+
  then have i: "\<not> bit (entry_info E u) 31" "interruptible E u" "timer_events E u = timer_events E s"
    using assms(4,8) u by (simp_all only: entry_info_def interruptible_def timer_events_def simp_thms)
  obtain q t where c: "hseq (check_timer E) (hunwrap (check_pending_events E)) u = (q, t)" by fastforce
  note T = vmexit_handler_step [OF assms(1,2) W(3) i(1) c]
  have "vmexit_handler E go hv s = Some (q, t)"
    using assms(5-7) w W(1) c by (simp add: vmexit_handler_def hunwrap_def exit_dispatch_def)
  then show ?thesis using T i(2,3) u(1) assms(9) by auto
qed

theorem interrupt_window_delivers_witness:
  "\<exists>t. vmexit_handler std_env sample_stub idle_hv (waiting_vcpu 7 0x202) = Some (Ok (), t)
    \<and> entry_event std_env t = Some 0x20 \<and> pending_events (self t) = []"
proof -
  obtain info where i: "exit_info std_env (waiting_vcpu 7 0x202) = (Ok info, waiting_vcpu 7 0x202)"
    "\<not> entry_failure info" "exit_reason info = INTERRUPT_WINDOW"
    using std_exits(1) by blast
  have "interruptible std_env (waiting_vcpu 7 0x202)" by (simp add: waiting_vcpu_interruptible)
  from interrupt_window_delivers [OF _ _ std_loaded _ i this waiting_vcpu_facts(1), of sample_stub idle_hv]
  show ?thesis using std_bit_field_ok std_vmcs_ok by (simp add: waiting_vcpu_facts)
qed

section \<open>Many exits\<close>

text \<open>
  Between a VM entry and the next VM exit the guest runs. It does not touch the queue, the
  VMCS stays loaded, and the processor clears the valid bit of the injection field at the exit.
\<close>

definition guest_runs :: "('m, 'a) x86_env \<Rightarrow> ('m, 'a, 'g, 'i) vcpu_x86 \<Rightarrow> ('m, 'a, 'g, 'i) vcpu_x86 \<Rightarrow> bool" where
  "guest_runs E t u \<longleftrightarrow> vmcs_loaded E u \<and> \<not> bit (entry_info E u) 31
     \<and> pending_events (self u) = pending_events (self t)"

text \<open>
  Runs of a vCPU. Each exit that was handled is recorded by whether the guest takes
  interrupts at the VM entry that follows, and by the vector injected there.
\<close>

inductive exits :: "('m, 'a) x86_env \<Rightarrow> (('m, 'a, 'g, 'i) vcpu_x86, 'i) gdb_ops \<Rightarrow> ('m, 'a, 'g, 'i) exit_fn \<Rightarrow>
    ('m, 'a, 'g, 'i) vcpu_x86 \<Rightarrow> (bool \<times> u8 option) list \<Rightarrow> ('m, 'a, 'g, 'i) vcpu_x86 \<Rightarrow> bool"
  for E go hv s where
  start: "exits E go hv s [] s"
| exit: "exits E go hv s log t \<Longrightarrow> guest_runs E t u \<Longrightarrow> vmexit_handler E go hv u = Some (Ok (), v) \<Longrightarrow>
    exits E go hv s (log @ [(interruptible E v, entry_event E v)]) v"

definition injected :: "(bool \<times> u8 option) list \<Rightarrow> u8 list" where
  "injected log = List.map_filter snd log"

lemma injected_simps [simp]:
  "injected [] = []" "injected (log @ [(b, None)]) = injected log" "injected (log @ [(b, Some x)]) = injected log @ [x]"
  by (simp_all add: injected_def List.map_filter_def)

lemma queue_step_order:
  "queue_step b q = (ev, q') \<Longrightarrow> map fst q = (case ev of None \<Rightarrow> [] | Some x \<Rightarrow> [x]) @ map fst q'"
  by (cases q) (auto split: if_splits)

lemma exits_order:
  assumes "bit_field_ok (crates E)" and "vmcs_ok (cpu E)" and "gdb_ok E G go" and "hv_ok E hv"
    and "exits E go hv s log t"
  shows "\<exists>pushed. injected log @ map fst (pending_events (self t)) = map fst (pending_events (self s)) @ pushed"
  using assms(5)
proof induction
  case start
  then show ?case by simp
next
  case (exit log t u v)
  have u: "vmcs_loaded E u" "\<not> bit (entry_info E u) 31" "pending_events (self u) = pending_events (self t)"
    using exit.hyps(2) by (simp_all add: guest_runs_def)
  obtain new where q: "queue_step (interruptible E v) (pending_events (self t) @ new) =
      (entry_event E v, pending_events (self v))"
    using vmexit_handler_queue [OF assms(1-4) u(1,2) exit.hyps(3)] unfolding u(3) by metis
  have "injected (log @ [(interruptible E v, entry_event E v)]) @ map fst (pending_events (self v))
      = injected log @ map fst (pending_events (self t)) @ map fst new"
    using queue_step_order [OF q] by (cases "entry_event E v") simp_all
  then show ?case using exit.IH by (metis append.assoc)
qed

lemma exits_take:
  "exits E go hv s log t \<Longrightarrow> n \<le> length log \<Longrightarrow> \<exists>t'. exits E go hv s (take n log) t'"
proof (induction rule: exits.induct)
  case (exit log t u v)
  show ?case
  proof (cases "n \<le> length log")
    case True
    then show ?thesis using exit.IH by simp
  next
    case False
    then have "take n (log @ [(interruptible E v, entry_event E v)]) = log @ [(interruptible E v, entry_event E v)]"
      using exit.prems by simp
    then show ?thesis using exits.exit [OF exit.hyps] by metis
  qed
qed (auto intro: exits.start)

lemma exits_progress:
  assumes "bit_field_ok (crates E)" and "vmcs_ok (cpu E)" and "gdb_ok E G go" and "hv_ok E hv"
    and "exits E go hv s log t" and "\<forall>x \<in> set log. fst x" and "length log \<le> length (pending_events (self s))"
  shows "map snd log = map (\<lambda>e. Some (fst e)) (take (length log) (pending_events (self s)))
    \<and> (\<exists>p. pending_events (self t) = drop (length log) (pending_events (self s)) @ p)"
  using assms(5-7)
proof induction
  case start
  then show ?case by simp
next
  case (exit log t u v)
  let ?q = "pending_events (self s)"
  have n: "length log < length ?q" and tk: "interruptible E v" using exit.prems by simp_all
  from exit obtain p where IH: "map snd log = map (\<lambda>e. Some (fst e)) (take (length log) ?q)"
    and p: "pending_events (self t) = drop (length log) ?q @ p" by auto
  have u: "vmcs_loaded E u" "\<not> bit (entry_info E u) 31" "pending_events (self u) = pending_events (self t)"
    using exit.hyps(2) by (simp_all add: guest_runs_def)
  obtain new where q: "queue_step (interruptible E v) (pending_events (self t) @ new) =
      (entry_event E v, pending_events (self v))"
    using vmexit_handler_queue [OF assms(1-4) u(1,2) exit.hyps(3)] unfolding u(3) by metis
  have "drop (length log) ?q = ?q ! length log # drop (Suc (length log)) ?q"
    by (rule Cons_nth_drop_Suc [OF n, symmetric])
  with q p tk have "entry_event E v = Some (fst (?q ! length log))"
    "pending_events (self v) = drop (Suc (length log)) ?q @ p @ new" by simp_all
  then show ?case using IH n by (simp add: take_Suc_conv_app_nth)
qed

text \<open>
  Claim C3. Events reach the guest in the order in which they were pushed, and none is lost: in every
  run, the injected vectors followed by those still waiting are the vectors that waited at the
  start followed by pushed ones. And every event is delivered: if the guest takes interrupts, the
  event that has \<open>k\<close> events before it is injected when the guest is entered after exit \<open>k + 1\<close>.
\<close>

theorem pending_events_delivered:
  assumes "bit_field_ok (crates E)" and "vmcs_ok (cpu E)" and "gdb_ok E G go" and "hv_ok E hv"
    and "exits E go hv s log t"
  shows "(\<exists>pushed. injected log @ map fst (pending_events (self t)) =
        map fst (pending_events (self s)) @ pushed)
    \<and> ((\<forall>x \<in> set log. fst x) \<longrightarrow> (\<forall>k. k < length log \<and> k < length (pending_events (self s)) \<longrightarrow>
        snd (log ! k) = Some (fst (pending_events (self s) ! k))))"
proof (intro conjI impI allI; (elim conjE)?)
  show "\<exists>pushed. injected log @ map fst (pending_events (self t)) = map fst (pending_events (self s)) @ pushed"
    by (rule exits_order [OF assms])
  fix k assume tk: "\<forall>x \<in> set log. fst x" and k: "k < length log" "k < length (pending_events (self s))"
  obtain t' where "exits E go hv s (take (Suc k) log) t'"
    using exits_take [OF assms(5), of "Suc k"] k(1) by auto
  moreover have "\<forall>x \<in> set (take (Suc k) log). fst x" using tk by (meson in_set_takeD)
  moreover have "length (take (Suc k) log) = Suc k" using k(1) by simp
  ultimately have "map snd (take (Suc k) log) = map (\<lambda>e. Some (fst e)) (take (Suc k) (pending_events (self s)))"
    using exits_progress [OF assms(1-4), of s "take (Suc k) log" t'] k(2) by simp
  from arg_cong [OF this, of "\<lambda>xs. xs ! k"] k show "snd (log ! k) = Some (fst (pending_events (self s) ! k))"
    by simp
qed

theorem pending_events_delivered_witness:
  "\<exists>t b. exits std_env sample_stub idle_hv (waiting_vcpu 12 0x202) [(b, Some 0x20)] t"
proof -
  let ?s = "waiting_vcpu 12 0x202"
  obtain t where t: "vmexit_handler std_env sample_stub idle_hv ?s = Some (Ok (), t)"
    and tk: "interruptible std_env t"
    using std_halt [of "0x202"] by auto
  have g: "guest_runs std_env ?s ?s" by (simp add: guest_runs_def std_loaded waiting_vcpu_facts)
  have r: "exits std_env sample_stub idle_hv ?s ([] @ [(interruptible std_env t, entry_event std_env t)]) t"
    by (rule exits.exit [OF exits.start g t])
  from pending_events_delivered [OF _ _ vcpu_stub_ok idle_hv_ok r] tk
  have "entry_event std_env t = Some 0x20"
    using std_bit_field_ok std_vmcs_ok by (auto simp: waiting_vcpu_facts)
  with r show ?thesis by auto
qed

end
