(* ===== verification/Arm_Util.thy ===== *)
theory Arm_Util
  imports Byte_Memory
begin

text \<open>
  \<open>src/src/arch/aarch64/utils/util.rs\<close>: rounding, ranges, bit fields of a word, the search
  for the n-th set or clear bit, and accesses of a given width.
\<close>

section \<open>Operations\<close>

text \<open>The static \<open>TRACE\<close> is the state.\<close>

definition set_trace :: "bool \<Rightarrow> (bool, unit) hm" where
  "set_trace v = hmod (\<lambda>TRACE. v)"

definition trace :: "(bool, bool) hm" where
  "trace = hget (\<lambda>TRACE. TRACE)"

definition round_up :: "usize \<Rightarrow> usize \<Rightarrow> usize outcome" where
  "round_up v to =
     (if to = 0 then Panic DivideByZero else Ok (((v + to - 1) div to) * to))"

definition round_down :: "usize \<Rightarrow> usize \<Rightarrow> usize" where
  "round_down v to = v AND NOT (to - 1)"

definition range_in_range :: "usize \<Rightarrow> usize \<Rightarrow> usize \<Rightarrow> usize \<Rightarrow> bool" where
  "range_in_range base1 size1 base2 size2 \<longleftrightarrow> base2 \<le> base1 \<and> base1 + size1 \<le> base2 + size2"

definition in_range :: "usize \<Rightarrow> usize \<Rightarrow> usize \<Rightarrow> bool" where
  "in_range addr base sz = range_in_range addr 0 base sz"

definition bit_extract :: "usize \<Rightarrow> usize \<Rightarrow> usize \<Rightarrow> usize" where
  "bit_extract bits off len = shr bits (unat off) AND (shl 1 (unat len) - 1)"

definition bit_get :: "usize \<Rightarrow> usize \<Rightarrow> usize" where
  "bit_get bits off = shr bits (unat off) AND 1"

definition bit_set :: "usize \<Rightarrow> usize \<Rightarrow> usize" where
  "bit_set bits off = bits OR shl 1 (unat off)"

text \<open>The loop of \<open>bitmap_find_nth\<close> over the positions that are left.\<close>

primrec find_nth_loop :: "usize \<Rightarrow> usize \<Rightarrow> usize \<Rightarrow> usize \<Rightarrow> nat list \<Rightarrow> usize option" where
  "find_nth_loop bitmap b n_th count [] = None"
| "find_nth_loop bitmap b n_th count (i # is) =
     (if bit_extract bitmap (of_nat i) 1 = b then
        (if count + 1 = n_th then Some (of_nat i) else find_nth_loop bitmap b n_th (count + 1) is)
      else find_nth_loop bitmap b n_th count is)"

definition bitmap_find_nth :: "usize \<Rightarrow> usize \<Rightarrow> usize \<Rightarrow> usize \<Rightarrow> bool \<Rightarrow> usize option" where
  "bitmap_find_nth bitmap start sz n_th on =
     (if 64 < sz + start then None
      else let b = (if on then 1 else 0); stop = start + sz in
        find_nth_loop bitmap b n_th 0 [unat start..<unat stop])"

definition ptr_read_write :: "usize \<Rightarrow> usize \<Rightarrow> usize \<Rightarrow> bool \<Rightarrow> (usize \<Rightarrow> u8, usize) hm" where
  "ptr_read_write addr width val rd =
     (if rd then
        (if width = 1 then hget (\<lambda>m. load_le m addr 1)
         else if width = 2 then hget (\<lambda>m. load_le m addr 2)
         else if width = 4 then hget (\<lambda>m. load_le m addr 4)
         else if width = 8 then hget (\<lambda>m. load_le m addr 8)
         else hpanic ExplicitPanic)
      else
        hseq (if width = 1 then hmod (\<lambda>m. store_le m addr 1 val)
              else if width = 2 then hmod (\<lambda>m. store_le m addr 2 val)
              else if width = 4 then hmod (\<lambda>m. store_le m addr 4 val)
              else if width = 8 then hmod (\<lambda>m. store_le m addr 8 val)
              else hpanic ExplicitPanic)
        (hret 0))"

section \<open>Bits\<close>

lemma bit_get_bit: "unat off < 64 \<Longrightarrow> bit_get bits off = of_bool (bit bits (unat off))"
  by (simp add: bit_get_def drop_bit_and_1)

lemma bit_extract_one: "bit_extract bits off 1 = of_bool (bit bits (unat off mod 64))"
proof -
  have "shl 1 1 - 1 = (1 :: usize)" by simp
  then show ?thesis by (simp add: bit_extract_def shr_def drop_bit_and_1)
qed

lemma bit_set_bit: "unat off < 64 \<Longrightarrow> bit (bit_set bits off) i \<longleftrightarrow> bit bits i \<or> i = unat off"
  by (simp add: bit_set_def bit_or_exp)

section \<open>Rounding\<close>

lemma round_up_mult:
  assumes "0 < to" and "unat v + unat to \<le> 2 ^ 64"
  shows "\<exists>r. round_up v to = Ok r \<and> unat r = ((unat v + unat to - 1) div unat to) * unat to"
proof -
  have t: "0 < unat to" using assms(1) by (simp add: unat_gt_0 word_neq_0_conv)
  have s: "unat (v + to - 1) = unat v + unat to - 1"
  proof -
    have "unat (to - 1) = unat to - 1" using t by (simp add: unat_sub word_le_nat_alt)
    then show ?thesis
      using assms(2) t unat_add_u64 [of v "to - 1"] by (simp add: add_diff_eq [symmetric])
  qed
  let ?q = "(unat v + unat to - 1) div unat to"
  have q: "unat ((v + to - 1) div to) = ?q" unfolding unat_div s ..
  have "?q * unat to \<le> unat v + unat to - 1" by (rule div_times_less_eq_dividend)
  then have "?q * unat to < 2 ^ 64" using assms(2) t by linarith
  then have "unat (((v + to - 1) div to) * to) = ?q * unat to"
    unfolding q [symmetric] by (simp add: unat_mult_lem [THEN iffD1])
  then show ?thesis using assms(1) by (auto simp: round_up_def)
qed

lemma round_down_mult:
  assumes "k < 64"
  shows "unat (round_down v (2 ^ k)) = unat v div 2 ^ k * 2 ^ k"
proof -
  have lt: "unat v < 2 ^ 64" by (rule unat_u64)
  have "round_down v (2 ^ k) = v AND NOT (mask k)" by (simp add: round_down_def mask_eq_exp_minus_1)
  also have "\<dots> = push_bit k (drop_bit k v)" by (rule bit_word_eqI) (auto simp: bit_simps)
  finally have "unat (round_down v (2 ^ k)) = take_bit 64 (push_bit k (drop_bit k (unat v)))"
    using lt by (simp add: unsigned_push_bit_eq unsigned_drop_bit_eq take_bit_nat_eq_self)
  moreover have "unat v div 2 ^ k * 2 ^ k < 2 ^ 64"
    using lt div_times_less_eq_dividend [of "unat v" "2 ^ k"] by linarith
  ultimately show ?thesis
    by (simp add: take_bit_nat_eq_self push_bit_eq_mult drop_bit_eq_div)
qed

text \<open>
  \<open>round_up\<close> by a non-zero step gives the least multiple of the step that is not below
  the value, unless the sum wraps; \<open>round_down\<close> by a power of two gives the greatest multiple that
  is not above it; and \<open>in_range\<close>, on ranges that do not wrap, accepts the addresses of the
  range and the one just behind its end.
\<close>

theorem rounding_and_ranges:
  assumes "0 < to" and "unat v + unat to \<le> 2 ^ 64" and "k < 64" and "unat base + unat sz < 2 ^ 64"
  shows "(\<exists>r. round_up v to = Ok r \<and> unat to dvd unat r \<and> unat v \<le> unat r
      \<and> (\<forall>n. unat to dvd n \<longrightarrow> unat v \<le> n \<longrightarrow> unat r \<le> n))
    \<and> (2 ^ k dvd unat (round_down v (2 ^ k)) \<and> unat (round_down v (2 ^ k)) \<le> unat v
      \<and> (\<forall>n. 2 ^ k dvd n \<longrightarrow> n \<le> unat v \<longrightarrow> n \<le> unat (round_down v (2 ^ k))))
    \<and> (in_range addr base sz \<longleftrightarrow> unat base \<le> unat addr \<and> unat addr \<le> unat base + unat sz)"
proof (intro conjI)
  have t: "0 < unat to" using assms(1) by (simp add: unat_gt_0 word_neq_0_conv)
  obtain r where r: "round_up v to = Ok r" "unat r = ((unat v + unat to - 1) div unat to) * unat to"
    using round_up_mult [OF assms(1,2)] by blast
  have "unat v \<le> unat r"
    unfolding r(2) using t div_mult_mod_eq [of "unat v + unat to - 1" "unat to"]
      mod_less_divisor [OF t, of "unat v + unat to - 1"] by linarith
  moreover have "unat r \<le> n" if d: "unat to dvd n" and le: "unat v \<le> n" for n
  proof -
    obtain q where q: "n = unat to * q" using d by (auto simp: dvd_def)
    have "unat v + unat to - 1 < (q + 1) * unat to" using le t unfolding q by (simp add: algebra_simps)
    then have "(unat v + unat to - 1) div unat to < q + 1" by (rule div_less_iff_less_mult [OF t, THEN iffD2])
    then show ?thesis unfolding r(2) q by (simp add: mult.commute)
  qed
  ultimately show "\<exists>r. round_up v to = Ok r \<and> unat to dvd unat r \<and> unat v \<le> unat r
      \<and> (\<forall>n. unat to dvd n \<longrightarrow> unat v \<le> n \<longrightarrow> unat r \<le> n)"
    using r by (intro exI [of _ r]) simp
  note d = round_down_mult [OF assms(3), of v]
  show "2 ^ k dvd unat (round_down v (2 ^ k))" by (simp add: d)
  show "unat (round_down v (2 ^ k)) \<le> unat v" by (simp add: d)
  show "\<forall>n. 2 ^ k dvd n \<longrightarrow> n \<le> unat v \<longrightarrow> n \<le> unat (round_down v (2 ^ k))"
    unfolding d by (metis div_le_mono dvd_div_mult_self mult_le_mono1)
  show "in_range addr base sz \<longleftrightarrow> unat base \<le> unat addr \<and> unat addr \<le> unat base + unat sz"
    using unat_add_u64 [OF assms(4)] by (simp add: in_range_def range_in_range_def word_le_nat_alt)
qed

theorem rounding_and_ranges_witness:
  "round_up 0x1001 0x1000 = Ok 0x2000 \<and> in_range 0x3000 0x2000 0x1000
   \<and> (\<forall>n. 2 ^ 12 dvd n \<longrightarrow> n \<le> unat (0x1fff :: usize) \<longrightarrow> n \<le> unat (round_down 0x1fff (2 ^ 12)))"
  using rounding_and_ranges [of "0x1000" "0x1001" 12 "0x2000" "0x1000" "0x3000"]
    rounding_and_ranges [of "0x1000" "0x1fff" 12 "0x2000" "0x1000" "0x3000"]
  by (simp add: round_up_def)

section \<open>Searching\<close>

lemma find_nth_loop_filter:
  assumes "\<forall>i \<in> set is. i < 64" and "c + length is < 2 ^ 64"
  shows "find_nth_loop bitmap (if on then 1 else 0) k (of_nat c) is =
    (let hits = filter (\<lambda>i. bit bitmap i = on) is in
     if c < unat k \<and> unat k \<le> c + length hits then Some (of_nat (hits ! (unat k - c - 1))) else None)"
  using assms
proof (induction "is" arbitrary: c)
  case (Cons i "is")
  have i: "i < 64" "unat (of_nat i :: usize) = i" using Cons.prems(1) by (simp_all add: unat_of_nat)
  have hit: "bit_extract bitmap (of_nat i) 1 = (if on then 1 else 0) \<longleftrightarrow> bit bitmap i = on"
    using i by (simp add: bit_extract_one)
  have c1: "(of_nat c :: usize) + 1 = of_nat (Suc c)" by simp
  have eq: "of_nat (Suc c) = k \<longleftrightarrow> Suc c = unat k"
    using Cons.prems(2) unat_of_nat_usize [of "Suc c"] by (auto simp: word_unat_eq_iff simp del: of_nat_Suc)
  show ?case
    unfolding find_nth_loop.simps hit c1
    using Cons.IH [of c] Cons.IH [of "Suc c"] Cons.prems eq
    by (auto simp: Let_def nth_Cons' simp del: of_nat_Suc)
qed simp

lemma unat_64: "unat (64 :: usize) = 64"
  by simp

text \<open>
  \<open>bitmap_find_nth\<close> agrees with its reading on lists: among the positions from \<open>start\<close>
  up to \<open>start + size\<close> whose bit has the wanted value, it returns the n-th, counted from one;
  it returns nothing if there are fewer, if n is zero, or if the range leaves the word.
\<close>

theorem bitmap_find_nth_spec:
  "bitmap_find_nth bitmap start sz k on =
     (let hits = filter (\<lambda>i. bit bitmap i = on) [unat start..<unat (start + sz)] in
      if unat (start + sz) \<le> 64 \<and> 0 < unat k \<and> unat k \<le> length hits
      then Some (of_nat (hits ! (unat k - 1))) else None)"
proof (cases "64 < sz + start")
  case True
  then have "\<not> unat (start + sz) \<le> 64"
    by (simp only: word_less_nat_alt unat_64 add.commute not_le)
  with True show ?thesis by (simp add: bitmap_find_nth_def Let_def)
next
  case False
  then have e: "unat (start + sz) \<le> 64" by (simp only: word_less_nat_alt unat_64 add.commute not_less)
  then have "\<forall>i \<in> set [unat start..<unat (start + sz)]. i < 64"
    "0 + length [unat start..<unat (start + sz)] < 2 ^ 64" by auto
  from find_nth_loop_filter [OF this, of bitmap on k] show ?thesis
    using False e by (simp add: bitmap_find_nth_def Let_def)
qed

section \<open>Accesses\<close>

text \<open>
  \<open>ptr_read_write\<close>: with a width of 1, 2, 4 or 8 bytes a write followed by a read of
  the same width gives the written value cut to the width, and the write changes no byte
  outside; any other width panics and changes nothing.
\<close>

theorem ptr_read_write_roundtrip:
  "ptr_read_write addr width val False m =
     (if width \<in> {1, 2, 4, 8} then (Ok 0, store_le m addr (unat width) val) else (Panic ExplicitPanic, m))
   \<and> ptr_read_write addr width val' True (store_le m addr (unat width) val) =
     (if width \<in> {1, 2, 4, 8} then Ok (take_bit (8 * unat width) val) else Panic ExplicitPanic,
      store_le m addr (unat width) val)
   \<and> (unat (x - addr) < unat width \<or> store_le m addr (unat width) val x = m x)"
  using load_le_store_le [of 1 m addr val] load_le_store_le [of 2 m addr val]
    load_le_store_le [of 4 m addr val] load_le_store_le [of 8 m addr val]
  by (auto simp: ptr_read_write_def hm_defs store_le_def store_bytes_def le_bytes_def)

end
