(* ===== verification/Arm_Bitmap.thy ===== *)
theory Arm_Bitmap
  imports Arm_Util
begin

text \<open>
  \<open>src/src/arch/aarch64/utils/bitmap.rs\<close>: the trait \<open>BitAlloc\<close> with its implementations, a
  16-bit word and, over any implementation, an array of sixteen of them; and the bitmap of
  variable length \<open>FlexBitmap\<close>. The trait is a record of operations and a locale of their
  laws; both bitmaps are shown to implement a set of numbers.
\<close>

section \<open>The trait\<close>

record 't BitAlloc =
  CAP :: usize
  DEFAULT :: 't
  ba_set :: "'t \<Rightarrow> usize \<Rightarrow> 't outcome"
  ba_clear :: "'t \<Rightarrow> usize \<Rightarrow> 't outcome"
  ba_get :: "'t \<Rightarrow> usize \<Rightarrow> usize outcome"

subsection \<open>Sixteen bits\<close>

type_synonym BitAlloc16 = u16

definition BitAlloc16_set :: "BitAlloc16 \<Rightarrow> usize \<Rightarrow> BitAlloc16 outcome" where
  "BitAlloc16_set self idx = Ok (self OR shl 1 (unat idx))"

definition BitAlloc16_clear :: "BitAlloc16 \<Rightarrow> usize \<Rightarrow> BitAlloc16 outcome" where
  "BitAlloc16_clear self idx = Ok (self AND (NOT (shl 1 (unat idx)) AND 0xffff))"

definition BitAlloc16_get :: "BitAlloc16 \<Rightarrow> usize \<Rightarrow> usize outcome" where
  "BitAlloc16_get self idx = Ok (if self AND shl 1 (unat idx) \<noteq> 0 then 1 else 0)"

definition BitAlloc16 :: "BitAlloc16 BitAlloc" where
  "BitAlloc16 = \<lparr>CAP = 16, DEFAULT = 0, ba_set = BitAlloc16_set, ba_clear = BitAlloc16_clear,
     ba_get = BitAlloc16_get\<rparr>"

subsection \<open>Sixteen of the level below\<close>

record 't BitMap =
  bm_map :: "'t list"

definition BitMap_default :: "'t BitAlloc \<Rightarrow> 't BitMap" where
  "BitMap_default T = \<lparr>bm_map = replicate 16 (DEFAULT T)\<rparr>"

definition BitMap_update :: "'t BitAlloc \<Rightarrow> ('t \<Rightarrow> usize \<Rightarrow> 't outcome) \<Rightarrow> 't BitMap \<Rightarrow> usize \<Rightarrow>
    't BitMap outcome" where
  "BitMap_update T f self idx =
     (if CAP T = 0 then Panic DivideByZero
      else let i = unat (idx div CAP T) in
        obind (index (bm_map self) i) (\<lambda>t.
        obind (f t (idx mod CAP T)) (\<lambda>t'. Ok (self\<lparr>bm_map := (bm_map self)[i := t']\<rparr>))))"

definition BitMap_set :: "'t BitAlloc \<Rightarrow> 't BitMap \<Rightarrow> usize \<Rightarrow> 't BitMap outcome" where
  "BitMap_set T = BitMap_update T (ba_set T)"

definition BitMap_clear :: "'t BitAlloc \<Rightarrow> 't BitMap \<Rightarrow> usize \<Rightarrow> 't BitMap outcome" where
  "BitMap_clear T = BitMap_update T (ba_clear T)"

definition BitMap_get :: "'t BitAlloc \<Rightarrow> 't BitMap \<Rightarrow> usize \<Rightarrow> usize outcome" where
  "BitMap_get T self idx =
     (if CAP T = 0 then Panic DivideByZero
      else let i = unat (idx div CAP T) in
        obind (index (bm_map self) i) (\<lambda>t. ba_get T t (idx mod CAP T)))"

definition BitMap :: "'t BitAlloc \<Rightarrow> 't BitMap BitAlloc" where
  "BitMap T = \<lparr>CAP = CAP T * 16, DEFAULT = BitMap_default T, ba_set = BitMap_set T,
     ba_clear = BitMap_clear T, ba_get = BitMap_get T\<rparr>"

definition BitAlloc256 where "BitAlloc256 = BitMap BitAlloc16"
definition BitAlloc4K where "BitAlloc4K = BitMap BitAlloc256"
definition BitAlloc64K where "BitAlloc64K = BitMap BitAlloc4K"
definition BitAlloc1M where "BitAlloc1M = BitMap BitAlloc64K"
definition BitAlloc16M where "BitAlloc16M = BitMap BitAlloc1M"
definition BitAlloc256M where "BitAlloc256M = BitMap BitAlloc16M"

section \<open>The contract of the trait\<close>

text \<open>A sequence of operations on one bitmap, \<open>True\<close> to set and \<open>False\<close> to clear, and the same on a set.\<close>

primrec ba_run :: "'t BitAlloc \<Rightarrow> (bool \<times> usize) list \<Rightarrow> 't \<Rightarrow> 't outcome" where
  "ba_run T [] t = Ok t"
| "ba_run T (op # ops) t = obind ((if fst op then ba_set T else ba_clear T) t (snd op)) (ba_run T ops)"

primrec set_run :: "(bool \<times> usize) list \<Rightarrow> nat set \<Rightarrow> nat set" where
  "set_run [] S = S"
| "set_run (op # ops) S = set_run ops (if fst op then insert (unat (snd op)) S else S - {unat (snd op)})"

text \<open>
  \<open>bits t\<close> is the set that a bitmap \<open>t\<close> stands for. Indices below the capacity behave like
  set operations.
\<close>

locale bit_alloc =
  fixes T :: "'t BitAlloc"
    and good :: "'t \<Rightarrow> bool"
    and bits :: "'t \<Rightarrow> nat set"
  assumes cap_pos: "0 < unat (CAP T)"
    and default_wf: "good (DEFAULT T)"
    and default_bits: "bits (DEFAULT T) = {}"
    and bits_below: "good t \<Longrightarrow> bits t \<subseteq> {..<unat (CAP T)}"
    and set_ok: "good t \<Longrightarrow> unat i < unat (CAP T) \<Longrightarrow>
      \<exists>t'. ba_set T t i = Ok t' \<and> good t' \<and> bits t' = insert (unat i) (bits t)"
    and clear_ok: "good t \<Longrightarrow> unat i < unat (CAP T) \<Longrightarrow>
      \<exists>t'. ba_clear T t i = Ok t' \<and> good t' \<and> bits t' = bits t - {unat i}"
    and get_ok: "good t \<Longrightarrow> unat i < unat (CAP T) \<Longrightarrow> ba_get T t i = Ok (of_bool (unat i \<in> bits t))"
begin

lemma run_refines:
  assumes "good t" and "\<forall>op \<in> set ops. unat (snd op) < unat (CAP T)"
  shows "\<exists>t'. ba_run T ops t = Ok t' \<and> good t' \<and> bits t' = set_run ops (bits t)"
  using assms
proof (induction ops arbitrary: t)
  case (Cons op ops)
  let ?S = "if fst op then insert (unat (snd op)) (bits t) else bits t - {unat (snd op)}"
  obtain u where "(if fst op then ba_set T else ba_clear T) t (snd op) = Ok u" "good u" "bits u = ?S"
    using set_ok [OF Cons.prems(1), of "snd op"] clear_ok [OF Cons.prems(1), of "snd op"] Cons.prems(2)
    by (cases "fst op") auto
  with Cons.IH [of u] Cons.prems(2) show ?case by simp
qed simp

end

text \<open>Sixteen bitmaps that satisfy the contract make one that does, as long as the capacity fits.\<close>

definition BitMap_wf :: "('t \<Rightarrow> bool) \<Rightarrow> 't BitMap \<Rightarrow> bool" where
  "BitMap_wf good self \<longleftrightarrow> length (bm_map self) = 16 \<and> (\<forall>t \<in> set (bm_map self). good t)"

definition BitMap_bits :: "'t BitAlloc \<Rightarrow> ('t \<Rightarrow> nat set) \<Rightarrow> 't BitMap \<Rightarrow> nat set" where
  "BitMap_bits T bits self =
     {n. n < unat (CAP T) * 16 \<and> n mod unat (CAP T) \<in> bits (bm_map self ! (n div unat (CAP T)))}"

locale bit_map = bit_alloc +
  assumes cap_small: "unat (CAP T) * 16 < 2 ^ 64"
begin

lemma cap_mult: "unat (CAP T * 16) = unat (CAP T) * 16"
  using cap_small by (simp add: unat_mult_lem [THEN iffD1])

lemma split_index:
  assumes "unat i < unat (CAP T * 16)"
  shows "unat (i div CAP T) < 16" and "unat (i mod CAP T) < unat (CAP T)"
  using assms cap_pos unfolding cap_mult unat_div unat_mod
  by (simp_all add: less_mult_imp_div_less mult.commute)

lemma cap_nz: "CAP T \<noteq> 0"
  using cap_pos by auto

lemma update_refines:
  assumes good: "BitMap_wf good m" and i: "unat i < unat (CAP T * 16)"
    and f: "\<And>t. good t \<Longrightarrow> \<exists>t'. f t (i mod CAP T) = Ok t' \<and> good t' \<and>
      bits t' = (if on then insert (unat (i mod CAP T)) (bits t) else bits t - {unat (i mod CAP T)})"
  shows "\<exists>m'. BitMap_update T f m i = Ok m' \<and> BitMap_wf good m' \<and>
    BitMap_bits T bits m' =
      (if on then insert (unat i) (BitMap_bits T bits m) else BitMap_bits T bits m - {unat i})"
proof -
  let ?c = "unat (CAP T)" and ?k = "unat (i div CAP T)" and ?r = "unat (i mod CAP T)"
  note k = split_index [OF i]
  have len: "?k < length (bm_map m)" using good k(1) by (simp add: BitMap_wf_def)
  then obtain t' where t': "f (bm_map m ! ?k) (i mod CAP T) = Ok t'" "good t'"
    "bits t' = (if on then insert ?r (bits (bm_map m ! ?k)) else bits (bm_map m ! ?k) - {?r})"
    using f [of "bm_map m ! ?k"] good by (auto simp: BitMap_wf_def)
  let ?m = "m\<lparr>bm_map := (bm_map m)[?k := t']\<rparr>"
  have kr: "?k = unat i div ?c" "?r = unat i mod ?c" by (simp_all add: unat_div unat_mod)
  have same: "n = unat i \<longleftrightarrow> n div ?c = ?k \<and> n mod ?c = ?r" for n
    unfolding kr by (metis div_mod_decomp)
  have "n \<in> BitMap_bits T bits ?m \<longleftrightarrow>
      n \<in> (if on then insert (unat i) (BitMap_bits T bits m) else BitMap_bits T bits m - {unat i})" for n
    using same [of n] len t'(3) i
    by (cases "n div ?c = ?k") (auto simp: BitMap_bits_def cap_mult nth_list_update)
  moreover have "BitMap_wf good ?m"
    using good t'(2) by (auto simp: BitMap_wf_def dest: set_update_subset_insert [THEN subsetD])
  moreover have "BitMap_update T f m i = Ok ?m"
    using t'(1) len cap_nz by (simp add: BitMap_update_def Let_def)
  ultimately show ?thesis by (intro exI [of _ ?m] conjI set_eqI)
qed

end

sublocale bit_map \<subseteq> above: bit_alloc "BitMap T" "BitMap_wf good" "BitMap_bits T bits"
proof unfold_locales
  let ?T = "BitMap T"
  have cap: "CAP ?T = CAP T * 16" by (simp add: BitMap_def)
  show "0 < unat (CAP ?T)" unfolding cap cap_mult using cap_pos by simp
  show "BitMap_wf good (DEFAULT ?T)"
    using default_wf by (simp add: BitMap_def BitMap_default_def BitMap_wf_def)
  have "n div unat (CAP T) < 16" if "n < unat (CAP T) * 16" for n
    using that by (simp add: less_mult_imp_div_less mult.commute)
  then show "BitMap_bits T bits (DEFAULT ?T) = {}"
    by (auto simp: BitMap_bits_def BitMap_def BitMap_default_def default_bits)
  show "BitMap_bits T bits t \<subseteq> {..<unat (CAP ?T)}" for t
    unfolding cap cap_mult by (auto simp: BitMap_bits_def)
  fix t and i :: usize assume t: "BitMap_wf good t" and i: "unat i < unat (CAP ?T)"
  note k = split_index [OF i [unfolded cap]]
  show "\<exists>t'. ba_set ?T t i = Ok t' \<and> BitMap_wf good t' \<and> BitMap_bits T bits t' = insert (unat i) (BitMap_bits T bits t)"
    using update_refines [OF t i [unfolded cap], of "ba_set T" True] set_ok k(2)
    by (simp add: BitMap_def BitMap_set_def)
  show "\<exists>t'. ba_clear ?T t i = Ok t' \<and> BitMap_wf good t' \<and> BitMap_bits T bits t' = BitMap_bits T bits t - {unat i}"
    using update_refines [OF t i [unfolded cap], of "ba_clear T" False] clear_ok k(2)
    by (simp add: BitMap_def BitMap_clear_def)
  have "good (bm_map t ! unat (i div CAP T))" using t k(1) by (simp add: BitMap_wf_def)
  then show "ba_get ?T t i = Ok (of_bool (unat i \<in> BitMap_bits T bits t))"
    using t k i cap_nz get_ok [OF _ k(2)]
    by (simp add: BitMap_def BitMap_get_def Let_def BitMap_wf_def BitMap_bits_def cap_mult unat_div unat_mod)
qed

section \<open>The capacities of the source\<close>

definition u16_bits :: "u16 \<Rightarrow> nat set" where
  "u16_bits t = {i. bit t i}"

lemma and_shl_1: "t AND shl 1 n = 0 \<longleftrightarrow> \<not> bit t (n mod 16)" for t :: u16
proof -
  have "n mod 16 < 16" by simp
  then have "t AND 2 ^ (n mod 16) = 0 \<longleftrightarrow> \<not> bit t (n mod 16)"
    by (simp add: and_exp_eq_0_iff_not_bit)
  then show ?thesis by (simp add: shl_def)
qed

interpretation ba16: bit_map BitAlloc16 "\<lambda>t. True" u16_bits
proof unfold_locales
  fix t :: u16 and i :: usize assume i: "unat i < unat (CAP BitAlloc16)"
  then have i: "unat i < 16" by (simp add: BitAlloc16_def)
  have "NOT (2 ^ n) AND 0xffff = (NOT (2 ^ n) :: u16)" for n
  proof -
    have "(0xffff :: u16) = -1" by simp
    then show ?thesis by (simp only: and.right_neutral)
  qed
  then show "\<exists>t'. ba_clear BitAlloc16 t i = Ok t' \<and> True \<and> u16_bits t' = u16_bits t - {unat i}"
    using i by (auto simp: BitAlloc16_def BitAlloc16_clear_def u16_bits_def bit_andnot_exp)
  show "\<exists>t'. ba_set BitAlloc16 t i = Ok t' \<and> True \<and> u16_bits t' = insert (unat i) (u16_bits t)"
    using i by (auto simp: BitAlloc16_def BitAlloc16_set_def u16_bits_def bit_or_exp)
  show "ba_get BitAlloc16 t i = Ok (of_bool (unat i \<in> u16_bits t))"
    using i and_shl_1 [of t "unat i"] by (simp add: BitAlloc16_def BitAlloc16_get_def u16_bits_def)
qed (auto simp: BitAlloc16_def u16_bits_def dest: bit_imp_le_length)

definition wf256 where "wf256 = BitMap_wf (\<lambda>t :: u16. True)"
definition bits256 where "bits256 = BitMap_bits BitAlloc16 u16_bits"

definition wf4K where "wf4K = BitMap_wf wf256"
definition bits4K where "bits4K = BitMap_bits BitAlloc256 bits256"

definition wf64K where "wf64K = BitMap_wf wf4K"
definition bits64K where "bits64K = BitMap_bits BitAlloc4K bits4K"

definition wf1M where "wf1M = BitMap_wf wf64K"
definition bits1M where "bits1M = BitMap_bits BitAlloc64K bits64K"

definition wf16M where "wf16M = BitMap_wf wf1M"
definition bits16M where "bits16M = BitMap_bits BitAlloc1M bits1M"

definition wf256M where "wf256M = BitMap_wf wf16M"
definition bits256M where "bits256M = BitMap_bits BitAlloc16M bits16M"

lemma caps [simp]:
  "CAP BitAlloc16 = 16"
  "CAP BitAlloc256 = 256"
  "CAP BitAlloc4K = 4096"
  "CAP BitAlloc64K = 65536"
  "CAP BitAlloc1M = 1048576"
  "CAP BitAlloc16M = 16777216"
  "CAP BitAlloc256M = 268435456"
  by (simp_all add: BitAlloc16_def BitAlloc256_def BitAlloc4K_def BitAlloc64K_def BitAlloc1M_def
      BitAlloc16M_def BitAlloc256M_def BitMap_def)

interpretation ba256: bit_map BitAlloc256 wf256 bits256
  unfolding BitAlloc256_def wf256_def bits256_def
  by (intro bit_map.intro ba16.above.bit_alloc_axioms bit_map_axioms.intro)
    (simp add: BitAlloc256_def [symmetric])

interpretation ba4K: bit_map BitAlloc4K wf4K bits4K
  unfolding BitAlloc4K_def wf4K_def bits4K_def
  by (intro bit_map.intro ba256.above.bit_alloc_axioms bit_map_axioms.intro)
    (simp add: BitAlloc4K_def [symmetric])

interpretation ba64K: bit_map BitAlloc64K wf64K bits64K
  unfolding BitAlloc64K_def wf64K_def bits64K_def
  by (intro bit_map.intro ba4K.above.bit_alloc_axioms bit_map_axioms.intro)
    (simp add: BitAlloc64K_def [symmetric])

interpretation ba1M: bit_map BitAlloc1M wf1M bits1M
  unfolding BitAlloc1M_def wf1M_def bits1M_def
  by (intro bit_map.intro ba64K.above.bit_alloc_axioms bit_map_axioms.intro)
    (simp add: BitAlloc1M_def [symmetric])

interpretation ba16M: bit_map BitAlloc16M wf16M bits16M
  unfolding BitAlloc16M_def wf16M_def bits16M_def
  by (intro bit_map.intro ba1M.above.bit_alloc_axioms bit_map_axioms.intro)
    (simp add: BitAlloc16M_def [symmetric])

interpretation ba256M: bit_map BitAlloc256M wf256M bits256M
  unfolding BitAlloc256M_def wf256M_def bits256M_def
  by (intro bit_map.intro ba16M.above.bit_alloc_axioms bit_map_axioms.intro)
    (simp add: BitAlloc256M_def [symmetric])

text \<open>
  Claim C18. A bitmap of 256M bits implements a set of numbers: any sequence of \<open>set\<close> and \<open>clear\<close>
  with indices below the capacity succeeds on the default bitmap, and afterwards \<open>get\<close> answers
  1 exactly for the numbers in the set that the same operations build from the empty set. An
  index at or beyond the capacity panics.
\<close>

theorem bitmap_refines_set:
  assumes "\<forall>op \<in> set ops. unat (snd op) < 2 ^ 28"
  shows "\<exists>t. ba_run BitAlloc256M ops (DEFAULT BitAlloc256M) = Ok t
    \<and> (\<forall>i. ba_get BitAlloc256M t i =
        (if unat i < 2 ^ 28 then Ok (of_bool (unat i \<in> set_run ops {})) else Panic IndexOutOfBounds))
    \<and> (\<forall>i. 2 ^ 28 \<le> unat i \<longrightarrow> ba_set BitAlloc256M t i = Panic IndexOutOfBounds
        \<and> ba_clear BitAlloc256M t i = Panic IndexOutOfBounds)"
proof -
  have ops: "\<forall>op \<in> set ops. unat (snd op) < unat (CAP BitAlloc256M)" using assms by simp
  obtain t where t: "ba_run BitAlloc256M ops (DEFAULT BitAlloc256M) = Ok t" "wf256M t"
    "bits256M t = set_run ops {}"
    using ba256M.run_refines [OF ba256M.default_wf ops] ba256M.default_bits by auto
  have len: "length (bm_map t) = 16" using t(2) by (simp add: wf256M_def BitMap_wf_def)
  have out: "index (bm_map t) (unat (i div CAP BitAlloc16M)) = Panic IndexOutOfBounds"
    if "2 ^ 28 \<le> unat i" for i
  proof -
    have "2 ^ 28 div 2 ^ 24 \<le> unat i div 2 ^ 24" using that by (rule div_le_mono)
    then have "16 \<le> unat i div 2 ^ 24" by simp
    then have "\<not> unat (i div CAP BitAlloc16M) < length (bm_map t)" by (simp add: len unat_div)
    then show ?thesis by (simp add: index_def)
  qed
  have "ba_get BitAlloc256M t i = Ok (of_bool (unat i \<in> set_run ops {}))" if "unat i < 2 ^ 28" for i
    using ba256M.get_ok [OF t(2), of i] that by (simp add: t(3))
  moreover have "ba_get BitAlloc256M t i = Panic IndexOutOfBounds"
    "ba_set BitAlloc256M t i = Panic IndexOutOfBounds" "ba_clear BitAlloc256M t i = Panic IndexOutOfBounds"
    if "2 ^ 28 \<le> unat i" for i
    using out [OF that]
    by (simp_all add: BitAlloc256M_def BitMap_def BitMap_get_def BitMap_set_def BitMap_clear_def
        BitMap_update_def Let_def)
  ultimately show ?thesis using t(1) by (intro exI [of _ t]) auto
qed

theorem bitmap_refines_set_witness:
  "\<exists>t. ba_run BitAlloc256M [(True, 121), (True, 0xfffffff), (False, 121)] (DEFAULT BitAlloc256M) = Ok t
    \<and> ba_get BitAlloc256M t 121 = Ok 0 \<and> ba_get BitAlloc256M t 0xfffffff = Ok 1
    \<and> ba_get BitAlloc256M t 0x10000000 = Panic IndexOutOfBounds"
proof -
  obtain t where t: "ba_run BitAlloc256M [(True, 121), (True, 0xfffffff), (False, 121)] (DEFAULT BitAlloc256M) = Ok t"
    and g: "\<forall>i. ba_get BitAlloc256M t i = (if unat i < 2 ^ 28
      then Ok (of_bool (unat i \<in> set_run [(True, 121), (True, 0xfffffff), (False, 121)] {}))
      else Panic IndexOutOfBounds)"
    using bitmap_refines_set [of "[(True, 121), (True, 0xfffffff), (False, 121)]"] by auto
  show ?thesis
    using t g [rule_format, of 121] g [rule_format, of "0xfffffff"] g [rule_format, of "0x10000000"] by simp
qed

end
