(* ===== verification/Arm_Flex.thy ===== *)
theory Arm_Flex
  imports Arm_Util
begin

text \<open>
  \<open>FlexBitmap\<close> of \<open>src/src/arch/aarch64/utils/bitmap.rs\<close>: a bitmap of a length that is fixed
  when it is made, kept in 64-bit words. Its operations are related to sets of numbers; the
  operations on whole words are related to the ones on single bits.
\<close>

section \<open>Operations\<close>

record FlexBitmap =
  flen :: usize
  fmap :: "usize list"

definition FlexBitmap_new :: "usize \<Rightarrow> FlexBitmap" where
  "FlexBitmap_new len = \<lparr>flen = len, fmap = replicate (unat ((len + 64 - 1) div 64)) 0\<rparr>"

text \<open>The loops that assign one value to every word.\<close>

definition assign_all :: "usize \<Rightarrow> usize list \<Rightarrow> usize list" where
  "assign_all v m = fold (\<lambda>i m. m[i := v]) [0..<length m] m"

definition FlexBitmap_init_dirty :: "FlexBitmap \<Rightarrow> FlexBitmap" where
  "FlexBitmap_init_dirty self = self\<lparr>fmap := assign_all (- 1) (fmap self)\<rparr>"

definition FlexBitmap_clear :: "FlexBitmap \<Rightarrow> FlexBitmap" where
  "FlexBitmap_clear self = self\<lparr>fmap := assign_all 0 (fmap self)\<rparr>"

definition FlexBitmap_get :: "FlexBitmap \<Rightarrow> usize \<Rightarrow> usize outcome" where
  "FlexBitmap_get self idx =
     (if flen self < idx then Panic ExplicitPanic
      else obind (index (fmap self) (unat (idx div 64))) (\<lambda>val. Ok (bit_get val (idx mod 64))))"

definition FlexBitmap_set :: "FlexBitmap \<Rightarrow> usize \<Rightarrow> bool \<Rightarrow> FlexBitmap outcome" where
  "FlexBitmap_set self b val =
     (if flen self < b then Panic ExplicitPanic
      else let i = unat (b div 64); m = shl 1 (unat (b mod 64)) in
        obind (index (fmap self) i) (\<lambda>w.
          Ok (self\<lparr>fmap := (fmap self)[i := if val then w OR m else w AND NOT m]\<rparr>)))"

text \<open>The loop of \<open>set_bits\<close>; \<open>None\<close> would be a loop that does not end.\<close>

partial_function (option) set_words :: "bool \<Rightarrow> usize \<Rightarrow> usize \<Rightarrow> usize list \<Rightarrow> usize list outcome option" where
  "set_words val stop head m =
     (if head < stop then
        (case store m (unat (head div 64)) (if val then - 1 else 0) of
           Ok m' \<Rightarrow> set_words val stop (head + 64) m'
         | Err e \<Rightarrow> Some (Err e)
         | Panic p \<Rightarrow> Some (Panic p))
      else Some (Ok m))"

definition FlexBitmap_set_bits :: "FlexBitmap \<Rightarrow> usize \<Rightarrow> usize \<Rightarrow> bool \<Rightarrow> FlexBitmap outcome option" where
  "FlexBitmap_set_bits self b len val =
     (if flen self < b + len then Some (Panic ExplicitPanic)
      else if len = 1 then Some (FlexBitmap_set self b val)
      else if b mod 64 \<noteq> 0 \<or> (b + len) mod 64 \<noteq> 0 then Some (Panic ExplicitPanic)
      else map_option (omap (\<lambda>m. self\<lparr>fmap := m\<rparr>)) (set_words val (b + len) b (fmap self)))"

definition FlexBitmap_slice :: "FlexBitmap \<Rightarrow> usize list" where
  "FlexBitmap_slice self = fmap self"

definition FlexBitmap_vec_len :: "FlexBitmap \<Rightarrow> usize" where
  "FlexBitmap_vec_len self = of_nat (length (fmap self))"

text \<open>\<open>count_ones\<close> of the standard library.\<close>

definition count_ones :: "usize \<Rightarrow> u32" where
  "count_ones w = of_nat (length (filter (bit w) [0..<64]))"

definition FlexBitmap_sum :: "FlexBitmap \<Rightarrow> usize" where
  "FlexBitmap_sum self = foldl (\<lambda>sum val. sum + as_usize (count_ones val)) 0 (fmap self)"

text \<open>The inner loop of \<open>first\<close>, which ends on a word that is not zero.\<close>

partial_function (option) first_bit :: "usize \<Rightarrow> usize \<Rightarrow> usize option" where
  "first_bit tmp first = (if tmp AND 1 = 0 then first_bit (shr tmp 1) (first + 1) else Some first)"

primrec first_word :: "usize list \<Rightarrow> usize \<Rightarrow> usize option" where
  "first_word [] first = Some first"
| "first_word (val # vals) first = (if val = 0 then first_word vals (first + 64) else first_bit val first)"

definition FlexBitmap_first :: "FlexBitmap \<Rightarrow> usize option" where
  "FlexBitmap_first self = first_word (fmap self) 0"

section \<open>The set that a list of words stands for\<close>

definition words_bits :: "usize list \<Rightarrow> nat set" where
  "words_bits ws = {i. i < 64 * length ws \<and> bit (ws ! (i div 64)) (i mod 64)}"

abbreviation flex_bits :: "FlexBitmap \<Rightarrow> nat set" where
  "flex_bits self \<equiv> words_bits (fmap self)"

text \<open>The bitmaps that \<open>new\<close> makes: the words cover the length and no more.\<close>

definition flex_wf :: "FlexBitmap \<Rightarrow> bool" where
  "flex_wf self \<longleftrightarrow> unat (flen self) + 63 < 2 ^ 64 \<and> length (fmap self) = (unat (flen self) + 63) div 64"

lemma words_bits_Nil [simp]: "words_bits [] = {}"
  by (simp add: words_bits_def)

lemma words_bits_Cons: "words_bits (v # vs) = {i. bit v i} \<union> (\<lambda>i. i + 64) ` words_bits vs"
proof -
  have "i \<in> words_bits (v # vs) \<longleftrightarrow> (if i < 64 then bit v i else i - 64 \<in> words_bits vs)" for i
  proof (cases "i < 64")
    case False
    then obtain j where "i = j + 64" by (metis le_Suc_ex not_less add.commute)
    then show ?thesis by (simp add: words_bits_def div_add_self2)
  qed (simp add: words_bits_def)
  moreover have "i < 64" if "bit v i" for i using that by (auto dest: bit_imp_le_length)
  ultimately have "i \<in> words_bits (v # vs) \<longleftrightarrow> bit v i \<or> (64 \<le> i \<and> i - 64 \<in> words_bits vs)" for i
    by (metis not_less)
  moreover have "i \<in> (\<lambda>i. i + 64) ` words_bits vs \<longleftrightarrow> 64 \<le> i \<and> i - 64 \<in> words_bits vs" for i
    by (auto simp: image_iff intro!: bexI [of _ "i - 64"])
  ultimately show ?thesis by blast
qed

lemma finite_words_bits [simp]: "finite (words_bits ws)"
  by (simp add: words_bits_def)

lemma words_bits_replicate_0 [simp]: "words_bits (replicate n 0) = {}"
  by (auto simp: words_bits_def less_mult_imp_div_less mult.commute)

lemma words_bits_replicate_ones: "words_bits (replicate n (- 1)) = {..<64 * n}"
proof -
  have "i div 64 < n" if "i < 64 * n" for i using that by (simp add: less_mult_imp_div_less mult.commute)
  then show ?thesis by (auto simp: words_bits_def)
qed

lemma words_bits_update:
  assumes "k < length ws"
  shows "words_bits (ws[k := v]) =
    (words_bits ws - {64 * k..<64 * k + 64}) \<union> (\<lambda>j. 64 * k + j) ` {j. bit v j}"
proof -
  have j: "j < 64" if "bit v j" for j using that by (auto dest: bit_imp_le_length)
  have "i \<in> words_bits (ws[k := v]) \<longleftrightarrow>
      (if 64 * k \<le> i \<and> i < 64 * k + 64 then bit v (i - 64 * k) else i \<in> words_bits ws)" for i
  proof (cases "i div 64 = k")
    case True
    then have i: "i = 64 * k + i mod 64" "i mod 64 < 64" using div_mult_mod_eq [of i 64] by simp_all
    then have "64 * k \<le> i" "i < 64 * k + 64" "i - 64 * k = i mod 64" "i < 64 * length ws"
      using assms by linarith+
    then show ?thesis using True assms by (simp add: words_bits_def)
  next
    case False
    then have "\<not> (64 * k \<le> i \<and> i < 64 * k + 64)"
      by (metis div_nat_eqI mult.commute mult_Suc_right add.commute)
    then show ?thesis using False by (auto simp: words_bits_def)
  qed
  moreover have "i \<in> (\<lambda>j. 64 * k + j) ` {j. bit v j} \<longleftrightarrow> 64 * k \<le> i \<and> bit v (i - 64 * k)" for i
    by (auto simp: image_iff intro!: exI [of _ "i - 64 * k"])
  moreover have "i < 64 * k + 64" if "64 * k \<le> i" "bit v (i - 64 * k)" for i
    using j [OF that(2)] by linarith
  ultimately show ?thesis by (auto simp: set_eq_iff)
qed

lemma words_bits_set_bit:
  assumes "i < 64 * length ws"
  shows "words_bits (ws[i div 64 := ws ! (i div 64) OR 2 ^ (i mod 64)]) = insert i (words_bits ws)"
    and "words_bits (ws[i div 64 := ws ! (i div 64) AND NOT (2 ^ (i mod 64))]) = words_bits ws - {i}"
proof -
  have k: "i div 64 < length ws" "i mod 64 < 64" using assms by (simp_all add: less_mult_imp_div_less mult.commute)
  have "j = i" if "j div 64 = i div 64" "j mod 64 = i mod 64" for j
    using that by (metis div_mod_decomp)
  then show "words_bits (ws[i div 64 := ws ! (i div 64) OR 2 ^ (i mod 64)]) = insert i (words_bits ws)"
    and "words_bits (ws[i div 64 := ws ! (i div 64) AND NOT (2 ^ (i mod 64))]) = words_bits ws - {i}"
    using k assms by (auto simp: words_bits_def nth_list_update bit_or_exp bit_andnot_exp split: if_splits)
qed

lemma words_bits_set_word:
  assumes "k < length ws"
  shows "words_bits (ws[k := - 1]) = words_bits ws \<union> {64 * k..<64 * k + 64}"
    and "words_bits (ws[k := 0]) = words_bits ws - {64 * k..<64 * k + 64}"
proof -
  have ones: "(\<lambda>j. 64 * k + j) ` {j. bit (- 1 :: usize) j} = {64 * k..<64 * k + 64}"
  proof -
    have "{j. bit (- 1 :: usize) j} = {0..<64}" by auto
    then show ?thesis using image_add_atLeastLessThan [of "64 * k" 0 64] by (simp add: add.commute)
  qed
  show "words_bits (ws[k := - 1]) = words_bits ws \<union> {64 * k..<64 * k + 64}"
    unfolding words_bits_update [OF assms] ones by (rule Un_Diff_cancel2)
  show "words_bits (ws[k := 0]) = words_bits ws - {64 * k..<64 * k + 64}"
    unfolding words_bits_update [OF assms] by auto
qed

section \<open>Single bits\<close>

lemma assign_all_replicate [simp]: "assign_all v m = replicate (length m) v"
proof -
  have "k \<le> length m \<Longrightarrow> fold (\<lambda>i m. m[i := v]) [0..<k] m = replicate k v @ drop k m" for k
  proof (induction k)
    case (Suc k)
    then have "drop k m = m ! k # drop (Suc k) m" by (simp add: Cons_nth_drop_Suc)
    with Suc show ?case by (simp add: list_update_append replicate_append_same [symmetric])
  qed simp
  from this [of "length m"] show ?thesis by (simp add: assign_all_def)
qed

lemma unat_div_mod_64: "unat (i div 64) = unat i div 64" "unat (i mod 64) = unat i mod 64" for i :: usize
  by (simp_all add: unat_div unat_mod)

lemma FlexBitmap_get_run:
  "FlexBitmap_get self idx =
     (if unat (flen self) < unat idx then Panic ExplicitPanic
      else if unat idx < 64 * length (fmap self) then Ok (of_bool (unat idx \<in> flex_bits self))
      else Panic IndexOutOfBounds)"
proof -
  have "unat idx div 64 < length (fmap self) \<longleftrightarrow> unat idx < 64 * length (fmap self)"
    by (simp add: div_less_iff_less_mult mult.commute)
  then show ?thesis
    by (simp add: FlexBitmap_get_def word_less_nat_alt index_def unat_div_mod_64 bit_get_bit words_bits_def)
qed

lemma FlexBitmap_set_run:
  "FlexBitmap_set self b val =
     (if unat (flen self) < unat b then Panic ExplicitPanic
      else if unat b < 64 * length (fmap self)
      then Ok (self\<lparr>fmap := (fmap self)[unat b div 64 :=
             (if val then fmap self ! (unat b div 64) OR 2 ^ (unat b mod 64)
              else fmap self ! (unat b div 64) AND NOT (2 ^ (unat b mod 64)))]\<rparr>)
      else Panic IndexOutOfBounds)"
proof -
  have "unat b div 64 < length (fmap self) \<longleftrightarrow> unat b < 64 * length (fmap self)"
    by (simp add: div_less_iff_less_mult mult.commute)
  then show ?thesis
    by (simp add: FlexBitmap_set_def word_less_nat_alt index_def unat_div_mod_64 Let_def)
qed

lemma flex_set_bits:
  assumes "FlexBitmap_set self b val = Ok self'"
  shows "flex_bits self' = (if val then insert (unat b) (flex_bits self) else flex_bits self - {unat b})"
    and "flen self' = flen self" and "length (fmap self') = length (fmap self)"
proof -
  have b: "unat b < 64 * length (fmap self)"
    and s: "self' = self\<lparr>fmap := (fmap self)[unat b div 64 :=
             (if val then fmap self ! (unat b div 64) OR 2 ^ (unat b mod 64)
              else fmap self ! (unat b div 64) AND NOT (2 ^ (unat b mod 64)))]\<rparr>"
    using assms unfolding FlexBitmap_set_run
    by (metis (lifting) outcome.distinct(3) outcome.inject(1))+
  show "flen self' = flen self" and "length (fmap self') = length (fmap self)" by (simp_all add: s)
  show "flex_bits self' = (if val then insert (unat b) (flex_bits self) else flex_bits self - {unat b})"
    using words_bits_set_bit [OF b] by (cases val) (simp_all add: s)
qed

lemma flex_wf_new: "unat len + 63 < 2 ^ 64 \<Longrightarrow> flex_wf (FlexBitmap_new len)"
proof -
  assume l: "unat len + 63 < 2 ^ 64"
  then have "unat (len + 63) = unat len + 63" using unat_add_u64 [of len 63] by simp
  then show ?thesis using l by (simp add: flex_wf_def FlexBitmap_new_def unat_div_mod_64 add.commute)
qed

lemma rounded_up: "n < 64 * ((n + 63) div 64) \<longleftrightarrow> \<not> 64 dvd n" for n :: nat
proof -
  obtain q r where n: "n = 64 * q + r" "r < 64" by (metis mult_div_mod_eq mod_less_divisor zero_less_numeral)
  then have "(n + 63) div 64 = q + (r + 63) div 64" by simp
  moreover have "(r + 63) div 64 = (if r = 0 then 0 else 1)" using n(2) by (simp add: div_nat_eqI)
  moreover have "64 dvd n \<longleftrightarrow> r = 0" using n by (auto simp: dvd_add_right_iff dest: nat_dvd_not_less)
  ultimately show ?thesis using n by auto
qed

lemma flex_wf_capacity: "flex_wf self \<Longrightarrow> unat (flen self) \<le> 64 * length (fmap self)"
  "flex_wf self \<Longrightarrow> 64 * length (fmap self) < unat (flen self) + 64"
  by (auto simp: flex_wf_def)

text \<open>
  A bitmap made for a length (that leaves room to round up) starts empty. Below
  the length, \<open>set\<close> adds or removes one number and \<open>get\<close> answers whether a number is in the set,
  and both panic above the length. At the length itself, one too far, they panic too if
  the length is a multiple of 64; otherwise they work on a bit that the bitmap should not have.
\<close>

theorem flex_bitmap_bits:
  assumes "flex_wf self"
  shows "(unat len + 63 < 2 ^ 64 \<longrightarrow> flex_wf (FlexBitmap_new len) \<and> flex_bits (FlexBitmap_new len) = {})
    \<and> FlexBitmap_get self i =
      (if unat i < unat (flen self) \<or> i = flen self \<and> \<not> 64 dvd unat i
       then Ok (of_bool (unat i \<in> flex_bits self))
       else if i = flen self then Panic IndexOutOfBounds else Panic ExplicitPanic)
    \<and> (if unat i < unat (flen self) \<or> i = flen self \<and> \<not> 64 dvd unat i
       then \<exists>self'. FlexBitmap_set self i val = Ok self' \<and> flex_wf self'
         \<and> flex_bits self' = (if val then insert (unat i) (flex_bits self) else flex_bits self - {unat i})
       else FlexBitmap_set self i val =
         (if i = flen self then Panic IndexOutOfBounds else Panic ExplicitPanic))"
proof -
  have at: "unat (flen self) < 64 * length (fmap self) \<longleftrightarrow> \<not> 64 dvd unat (flen self)"
    using assms rounded_up by (simp add: flex_wf_def)
  have below: "unat i < 64 * length (fmap self)" if "unat i < unat (flen self)"
    using that flex_wf_capacity(1) [OF assms] by linarith
  have le: "\<not> unat (flen self) < unat i \<longleftrightarrow> unat i < unat (flen self) \<or> i = flen self"
    by (auto simp: not_less le_less)
  have "\<exists>self'. FlexBitmap_set self i val = Ok self' \<and> flex_wf self'
         \<and> flex_bits self' = (if val then insert (unat i) (flex_bits self) else flex_bits self - {unat i})"
    if i: "unat i < 64 * length (fmap self)" "\<not> unat (flen self) < unat i"
  proof -
    obtain self' where s: "FlexBitmap_set self i val = Ok self'"
      using i by (simp add: FlexBitmap_set_run)
    then show ?thesis using flex_set_bits [OF s] assms by (simp add: flex_wf_def)
  qed
  then show ?thesis
    using at below le flex_wf_new
    by (auto simp: FlexBitmap_get_run FlexBitmap_set_run FlexBitmap_new_def)
qed

theorem flex_bitmap_bits_witness:
  "FlexBitmap_get (FlexBitmap_new 100) 100 = Ok 0 \<and> FlexBitmap_get (FlexBitmap_new 128) 128 = Panic IndexOutOfBounds
   \<and> (\<exists>b. FlexBitmap_set (FlexBitmap_new 100) 70 True = Ok b \<and> flex_bits b = {70})"
proof -
  have w: "flex_wf (FlexBitmap_new 100)" "flex_wf (FlexBitmap_new 128)" by (simp_all add: flex_wf_new)
  have e: "flex_bits (FlexBitmap_new 100) = {}" "flen (FlexBitmap_new 100) = 100" "flen (FlexBitmap_new 128) = 128"
    by (simp_all add: FlexBitmap_new_def)
  show ?thesis
    using flex_bitmap_bits [OF w(1), of 0 100 True] flex_bitmap_bits [OF w(2), of 0 128 True]
      flex_bitmap_bits [OF w(1), of 0 70 True] unfolding e by auto
qed

section \<open>Whole words\<close>

lemma set_words_returns:
  assumes "unat head = 64 * a" and "unat stop = 64 * c" and "c \<le> length m" and "64 * c + 64 \<le> 2 ^ 64"
  shows "\<exists>m'. set_words val stop head m = Some (Ok m') \<and> length m' = length m
    \<and> words_bits m' = (if val then words_bits m \<union> {64 * a..<64 * c} else words_bits m - {64 * a..<64 * c})"
  using assms
proof (induction "c - a" arbitrary: a head m)
  case 0
  then have "\<not> head < stop" by (simp add: word_less_nat_alt)
  then have "set_words val stop head m = Some (Ok m)" by (subst set_words.simps) simp
  then show ?case using 0 by simp
next
  case (Suc n)
  let ?m = "m[a := if val then - 1 else 0]"
  have a: "a < c" "a < length m" using Suc by simp_all
  then have lt: "head < stop" using Suc.prems by (simp add: word_less_nat_alt)
  have i: "unat (head div 64) = a" using Suc.prems(1) by (simp add: unat_div_mod_64)
  have "unat (head + 64) = unat head + unat (64 :: usize)"
    using Suc.prems a by (intro unat_add_u64) simp
  then have h: "unat (head + 64) = 64 * Suc a" using Suc.prems(1) by simp
  have "n = c - Suc a" using Suc.hyps(2) by simp
  from Suc.hyps(1) [OF this h Suc.prems(2), of ?m] Suc.prems
  obtain m' where m': "set_words val stop (head + 64) ?m = Some (Ok m')" "length m' = length m"
    "words_bits m' = (if val then words_bits ?m \<union> {64 * Suc a..<64 * c} else words_bits ?m - {64 * Suc a..<64 * c})"
    by auto
  have "set_words val stop head m = Some (Ok m')"
    using lt i a(2) m'(1) by (subst set_words.simps) simp
  moreover have "{64 * a..<64 * c} = {64 * a..<64 * a + 64} \<union> {64 * Suc a..<64 * c}"
    using a(1) by auto
  ultimately show ?case
    using m' words_bits_set_word [OF a(2)] by (cases val) (auto simp: Un_assoc Diff_Diff_Int)
qed

text \<open>Setting the bits one after another, the reference for \<open>set_bits\<close>.\<close>

primrec set_each :: "FlexBitmap \<Rightarrow> nat list \<Rightarrow> bool \<Rightarrow> FlexBitmap outcome" where
  "set_each self [] val = Ok self"
| "set_each self (i # is) val = obind (FlexBitmap_set self (of_nat i) val) (\<lambda>self'. set_each self' is val)"

lemma set_each_bits:
  assumes "\<forall>i \<in> set is. i < unat (flen self) \<and> i < 64 * length (fmap self)"
  shows "\<exists>self'. set_each self is val = Ok self' \<and> flen self' = flen self
    \<and> length (fmap self') = length (fmap self)
    \<and> flex_bits self' = (if val then flex_bits self \<union> set is else flex_bits self - set is)"
  using assms
proof (induction "is" arbitrary: self)
  case (Cons i "is")
  have u: "unat (of_nat i :: usize) = i"
    using Cons.prems unat_u64 [of "flen self"] by (intro unat_of_nat_usize) (meson less_trans list.set_intros(1))
  obtain s1 where s1: "FlexBitmap_set self (of_nat i) val = Ok s1"
    using Cons.prems by (auto simp: FlexBitmap_set_run u)
  note b = flex_set_bits [OF s1, unfolded u]
  from Cons.IH [of s1] Cons.prems b obtain s2 where
    "set_each s1 is val = Ok s2" "flen s2 = flen self" "length (fmap s2) = length (fmap self)"
    "flex_bits s2 = (if val then flex_bits s1 \<union> set is else flex_bits s1 - set is)"
    by auto
  then show ?case using s1 b(1) by (cases val) auto
qed simp

lemma words_eqI:
  assumes "length xs = length ys" and "words_bits xs = words_bits ys"
  shows "xs = ys"
proof (rule nth_equalityI [OF assms(1)])
  fix k assume k: "k < length xs"
  have "bit (xs ! k) j \<longleftrightarrow> bit (ys ! k) j" if "j < 64" for j
  proof -
    have "64 * k + j < 64 * length xs" using k that by linarith
    moreover have "64 * k + j \<in> words_bits xs \<longleftrightarrow> 64 * k + j \<in> words_bits ys" by (simp add: assms(2))
    moreover have "(64 * k + j) div 64 = k" "(64 * k + j) mod 64 = j" using that by simp_all
    ultimately show ?thesis using assms(1) by (simp add: words_bits_def)
  qed
  then show "xs ! k = ys ! k" by (intro bit_word_eqI) simp
qed

text \<open>
  Claim C19. Where the arguments of \<open>set_bits\<close> are accepted, its loop over words ends and leaves
  exactly the bitmap that setting (or clearing) the bits one after another leaves.
  The sum of the two arguments must not wrap.
\<close>

theorem set_bits_bitwise:
  assumes "flex_wf self" and "unat b + unat len \<le> unat (flen self)"
    and "len = 1 \<or> 64 dvd unat b \<and> 64 dvd unat b + unat len"
  shows "FlexBitmap_set_bits self b len val = Some (set_each self [unat b..<unat b + unat len] val)
    \<and> (\<exists>self'. FlexBitmap_set_bits self b len val = Some (Ok self') \<and> flex_wf self'
        \<and> flex_bits self' = (if val then flex_bits self \<union> {unat b..<unat b + unat len}
                              else flex_bits self - {unat b..<unat b + unat len}))"
proof -
  note cap = flex_wf_capacity [OF assms(1)]
  have s: "unat (b + len) = unat b + unat len"
    using assms(2) unat_u64 [of "flen self"] by (intro unat_add_u64) linarith
  have ok: "\<not> flen self < b + len" using assms(2) by (simp add: word_less_nat_alt s)
  have "\<forall>i \<in> set [unat b..<unat b + unat len]. i < unat (flen self) \<and> i < 64 * length (fmap self)"
    using assms(2) cap(1) by auto
  from set_each_bits [OF this, of val] obtain t where t:
    "set_each self [unat b..<unat b + unat len] val = Ok t" "flen t = flen self"
    "length (fmap t) = length (fmap self)"
    "flex_bits t = (if val then flex_bits self \<union> {unat b..<unat b + unat len}
        else flex_bits self - {unat b..<unat b + unat len})" by auto
  have twf: "flex_wf t" using assms(1) t(2,3) by (simp add: flex_wf_def)
  have "FlexBitmap_set_bits self b len val = Some (Ok t)"
  proof (cases "len = 1")
    case True
    then have "[unat b..<unat b + unat len] = [unat b]" by simp
    then have "FlexBitmap_set self b val = Ok t" using t(1) by (auto simp: obind_eq_Ok)
    with True ok show ?thesis by (simp add: FlexBitmap_set_bits_def)
  next
    case False
    then obtain a c where ac: "unat b = 64 * a" "unat (b + len) = 64 * c"
      using assms(3) s by (auto elim!: dvdE)
    then have al: "b mod 64 = 0" "(b + len) mod 64 = 0"
      by (metis unat_div_mod_64(2) mod_mult_self1_is_0 unat_eq_0)+
    have "64 * c \<le> 64 * length (fmap self)" using ac(2) s assms(2) cap(1) by linarith
    then have cl: "c \<le> length (fmap self)" by simp
    have "64 * c + 64 \<le> 2 ^ 64" using ac(2) unat_u64 [of "b + len"] by simp
    from set_words_returns [OF ac cl this, of val] obtain m where
      m: "set_words val (b + len) b (fmap self) = Some (Ok m)" "length m = length (fmap self)"
      "words_bits m = (if val then flex_bits self \<union> {64 * a..<64 * c} else flex_bits self - {64 * a..<64 * c})"
      by blast
    have "m = fmap t" using m t ac s by (intro words_eqI) simp_all
    then have "t = self\<lparr>fmap := m\<rparr>" using t(2) by simp
    then show ?thesis using False ok al m(1) by (simp add: FlexBitmap_set_bits_def)
  qed
  then show ?thesis using t twf by simp
qed

theorem set_bits_bitwise_witness:
  "\<exists>b. FlexBitmap_set_bits (FlexBitmap_new 256) 64 128 True = Some (Ok b) \<and> flex_bits b = {64..<192}
     \<and> set_each (FlexBitmap_new 256) [64..<192] True = Ok b"
proof -
  have w: "flex_wf (FlexBitmap_new 256)" by (rule flex_wf_new) simp
  have e: "flex_bits (FlexBitmap_new 256) = {}" by (simp add: FlexBitmap_new_def)
  have l: "unat (64 :: usize) + unat (128 :: usize) \<le> unat (flen (FlexBitmap_new 256))"
    "(128 :: usize) = 1 \<or> 64 dvd unat (64 :: usize) \<and> 64 dvd unat (64 :: usize) + unat (128 :: usize)"
    by (simp_all add: FlexBitmap_new_def)
  have n: "unat (64 :: usize) = 64" "unat (128 :: usize) = 128" "64 + 128 = (192 :: nat)" by simp_all
  show ?thesis
    using set_bits_bitwise [OF w l, of True] unfolding n e
    by (metis option.inject sup_bot_left)
qed

section \<open>Counting and searching\<close>

lemma first_bit_least:
  assumes "bit w n" and "\<forall>j < n. \<not> bit w j"
  shows "first_bit w f = Some (f + of_nat n)"
  using assms
proof (induction n arbitrary: w f)
  case 0
  then have "w AND 1 \<noteq> 0" by (auto simp: and_one_eq odd_iff_mod_2_eq_one bit_0)
  then show ?case by (subst first_bit.simps) simp
next
  case (Suc n)
  then have "\<not> bit w 0" by simp
  then have "w AND 1 = 0" by (simp add: and_one_eq bit_0 even_iff_mod_2_eq_zero)
  moreover have "first_bit (drop_bit 1 w) (f + 1) = Some (f + 1 + of_nat n)"
    using Suc.prems by (intro Suc.IH) (simp_all add: bit_drop_bit_eq)
  ultimately show ?case by (subst first_bit.simps) (simp add: add.assoc)
qed

lemma first_word_Min:
  "first_word ws f = Some (f + of_nat (if words_bits ws = {} then 64 * length ws else Min (words_bits ws)))"
proof (induction ws arbitrary: f)
  case (Cons v ws)
  show ?case
  proof (cases "v = 0")
    case True
    then have w: "words_bits (v # ws) = (\<lambda>i. i + 64) ` words_bits ws" by (simp add: words_bits_Cons)
    have "Min ((\<lambda>i. i + 64) ` words_bits ws) = Min (words_bits ws) + 64" if "words_bits ws \<noteq> {}"
      using that mono_Min_commute [of "\<lambda>i. i + 64" "words_bits ws"] by (simp add: mono_def)
    then show ?thesis using True Cons.IH [of "f + 64"] unfolding w by (simp add: algebra_simps)
  next
    case False
    define n where "n = (LEAST i. bit v i)"
    have ex: "\<exists>i. bit v i" using False bit_word_eqI [of v 0] by fastforce
    then have n: "bit v n" "\<forall>j < n. \<not> bit v j"
      unfolding n_def using not_less_Least by (auto intro: LeastI_ex)
    have "n < 64" using n(1) by (auto dest: bit_imp_le_length)
    then have "Min (words_bits (v # ws)) = n"
      using n by (intro Min_eqI) (auto simp: words_bits_Cons not_less [symmetric])
    moreover have "words_bits (v # ws) \<noteq> {}" using n(1) by (auto simp: words_bits_Cons)
    ultimately show ?thesis using False first_bit_least [OF n, of f] by simp
  qed
qed simp

lemma count_ones_card: "as_usize (count_ones w) = of_nat (card {i. bit w i})"
proof -
  have "{i. bit w i} = set (filter (bit w) [0..<64])" by (auto dest: bit_imp_le_length)
  then have c: "card {i. bit w i} = length (filter (bit w) [0..<64])" by (metis distinct_card distinct_filter distinct_upt)
  have "length (filter (bit w) [0..<64]) \<le> length [0..<64]" by (rule length_filter_le)
  then have "length (filter (bit w) [0..<64]) \<le> 64" by simp
  then show ?thesis
    unfolding c count_ones_def by (intro word_unat_eq_iff [THEN iffD2]) (simp add: unat_of_nat unsigned_ucast_eq take_bit_nat_eq_self)
qed

lemma sum_card: "foldl (\<lambda>sum val. sum + as_usize (count_ones val)) s ws = s + of_nat (card (words_bits ws))"
proof (induction ws arbitrary: s)
  case (Cons v ws)
  have fin: "finite {i. bit v i}" by (rule finite_subset [of _ "{..<64}"]) (auto dest: bit_imp_le_length)
  have "{i. bit v i} \<inter> (\<lambda>i. i + 64) ` words_bits ws = {}" by (auto dest: bit_imp_le_length)
  then have "card (words_bits (v # ws)) = card {i. bit v i} + card (words_bits ws)"
    using fin by (simp add: words_bits_Cons card_Un_disjoint card_image)
  then show ?case using Cons.IH [of "s + as_usize (count_ones v)"] by (simp add: count_ones_card algebra_simps)
qed simp

text \<open>
  \<open>sum\<close> is the number of elements (as a machine word), \<open>first\<close> always returns and gives
  the least element, or the number of bits in the words if there is none; \<open>clear\<close> empties the set,
  and \<open>init_dirty\<close> fills all bits of the words, which is more than the length when that is
  no multiple of 64.
\<close>

theorem flex_bitmap_queries:
  "FlexBitmap_sum self = of_nat (card (flex_bits self))
   \<and> FlexBitmap_first self = Some (of_nat
       (if flex_bits self = {} then 64 * length (fmap self) else Min (flex_bits self)))
   \<and> flex_bits (FlexBitmap_clear self) = {}
   \<and> flex_bits (FlexBitmap_init_dirty self) = {..<64 * length (fmap self)}
   \<and> FlexBitmap_sum (FlexBitmap_init_dirty (FlexBitmap_new 100)) = 128"
proof -
  have sum: "FlexBitmap_sum b = of_nat (card (flex_bits b))" for b
    by (simp add: FlexBitmap_sum_def sum_card)
  have dirty: "flex_bits (FlexBitmap_init_dirty b) = {..<64 * length (fmap b)}" for b
    by (simp add: FlexBitmap_init_dirty_def words_bits_replicate_ones)
  have "length (fmap (FlexBitmap_new 100)) = 2" by (simp add: FlexBitmap_new_def)
  then show ?thesis
    by (simp add: sum dirty FlexBitmap_first_def first_word_Min FlexBitmap_clear_def)
qed

end
