(* ===== verification/Arm_Context.thy ===== *)
theory Arm_Context
  imports Prelude
begin

text \<open>
  \<open>src/src/arch/aarch64/context_frame.rs\<close> and \<open>src/src/arch/aarch64/gic.rs\<close>: the registers that
  are kept for a trap, the system registers that are kept for a virtual machine, and the state of
  the interrupt controller. System registers, the instructions that are not plain register
  transfers, and the crates \<open>cortex_a\<close>, \<open>tock_registers\<close> and \<open>arm_gic\<close> are parameters.
\<close>

section \<open>Parameters\<close>

datatype (plugins only: size) sysreg =
    CNTVOFF_EL2
  | CNTV_CVAL_EL0
  | CNTKCTL_EL1
  | CNTP_CTL_EL0
  | CNTV_CTL_EL0
  | CNTP_TVAL_EL0
  | CNTV_TVAL_EL0
  | CNTVCT_EL0
  | VMPIDR_EL2
  | SP_EL0
  | SP_EL1
  | ELR_EL1
  | SPSR_EL1
  | SCTLR_EL1
  | CPACR_EL1
  | TTBR0_EL1
  | TTBR1_EL1
  | TCR_EL1
  | ESR_EL1
  | FAR_EL1
  | PAR_EL1
  | MAIR_EL1
  | AMAIR_EL1
  | VBAR_EL1
  | CONTEXTIDR_EL1
  | TPIDR_EL0
  | TPIDR_EL1
  | TPIDRRO_EL0
  | PMCR_EL0
  | VTCR_EL2
  | HCR_EL2
  | ACTLR_EL1
  | ESR_EL2
  | FAR_EL2
  | HPFAR_EL2
  | VTTBR_EL2
  | CPTR_EL2
  | SCTLR_EL2

text \<open>
  The processor: \<open>mrs\<close> and \<open>msr\<close>, the address translation \<open>AT S1E1R\<close>, \<open>TLBI ALLE2\<close>, and the
  64-bit register that holds a 32-bit operand of an \<open>asm!\<close> block, whose upper half the
  language leaves open. Counters are read at one instant.
\<close>

record 'm arm_cpu =
  mrs :: "sysreg \<Rightarrow> 'm \<Rightarrow> u64"
  msr :: "sysreg \<Rightarrow> u64 \<Rightarrow> 'm \<Rightarrow> 'm"
  at_s1e1r :: "usize \<Rightarrow> 'm \<Rightarrow> 'm"
  tlbi_alle2 :: "'m \<Rightarrow> 'm"
  in_reg :: "u32 \<Rightarrow> u64"

text \<open>
  \<open>FieldValue\<close> of \<open>tock_registers\<close>: the bits of a field and the value in place; \<open>+\<close> joins two.
\<close>

record field_value =
  fv_mask :: u64
  fv_value :: u64

definition fv_add :: "field_value \<Rightarrow> field_value \<Rightarrow> field_value" where
  "fv_add a b = \<lparr>fv_mask = fv_mask a OR fv_mask b, fv_value = fv_value a OR fv_value b\<rparr>"

record arm_crates =
  SPSR_M_EL1h :: field_value
  SPSR_I_Masked :: field_value
  SPSR_F_Masked :: field_value
  SPSR_A_Masked :: field_value
  SPSR_D_Masked :: field_value
  VTCR_PS_PA_40B_1TB :: field_value
  VTCR_TG0_Granule4KB :: field_value
  VTCR_SH0_Inner :: field_value
  VTCR_ORGN0_NormalWBRAWA :: field_value
  VTCR_IRGN0_NormalWBRAWA :: field_value
  VTCR_SL0_val :: "u64 \<Rightarrow> field_value"
  VTCR_T0SZ_val :: "u64 \<Rightarrow> field_value"
  HCR_VM_Enable :: field_value
  HCR_RW_EL1IsAarch64 :: field_value
  SCTLR_M_Enable :: field_value
  SCTLR_C_Cacheable :: field_value
  SCTLR_I_Cacheable :: field_value
  PAR_F_TranslationAborted :: u64
  GIC_LIST_REGS_NUM :: nat

text \<open>The documented values.\<close>

definition fv :: "u64 \<Rightarrow> u64 \<Rightarrow> nat \<Rightarrow> field_value" where
  "fv m v sh = \<lparr>fv_mask = push_bit sh m, fv_value = push_bit sh (v AND m)\<rparr>"

definition arm_crates_std :: arm_crates where
  "arm_crates_std = \<lparr>SPSR_M_EL1h = fv 0xf 5 0, SPSR_I_Masked = fv 1 1 7, SPSR_F_Masked = fv 1 1 6,
     SPSR_A_Masked = fv 1 1 8, SPSR_D_Masked = fv 1 1 9, VTCR_PS_PA_40B_1TB = fv 7 2 16,
     VTCR_TG0_Granule4KB = fv 3 0 14, VTCR_SH0_Inner = fv 3 3 12, VTCR_ORGN0_NormalWBRAWA = fv 3 1 10,
     VTCR_IRGN0_NormalWBRAWA = fv 3 1 8, VTCR_SL0_val = (\<lambda>v. fv 3 v 6), VTCR_T0SZ_val = (\<lambda>v. fv 0x3f v 0),
     HCR_VM_Enable = fv 1 1 0, HCR_RW_EL1IsAarch64 = fv 1 1 31, SCTLR_M_Enable = fv 1 1 0,
     SCTLR_C_Cacheable = fv 1 1 2, SCTLR_I_Cacheable = fv 1 1 12, PAR_F_TranslationAborted = 1,
     GIC_LIST_REGS_NUM = 64\<rparr>"

definition arm_crates_ok :: "arm_crates \<Rightarrow> bool" where
  "arm_crates_ok c \<longleftrightarrow> (\<exists>n. c = arm_crates_std\<lparr>GIC_LIST_REGS_NUM := n\<rparr>)"

section \<open>Trap frames\<close>

record Aarch64ContextFrame =
  gpr :: "u64 list"
  sp :: u64
  elr :: u64
  spsr :: u64

text \<open>The \<open>SPSR\<close> of a frame that starts in EL1 with all interrupts masked.\<close>

definition spsr_masked :: "arm_crates \<Rightarrow> u64" where
  "spsr_masked c = fv_value (fv_add (fv_add (fv_add (fv_add (SPSR_M_EL1h c) (SPSR_I_Masked c))
     (SPSR_F_Masked c)) (SPSR_A_Masked c)) (SPSR_D_Masked c))"

definition exception_pc :: "Aarch64ContextFrame \<Rightarrow> usize" where
  "exception_pc self = as_usize (elr self)"

definition set_exception_pc :: "Aarch64ContextFrame \<Rightarrow> usize \<Rightarrow> Aarch64ContextFrame" where
  "set_exception_pc self pc = self\<lparr>elr := as_u64 pc\<rparr>"

definition frame_stack_pointer :: "Aarch64ContextFrame \<Rightarrow> usize" where
  "frame_stack_pointer self = as_usize (sp self)"

definition frame_set_stack_pointer :: "Aarch64ContextFrame \<Rightarrow> usize \<Rightarrow> Aarch64ContextFrame" where
  "frame_set_stack_pointer self v = self\<lparr>sp := as_u64 v\<rparr>"

definition frame_set_gpr :: "Aarch64ContextFrame \<Rightarrow> usize \<Rightarrow> usize \<Rightarrow> Aarch64ContextFrame outcome" where
  "frame_set_gpr self i val = obind (store (gpr self) (unat i) (as_u64 val)) (\<lambda>g. Ok (self\<lparr>gpr := g\<rparr>))"

definition frame_gpr :: "Aarch64ContextFrame \<Rightarrow> usize \<Rightarrow> usize outcome" where
  "frame_gpr self i = obind (index (gpr self) (unat i)) (\<lambda>v. Ok (as_usize v))"

definition set_argument :: "Aarch64ContextFrame \<Rightarrow> usize \<Rightarrow> Aarch64ContextFrame outcome" where
  "set_argument self arg = obind (store (gpr self) 0 (as_u64 arg)) (\<lambda>g. Ok (self\<lparr>gpr := g\<rparr>))"

definition ContextFrame_new :: "arm_crates \<Rightarrow> usize \<Rightarrow> usize \<Rightarrow> usize \<Rightarrow> Aarch64ContextFrame outcome" where
  "ContextFrame_new c pc stack arg =
     set_argument \<lparr>gpr = replicate 31 0, sp = as_u64 stack, elr = as_u64 pc, spsr = spsr_masked c\<rparr> arg"

definition ContextFrame_default :: "arm_crates \<Rightarrow> Aarch64ContextFrame" where
  "ContextFrame_default c = \<lparr>gpr = replicate 31 0, sp = 0, elr = 0, spsr = spsr_masked c\<rparr>"

section \<open>The interrupt controller\<close>

record GicState =
  saved_hcr :: u32
  saved_eisr :: "u32 list"
  saved_elrsr :: "u32 list"
  saved_apr :: u32
  saved_lr :: "u32 list"
  saved_ctlr :: u32

definition GicState_default :: "arm_crates \<Rightarrow> GicState" where
  "GicState_default c = \<lparr>saved_hcr = 0, saved_eisr = replicate (GIC_LIST_REGS_NUM c div 32) 0,
     saved_elrsr = replicate (GIC_LIST_REGS_NUM c div 32) 0, saved_apr = 0,
     saved_lr = replicate (GIC_LIST_REGS_NUM c) 0, saved_ctlr = 0\<rparr>"

text \<open>The accessors of \<open>GicHypervisorInterface\<close> and \<open>GicCpuInterface\<close>.\<close>

record 'm gich_ops =
  get_hcr :: "'m \<Rightarrow> u32"
  get_apr :: "'m \<Rightarrow> u32"
  get_eisr_by_idx :: "nat \<Rightarrow> 'm \<Rightarrow> u32"
  get_elrsr_by_idx :: "nat \<Rightarrow> 'm \<Rightarrow> u32"
  get_lrs_num :: "'m \<Rightarrow> nat"
  get_lr_by_idx :: "nat \<Rightarrow> 'm \<Rightarrow> u32"
  set_hcr :: "u32 \<Rightarrow> 'm \<Rightarrow> 'm"
  set_apr :: "u32 \<Rightarrow> 'm \<Rightarrow> 'm"
  set_lr_by_idx :: "nat \<Rightarrow> u32 \<Rightarrow> 'm \<Rightarrow> 'm"

record 'm gicc_ops =
  get_ctlr :: "'m \<Rightarrow> u32"
  set_ctlr :: "u32 \<Rightarrow> 'm \<Rightarrow> 'm"

definition GICH :: "'m gich_ops option" where
  "GICH = None"

definition GICC :: "'m gicc_ops option" where
  "GICC = None"

text \<open>The two loops of \<open>save_state\<close>.\<close>

primrec save_eisrs :: "'m gich_ops \<Rightarrow> 'm \<Rightarrow> nat list \<Rightarrow> GicState \<Rightarrow> GicState outcome" where
  "save_eisrs gich m [] self = Ok self"
| "save_eisrs gich m (i # is) self =
     obind (store (saved_eisr self) i (get_eisr_by_idx gich i m)) (\<lambda>e.
     obind (store (saved_elrsr self) i (get_elrsr_by_idx gich i m)) (\<lambda>l.
     save_eisrs gich m is (self\<lparr>saved_eisr := e, saved_elrsr := l\<rparr>)))"

primrec save_lrs :: "'m gich_ops \<Rightarrow> 'm \<Rightarrow> nat list \<Rightarrow> GicState \<Rightarrow> GicState outcome" where
  "save_lrs gich m [] self = Ok self"
| "save_lrs gich m (i # is) self =
     obind (index (saved_elrsr self) 0) (\<lambda>elrsr0.
     obind (store (saved_lr self) i (if elrsr0 AND shl 1 i = 0 then get_lr_by_idx gich i m else 0)) (\<lambda>lr.
     save_lrs gich m is (self\<lparr>saved_lr := lr\<rparr>)))"

definition GicState_save_state :: "arm_crates \<Rightarrow> 'm gich_ops option \<Rightarrow> 'm gicc_ops option \<Rightarrow> 'm \<Rightarrow>
    GicState \<Rightarrow> GicState outcome" where
  "GicState_save_state c gich_opt gicc_opt m self =
     obind (case gich_opt of
        Some gich \<Rightarrow>
          obind (save_eisrs gich m [0..<GIC_LIST_REGS_NUM c div 32]
            (self\<lparr>saved_hcr := get_hcr gich m, saved_apr := get_apr gich m\<rparr>)) (\<lambda>self.
          save_lrs gich m [0..<get_lrs_num gich m] self)
      | None \<Rightarrow> Ok self) (\<lambda>self.
     case gicc_opt of
        Some gicc \<Rightarrow> Ok (self\<lparr>saved_ctlr := get_ctlr gicc m\<rparr>)
      | None \<Rightarrow> Ok self)"

primrec restore_lrs :: "'m gich_ops \<Rightarrow> GicState \<Rightarrow> nat list \<Rightarrow> ('m, unit) hm" where
  "restore_lrs gich self [] = hret ()"
| "restore_lrs gich self (i # is) =
     hbind (hlift (index (saved_lr self) i)) (\<lambda>v.
     hseq (hmod (set_lr_by_idx gich i v)) (restore_lrs gich self is))"

definition GicState_restore_state :: "'m gich_ops option \<Rightarrow> 'm gicc_ops option \<Rightarrow> GicState \<Rightarrow>
    ('m, unit) hm" where
  "GicState_restore_state gich_opt gicc_opt self =
     hseq (case gich_opt of
        Some gich \<Rightarrow>
          hseq (hmod (set_hcr gich (saved_hcr self)))
          (hseq (hmod (set_apr gich (saved_apr self)))
          (hbind (hget (get_lrs_num gich)) (\<lambda>n. restore_lrs gich self [0..<n])))
      | None \<Rightarrow> hret ())
     (case gicc_opt of
        Some gicc \<Rightarrow> hmod (set_ctlr gicc (saved_ctlr self))
      | None \<Rightarrow> hret ())"

section \<open>System registers of a virtual machine\<close>

record VmContext =
  cntvoff_el2 :: u64
  cntp_cval_el0 :: u64
  cntv_cval_el0 :: u64
  cntkctl_el1 :: u32
  cntvct_el0 :: u64
  cntp_ctl_el0 :: u32
  cntv_ctl_el0 :: u32
  cntp_tval_el0 :: u32
  cntv_tval_el0 :: u32
  vpidr_el2 :: u32
  vmpidr_el2 :: u64
  sp_el0 :: u64
  sp_el1 :: u64
  elr_el1 :: u64
  spsr_el1 :: u32
  sctlr_el1 :: u32
  actlr_el1 :: u64
  cpacr_el1 :: u32
  ttbr0_el1 :: u64
  ttbr1_el1 :: u64
  tcr_el1 :: u64
  esr_el1 :: u32
  far_el1 :: u64
  par_el1 :: u64
  mair_el1 :: u64
  amair_el1 :: u64
  vbar_el1 :: u64
  contextidr_el1 :: u32
  tpidr_el0 :: u64
  tpidr_el1 :: u64
  tpidrro_el0 :: u64
  hcr_el2 :: u64
  cptr_el2 :: u64
  hstr_el2 :: u64
  pmcr_el0 :: u64
  vtcr_el2 :: u64
  far_el2 :: u64
  hpfar_el2 :: u64
  gic_state :: GicState

definition VmContext_default :: "arm_crates \<Rightarrow> VmContext" where
  "VmContext_default c = \<lparr>
     cntvoff_el2 = 0,
     cntp_cval_el0 = 0,
     cntv_cval_el0 = 0,
     cntkctl_el1 = 0,
     cntvct_el0 = 0,
     cntp_ctl_el0 = 0,
     cntv_ctl_el0 = 0,
     cntp_tval_el0 = 0,
     cntv_tval_el0 = 0,
     vpidr_el2 = 0,
     vmpidr_el2 = 0,
     sp_el0 = 0,
     sp_el1 = 0,
     elr_el1 = 0,
     spsr_el1 = 0,
     sctlr_el1 = 0,
     actlr_el1 = 0,
     cpacr_el1 = 0,
     ttbr0_el1 = 0,
     ttbr1_el1 = 0,
     tcr_el1 = 0,
     esr_el1 = 0,
     far_el1 = 0,
     par_el1 = 0,
     mair_el1 = 0,
     amair_el1 = 0,
     vbar_el1 = 0,
     contextidr_el1 = 0,
     tpidr_el0 = 0,
     tpidr_el1 = 0,
     tpidrro_el0 = 0,
     hcr_el2 = 0,
     cptr_el2 = 0,
     hstr_el2 = 0,
     pmcr_el0 = 0,
     vtcr_el2 = 0,
     far_el2 = 0,
     hpfar_el2 = 0,
     gic_state = GicState_default c\<rparr>"

definition VmContext_reset :: "VmContext \<Rightarrow> VmContext" where
  "VmContext_reset self = self\<lparr>
     cntvoff_el2 := 0,
     cntp_cval_el0 := 0,
     cntv_cval_el0 := 0,
     cntp_tval_el0 := 0,
     cntv_tval_el0 := 0,
     cntkctl_el1 := 0,
     cntvct_el0 := 0,
     cntp_ctl_el0 := 0,
     vpidr_el2 := 0,
     vmpidr_el2 := 0,
     sp_el0 := 0,
     sp_el1 := 0,
     elr_el1 := 0,
     spsr_el1 := 0,
     sctlr_el1 := 0,
     actlr_el1 := 0,
     cpacr_el1 := 0,
     ttbr0_el1 := 0,
     ttbr1_el1 := 0,
     tcr_el1 := 0,
     esr_el1 := 0,
     far_el1 := 0,
     par_el1 := 0,
     mair_el1 := 0,
     amair_el1 := 0,
     vbar_el1 := 0,
     contextidr_el1 := 0,
     tpidr_el0 := 0,
     tpidr_el1 := 0,
     tpidrro_el0 := 0,
     hcr_el2 := 0,
     cptr_el2 := 0,
     hstr_el2 := 0,
     far_el2 := 0,
     hpfar_el2 := 0\<rparr>"

definition ext_regs_store :: "'m arm_cpu \<Rightarrow> 'm \<Rightarrow> VmContext \<Rightarrow> VmContext" where
  "ext_regs_store E m self = self\<lparr>
     cntvoff_el2 := mrs E CNTVOFF_EL2 m,
     cntv_cval_el0 := mrs E CNTV_CVAL_EL0 m,
     cntkctl_el1 := as_u32 (mrs E CNTKCTL_EL1 m),
     cntp_ctl_el0 := as_u32 (mrs E CNTP_CTL_EL0 m),
     cntv_ctl_el0 := as_u32 (mrs E CNTV_CTL_EL0 m),
     cntp_tval_el0 := as_u32 (mrs E CNTP_TVAL_EL0 m),
     cntv_tval_el0 := as_u32 (mrs E CNTV_TVAL_EL0 m),
     cntvct_el0 := mrs E CNTVCT_EL0 m,
     vmpidr_el2 := mrs E VMPIDR_EL2 m,
     sp_el0 := mrs E SP_EL0 m,
     sp_el1 := mrs E SP_EL1 m,
     elr_el1 := mrs E ELR_EL1 m,
     spsr_el1 := as_u32 (mrs E SPSR_EL1 m),
     sctlr_el1 := as_u32 (mrs E SCTLR_EL1 m),
     cpacr_el1 := as_u32 (mrs E CPACR_EL1 m),
     ttbr0_el1 := mrs E TTBR0_EL1 m,
     ttbr1_el1 := mrs E TTBR1_EL1 m,
     tcr_el1 := mrs E TCR_EL1 m,
     esr_el1 := as_u32 (mrs E ESR_EL1 m),
     far_el1 := mrs E FAR_EL1 m,
     par_el1 := mrs E PAR_EL1 m,
     mair_el1 := mrs E MAIR_EL1 m,
     amair_el1 := mrs E AMAIR_EL1 m,
     vbar_el1 := mrs E VBAR_EL1 m,
     contextidr_el1 := as_u32 (mrs E CONTEXTIDR_EL1 m),
     tpidr_el0 := mrs E TPIDR_EL0 m,
     tpidr_el1 := mrs E TPIDR_EL1 m,
     tpidrro_el0 := mrs E TPIDRRO_EL0 m,
     pmcr_el0 := mrs E PMCR_EL0 m,
     vtcr_el2 := mrs E VTCR_EL2 m,
     hcr_el2 := mrs E HCR_EL2 m,
     actlr_el1 := mrs E ACTLR_EL1 m\<rparr>"

text \<open>The register writes of \<open>ext_regs_restore\<close>, in order.\<close>

definition restore_writes :: "'m arm_cpu \<Rightarrow> VmContext \<Rightarrow> (sysreg \<times> u64) list" where
  "restore_writes E self = [
     (CNTV_CVAL_EL0, cntv_cval_el0 self),
     (CNTKCTL_EL1, in_reg E (cntkctl_el1 self)),
     (CNTV_CTL_EL0, in_reg E (cntv_ctl_el0 self)),
     (SP_EL0, sp_el0 self),
     (SP_EL1, sp_el1 self),
     (ELR_EL1, elr_el1 self),
     (SPSR_EL1, in_reg E (spsr_el1 self)),
     (SCTLR_EL1, in_reg E (sctlr_el1 self)),
     (CPACR_EL1, in_reg E (cpacr_el1 self)),
     (TTBR0_EL1, ttbr0_el1 self),
     (TTBR1_EL1, ttbr1_el1 self),
     (TCR_EL1, tcr_el1 self),
     (ESR_EL1, in_reg E (esr_el1 self)),
     (FAR_EL1, far_el1 self),
     (PAR_EL1, par_el1 self),
     (MAIR_EL1, mair_el1 self),
     (AMAIR_EL1, amair_el1 self),
     (VBAR_EL1, vbar_el1 self),
     (CONTEXTIDR_EL1, in_reg E (contextidr_el1 self)),
     (TPIDR_EL0, tpidr_el0 self),
     (TPIDR_EL1, tpidr_el1 self),
     (TPIDRRO_EL0, tpidrro_el0 self),
     (PMCR_EL0, pmcr_el0 self),
     (ACTLR_EL1, actlr_el1 self),
     (VTCR_EL2, vtcr_el2 self),
     (HCR_EL2, hcr_el2 self),
     (VMPIDR_EL2, vmpidr_el2 self),
     (CNTVOFF_EL2, cntvoff_el2 self)]"

definition ext_regs_restore :: "'m arm_cpu \<Rightarrow> VmContext \<Rightarrow> 'm \<Rightarrow> 'm" where
  "ext_regs_restore E self m = fold (\<lambda>(r, v) m. msr E r v m) (restore_writes E self) m"

definition gic_save_state :: "arm_crates \<Rightarrow> 'm \<Rightarrow> VmContext \<Rightarrow> VmContext outcome" where
  "gic_save_state c m self =
     obind (GicState_save_state c GICH GICC m (gic_state self)) (\<lambda>g. Ok (self\<lparr>gic_state := g\<rparr>))"

definition gic_restore_state :: "VmContext \<Rightarrow> ('m, unit) hm" where
  "gic_restore_state self = GicState_restore_state GICH GICC (gic_state self)"

section \<open>Storing and restoring\<close>

text \<open>
  What the architecture says of the registers that are restored (Arm Architecture Reference Manual,
  D19): each has bits that a write sets and bits that are fixed, a write to
  one leaves the others alone, and a value that is read has the fixed bits. Excepted are the
  timer control register, which has a status bit, and a write to \<open>HCR_EL2\<close> that sets \<open>E2H\<close>,
  which redirects the accesses to the EL1 registers.
\<close>

definition restored_regs :: "sysreg list" where
  "restored_regs = [CNTV_CVAL_EL0, CNTKCTL_EL1, CNTV_CTL_EL0, SP_EL0, SP_EL1, ELR_EL1, SPSR_EL1, SCTLR_EL1,
     CPACR_EL1, TTBR0_EL1, TTBR1_EL1, TCR_EL1, ESR_EL1, FAR_EL1, PAR_EL1, MAIR_EL1, AMAIR_EL1, VBAR_EL1,
     CONTEXTIDR_EL1, TPIDR_EL0, TPIDR_EL1, TPIDRRO_EL0, PMCR_EL0, ACTLR_EL1, VTCR_EL2, HCR_EL2,
     VMPIDR_EL2, CNTVOFF_EL2]"

definition narrow_regs :: "sysreg list" where
  "narrow_regs = [CNTKCTL_EL1, CNTV_CTL_EL0, SPSR_EL1, SCTLR_EL1, CPACR_EL1, ESR_EL1, CONTEXTIDR_EL1]"

definition redirects :: "sysreg \<Rightarrow> u64 \<Rightarrow> bool" where
  "redirects r v \<longleftrightarrow> r = HCR_EL2 \<and> bit v 34"

definition sysregs_ok :: "'m arm_cpu \<Rightarrow> bool" where
  "sysregs_ok E \<longleftrightarrow> (\<forall>v. as_u32 (in_reg E v) = v) \<and> (\<exists>keep fixd.
     \<forall>r \<in> set restored_regs - {CNTV_CTL_EL0}.
       (\<forall>v m. \<not> redirects r v \<longrightarrow> mrs E r (msr E r v m) = (v AND keep r) OR fixd r)
       \<and> (\<forall>m. (mrs E r m AND keep r) OR fixd r = mrs E r m)
       \<and> (\<forall>r' \<in> set restored_regs - {r}. \<forall>v m. \<not> redirects r' v \<longrightarrow> mrs E r (msr E r' v m) = mrs E r m))"

text \<open>A sequence of writes to distinct registers.\<close>

lemma mrs_fold_other:
  assumes "\<And>r' v m. (r', v) \<in> set ws \<Longrightarrow> mrs E r (msr E r' v m) = mrs E r m"
  shows "mrs E r (fold (\<lambda>(r, v) m. msr E r v m) ws m) = mrs E r m"
  using assms by (induction ws arbitrary: m) auto

lemma mrs_fold:
  assumes "distinct (map fst ws)" and "(r, v) \<in> set ws"
    and "\<And>m. mrs E r (msr E r v m) = x"
    and "\<And>r' w m. (r', w) \<in> set ws \<Longrightarrow> r' \<noteq> r \<Longrightarrow> mrs E r (msr E r' w m) = mrs E r m"
  shows "mrs E r (fold (\<lambda>(r, v) m. msr E r v m) ws m) = x"
  using assms
proof (induction ws arbitrary: m)
  case (Cons p ws)
  show ?case
  proof (cases "p = (r, v)")
    case True
    have "mrs E r (fold (\<lambda>(r, v) m. msr E r v m) ws (msr E r v m)) = mrs E r (msr E r v m)"
      using Cons.prems(1,4) True by (intro mrs_fold_other) (force simp: image_iff)
    then show ?thesis using True Cons.prems(3) by simp
  next
    case False
    then show ?thesis using Cons.prems by (cases p) (auto intro!: Cons.IH)
  qed
qed simp

lemma restore_writes_store:
  "restore_writes E (ext_regs_store E m c) =
     map (\<lambda>r. (r, if r \<in> set narrow_regs then in_reg E (as_u32 (mrs E r m)) else mrs E r m)) restored_regs"
  by (simp add: restore_writes_def ext_regs_store_def restored_regs_def narrow_regs_def)

lemma distinct_restored: "distinct restored_regs"
  by (simp add: restored_regs_def)

text \<open>
  Claim C17. Storing the system registers of a machine in a context and restoring the context
  on any machine gives every restored register the value it had, except that the registers that are
  kept in 32-bit fields get the low 32 bits back only. The timer control register, whose status
  the hardware changes, is not covered.
\<close>

theorem sysregs_store_restore:
  assumes "sysregs_ok E" and "\<not> bit (mrs E HCR_EL2 m) 34"
    and "r \<in> set restored_regs" and "r \<noteq> CNTV_CTL_EL0"
  shows "if r \<in> set narrow_regs
    then as_u32 (mrs E r (ext_regs_restore E (ext_regs_store E m c) m')) = as_u32 (mrs E r m)
    else mrs E r (ext_regs_restore E (ext_regs_store E m c) m') = mrs E r m"
proof -
  define val where "val r = (if r \<in> set narrow_regs then in_reg E (as_u32 (mrs E r m)) else mrs E r m)" for r
  have u32: "as_u32 (in_reg E v) = v" for v using assms(1) by (simp add: sysregs_ok_def)
  from assms(1) obtain keep fixd where K: "\<And>r. r \<in> set restored_regs - {CNTV_CTL_EL0} \<Longrightarrow>
       (\<forall>v m. \<not> redirects r v \<longrightarrow> mrs E r (msr E r v m) = (v AND keep r) OR fixd r)
       \<and> (\<forall>m. (mrs E r m AND keep r) OR fixd r = mrs E r m)
       \<and> (\<forall>r' \<in> set restored_regs - {r}. \<forall>v m. \<not> redirects r' v \<longrightarrow> mrs E r (msr E r' v m) = mrs E r m)"
    unfolding sysregs_ok_def by blast
  have nr: "\<not> redirects r' (val r')" for r'
    using assms(2) by (simp add: redirects_def val_def narrow_regs_def)
  let ?ws = "map (\<lambda>r. (r, val r)) restored_regs"
  note k = K [of r]
  have "mrs E r (fold (\<lambda>(r, v) m. msr E r v m) ?ws m') = (val r AND keep r) OR fixd r"
  proof (rule mrs_fold)
    show "distinct (map fst ?ws)" using distinct_restored by (simp add: comp_def)
    show "(r, val r) \<in> set ?ws" using assms(3) by simp
    show "mrs E r (msr E r (val r) m) = (val r AND keep r) OR fixd r" for m
      using k assms(3,4) nr by simp
    show "mrs E r (msr E r' w m) = mrs E r m" if "(r', w) \<in> set ?ws" "r' \<noteq> r" for r' w m
      using that k assms(3,4) nr by auto
  qed
  then have eq: "mrs E r (ext_regs_restore E (ext_regs_store E m c) m') = (val r AND keep r) OR fixd r"
    by (simp add: ext_regs_restore_def restore_writes_store val_def)
  have id: "(mrs E r m AND keep r) OR fixd r = mrs E r m" using k assms(3,4) by simp
  show ?thesis
  proof (cases "r \<in> set narrow_regs")
    case True
    have "as_u32 ((val r AND keep r) OR fixd r) = (as_u32 (mrs E r m) AND as_u32 (keep r)) OR as_u32 (fixd r)"
      using True u32 by (simp add: val_def unsigned_and_eq unsigned_or_eq)
    also have "\<dots> = as_u32 ((mrs E r m AND keep r) OR fixd r)" by (simp add: unsigned_and_eq unsigned_or_eq)
    finally show ?thesis using True by (simp add: eq id)
  next
    case False
    then show ?thesis using id by (simp add: eq val_def)
  qed
qed

text \<open>System registers that store what is written, for the witnesses.\<close>

definition std_arm_cpu :: "(sysreg \<Rightarrow> u64) arm_cpu" where
  "std_arm_cpu = \<lparr>mrs = (\<lambda>r m. m r), msr = (\<lambda>r v m. m(r := v)), at_s1e1r = (\<lambda>a m. m(PAR_EL1 := a)),
     tlbi_alle2 = (\<lambda>m. m), in_reg = ucast\<rparr>"

lemma std_sysregs_ok: "sysregs_ok std_arm_cpu"
proof -
  have "as_u32 (as_u64 v) = v" for v :: u32 by (rule bit_word_eqI) (simp add: bit_simps)
  then show ?thesis
    unfolding sysregs_ok_def
    by (intro conjI exI [of _ "\<lambda>r. - 1"] exI [of _ "\<lambda>r. 0"]) (auto simp: std_arm_cpu_def)
qed

theorem sysregs_store_restore_witness:
  "\<exists>m'. m' = ext_regs_restore std_arm_cpu (ext_regs_store std_arm_cpu
      (\<lambda>r. if r = TTBR0_EL1 then 0x8000123400000000 else if r = SCTLR_EL1 then 0x30c50830 else 0)
      (VmContext_default arm_crates_std)) (\<lambda>r. 0xff)
    \<and> m' TTBR0_EL1 = 0x8000123400000000 \<and> as_u32 (m' SCTLR_EL1) = 0x30c50830"
proof -
  let ?m = "\<lambda>r. if r = TTBR0_EL1 then 0x8000123400000000 else if r = SCTLR_EL1 then 0x30c50830 else 0 :: u64"
  have h: "\<not> bit (mrs std_arm_cpu HCR_EL2 ?m) 34" by (simp add: std_arm_cpu_def)
  show ?thesis
    using sysregs_store_restore [OF std_sysregs_ok h, of TTBR0_EL1 "VmContext_default arm_crates_std" "\<lambda>r. 0xff"]
      sysregs_store_restore [OF std_sysregs_ok h, of SCTLR_EL1 "VmContext_default arm_crates_std" "\<lambda>r. 0xff"]
    by (simp add: restored_regs_def narrow_regs_def std_arm_cpu_def)
qed

text \<open>
  \<open>reset\<close> gives the default context, but leaves the control register of the virtual timer, the
  performance monitors, the translation control and the interrupt controller as they were.
\<close>

lemma VmContext_reset_keeps:
  "VmContext_reset self = (VmContext_default c)\<lparr>cntv_ctl_el0 := cntv_ctl_el0 self,
     pmcr_el0 := pmcr_el0 self, vtcr_el2 := vtcr_el2 self, gic_state := gic_state self\<rparr>"
  by (simp add: VmContext_reset_def VmContext_default_def)

text \<open>Nothing assigns the two statics, so the state of the interrupt controller is not kept.\<close>

lemma gic_state_not_kept: "gic_save_state c m self = Ok self" "gic_restore_state self m = (Ok (), m)"
  by (simp_all add: gic_save_state_def gic_restore_state_def GicState_save_state_def
      GicState_restore_state_def GICH_def GICC_def hm_defs)

end
