(* ===== verification/Arm_Exception.thy ===== *)
theory Arm_Exception
  imports Arm_Context
begin

text \<open>
  The exceptions that a guest takes to EL2: \<open>src/src/arch/aarch64/exception.rs\<close>, the handlers of
  \<open>src/src/arch/aarch64/sync.rs\<close> and the hypercalls of \<open>src/src/arch/aarch64/hvc.rs\<close>. The vector
  code that saves the trap frame and calls \<open>lower_aarch64_synchronous\<close> belongs to the embedding
  kernel; here the frame is part of the state.
\<close>

section \<open>State\<close>

text \<open>The register state of a vCPU, from \<open>src/src/arch/aarch64/vcpu.rs\<close>.\<close>

record VmCpuRegisters =
  guest_trap_context_regs :: Aarch64ContextFrame
  save_for_os_context_regs :: Aarch64ContextFrame
  vm_system_regs :: VmContext

definition VmCpuRegisters_default :: "arm_crates \<Rightarrow> VmCpuRegisters" where
  "VmCpuRegisters_default c = \<lparr>guest_trap_context_regs = ContextFrame_default c,
     save_for_os_context_regs = ContextFrame_default c, vm_system_regs = VmContext_default c\<rparr>"

text \<open>
  The processor, the trap frame, and the register structures in memory: \<open>vm_regs a\<close> is the one
  at address \<open>a\<close>, which \<open>transmute\<close> makes of the address that a hypercall passes.
\<close>

record 'm arm =
  hw :: 'm
  ctx :: Aarch64ContextFrame
  vm_regs :: "usize \<Rightarrow> VmCpuRegisters"

text \<open>\<open>log_debug\<close>: whether the arguments of \<open>debug!\<close> are evaluated.\<close>

record 'm arm_env =
  acrates :: arm_crates
  acpu :: "'m arm_cpu"
  log_debug :: bool

section \<open>The syndrome\<close>

definition exception_esr :: "'m arm_env \<Rightarrow> 'm \<Rightarrow> usize" where
  "exception_esr E m = as_usize (mrs (acpu E) ESR_EL2 m)"

definition exception_esr_el1 :: "'m arm_env \<Rightarrow> 'm \<Rightarrow> usize" where
  "exception_esr_el1 E m = as_usize (mrs (acpu E) ESR_EL1 m)"

definition exception_class :: "'m arm_env \<Rightarrow> 'm \<Rightarrow> usize" where
  "exception_class E m = shr (exception_esr E m) 26 AND 0x3f"

definition exception_far :: "'m arm_env \<Rightarrow> 'm \<Rightarrow> usize" where
  "exception_far E m = as_usize (mrs (acpu E) FAR_EL2 m)"

definition exception_hpfar :: "'m arm_env \<Rightarrow> 'm \<Rightarrow> usize" where
  "exception_hpfar E m = as_usize (mrs (acpu E) HPFAR_EL2 m)"

definition ESR_ELx_S1PTW_SHIFT :: nat where
  "ESR_ELx_S1PTW_SHIFT = 7"

definition ESR_ELx_S1PTW :: usize where
  "ESR_ELx_S1PTW = shl 1 ESR_ELx_S1PTW_SHIFT"

definition exception_instruction_length :: "'m arm_env \<Rightarrow> 'm \<Rightarrow> usize" where
  "exception_instruction_length E m = shr (exception_esr E m) 25 AND 1"

definition exception_next_instruction_step :: "'m arm_env \<Rightarrow> 'm \<Rightarrow> usize" where
  "exception_next_instruction_step E m = 2 + 2 * exception_instruction_length E m"

definition exception_iss :: "'m arm_env \<Rightarrow> 'm \<Rightarrow> usize" where
  "exception_iss E m = exception_esr E m AND (shl 1 25 - 1)"

definition exception_data_abort_handleable :: "'m arm_env \<Rightarrow> 'm \<Rightarrow> bool" where
  "exception_data_abort_handleable E m \<longleftrightarrow>
     NOT (exception_iss E m AND shl 1 10) OR (exception_iss E m AND shl 1 24) \<noteq> 0"

definition exception_data_abort_is_translate_fault :: "'m arm_env \<Rightarrow> 'm \<Rightarrow> bool" where
  "exception_data_abort_is_translate_fault E m \<longleftrightarrow> exception_iss E m AND 0x3f AND shl 0xf 2 = 4"

definition exception_data_abort_is_permission_fault :: "'m arm_env \<Rightarrow> 'm \<Rightarrow> bool" where
  "exception_data_abort_is_permission_fault E m \<longleftrightarrow> exception_iss E m AND 0x3f AND shl 0xf 2 = 12"

definition exception_data_abort_access_width :: "'m arm_env \<Rightarrow> 'm \<Rightarrow> usize" where
  "exception_data_abort_access_width E m = shl 1 (unat (shr (exception_iss E m) 22 AND 3))"

definition exception_data_abort_access_is_write :: "'m arm_env \<Rightarrow> 'm \<Rightarrow> bool" where
  "exception_data_abort_access_is_write E m \<longleftrightarrow> exception_iss E m AND shl 1 6 \<noteq> 0"

definition exception_data_abort_access_in_stage2 :: "'m arm_env \<Rightarrow> 'm \<Rightarrow> bool" where
  "exception_data_abort_access_in_stage2 E m \<longleftrightarrow> exception_iss E m AND shl 1 7 \<noteq> 0"

definition exception_data_abort_access_reg :: "'m arm_env \<Rightarrow> 'm \<Rightarrow> usize" where
  "exception_data_abort_access_reg E m = shr (exception_iss E m) 16 AND 0x1f"

definition exception_data_abort_access_reg_width :: "'m arm_env \<Rightarrow> 'm \<Rightarrow> usize" where
  "exception_data_abort_access_reg_width E m = 4 + 4 * (shr (exception_iss E m) 15 AND 1)"

definition exception_data_abort_access_is_sign_ext :: "'m arm_env \<Rightarrow> 'm \<Rightarrow> bool" where
  "exception_data_abort_access_is_sign_ext E m \<longleftrightarrow> shr (exception_iss E m) 21 AND 1 \<noteq> 0"

text \<open>
  \<open>translate_far_to_hpfar\<close> asks the processor for the stage-1 translation and gives \<open>PAR_EL1\<close>
  back its value; \<open>None\<close> is \<open>Err(())\<close>.
\<close>

definition par_to_far :: "u64 \<Rightarrow> u64" where
  "par_to_far par = (let m = shl (shl 1 (52 - 12) - 1) 12 in shr (par AND m) 8)"

definition translate_far_to_hpfar :: "'m arm_env \<Rightarrow> usize \<Rightarrow> 'm \<Rightarrow> usize option \<times> 'm" where
  "translate_far_to_hpfar E far m =
     (let par = mrs (acpu E) PAR_EL1 m;
          m = at_s1e1r (acpu E) far m;
          tmp = mrs (acpu E) PAR_EL1 m;
          m = msr (acpu E) PAR_EL1 par m in
      (if tmp AND PAR_F_TranslationAborted (acrates E) \<noteq> 0 then None
       else Some (as_usize (par_to_far tmp)), m))"

definition exception_fault_addr :: "'m arm_env \<Rightarrow> 'm \<Rightarrow> usize \<times> 'm" where
  "exception_fault_addr E m =
     (let far = exception_far E m in
      case (if exception_esr E m AND ESR_ELx_S1PTW = 0 \<and> exception_data_abort_is_permission_fault E m
            then (case translate_far_to_hpfar E far m of
                    (Some hpfar, m) \<Rightarrow> (hpfar, m)
                  | (None, m) \<Rightarrow> (0, m))
            else (exception_hpfar E m, m)) of
        (hpfar, m) \<Rightarrow> ((far AND 0xfff) OR shl hpfar 8, m))"

section \<open>Handlers\<close>

definition debug_fault_addr :: "'m arm_env \<Rightarrow> ('m arm, unit) hm" where
  "debug_fault_addr E =
     hwhen (log_debug E) (hmod (\<lambda>s. s\<lparr>hw := snd (exception_fault_addr E (hw s))\<rparr>))"

definition data_abort_handler :: "'m arm_env \<Rightarrow> ('m arm, unit) hm" where
  "data_abort_handler E =
     hseq (debug_fault_addr E)
     (hbind (hget (\<lambda>s. exception_pc (ctx s))) (\<lambda>elr.
      hbind (hget hw) (\<lambda>m.
      if \<not> exception_data_abort_handleable E m then hpanic ExplicitPanic
      else if \<not> exception_data_abort_is_translate_fault E m then hpanic ExplicitPanic
      else
        (let val = elr + exception_next_instruction_step E m in
         hmod (\<lambda>s. s\<lparr>ctx := set_exception_pc (ctx s) val\<rparr>)))))"

definition HVC_SYS :: usize where "HVC_SYS = 0"
definition HVC_SYS_BOOT :: usize where "HVC_SYS_BOOT = 0"
definition HVC_RETURN_REG :: usize where "HVC_RETURN_REG = 0"

definition init_hv :: "'m arm_env \<Rightarrow> usize \<Rightarrow> usize \<Rightarrow> ('m arm, unit) hm" where
  "init_hv E root_paddr vm_ctx_addr =
     hseqs [
       hmod (\<lambda>s. s\<lparr>hw := msr (acpu E) CPTR_EL2 0 (hw s)\<rparr>),
       hmod (\<lambda>s. s\<lparr>hw := msr (acpu E) VTTBR_EL2 (as_u64 root_paddr) (hw s)\<rparr>),
       hmod (\<lambda>s. s\<lparr>hw := tlbi_alle2 (acpu E) (hw s)\<rparr>),
       hmod (\<lambda>s. s\<lparr>hw := ext_regs_restore (acpu E) (vm_system_regs (vm_regs s vm_ctx_addr)) (hw s)\<rparr>)]"

text \<open>\<open>Result<usize, ()>\<close>: \<open>None\<close> is the error.\<close>

definition hvc_sys_handler :: "'m arm_env \<Rightarrow> usize \<Rightarrow> usize \<Rightarrow> usize \<Rightarrow> ('m arm, usize option) hm" where
  "hvc_sys_handler E event root_paddr vm_ctx_addr =
     (if event = HVC_SYS_BOOT then hseq (init_hv E root_paddr vm_ctx_addr) (hret (Some 0)) else hret None)"

definition hvc_guest_handler :: "'m arm_env \<Rightarrow> usize \<Rightarrow> usize \<Rightarrow> usize \<Rightarrow> usize \<Rightarrow>
    ('m arm, usize option) hm" where
  "hvc_guest_handler E hvc_type event x0 x1 =
     (if hvc_type = HVC_SYS then hvc_sys_handler E event x0 x1 else hret None)"

definition switch_to_guest :: "usize \<Rightarrow> ('m arm, unit) hm" where
  "switch_to_guest x1 =
     hseq (hmod (\<lambda>s. s\<lparr>vm_regs := (vm_regs s)(x1 := (vm_regs s x1)\<lparr>save_for_os_context_regs :=
       (save_for_os_context_regs (vm_regs s x1))\<lparr>gpr := gpr (ctx s), sp := sp (ctx s),
          elr := elr (ctx s), spsr := spsr (ctx s)\<rparr>\<rparr>)\<rparr>))
     (hmod (\<lambda>s. let g = guest_trap_context_regs (vm_regs s x1) in
       s\<lparr>ctx := (ctx s)\<lparr>gpr := gpr g, sp := sp g, elr := elr g, spsr := spsr g\<rparr>\<rparr>))"

text \<open>The arguments in x2 to x6 are passed on and not used.\<close>

definition hvc_handler :: "'m arm_env \<Rightarrow> ('m arm, unit) hm" where
  "hvc_handler E =
     hbind (hget ctx) (\<lambda>c.
     hbind (hlift (frame_gpr c 0)) (\<lambda>x0.
     hbind (hlift (frame_gpr c 1)) (\<lambda>x1.
     hbind (hlift (frame_gpr c 7)) (\<lambda>mode.
       let hvc_type = shr mode 8 AND 0xff; event = mode AND 0xff in
       hbind (hvc_guest_handler E hvc_type event x0 x1) (\<lambda>r.
       hbind (hget ctx) (\<lambda>c.
       hbind (hlift (frame_set_gpr c HVC_RETURN_REG (case r of Some val \<Rightarrow> val | None \<Rightarrow> - 1))) (\<lambda>c.
       hseq (hmod (\<lambda>s. s\<lparr>ctx := c\<rparr>))
       (hwhen (hvc_type = HVC_SYS \<and> event = HVC_SYS_BOOT) (switch_to_guest x1)))))))))"

definition lower_aarch64_synchronous :: "'m arm_env \<Rightarrow> ('m arm, unit) hm" where
  "lower_aarch64_synchronous E =
     hbind (hget (\<lambda>s. exception_class E (hw s))) (\<lambda>ec.
       if ec = 0x24 then data_abort_handler E
       else if ec = 0x16 then hvc_handler E
       else hseq (hmod (\<lambda>s. s\<lparr>hw := snd (exception_fault_addr E (hw s))\<rparr>)) (hpanic ExplicitPanic))"

text \<open>Two functions that nothing calls.\<close>

definition init_sysregs :: "'m arm_env \<Rightarrow> 'm \<Rightarrow> 'm" where
  "init_sysregs E m =
     (let c = acrates E;
          m = msr (acpu E) HCR_EL2 (fv_value (fv_add (HCR_VM_Enable c) (HCR_RW_EL1IsAarch64 c))) m;
          f = fv_add (fv_add (SCTLR_M_Enable c) (SCTLR_C_Cacheable c)) (SCTLR_I_Cacheable c) in
      msr (acpu E) SCTLR_EL2 ((mrs (acpu E) SCTLR_EL2 m AND NOT (fv_mask f)) OR fv_value f) m)"

definition init_page_table :: "'m arm_env \<Rightarrow> usize \<Rightarrow> 'm \<Rightarrow> 'm" where
  "init_page_table E vttbr m = msr (acpu E) VTTBR_EL2 (as_u64 vttbr) m"

section \<open>Data aborts\<close>

lemma data_abort_always_handleable: "exception_data_abort_handleable E m"
proof -
  have "bit (NOT (exception_iss E m AND shl 1 10) OR (exception_iss E m AND shl 1 24)) 0"
    by (simp add: bit_simps)
  then show ?thesis unfolding exception_data_abort_handleable_def by (metis bit_0_eq bot_apply bot_bool_def)
qed

lemma translate_fault_iff:
  "exception_data_abort_is_translate_fault E m \<longleftrightarrow> exception_esr E m AND 0x3c = 4"
  by (simp add: exception_data_abort_is_translate_fault_def exception_iss_def and.assoc)

lemma instruction_step:
  "exception_next_instruction_step E m = (if bit (exception_esr E m) 25 then 4 else 2)"
  by (simp add: exception_next_instruction_step_def exception_instruction_length_def drop_bit_and_1)

text \<open>The translation instruction and writes to \<open>PAR_EL1\<close> do not change the syndrome.\<close>

definition at_ok :: "'m arm_cpu \<Rightarrow> bool" where
  "at_ok C \<longleftrightarrow> (\<forall>a m. mrs C ESR_EL2 (at_s1e1r C a m) = mrs C ESR_EL2 m)
     \<and> (\<forall>v m. mrs C ESR_EL2 (msr C PAR_EL1 v m) = mrs C ESR_EL2 m)"

lemma fault_addr_esr: "at_ok (acpu E) \<Longrightarrow> exception_esr E (snd (exception_fault_addr E m)) = exception_esr E m"
  by (auto simp: exception_fault_addr_def translate_far_to_hpfar_def exception_esr_def at_ok_def Let_def)

text \<open>
  Claim C20. What the exception entry does with the exceptions that are no hypercall. A data
  abort is never refused as not handleable. If its syndrome is a translation fault, the guest
  continues behind the aborted instruction, two or four bytes on as the syndrome says, with no
  register changed; any other data abort and any other exception class panics.
\<close>

theorem synchronous_exceptions:
  assumes "at_ok (acpu E)" and "exception_class E (hw s) \<noteq> 0x16"
  shows "exception_data_abort_handleable E (hw s)
    \<and> (\<exists>s'. lower_aarch64_synchronous E s =
        (if exception_class E (hw s) = 0x24 \<and> exception_esr E (hw s) AND 0x3c = 4
         then Ok () else Panic ExplicitPanic, s')
      \<and> vm_regs s' = vm_regs s
      \<and> ctx s' = (if exception_class E (hw s) = 0x24 \<and> exception_esr E (hw s) AND 0x3c = 4
          then (ctx s)\<lparr>elr := elr (ctx s) + (if bit (exception_esr E (hw s)) 25 then 4 else 2)\<rparr>
          else ctx s))"
proof (cases "exception_class E (hw s) = 0x24")
  case False
  then show ?thesis
    using assms(2) data_abort_always_handleable [of E "hw s"]
    by (simp add: lower_aarch64_synchronous_def hm_defs)
next
  case True
  define m where "m = (if log_debug E then snd (exception_fault_addr E (hw s)) else hw s)"
  have esr: "exception_esr E m = exception_esr E (hw s)" using fault_addr_esr [OF assms(1)] by (simp add: m_def)
  have "debug_fault_addr E s = (Ok (), s\<lparr>hw := m\<rparr>)" by (simp add: debug_fault_addr_def m_def hm_defs)
  then have "lower_aarch64_synchronous E s =
      (if exception_esr E (hw s) AND 0x3c = 4
       then (Ok (), s\<lparr>hw := m, ctx := (ctx s)\<lparr>elr := elr (ctx s) + (if bit (exception_esr E (hw s)) 25 then 4 else 2)\<rparr>\<rparr>)
       else (Panic ExplicitPanic, s\<lparr>hw := m\<rparr>))"
    using True data_abort_always_handleable [of E m]
    by (simp add: lower_aarch64_synchronous_def data_abort_handler_def hm_defs translate_fault_iff esr
        instruction_step exception_pc_def set_exception_pc_def Let_def)
  then show ?thesis using True data_abort_always_handleable [of E "hw s"] by simp
qed

definition std_arm_env :: "(sysreg \<Rightarrow> u64) arm_env" where
  "std_arm_env = \<lparr>acrates = arm_crates_std, acpu = std_arm_cpu, log_debug = True\<rparr>"

definition std_arm :: "u64 \<Rightarrow> u64 list \<Rightarrow> (sysreg \<Rightarrow> u64) arm" where
  "std_arm esr g = \<lparr>hw = (\<lambda>r. if r = ESR_EL2 then esr else 0),
     ctx = \<lparr>gpr = g, sp = 0x8000, elr = 0x1000, spsr = 0\<rparr>,
     vm_regs = (\<lambda>a. VmCpuRegisters_default arm_crates_std)\<rparr>"

theorem synchronous_exceptions_witness:
  "\<exists>s1 s2. lower_aarch64_synchronous std_arm_env (std_arm 0x92000006 (replicate 31 0)) = (Ok (), s1)
     \<and> elr (ctx s1) = 0x1004
     \<and> lower_aarch64_synchronous std_arm_env (std_arm 0x9200000d (replicate 31 0)) = (Panic ExplicitPanic, s2)"
proof -
  have at: "at_ok (acpu std_arm_env)" by (simp add: at_ok_def std_arm_env_def std_arm_cpu_def)
  have esr: "exception_esr std_arm_env (hw (std_arm e g)) = e" for e g
    by (simp add: exception_esr_def std_arm_env_def std_arm_cpu_def std_arm_def)
  have c: "exception_class std_arm_env (hw (std_arm 0x92000006 (replicate 31 0))) = 0x24"
    "exception_class std_arm_env (hw (std_arm 0x9200000d (replicate 31 0))) = 0x24"
    by (simp_all add: exception_class_def esr)
  have n: "exception_class std_arm_env (hw (std_arm 0x92000006 (replicate 31 0))) \<noteq> 0x16"
    "exception_class std_arm_env (hw (std_arm 0x9200000d (replicate 31 0))) \<noteq> 0x16"
    unfolding c by simp_all
  have b: "0x92000006 AND 0x3c = (4 :: usize)" "bit (0x92000006 :: usize) 25"
    "0x9200000d AND 0x3c \<noteq> (4 :: usize)" by simp_all
  have e: "elr (ctx (std_arm e g)) = 0x1000" for e g by (simp add: std_arm_def)
  obtain s1 where s1: "lower_aarch64_synchronous std_arm_env (std_arm 0x92000006 (replicate 31 0)) = (Ok (), s1)"
    "ctx s1 = (ctx (std_arm 0x92000006 (replicate 31 0)))\<lparr>elr := 0x1004\<rparr>"
    using synchronous_exceptions [OF at n(1)] unfolding c esr by (simp add: b e) blast
  obtain s2 where s2: "lower_aarch64_synchronous std_arm_env (std_arm 0x9200000d (replicate 31 0)) = (Panic ExplicitPanic, s2)"
    using synchronous_exceptions [OF at n(2)] unfolding c esr by (simp add: b) blast
  have "elr (ctx s1) = 0x1004" unfolding s1(2) by simp
  with s1(1) s2 show ?thesis by blast
qed

section \<open>Hypercalls\<close>

lemma frame_copy [simp]: "f\<lparr>gpr := gpr g, sp := sp g, elr := elr g, spsr := spsr g\<rparr> = g"
  for f g :: Aarch64ContextFrame
  by simp

lemma switch_to_guest_run:
  "switch_to_guest x1 s = (Ok (), s\<lparr>ctx := guest_trap_context_regs (vm_regs s x1),
     vm_regs := (vm_regs s)(x1 := (vm_regs s x1)\<lparr>save_for_os_context_regs := ctx s\<rparr>)\<rparr>)"
  by (cases s) (simp add: switch_to_guest_def hm_defs Let_def)

lemma hvc_handler_run:
  assumes "length (gpr (ctx s)) = 31"
  shows "hvc_handler E s =
    (if take_bit 16 (gpr (ctx s) ! 7) = 0
     then let x0 = gpr (ctx s) ! 0; x1 = gpr (ctx s) ! 1; regs = vm_regs s x1 in
       (Ok (), s\<lparr>
          hw := ext_regs_restore (acpu E) (vm_system_regs regs)
            (tlbi_alle2 (acpu E) (msr (acpu E) VTTBR_EL2 x0 (msr (acpu E) CPTR_EL2 0 (hw s)))),
          ctx := guest_trap_context_regs regs,
          vm_regs := (vm_regs s)(x1 := regs\<lparr>save_for_os_context_regs :=
            (ctx s)\<lparr>gpr := (gpr (ctx s))[0 := 0]\<rparr>\<rparr>)\<rparr>)
     else (Ok (), s\<lparr>ctx := (ctx s)\<lparr>gpr := (gpr (ctx s))[0 := - 1]\<rparr>\<rparr>))"
proof -
  let ?mode = "gpr (ctx s) ! 7"
  have "(shr ?mode 8 AND 0xff = 0 \<and> ?mode AND 0xff = 0) \<longleftrightarrow> take_bit 16 ?mode = 0"
  proof -
    have ff: "(0xff :: u64) = mask 8" by (simp add: mask_eq_exp_minus_1)
    have "shr ?mode 8 AND 0xff = take_bit 8 (drop_bit 8 ?mode)" "?mode AND 0xff = take_bit 8 ?mode"
      unfolding ff by (simp_all add: take_bit_eq_mask)
    moreover have "take_bit 8 (drop_bit 8 ?mode) = 0 \<and> take_bit 8 ?mode = 0 \<longleftrightarrow> take_bit 16 ?mode = 0"
    proof (intro iffI conjI)
      assume z: "take_bit 8 (drop_bit 8 ?mode) = 0 \<and> take_bit 8 ?mode = 0"
      show "take_bit 16 ?mode = 0"
      proof (rule bit_word_eqI)
        fix n assume "n < LENGTH(64)"
        have "bit (take_bit 16 ?mode) n \<longleftrightarrow>
            (if n < 8 then bit (take_bit 8 ?mode) n else bit (take_bit 8 (drop_bit 8 ?mode)) (n - 8))"
          by (auto simp: bit_simps)
        then show "bit (take_bit 16 ?mode) n \<longleftrightarrow> bit 0 n" using z by simp
      qed
    next
      assume z: "take_bit 16 ?mode = 0"
      have "take_bit 8 (drop_bit 8 ?mode) = drop_bit 8 (take_bit 16 ?mode)" "take_bit 8 ?mode = take_bit 8 (take_bit 16 ?mode)"
        by (rule bit_word_eqI, auto simp: bit_simps)+
      then show "take_bit 8 (drop_bit 8 ?mode) = 0" "take_bit 8 ?mode = 0" using z by simp_all
    qed
    ultimately show ?thesis by simp
  qed
  then show ?thesis
    using assms
    by (auto simp: hvc_handler_def hm_defs frame_gpr_def frame_set_gpr_def hvc_guest_handler_def
        hvc_sys_handler_def init_hv_def switch_to_guest_run HVC_SYS_def HVC_SYS_BOOT_def HVC_RETURN_REG_def Let_def)
qed

text \<open>
  Claim C16. A hypercall with type and event zero boots a guest: the system registers of the
  structure at the address in x1 are restored on a processor whose stage-2 table is the one in x0,
  the caller's frame is saved in the structure with zero as result in x0, and the exception returns
  with the frame of the guest; no other structure changes. Every other hypercall
  returns all ones in x0 and changes nothing else.
\<close>

theorem hvc_handler_spec:
  assumes "length (gpr (ctx s)) = 31"
  shows "hvc_handler E s =
    (if take_bit 16 (gpr (ctx s) ! 7) = 0
     then let x0 = gpr (ctx s) ! 0; x1 = gpr (ctx s) ! 1; regs = vm_regs s x1 in
       (Ok (), s\<lparr>
          hw := ext_regs_restore (acpu E) (vm_system_regs regs)
            (tlbi_alle2 (acpu E) (msr (acpu E) VTTBR_EL2 x0 (msr (acpu E) CPTR_EL2 0 (hw s)))),
          ctx := guest_trap_context_regs regs,
          vm_regs := (vm_regs s)(x1 := regs\<lparr>save_for_os_context_regs :=
            (ctx s)\<lparr>gpr := (gpr (ctx s))[0 := 0]\<rparr>\<rparr>)\<rparr>)
     else (Ok (), s\<lparr>ctx := (ctx s)\<lparr>gpr := (gpr (ctx s))[0 := - 1]\<rparr>\<rparr>))"
  using assms by (rule hvc_handler_run)

theorem hvc_handler_spec_witness:
  "\<exists>s1 s2. hvc_handler std_arm_env (std_arm 0x5a000000 (replicate 31 0)) = (Ok (), s1)
     \<and> elr (ctx s1) = 0 \<and> elr (save_for_os_context_regs (vm_regs s1 0)) = 0x1000
     \<and> hvc_handler std_arm_env (std_arm 0x5a000000 (replicate 31 0x100)) = (Ok (), s2)
     \<and> gpr (ctx s2) ! 0 = - 1 \<and> elr (ctx s2) = 0x1000"
proof -
  have l: "length (gpr (ctx (std_arm e (replicate 31 x)))) = 31" for e x by (simp add: std_arm_def)
  show ?thesis
    using hvc_handler_spec [OF l, of std_arm_env "0x5a000000" 0] hvc_handler_spec [OF l, of std_arm_env "0x5a000000" "0x100"]
    by (simp add: std_arm_def VmCpuRegisters_default_def ContextFrame_default_def Let_def)
qed

end
