(* ===== verification/Arm_Vm.thy ===== *)
theory Arm_Vm
  imports Arm_Exception Vm_Cpus Per_Cpu Gdb_Stub
begin

text \<open>
  \<open>src/src/arch/aarch64/vcpu.rs\<close>, \<open>src/src/arch/aarch64/vm.rs\<close>, the caller's side of
  \<open>src/src/arch/aarch64/hvc.rs\<close>, and the per-CPU areas of \<open>src/src/arch/aarch64/cpu.rs\<close>: how a
  vCPU is made, initialised and started. Starting executes \<open>hvc #0\<close>, which traps to the handlers of
  \<open>Arm_Exception\<close>.
\<close>

section \<open>vCPUs\<close>

record VCpu =
  vcpu_id :: usize
  vcpu_regs :: VmCpuRegisters

definition VCpu_new :: "arm_crates \<Rightarrow> usize \<Rightarrow> VCpu" where
  "VCpu_new c vid = \<lparr>vcpu_id = vid, vcpu_regs = VmCpuRegisters_default c\<rparr>"

abbreviation with_guest_frame :: "(Aarch64ContextFrame \<Rightarrow> Aarch64ContextFrame) \<Rightarrow> VCpu \<Rightarrow> VCpu" where
  "with_guest_frame f self \<equiv> self\<lparr>vcpu_regs := (vcpu_regs self)\<lparr>guest_trap_context_regs :=
     f (guest_trap_context_regs (vcpu_regs self))\<rparr>\<rparr>"

definition set_elr :: "VCpu \<Rightarrow> usize \<Rightarrow> VCpu" where
  "set_elr self pc = with_guest_frame (\<lambda>f. set_exception_pc f pc) self"

definition set_gpr :: "VCpu \<Rightarrow> usize \<Rightarrow> usize \<Rightarrow> VCpu outcome" where
  "set_gpr self idx val =
     obind (frame_set_gpr (guest_trap_context_regs (vcpu_regs self)) idx val) (\<lambda>f.
       Ok (with_guest_frame (\<lambda>_. f) self))"

definition vcpu_arch_init :: "arm_crates \<Rightarrow> VCpu \<Rightarrow> usize \<Rightarrow> usize \<Rightarrow> VCpu outcome" where
  "vcpu_arch_init c self kernel_entry_point device_tree_ipa =
     obind (set_gpr self 0 device_tree_ipa) (\<lambda>self.
       let self = set_elr self kernel_entry_point in
       Ok (with_guest_frame (\<lambda>f. f\<lparr>spsr := spsr_masked c\<rparr>) self))"

definition init_vm_context :: "arm_crates \<Rightarrow> VCpu \<Rightarrow> VCpu" where
  "init_vm_context c self =
     (let vmpidr = (0 OR shl 1 31) OR vcpu_id self in
      self\<lparr>vcpu_regs := (vcpu_regs self)\<lparr>vm_system_regs := (vm_system_regs (vcpu_regs self))\<lparr>
        cntvoff_el2 := 0,
        sctlr_el1 := 0x30C50830,
        cntkctl_el1 := 0,
        pmcr_el0 := 0,
        vtcr_el2 := fv_value (fv_add (fv_add (fv_add (fv_add (fv_add (fv_add
          (VTCR_PS_PA_40B_1TB c) (VTCR_TG0_Granule4KB c)) (VTCR_SH0_Inner c)) (VTCR_ORGN0_NormalWBRAWA c))
          (VTCR_IRGN0_NormalWBRAWA c)) (VTCR_SL0_val c 1)) (VTCR_T0SZ_val c (64 - 40))),
        hcr_el2 := fv_value (fv_add (HCR_VM_Enable c) (HCR_RW_EL1IsAarch64 c)),
        vmpidr_el2 := as_u64 vmpidr\<rparr>\<rparr>\<rparr>)"

definition VCpu_init :: "arm_crates \<Rightarrow> VCpu \<Rightarrow> usize \<Rightarrow> usize \<Rightarrow> VCpu outcome" where
  "VCpu_init c self kernel_entry_point device_tree_ipa =
     obind (vcpu_arch_init c self kernel_entry_point device_tree_ipa) (\<lambda>self. Ok (init_vm_context c self))"

text \<open>
  The instruction \<open>hvc #0\<close> with the eight argument registers, and where the registers of a
  vCPU are in memory; a frame takes 34 words.
\<close>

record 's hvc_ops =
  hvc0 :: "usize list \<Rightarrow> 's \<Rightarrow> usize \<times> 's"
  regs_addr :: "usize \<Rightarrow> usize"

definition hvc_call :: "'s hvc_ops \<Rightarrow> usize \<Rightarrow> usize \<Rightarrow> usize \<Rightarrow> usize \<Rightarrow> usize \<Rightarrow> usize \<Rightarrow> usize \<Rightarrow> usize \<Rightarrow>
    ('s, usize) hm" where
  "hvc_call H x0 x1 x2 x3 x4 x5 x6 x7 s =
     (case hvc0 H [x0, x1, x2, x3, x4, x5, x6, x7] s of (r0, s) \<Rightarrow> (Ok r0, s))"

definition run_guest_by_trap2el2 :: "'s hvc_ops \<Rightarrow> usize \<Rightarrow> usize \<Rightarrow> ('s, usize) hm" where
  "run_guest_by_trap2el2 H tok addr = hvc_call H tok addr 0 0 0 0 0 0"

definition vcpu_ctx_addr :: "'s hvc_ops \<Rightarrow> VCpu \<Rightarrow> usize" where
  "vcpu_ctx_addr H self = regs_addr H (vcpu_id self)"

definition vcpu_trap_ctx_addr :: "'s hvc_ops \<Rightarrow> VCpu \<Rightarrow> bool \<Rightarrow> usize" where
  "vcpu_trap_ctx_addr H self if_guest =
     (if if_guest then regs_addr H (vcpu_id self) else regs_addr H (vcpu_id self) + 34 * 8)"

definition VCpu_run :: "'s hvc_ops \<Rightarrow> VCpu \<Rightarrow> usize \<Rightarrow> ('s, unit) hm" where
  "VCpu_run H self vttbr_token =
     hseq (run_guest_by_trap2el2 H vttbr_token (vcpu_ctx_addr H self)) (hret ())"

section \<open>Virtual machines\<close>

record 'g VM =
  vcpus :: "VCpu VmCpus"
  gpt :: 'g
  vm_id :: usize

definition VM_new :: "VCpu VmCpus \<Rightarrow> 'g \<Rightarrow> usize \<Rightarrow> 'g VM outcome" where
  "VM_new cpus g vid = Ok \<lparr>vcpus = cpus, gpt = g, vm_id = vid\<rparr>"

definition init_vm_vcpu :: "arm_crates \<Rightarrow> 'g VM \<Rightarrow> usize \<Rightarrow> usize \<Rightarrow> usize \<Rightarrow> 'g VM outcome" where
  "init_vm_vcpu c self vid kernel_entry_point device_tree_ipa =
     obind (unwrap (get_vcpu (vcpus self) vid)) (\<lambda>vcpu.
     obind (VCpu_init c vcpu kernel_entry_point device_tree_ipa) (\<lambda>vcpu.
       Ok (self\<lparr>vcpus := put_vcpu (vcpus self) vid vcpu\<rparr>)))"

definition VM_run :: "'g gpt_ops \<Rightarrow> 's hvc_ops \<Rightarrow> 'g VM \<Rightarrow> usize \<Rightarrow> ('s, unit) hm" where
  "VM_run G H self vid =
     hbind (hlift (unwrap (get_vcpu (vcpus self) vid))) (\<lambda>vcpu.
       let vttbr_token = shl (vm_id self) 48 OR token G (gpt self) in
       VCpu_run H vcpu vttbr_token)"

section \<open>Per-CPU areas\<close>

text \<open>
  The structure of this file is the one of the RISC-V sources, with \<open>TPIDR_EL1\<close> for the pointer:
  its operations are those of \<open>Per_Cpu\<close>.
\<close>

definition CPU_MASTER :: usize where "CPU_MASTER = 0"
definition CPU_STACK_SIZE :: usize where "CPU_STACK_SIZE = PAGE_SIZE_4K * 128"
definition CONTEXT_GPR_NUM :: usize where "CONTEXT_GPR_NUM = 31"
definition PTE_PER_PAGE :: usize where "PTE_PER_PAGE = 512"

definition arm_ptr_for_cpu :: "usize \<Rightarrow> usize \<Rightarrow> ('a percpu_hw, usize) hm" where
  "arm_ptr_for_cpu sz cpu = ptr_for_cpu sz cpu"

definition arm_setup_this_cpu :: "usize \<Rightarrow> usize \<Rightarrow> ('a percpu_hw, unit) hm" where
  "arm_setup_this_cpu sz cpu = setup_this_cpu sz cpu"

definition arm_PerCpu_init :: "(usize \<Rightarrow> 'a \<Rightarrow> HostVirtAddr option \<times> 'a) \<Rightarrow> usize \<Rightarrow> usize \<Rightarrow> usize \<Rightarrow>
    ('a percpu_hw, unit) hm" where
  "arm_PerCpu_init alloc_pages sz boot_id stack_size = PerCpu_init alloc_pages sz boot_id stack_size"

definition arm_this_cpu :: "'a percpu_hw \<Rightarrow> PerCpu option outcome" where
  "arm_this_cpu s = this_cpu s"

definition arm_create_vcpu :: "arm_crates \<Rightarrow> PerCpu \<Rightarrow> usize \<Rightarrow> VCpu outcome \<times> PerCpu" where
  "arm_create_vcpu c self vid = create_vcpu self vid (VCpu_new c)"

section \<open>Starting a guest\<close>

lemma boot_values:
  assumes "arm_crates_ok c"
  shows "spsr_masked c = 0x3c5"
    and "vtcr_el2 (vm_system_regs (vcpu_regs (init_vm_context c v))) = 0x23558"
    and "hcr_el2 (vm_system_regs (vcpu_regs (init_vm_context c v))) = 0x80000001"
    and "vmpidr_el2 (vm_system_regs (vcpu_regs (init_vm_context c v))) = 0x80000000 OR vcpu_id v"
    and "sctlr_el1 (vm_system_regs (vcpu_regs (init_vm_context c v))) = 0x30C50830"
  using assms
  by (auto simp: arm_crates_ok_def arm_crates_std_def spsr_masked_def fv_add_def fv_def init_vm_context_def)

lemma VCpu_init_frame:
  assumes "length (gpr (guest_trap_context_regs (vcpu_regs v))) = 31"
  shows "\<exists>v'. VCpu_init c v pc dtb = Ok v' \<and> vcpu_id v' = vcpu_id v
    \<and> guest_trap_context_regs (vcpu_regs v') = (guest_trap_context_regs (vcpu_regs v))\<lparr>
        gpr := (gpr (guest_trap_context_regs (vcpu_regs v)))[0 := dtb], elr := pc, spsr := spsr_masked c\<rparr>
    \<and> (\<exists>u. vm_system_regs (vcpu_regs v') = vm_system_regs (vcpu_regs (init_vm_context c u)) \<and> vcpu_id u = vcpu_id v)"
proof -
  have "\<exists>u. vcpu_arch_init c v pc dtb = Ok u \<and> vcpu_id u = vcpu_id v
    \<and> guest_trap_context_regs (vcpu_regs u) = (guest_trap_context_regs (vcpu_regs v))\<lparr>
        gpr := (gpr (guest_trap_context_regs (vcpu_regs v)))[0 := dtb], elr := pc, spsr := spsr_masked c\<rparr>"
    using assms by (simp add: vcpu_arch_init_def set_gpr_def frame_set_gpr_def set_elr_def set_exception_pc_def Let_def)
  then obtain u where u: "vcpu_arch_init c v pc dtb = Ok u" "vcpu_id u = vcpu_id v"
    "guest_trap_context_regs (vcpu_regs u) = (guest_trap_context_regs (vcpu_regs v))\<lparr>
        gpr := (gpr (guest_trap_context_regs (vcpu_regs v)))[0 := dtb], elr := pc, spsr := spsr_masked c\<rparr>"
    by blast
  have "vcpu_id (init_vm_context c u) = vcpu_id u"
    "guest_trap_context_regs (vcpu_regs (init_vm_context c u)) = guest_trap_context_regs (vcpu_regs u)"
    by (simp_all add: init_vm_context_def Let_def)
  then show ?thesis using u by (auto simp: VCpu_init_def)
qed

text \<open>
  Claim C15. Starting a vCPU that was initialised with an entry point and a device tree: the VM
  executes \<open>hvc #0\<close> with the stage-2 table of the VM (its number in the upper 16 bits) in x0 and
  the address of the registers in x1, and if the vector code enters the handlers with these
  arguments in the frame, the exception returns to the entry point in EL1 with interrupts masked and
  the device tree in x0, on a processor to which the VM's table, the translation
  control for 40-bit addresses, stage-2 translation for AArch64 and the vCPU's number were
  written. Without that vCPU, starting panics.
\<close>

theorem guest_boot:
  assumes "arm_crates_ok (acrates E)" and "get_vcpu (vcpus vm) vid = Ok v" and "vcpu_id v = vid"
    and "length (gpr (guest_trap_context_regs (vcpu_regs v))) = 31"
    and "init_vm_vcpu (acrates E) vm vid pc dtb = Ok vm1" and "get_vcpu (vcpus vm1) vid = Ok v1"
    and "tok = shl (vm_id vm) 48 OR token G (gpt vm)"
    and "length (gpr (ctx s)) = 31" and "take 8 (gpr (ctx s)) = [tok, regs_addr H vid, 0, 0, 0, 0, 0, 0]"
    and "vm_regs s (regs_addr H vid) = vcpu_regs v1" and "exception_class E (hw s) = 0x16"
  shows "VM_run G H vm1 vid t = (Ok (), snd (hvc0 H [tok, regs_addr H vid, 0, 0, 0, 0, 0, 0] t))
    \<and> (\<exists>s'. lower_aarch64_synchronous E s = (Ok (), s')
      \<and> exception_pc (ctx s') = pc \<and> frame_gpr (ctx s') 0 = Ok dtb \<and> spsr (ctx s') = 0x3c5
      \<and> (\<exists>ws. hw s' = fold (\<lambda>(r, x) m. msr (acpu E) r x m) ws (tlbi_alle2 (acpu E)
            (msr (acpu E) VTTBR_EL2 tok (msr (acpu E) CPTR_EL2 0 (hw s))))
          \<and> (VTCR_EL2, 0x23558) \<in> set ws \<and> (HCR_EL2, 0x80000001) \<in> set ws
          \<and> (VMPIDR_EL2, 0x80000000 OR vid) \<in> set ws \<and> (SCTLR_EL1, in_reg (acpu E) 0x30C50830) \<in> set ws))
    \<and> (get_vcpu (vcpus vm) k = Err NotFound \<longrightarrow> VM_run G H vm k t = (Panic UnwrapFailed, t))"
proof (intro conjI)
  let ?c = "acrates E" and ?a = "regs_addr H vid"
  obtain v' u where v': "VCpu_init ?c v pc dtb = Ok v'" "vcpu_id v' = vid"
    "guest_trap_context_regs (vcpu_regs v') = (guest_trap_context_regs (vcpu_regs v))\<lparr>
        gpr := (gpr (guest_trap_context_regs (vcpu_regs v)))[0 := dtb], elr := pc, spsr := spsr_masked ?c\<rparr>"
    "vm_system_regs (vcpu_regs v') = vm_system_regs (vcpu_regs (init_vm_context ?c u))" "vcpu_id u = vid"
    using VCpu_init_frame [OF assms(4), of ?c pc dtb] assms(3) by auto
  then have vm1: "vm1 = vm\<lparr>vcpus := put_vcpu (vcpus vm) vid v'\<rparr>"
    using assms(2,5) by (simp add: init_vm_vcpu_def)
  then have v1: "v1 = v'" using assms(6) get_vcpu_put [OF assms(2), of v' vid] by simp
  show "VM_run G H vm1 vid t = (Ok (), snd (hvc0 H [tok, ?a, 0, 0, 0, 0, 0, 0] t))"
    using assms(6) v'(2)
    by (simp add: VM_run_def v1 VCpu_run_def run_guest_by_trap2el2_def hvc_call_def vcpu_ctx_addr_def
        hm_defs Let_def assms(7) vm1 split: prod.splits)
  show "get_vcpu (vcpus vm) k = Err NotFound \<longrightarrow> VM_run G H vm k t = (Panic UnwrapFailed, t)"
    by (simp add: VM_run_def hm_defs)
  have x: "gpr (ctx s) ! 0 = tok" "gpr (ctx s) ! 1 = ?a" "gpr (ctx s) ! 7 = 0"
    using arg_cong [OF assms(9), of "\<lambda>l. l ! 0"] arg_cong [OF assms(9), of "\<lambda>l. l ! 1"]
      arg_cong [OF assms(9), of "\<lambda>l. l ! 7"] assms(8) by simp_all
  let ?m = "tlbi_alle2 (acpu E) (msr (acpu E) VTTBR_EL2 tok (msr (acpu E) CPTR_EL2 0 (hw s)))"
  let ?ws = "restore_writes (acpu E) (vm_system_regs (vcpu_regs v'))"
  have "\<exists>s'. lower_aarch64_synchronous E s = (Ok (), s') \<and> ctx s' = guest_trap_context_regs (vcpu_regs v')
      \<and> hw s' = fold (\<lambda>(r, x) m. msr (acpu E) r x m) ?ws ?m"
    using assms(11) hvc_handler_run [OF assms(8), of E]
    by (simp add: lower_aarch64_synchronous_def hm_defs x x(2) [simplified] assms(10) v1 ext_regs_restore_def Let_def)
  moreover have "(VTCR_EL2, 0x23558) \<in> set ?ws" "(HCR_EL2, 0x80000001) \<in> set ?ws"
    "(VMPIDR_EL2, 0x80000000 OR vid) \<in> set ?ws" "(SCTLR_EL1, in_reg (acpu E) 0x30C50830) \<in> set ?ws"
    using boot_values(2-5) [OF assms(1), of u] v'(5) by (simp_all add: restore_writes_def v'(4))
  ultimately show "\<exists>s'. lower_aarch64_synchronous E s = (Ok (), s')
      \<and> exception_pc (ctx s') = pc \<and> frame_gpr (ctx s') 0 = Ok dtb \<and> spsr (ctx s') = 0x3c5
      \<and> (\<exists>ws. hw s' = fold (\<lambda>(r, x) m. msr (acpu E) r x m) ws ?m
          \<and> (VTCR_EL2, 0x23558) \<in> set ws \<and> (HCR_EL2, 0x80000001) \<in> set ws
          \<and> (VMPIDR_EL2, 0x80000000 OR vid) \<in> set ws \<and> (SCTLR_EL1, in_reg (acpu E) 0x30C50830) \<in> set ws)"
    using assms(4) boot_values(1) [OF assms(1)]
    by (auto simp: v'(3) exception_pc_def frame_gpr_def)
qed

definition std_arm_vm :: "(usize \<rightharpoonup> u8) VM" where
  "std_arm_vm = \<lparr>vcpus = snd (add_vcpu vcpu_id VmCpus_new (VCpu_new arm_crates_std 0)), gpt = Map.empty, vm_id = 1\<rparr>"

definition std_hvc :: "unit hvc_ops" where
  "std_hvc = \<lparr>hvc0 = (\<lambda>x s. (0, s)), regs_addr = (\<lambda>i. 0x9000)\<rparr>"

definition boot_frame :: "VmCpuRegisters \<Rightarrow> (sysreg \<Rightarrow> u64) arm" where
  "boot_frame r = (std_arm 0x5a000000 ([shl 1 48, 0x9000] @ replicate 29 0))\<lparr>vm_regs := \<lambda>a. r\<rparr>"

theorem guest_boot_witness:
  "\<exists>vm1 v1 s'. init_vm_vcpu arm_crates_std std_arm_vm 0 0x40080000 0x48000000 = Ok vm1
     \<and> get_vcpu (vcpus vm1) 0 = Ok v1
     \<and> lower_aarch64_synchronous std_arm_env (boot_frame (vcpu_regs v1)) = (Ok (), s')
     \<and> exception_pc (ctx s') = 0x40080000 \<and> frame_gpr (ctx s') 0 = Ok 0x48000000"
proof -
  let ?v = "VCpu_new arm_crates_std 0"
  have c: "arm_crates_ok (acrates std_arm_env)" "acrates std_arm_env = arm_crates_std"
    by (auto simp: std_arm_env_def arm_crates_ok_def arm_crates_std_def)
  have v: "get_vcpu (vcpus std_arm_vm) 0 = Ok ?v" "vcpu_id ?v = 0"
    "length (gpr (guest_trap_context_regs (vcpu_regs ?v))) = 31"
    by (simp_all add: std_arm_vm_def add_vcpu_def get_vcpu_def VmCpus_new_def VM_CPUS_MAX_def MAX_CPUS_def
        VCpu_new_def VmCpuRegisters_default_def ContextFrame_default_def)
  obtain v1 where v1: "VCpu_init arm_crates_std ?v 0x40080000 0x48000000 = Ok v1"
    using VCpu_init_frame [OF v(3)] by blast
  define vm1 where "vm1 = std_arm_vm\<lparr>vcpus := put_vcpu (vcpus std_arm_vm) 0 v1\<rparr>"
  have i: "init_vm_vcpu (acrates std_arm_env) std_arm_vm 0 0x40080000 0x48000000 = Ok vm1"
    by (simp add: init_vm_vcpu_def v v1 c(2) vm1_def)
  have g: "get_vcpu (vcpus vm1) 0 = Ok v1" by (simp add: vm1_def get_vcpu_put [OF v(1)])
  let ?s = "boot_frame (vcpu_regs v1)" and ?tok = "shl 1 48 :: usize"
  have s: "length (gpr (ctx ?s)) = 31" "vm_regs ?s (regs_addr std_hvc 0) = vcpu_regs v1"
    "exception_class std_arm_env (hw ?s) = 0x16"
    by (simp_all add: boot_frame_def std_arm_def std_hvc_def exception_class_def exception_esr_def
        std_arm_env_def std_arm_cpu_def)
  have a: "take 8 (gpr (ctx ?s)) = [?tok, regs_addr std_hvc 0, 0, 0, 0, 0, 0, 0]"
    by (simp add: boot_frame_def std_arm_def std_hvc_def numeral_eq_Suc)
  have tok: "?tok = shl (vm_id std_arm_vm) 48 OR token map_gpt (gpt std_arm_vm)"
    by (simp add: std_arm_vm_def map_gpt_def)
  show ?thesis
    using guest_boot [OF c(1) v(1,2,3) i g tok s(1) a s(2,3)] i g unfolding c(2) by blast
qed

end
