(* ===== verification/Riscv_Extable.thy ===== *)
theory Riscv_Extable
  imports Vm_Pages Byte_Memory
begin

text \<open>
  \<open>src/src/arch/riscv/mem_extable.S\<close> instruction by instruction: the five routines with the exception
  table that \<open>add_extable\<close> fills. An access that faults at an instruction of the table continues at the
  address in \<open>t0\<close>, with the cause in \<open>t1\<close>, as the comments of the file say of the trap handler (which
  belongs to the kernel below; the cause it stores is a parameter). A fault at any other instruction is
  not recovered. The theorems show that the assembly computes the copy loops of \<open>Vm_Pages\<close>, that it
  ends, and that the table names every instruction whose fault the callers rely on.
\<close>

section \<open>The machine\<close>

datatype ext_reg = ZERO | A0' | A1' | A2' | T1' | T2' | T3'

text \<open>The local labels carry the initials of their routine.\<close>

datatype ext_label = copy_to_guest_entry | TG1 | TG2
  | copy_from_guest_entry | FG1 | FG2
  | fetch_entry | FI1 | FI2 | FI3 | FI4
  | copy_to_user_entry | TU1 | TU2
  | copy_from_user_entry | FU1 | FU2
  | ret_from_copy

record ext_state =
  er :: "ext_reg \<Rightarrow> u64"
  et0 :: ext_label
  host :: "usize \<rightharpoonup> u8"
  guest :: guest_mem
  hlvx :: "usize \<rightharpoonup> u16"

datatype ext_instr =
    La_t0 ext_label
  | Mv ext_reg ext_reg
  | Li ext_reg u64
  | Addi ext_reg ext_reg u64
  | And ext_reg ext_reg ext_reg
  | Not ext_reg ext_reg
  | Lb ext_reg ext_reg
  | Sb ext_reg ext_reg
  | Sh ext_reg ext_reg
  | Hsv_b ext_reg ext_reg
  | Hlv_b ext_reg ext_reg
  | Hlvx_hu ext_reg ext_reg

definition ereg :: "ext_state \<Rightarrow> ext_reg \<Rightarrow> u64" where
  "ereg s r = (if r = ZERO then 0 else er s r)"

definition set_er :: "ext_reg \<Rightarrow> u64 \<Rightarrow> ext_state \<Rightarrow> ext_state" where
  "set_er r v s = s\<lparr>er := (er s)(r := v)\<rparr>"

text \<open>One instruction; \<open>None\<close> is a fault. \<open>lb\<close> and \<open>hlv.b\<close> sign-extend.\<close>

fun ext_exec :: "ext_instr \<Rightarrow> ext_state \<Rightarrow> ext_state option" where
  "ext_exec (La_t0 l) s = Some (s\<lparr>et0 := l\<rparr>)"
| "ext_exec (Mv d r) s = Some (set_er d (ereg s r) s)"
| "ext_exec (Li d i) s = Some (set_er d i s)"
| "ext_exec (Addi d r i) s = Some (set_er d (ereg s r + i) s)"
| "ext_exec (And d r q) s = Some (set_er d (ereg s r AND ereg s q) s)"
| "ext_exec (Not d r) s = Some (set_er d (NOT (ereg s r)) s)"
| "ext_exec (Lb d a) s = (case host s (ereg s a) of None \<Rightarrow> None | Some v \<Rightarrow> Some (set_er d (scast v) s))"
| "ext_exec (Sb r a) s = (case host s (ereg s a) of None \<Rightarrow> None
     | Some _ \<Rightarrow> Some (s\<lparr>host := (host s)(ereg s a \<mapsto> as_u8 (ereg s r))\<rparr>))"
| "ext_exec (Sh r a) s =
     (if host s (ereg s a) = None \<or> host s (ereg s a + 1) = None then None
      else Some (s\<lparr>host := (host s)(ereg s a \<mapsto> as_u8 (ereg s r), ereg s a + 1 \<mapsto> as_u8 (shr (ereg s r) 8))\<rparr>))"
| "ext_exec (Hsv_b r a) s = (case guest s (ereg s a) of None \<Rightarrow> None
     | Some _ \<Rightarrow> Some (s\<lparr>guest := (guest s)(ereg s a \<mapsto> as_u8 (ereg s r))\<rparr>))"
| "ext_exec (Hlv_b d a) s = (case guest s (ereg s a) of None \<Rightarrow> None | Some v \<Rightarrow> Some (set_er d (scast v) s))"
| "ext_exec (Hlvx_hu d a) s = (case hlvx s (ereg s a) of None \<Rightarrow> None | Some v \<Rightarrow> Some (set_er d (ucast v) s))"

text \<open>\<open>Ext l\<close> is the line \<open>add_extable l\<close>.\<close>

datatype ext_line = At ext_label | Do ext_instr | Ext ext_label
  | Beq ext_reg ext_reg ext_label | Bne ext_reg ext_reg ext_label | J ext_label | Ret

datatype ext_halt = Back ext_state | Unhandled

fun ext_at :: "ext_label \<Rightarrow> ext_line list \<Rightarrow> ext_line list" where
  "ext_at l [] = []"
| "ext_at l (x # k) = (if x = At l then k else ext_at l k)"

text \<open>The addresses of the exception table, as the code that starts there.\<close>

definition extable :: "ext_line list \<Rightarrow> ext_line list list" where
  "extable P = concat (map (\<lambda>x. case x of Ext l \<Rightarrow> [ext_at l P] | _ \<Rightarrow> []) P)"

partial_function (option) ext_run ::
    "u64 \<Rightarrow> ext_line list \<Rightarrow> ext_line list \<Rightarrow> ext_state \<Rightarrow> ext_halt option" where
  "ext_run cause P k s = (case k of [] \<Rightarrow> Some Unhandled | x # k' \<Rightarrow>
     (case x of
        At l \<Rightarrow> ext_run cause P k' s
      | Ext l \<Rightarrow> ext_run cause P k' s
      | Do i \<Rightarrow> (case ext_exec i s of
            Some s' \<Rightarrow> ext_run cause P k' s'
          | None \<Rightarrow> (if list_ex (\<lambda>e. e = k) (extable P)
                     then ext_run cause P (ext_at (et0 s) P) (set_er T1' cause s)
                     else Some Unhandled))
      | Beq a b l \<Rightarrow> ext_run cause P (if ereg s a = ereg s b then ext_at l P else k') s
      | Bne a b l \<Rightarrow> ext_run cause P (if ereg s a \<noteq> ereg s b then ext_at l P else k') s
      | J l \<Rightarrow> ext_run cause P (ext_at l P) s
      | Ret \<Rightarrow> Some (Back s)))"

section \<open>The routines\<close>

definition copy_to_guest_S :: "ext_line list" where
  "copy_to_guest_S =
    [At copy_to_guest_entry,
     Do (La_t0 ret_from_copy),
     Do (Mv T2' ZERO),
     At TG1,
     Beq T2' A2' ret_from_copy,
     Do (Lb T3' A1'),
     At TG2,
     Do (Hsv_b T3' A0'),
     Ext TG2,
     Do (Addi A0' A0' 1),
     Do (Addi A1' A1' 1),
     Do (Addi T2' T2' 1),
     J TG1]"

definition copy_from_guest_S :: "ext_line list" where
  "copy_from_guest_S =
    [At copy_from_guest_entry,
     Do (La_t0 ret_from_copy),
     Do (Mv T2' ZERO),
     At FG1,
     Beq T2' A2' ret_from_copy,
     At FG2,
     Do (Hlv_b T3' A1'),
     Ext FG2,
     Do (Sb T3' A0'),
     Do (Addi A0' A0' 1),
     Do (Addi A1' A1' 1),
     Do (Addi T2' T2' 1),
     J FG1]"

definition fetch_guest_instruction_S :: "ext_line list" where
  "fetch_guest_instruction_S =
    [At fetch_entry,
     Do (La_t0 FI4),
     At FI1,
     Do (Hlvx_hu T2' A0'),
     Ext FI1,
     Do (Sh T2' A1'),
     Do (Addi A0' A0' 2),
     Do (Addi A1' A1' 2),
     Do (Li T3' 3),
     Do (And T2' T2' T3'),
     Bne T2' T3' FI3,
     At FI2,
     Do (Hlvx_hu T2' A0'),
     Ext FI2,
     Do (Sh T2' A1'),
     At FI3,
     Do (Mv A0' ZERO),
     Ret,
     At FI4,
     Do (Not A0' ZERO),
     Ret]"

definition copy_to_user_S :: "ext_line list" where
  "copy_to_user_S =
    [At copy_to_user_entry,
     Do (La_t0 ret_from_copy),
     Do (Mv T2' ZERO),
     At TU1,
     Beq T2' A2' ret_from_copy,
     Do (Lb T3' A1'),
     At TU2,
     Do (Sb T3' A0'),
     Ext TU2,
     Do (Addi A0' A0' 1),
     Do (Addi A1' A1' 1),
     Do (Addi T2' T2' 1),
     J TU1]"

definition copy_from_user_S :: "ext_line list" where
  "copy_from_user_S =
    [At copy_from_user_entry,
     Do (La_t0 ret_from_copy),
     Do (Mv T2' ZERO),
     At FU1,
     Beq T2' A2' ret_from_copy,
     At FU2,
     Do (Lb T3' A1'),
     Ext FU2,
     Do (Sb T3' A0'),
     Do (Addi A0' A0' 1),
     Do (Addi A1' A1' 1),
     Do (Addi T2' T2' 1),
     J FU1]"

definition ret_from_copy_S :: "ext_line list" where
  "ret_from_copy_S = [At ret_from_copy, Do (Mv A0' T2'), Ret]"

definition mem_extable_S :: "ext_line list" where
  "mem_extable_S = copy_to_guest_S @ copy_from_guest_S @ fetch_guest_instruction_S
     @ copy_to_user_S @ copy_from_user_S @ ret_from_copy_S"

text \<open>A call of the routine at \<open>l\<close> with the arguments in \<open>a0\<close> to \<open>a2\<close>.\<close>

definition ext_call :: "u64 \<Rightarrow> ext_label \<Rightarrow> usize \<Rightarrow> usize \<Rightarrow> usize \<Rightarrow> ext_state \<Rightarrow> ext_halt option" where
  "ext_call cause l a0 a1 a2 s =
     ext_run cause mem_extable_S (ext_at l mem_extable_S) (set_er A0' a0 (set_er A1' a1 (set_er A2' a2 s)))"

section \<open>Running the routines\<close>

lemmas ext_code = copy_to_guest_S_def copy_from_guest_S_def fetch_guest_instruction_S_def
  copy_to_user_S_def copy_from_user_S_def ret_from_copy_S_def

lemma ext_run_simps [simp]:
  "ext_run cause P (At l # k) s = ext_run cause P k s"
  "ext_run cause P (Ext l # k) s = ext_run cause P k s"
  "ext_run cause P (Beq a b l # k) s = ext_run cause P (if ereg s a = ereg s b then ext_at l P else k) s"
  "ext_run cause P (Bne a b l # k) s = ext_run cause P (if ereg s a \<noteq> ereg s b then ext_at l P else k) s"
  "ext_run cause P (J l # k) s = ext_run cause P (ext_at l P) s"
  "ext_run cause P (Ret # k) s = Some (Back s)"
  by (simp_all add: ext_run.simps)

lemma ext_run_ok: "ext_exec i s = Some s' \<Longrightarrow> ext_run cause P (Do i # k) s = ext_run cause P k s'"
  by (simp add: ext_run.simps)

lemma ext_run_fault:
  "ext_exec i s = None \<Longrightarrow> Do i # k \<in> set (extable P) \<Longrightarrow>
     ext_run cause P (Do i # k) s = ext_run cause P (ext_at (et0 s) P) (set_er T1' cause s)"
  by (auto simp: ext_run.simps [of cause P "Do i # k"] list_ex_iff)

text \<open>The table holds the five accesses to guest and user memory.\<close>

lemma extable_entries:
  "extable mem_extable_S = map (\<lambda>l. ext_at l mem_extable_S) [TG2, FG2, FI1, FI2, TU2, FU2]"
  by (simp add: extable_def mem_extable_S_def ext_code)

lemma set_er_fields [simp]:
  "ereg (set_er r v s) q = (if q = ZERO then 0 else if q = r then v else ereg s q)"
  "et0 (set_er r v s) = et0 s" "host (set_er r v s) = host s" "guest (set_er r v s) = guest s"
  "hlvx (set_er r v s) = hlvx s"
  by (simp_all add: set_er_def ereg_def)

lemma ereg_updates [simp]:
  "ereg (s\<lparr>et0 := l\<rparr>) = ereg s" "ereg (s\<lparr>host := h\<rparr>) = ereg s" "ereg (s\<lparr>guest := g\<rparr>) = ereg s" "ereg s ZERO = 0"
  by (simp_all add: ereg_def fun_eq_iff)

lemma as_u8_scast [simp]: "as_u8 (scast (v :: u8) :: u64) = v"
  by (rule bit_word_eqI) (simp add: bit_simps)

text \<open>A fault at an entry of the table.\<close>

lemma ext_at_fault:
  assumes "l \<in> {TG2, FG2, FI1, FI2, TU2, FU2}" "ext_at l mem_extable_S = Do i # k" "ext_exec i s = None"
  shows "ext_run cause mem_extable_S (ext_at l mem_extable_S) s =
    ext_run cause mem_extable_S (ext_at (et0 s) mem_extable_S) (set_er T1' cause s)"
proof -
  have "ext_at l mem_extable_S \<in> set (extable mem_extable_S)"
    using assms(1) unfolding extable_entries by auto
  then show ?thesis unfolding assms(2) by (rule ext_run_fault [OF assms(3)])
qed

text \<open>The code at the labels.\<close>

abbreviation "code l \<equiv> ext_at l mem_extable_S"

lemma ext_at_ret: "code ret_from_copy = [Do (Mv A0' T2'), Ret]"
  by (simp add: mem_extable_S_def ext_code)

section \<open>The interface of a copy routine\<close>

text \<open>What an iteration sees: the two memories and the two pointers. A step is \<open>None\<close> where the access
  faults that the table covers.\<close>

type_synonym copy_view = "(usize \<rightharpoonup> u8) \<times> guest_mem \<times> usize \<times> usize"

definition view :: "ext_state \<Rightarrow> copy_view" where
  "view s = (host s, guest s, ereg s A0', ereg s A1')"

primrec copy_steps :: "(copy_view \<Rightarrow> copy_view option) \<Rightarrow> nat \<Rightarrow> copy_view \<Rightarrow> nat \<times> copy_view" where
  "copy_steps step 0 v = (0, v)"
| "copy_steps step (Suc n) v =
     (case step v of None \<Rightarrow> (0, v) | Some v' \<Rightarrow> map_prod Suc (\<lambda>w. w) (copy_steps step n v'))"

primrec all_ready :: "(copy_view \<Rightarrow> copy_view option) \<Rightarrow> (copy_view \<Rightarrow> bool) \<Rightarrow> nat \<Rightarrow> copy_view \<Rightarrow> bool" where
  "all_ready step ready 0 v = True"
| "all_ready step ready (Suc n) v =
     (ready v \<and> (case step v of None \<Rightarrow> True | Some v' \<Rightarrow> all_ready step ready n v'))"

text \<open>The parts of the two memories that a result consists of.\<close>

abbreviation memories :: "copy_view \<Rightarrow> (usize \<rightharpoonup> u8) \<times> guest_mem" where
  "memories v \<equiv> (fst v, fst (snd v))"

definition returns_count :: "nat \<Rightarrow> copy_view \<Rightarrow> ext_halt option \<Rightarrow> bool" where
  "returns_count n v r \<longleftrightarrow> (\<exists>s'. r = Some (Back s') \<and> ereg s' A0' = of_nat n \<and> memories (view s') = memories v)"

locale copy_routine =
  fixes entry head :: ext_label
    and step :: "copy_view \<Rightarrow> copy_view option"
    and ready :: "copy_view \<Rightarrow> bool"
  assumes entry: "code entry = Do (La_t0 ret_from_copy) # Do (Mv T2' ZERO) # At head # code head"
    and head: "\<exists>k. code head = Beq T2' A2' ret_from_copy # k"
    and iter_fault: "ready (view s) \<Longrightarrow> ereg s T2' \<noteq> ereg s A2' \<Longrightarrow> step (view s) = None \<Longrightarrow>
      \<exists>s'. ext_run cause mem_extable_S (code head) s = ext_run cause mem_extable_S (code (et0 s)) s'
        \<and> view s' = view s \<and> ereg s' T2' = ereg s T2'"
    and iter_next: "ready (view s) \<Longrightarrow> ereg s T2' \<noteq> ereg s A2' \<Longrightarrow> step (view s) = Some v \<Longrightarrow>
      \<exists>s'. ext_run cause mem_extable_S (code head) s = ext_run cause mem_extable_S (code head) s'
        \<and> view s' = v \<and> ereg s' T2' = ereg s T2' + 1 \<and> ereg s' A2' = ereg s A2' \<and> et0 s' = et0 s"
begin

lemma run_ret:
  "ext_run cause mem_extable_S (code ret_from_copy) s = Some (Back (set_er A0' (ereg s T2') s))"
  by (simp add: ext_at_ret ext_run_ok)

lemma run_loop:
  assumes "ereg s T2' = of_nat t" "ereg s A2' = of_nat (t + n)" "t + n < 2 ^ 64"
    and "et0 s = ret_from_copy" "all_ready step ready n (view s)"
  shows "returns_count (t + fst (copy_steps step n (view s))) (snd (copy_steps step n (view s)))
    (ext_run cause mem_extable_S (code head) s)"
  using assms
proof (induction n arbitrary: s t)
  case 0
  obtain k where "code head = Beq T2' A2' ret_from_copy # k" using head by blast
  with 0 show ?case by (simp add: run_ret returns_count_def view_def)
next
  case (Suc n)
  have "t \<noteq> t + Suc n" by simp
  then have ne: "ereg s T2' \<noteq> ereg s A2'"
    unfolding Suc.prems(1,2) using of_nat_usize_inject [of t "t + Suc n"] Suc.prems(3) by simp
  have r: "ready (view s)" using Suc.prems(5) by simp
  show ?case
  proof (cases "step (view s)")
    case None
    obtain s' where "ext_run cause mem_extable_S (code head) s = ext_run cause mem_extable_S (code (et0 s)) s'"
      "view s' = view s" "ereg s' T2' = ereg s T2'" using iter_fault [OF r ne None] by blast
    then show ?thesis using Suc.prems(1,4) None by (simp add: run_ret returns_count_def view_def)
  next
    case (Some v)
    obtain s' where s': "ext_run cause mem_extable_S (code head) s = ext_run cause mem_extable_S (code head) s'"
      "view s' = v" "ereg s' T2' = ereg s T2' + 1" "ereg s' A2' = ereg s A2'" "et0 s' = et0 s"
      using iter_next [OF r ne Some] by blast
    have "returns_count (Suc t + fst (copy_steps step n (view s'))) (snd (copy_steps step n (view s')))
        (ext_run cause mem_extable_S (code head) s')"
      by (rule Suc.IH) (use Suc.prems s' Some in simp_all)
    then show ?thesis using s' Some by simp
  qed
qed

lemma call:
  assumes "all_ready step ready (unat a2) (host s, guest s, a0, a1)"
  shows "returns_count (fst (copy_steps step (unat a2) (host s, guest s, a0, a1)))
    (snd (copy_steps step (unat a2) (host s, guest s, a0, a1))) (ext_call cause entry a0 a1 a2 s)"
proof -
  let ?s = "set_er T2' 0 ((set_er A0' a0 (set_er A1' a1 (set_er A2' a2 s)))\<lparr>et0 := ret_from_copy\<rparr>)"
  have v: "view ?s = (host s, guest s, a0, a1)" by (simp add: view_def)
  have "ext_call cause entry a0 a1 a2 s = ext_run cause mem_extable_S (code head) ?s"
    by (simp add: ext_call_def entry ext_run_ok)
  then show ?thesis using run_loop [of ?s 0 "unat a2"] assms unat_u64 [of a2] unfolding v by simp
qed

end

section \<open>The four copy routines\<close>

text \<open>The step of each routine, and when its unprotected access succeeds.\<close>

fun to_guest_step :: "copy_view \<Rightarrow> copy_view option" where
  "to_guest_step (h, g, a0, a1) =
     (case g a0 of None \<Rightarrow> None | Some _ \<Rightarrow> Some (h, g(a0 \<mapsto> the (h a1)), a0 + 1, a1 + 1))"

fun from_guest_step :: "copy_view \<Rightarrow> copy_view option" where
  "from_guest_step (h, g, a0, a1) =
     (case g a1 of None \<Rightarrow> None | Some v \<Rightarrow> Some (h(a0 \<mapsto> v), g, a0 + 1, a1 + 1))"

fun to_user_step :: "copy_view \<Rightarrow> copy_view option" where
  "to_user_step (h, g, a0, a1) =
     (case h a0 of None \<Rightarrow> None | Some _ \<Rightarrow> Some (h(a0 \<mapsto> the (h a1)), g, a0 + 1, a1 + 1))"

fun from_user_step :: "copy_view \<Rightarrow> copy_view option" where
  "from_user_step (h, g, a0, a1) =
     (case h a1 of None \<Rightarrow> None | Some v \<Rightarrow> Some (h(a0 \<mapsto> v), g, a0 + 1, a1 + 1))"

fun source_ready :: "copy_view \<Rightarrow> bool" where
  "source_ready (h, g, a0, a1) = (h a1 \<noteq> None)"

fun dest_ready :: "copy_view \<Rightarrow> bool" where
  "dest_ready (h, g, a0, a1) = (h a0 \<noteq> None)"

lemma ext_at_copy_to_guest:
  "code copy_to_guest_entry = Do (La_t0 ret_from_copy) # Do (Mv T2' ZERO) # At TG1 # code TG1"
  "code TG1 = Beq T2' A2' ret_from_copy # Do (Lb T3' A1') # At TG2 # code TG2"
  "\<exists>k. code TG2 = Do (Hsv_b T3' A0') # Ext TG2
    # Do (Addi A0' A0' 1) # Do (Addi A1' A1' 1) # Do (Addi T2' T2' 1) # J TG1 # k"
  by (simp_all add: mem_extable_S_def ext_code)

lemma ext_at_copy_from_guest:
  "code copy_from_guest_entry = Do (La_t0 ret_from_copy) # Do (Mv T2' ZERO) # At FG1 # code FG1"
  "code FG1 = Beq T2' A2' ret_from_copy # At FG2 # code FG2"
  "\<exists>k. code FG2 = Do (Hlv_b T3' A1') # Ext FG2 # Do (Sb T3' A0')
    # Do (Addi A0' A0' 1) # Do (Addi A1' A1' 1) # Do (Addi T2' T2' 1) # J FG1 # k"
  by (simp_all add: mem_extable_S_def ext_code)

lemma ext_at_copy_to_user:
  "code copy_to_user_entry = Do (La_t0 ret_from_copy) # Do (Mv T2' ZERO) # At TU1 # code TU1"
  "code TU1 = Beq T2' A2' ret_from_copy # Do (Lb T3' A1') # At TU2 # code TU2"
  "\<exists>k. code TU2 = Do (Sb T3' A0') # Ext TU2
    # Do (Addi A0' A0' 1) # Do (Addi A1' A1' 1) # Do (Addi T2' T2' 1) # J TU1 # k"
  by (simp_all add: mem_extable_S_def ext_code)

lemma ext_at_copy_from_user:
  "code copy_from_user_entry = Do (La_t0 ret_from_copy) # Do (Mv T2' ZERO) # At FU1 # code FU1"
  "code FU1 = Beq T2' A2' ret_from_copy # At FU2 # code FU2"
  "\<exists>k. code FU2 = Do (Lb T3' A1') # Ext FU2 # Do (Sb T3' A0')
    # Do (Addi A0' A0' 1) # Do (Addi A1' A1' 1) # Do (Addi T2' T2' 1) # J FU1 # k"
  by (simp_all add: mem_extable_S_def ext_code)

interpretation tg: copy_routine copy_to_guest_entry TG1 to_guest_step source_ready
proof
  obtain k where k: "code TG2 = Do (Hsv_b T3' A0') # Ext TG2
      # Do (Addi A0' A0' 1) # Do (Addi A1' A1' 1) # Do (Addi T2' T2' 1) # J TG1 # k"
    using ext_at_copy_to_guest(3) by blast
  fix s cause
  assume r: "source_ready (view s)" and ne: "ereg s T2' \<noteq> ereg s A2'"
  show "\<exists>s'. ext_run cause mem_extable_S (code TG1) s = ext_run cause mem_extable_S (code (et0 s)) s'
      \<and> view s' = view s \<and> ereg s' T2' = ereg s T2'" if "to_guest_step (view s) = None"
    using r ne that
    by (subst (1) ext_at_copy_to_guest(2)) (auto simp: view_def ext_run_ok ext_at_fault [OF _ k] split: option.splits)
  show "\<exists>s'. ext_run cause mem_extable_S (code TG1) s = ext_run cause mem_extable_S (code TG1) s'
      \<and> view s' = v \<and> ereg s' T2' = ereg s T2' + 1 \<and> ereg s' A2' = ereg s A2' \<and> et0 s' = et0 s"
    if "to_guest_step (view s) = Some v" for v
    using r ne that
    by (subst (1) ext_at_copy_to_guest(2)) (auto simp: view_def ext_run_ok k split: option.splits)
qed (rule ext_at_copy_to_guest(1), use ext_at_copy_to_guest(2) in blast)

interpretation fg: copy_routine copy_from_guest_entry FG1 from_guest_step dest_ready
proof
  obtain k where k: "code FG2 = Do (Hlv_b T3' A1') # Ext FG2 # Do (Sb T3' A0')
      # Do (Addi A0' A0' 1) # Do (Addi A1' A1' 1) # Do (Addi T2' T2' 1) # J FG1 # k"
    using ext_at_copy_from_guest(3) by blast
  fix s cause
  assume r: "dest_ready (view s)" and ne: "ereg s T2' \<noteq> ereg s A2'"
  show "\<exists>s'. ext_run cause mem_extable_S (code FG1) s = ext_run cause mem_extable_S (code (et0 s)) s'
      \<and> view s' = view s \<and> ereg s' T2' = ereg s T2'" if "from_guest_step (view s) = None"
    using r ne that
    by (subst (1) ext_at_copy_from_guest(2)) (auto simp: view_def ext_run_ok ext_at_fault [OF _ k] split: option.splits)
  show "\<exists>s'. ext_run cause mem_extable_S (code FG1) s = ext_run cause mem_extable_S (code FG1) s'
      \<and> view s' = v \<and> ereg s' T2' = ereg s T2' + 1 \<and> ereg s' A2' = ereg s A2' \<and> et0 s' = et0 s"
    if "from_guest_step (view s) = Some v" for v
    using r ne that
    by (subst (1) ext_at_copy_from_guest(2)) (auto simp: view_def ext_run_ok k split: option.splits)
qed (rule ext_at_copy_from_guest(1), use ext_at_copy_from_guest(2) in blast)

interpretation tu: copy_routine copy_to_user_entry TU1 to_user_step source_ready
proof
  obtain k where k: "code TU2 = Do (Sb T3' A0') # Ext TU2
      # Do (Addi A0' A0' 1) # Do (Addi A1' A1' 1) # Do (Addi T2' T2' 1) # J TU1 # k"
    using ext_at_copy_to_user(3) by blast
  fix s cause
  assume r: "source_ready (view s)" and ne: "ereg s T2' \<noteq> ereg s A2'"
  show "\<exists>s'. ext_run cause mem_extable_S (code TU1) s = ext_run cause mem_extable_S (code (et0 s)) s'
      \<and> view s' = view s \<and> ereg s' T2' = ereg s T2'" if "to_user_step (view s) = None"
    using r ne that
    by (subst (1) ext_at_copy_to_user(2)) (auto simp: view_def ext_run_ok ext_at_fault [OF _ k] split: option.splits)
  show "\<exists>s'. ext_run cause mem_extable_S (code TU1) s = ext_run cause mem_extable_S (code TU1) s'
      \<and> view s' = v \<and> ereg s' T2' = ereg s T2' + 1 \<and> ereg s' A2' = ereg s A2' \<and> et0 s' = et0 s"
    if "to_user_step (view s) = Some v" for v
    using r ne that
    by (subst (1) ext_at_copy_to_user(2)) (auto simp: view_def ext_run_ok k split: option.splits)
qed (rule ext_at_copy_to_user(1), use ext_at_copy_to_user(2) in blast)

interpretation fu: copy_routine copy_from_user_entry FU1 from_user_step dest_ready
proof
  obtain k where k: "code FU2 = Do (Lb T3' A1') # Ext FU2 # Do (Sb T3' A0')
      # Do (Addi A0' A0' 1) # Do (Addi A1' A1' 1) # Do (Addi T2' T2' 1) # J FU1 # k"
    using ext_at_copy_from_user(3) by blast
  fix s cause
  assume r: "dest_ready (view s)" and ne: "ereg s T2' \<noteq> ereg s A2'"
  show "\<exists>s'. ext_run cause mem_extable_S (code FU1) s = ext_run cause mem_extable_S (code (et0 s)) s'
      \<and> view s' = view s \<and> ereg s' T2' = ereg s T2'" if "from_user_step (view s) = None"
    using r ne that
    by (subst (1) ext_at_copy_from_user(2)) (auto simp: view_def ext_run_ok ext_at_fault [OF _ k] split: option.splits)
  show "\<exists>s'. ext_run cause mem_extable_S (code FU1) s = ext_run cause mem_extable_S (code FU1) s'
      \<and> view s' = v \<and> ereg s' T2' = ereg s T2' + 1 \<and> ereg s' A2' = ereg s A2' \<and> et0 s' = et0 s"
    if "from_user_step (view s) = Some v" for v
    using r ne that
    by (subst (1) ext_at_copy_from_user(2)) (auto simp: view_def ext_run_ok k split: option.splits)
qed (rule ext_at_copy_from_user(1), use ext_at_copy_from_user(2) in blast)

section \<open>Refinement of the copy loops\<close>

text \<open>A buffer of the host at an address.\<close>

definition holds_bytes :: "(usize \<rightharpoonup> u8) \<Rightarrow> usize \<Rightarrow> u8 list \<Rightarrow> bool" where
  "holds_bytes m a bs \<longleftrightarrow> (\<forall>i<length bs. m (a + of_nat i) = Some (bs ! i))"

lemma holds_bytes_Cons: "holds_bytes m a (b # bs) \<longleftrightarrow> m a = Some b \<and> holds_bytes m (a + 1) bs"
proof -
  have "(\<forall>i<length (b # bs). m (a + of_nat i) = Some ((b # bs) ! i)) \<longleftrightarrow>
      m a = Some b \<and> (\<forall>i<length bs. m (a + (1 + of_nat i)) = Some (bs ! i))"
    by (auto simp: less_Suc_eq_0_disj)
  then show ?thesis by (simp add: holds_bytes_def add.assoc)
qed

definition write_bytes :: "(usize \<rightharpoonup> u8) \<Rightarrow> usize \<Rightarrow> u8 list \<Rightarrow> usize \<rightharpoonup> u8" where
  "write_bytes m a bs = (\<lambda>x. if unat (x - a) < length bs then Some (bs ! unat (x - a)) else m x)"

lemma to_guest_refines:
  assumes "holds_bytes h a1 src"
  shows "all_ready to_guest_step source_ready (length src) (h, g, a0, a1)"
    "of_nat (fst (copy_steps to_guest_step (length src) (h, g, a0, a1))) = fst (copy_to_guest_loop g a0 src)"
    "memories (snd (copy_steps to_guest_step (length src) (h, g, a0, a1))) = (h, snd (copy_to_guest_loop g a0 src))"
  using assms
  by (induction src arbitrary: g a0 a1)
     (auto simp: holds_bytes_Cons split_beta split: option.splits)

lemma write_bytes_same: "holds_bytes m a bs \<Longrightarrow> write_bytes m a bs = m"
proof
  fix x assume "holds_bytes m a bs"
  then show "write_bytes m a bs x = m x"
    by (auto simp: holds_bytes_def write_bytes_def dest!: spec [of _ "unat (x - a)"])
qed

lemma write_bytes_Cons:
  assumes "length bs < 2 ^ 64 - 1"
  shows "write_bytes (m(a \<mapsto> b)) (a + 1) bs = write_bytes m a (b # bs)"
proof
  fix x
  show "write_bytes (m(a \<mapsto> b)) (a + 1) bs x = write_bytes m a (b # bs) x"
  proof (cases "x = a")
    case True
    then have "unat (x - (a + 1)) = 2 ^ 64 - 1" by (simp add: unat_word_m1)
    then show ?thesis using True assms by (simp add: write_bytes_def)
  next
    case False
    then have "x - a \<noteq> 0" by simp
    then have "unat (x - a) = Suc (unat (x - (a + 1)))"
      using unat_minus_one [of "x - a"] unat_gt_0 [of "x - a"] by (simp add: diff_diff_eq)
    then show ?thesis using False by (simp add: write_bytes_def)
  qed
qed

lemma copy_from_guest_loop_length: "length (snd (copy_from_guest_loop m a dest)) = length dest"
  by (induction m a dest rule: copy_from_guest_loop.induct) (auto split: option.splits prod.splits)

lemma holds_bytes_other:
  assumes "holds_bytes m (a + 1) bs" "length bs < 2 ^ 64 - 1"
  shows "holds_bytes (m(a \<mapsto> b)) (a + 1) bs"
proof -
  have "a + 1 + of_nat i \<noteq> a" if "i < length bs" for i
    using that assms(2) of_nat_usize_inject [of "Suc i" 0] by (simp add: add.assoc)
  then show ?thesis using assms(1) by (simp add: holds_bytes_def)
qed

lemma from_guest_refines:
  assumes "holds_bytes h a0 dest" "length dest < 2 ^ 64"
  shows "all_ready from_guest_step dest_ready (length dest) (h, g, a0, a1) \<and>
    of_nat (fst (copy_steps from_guest_step (length dest) (h, g, a0, a1))) = fst (copy_from_guest_loop g a1 dest) \<and>
    memories (snd (copy_steps from_guest_step (length dest) (h, g, a0, a1))) =
      (write_bytes h a0 (snd (copy_from_guest_loop g a1 dest)), g)"
  using assms
proof (induction dest arbitrary: h a0 a1)
  case (Cons d dest)
  have len: "length dest < 2 ^ 64 - 1" "length dest < 2 ^ 64" using Cons.prems(2) by simp_all
  have h: "h a0 = Some d" "holds_bytes h (a0 + 1) dest" using Cons.prems(1) by (simp_all add: holds_bytes_Cons)
  show ?case
  proof (cases "g a1")
    case None
    then show ?thesis using h write_bytes_same [OF Cons.prems(1)] by simp
  next
    case (Some v)
    have "length (snd (copy_from_guest_loop g (a1 + 1) dest)) < 2 ^ 64 - 1"
      using len by (simp add: copy_from_guest_loop_length)
    then have "write_bytes (h(a0 \<mapsto> v)) (a0 + 1) (snd (copy_from_guest_loop g (a1 + 1) dest)) =
        write_bytes h a0 (v # snd (copy_from_guest_loop g (a1 + 1) dest))" by (rule write_bytes_Cons)
    moreover have "holds_bytes (h(a0 \<mapsto> v)) (a0 + 1) dest" using h(2) len(1) by (rule holds_bytes_other)
    note Cons.IH [OF this len(2), of "a1 + 1"]
    ultimately show ?thesis using Some h by (simp add: split_beta del: fun_upd_apply)
  qed
qed (simp add: write_bytes_def)

text \<open>The user copies count the bytes up to the first fault; what is mapped does not change.\<close>

lemma mapped_prefix_upd: "h a \<noteq> None \<Longrightarrow> mapped_prefix (h(a \<mapsto> v)) b n = mapped_prefix h b n"
  by (rule mapped_prefix_dom) auto

lemma to_user_count: "fst (copy_steps to_user_step n (h, g, a0, a1)) = mapped_prefix h a0 n"
  by (induction n arbitrary: h a0 a1) (auto simp: mapped_prefix_upd split: option.splits)

lemma from_user_count:
  "\<forall>i<n. h (a0 + of_nat i) \<noteq> None \<Longrightarrow> fst (copy_steps from_user_step n (h, g, a0, a1)) = mapped_prefix h a1 n"
proof (induction n arbitrary: h a0 a1)
  case (Suc n)
  have "h a0 \<noteq> None" "\<forall>i<n. h (a0 + 1 + of_nat i) \<noteq> None"
    using Suc.prems [rule_format, of 0] Suc.prems [rule_format, of "Suc _"] by (simp_all add: add.assoc)
  then have "fst (copy_steps from_user_step n (h(a0 \<mapsto> v), g, a0 + 1, a1 + 1)) = mapped_prefix h (a1 + 1) n" for v
    by (subst Suc.IH) (simp_all add: mapped_prefix_upd)
  then show ?case by (auto split: option.splits)
qed simp

lemma ready_user:
  "\<forall>i<n. h (a1 + of_nat i) \<noteq> None \<Longrightarrow> all_ready to_user_step source_ready n (h, g, a0, a1)"
  "\<forall>i<n. h (a0 + of_nat i) \<noteq> None \<Longrightarrow> all_ready from_user_step dest_ready n (h, g, a0, a1)"
proof -
  have up: "\<forall>i<n. h (a + 1 + of_nat i) \<noteq> None" "h a \<noteq> None" if "\<forall>i<Suc n. h (a + of_nat i) \<noteq> None" for n h and a :: usize
    using that [rule_format, of 0] that [rule_format, of "Suc _"] by (simp_all add: add.assoc)
  show "all_ready to_user_step source_ready n (h, g, a0, a1)" if "\<forall>i<n. h (a1 + of_nat i) \<noteq> None"
    using that
  proof (induction n arbitrary: h a0 a1)
    case (Suc n)
    have "all_ready to_user_step source_ready n (h(a0 \<mapsto> v), g, a0 + 1, a1 + 1)" for v
      by (rule Suc.IH) (use up [OF Suc.prems] in simp)
    then show ?case using up(2) [OF Suc.prems] by (auto split: option.splits)
  qed simp
  show "all_ready from_user_step dest_ready n (h, g, a0, a1)" if "\<forall>i<n. h (a0 + of_nat i) \<noteq> None"
    using that
  proof (induction n arbitrary: h a0 a1)
    case (Suc n)
    have "all_ready from_user_step dest_ready n (h(a0 \<mapsto> v), g, a0 + 1, a1 + 1)" for v
      by (rule Suc.IH) (use up [OF Suc.prems] in simp)
    then show ?case using up(2) [OF Suc.prems] by (auto split: option.splits)
  qed simp
qed

text \<open>The two routines that the crate does not call: they return the number of bytes before the first
  fault.\<close>

lemma user_copies_count:
  assumes "\<forall>i<unat n. host s (p + of_nat i) \<noteq> None"
  shows "\<exists>s'. ext_call cause copy_to_user_entry a p n s = Some (Back s')
      \<and> ereg s' A0' = of_nat (mapped_prefix (host s) a (unat n)) \<and> guest s' = guest s"
    and "\<exists>s'. ext_call cause copy_from_user_entry p a n s = Some (Back s')
      \<and> ereg s' A0' = of_nat (mapped_prefix (host s) a (unat n)) \<and> guest s' = guest s"
proof -
  have g: "fst (snd (snd (copy_steps to_user_step k (h, g, x, y)))) = g"
    "fst (snd (snd (copy_steps from_user_step k (h, g, x, y)))) = g" for k h g x y
    by (induction k arbitrary: h x y) (simp_all split: option.splits)
  show "\<exists>s'. ext_call cause copy_to_user_entry a p n s = Some (Back s')
      \<and> ereg s' A0' = of_nat (mapped_prefix (host s) a (unat n)) \<and> guest s' = guest s"
    using tu.call [OF ready_user(1) [OF assms], of a cause]
    by (auto simp: returns_count_def to_user_count view_def g)
  show "\<exists>s'. ext_call cause copy_from_user_entry p a n s = Some (Back s')
      \<and> ereg s' A0' = of_nat (mapped_prefix (host s) a (unat n)) \<and> guest s' = guest s"
    using fu.call [OF ready_user(2) [OF assms], of a cause]
    by (auto simp: returns_count_def from_user_count [OF assms] view_def g)
qed

subsection \<open>Fetching an instruction\<close>

abbreviation host_u32 :: "(usize \<rightharpoonup> u8) \<Rightarrow> usize \<Rightarrow> u32" where
  "host_u32 h p \<equiv> load_u32 (\<lambda>x. the (h x)) p"

lemma halves:
  fixes x0 x1 x2 x3 :: u8 and v :: u16
  defines "w y0 y1 y2 y3 \<equiv> as_u32 (y0 :: u8) OR push_bit 8 (as_u32 (y1 :: u8)) OR push_bit 16 (as_u32 (y2 :: u8))
      OR push_bit 24 (as_u32 (y3 :: u8))"
  shows "w (as_u8 v) (as_u8 (drop_bit 8 v)) x2 x3 = (w x0 x1 x2 x3 AND NOT (mask 16)) OR as_u32 v"
    and "w x0 x1 (as_u8 v) (as_u8 (drop_bit 8 v)) = (w x0 x1 x2 x3 AND mask 16) OR push_bit 16 (as_u32 v)"
proof -
  have no: "\<not> bit x i" if "8 \<le> i" for x :: u8 and i using that by (simp add: impossible_bit)
  have no': "\<not> bit v i" if "16 \<le> i" for i using that by (simp add: impossible_bit)
  show "w (as_u8 v) (as_u8 (drop_bit 8 v)) x2 x3 = (w x0 x1 x2 x3 AND NOT (mask 16)) OR as_u32 v"
  proof (rule bit_word_eqI)
    fix i assume "i < LENGTH(32)"
    then consider "i < 8" | "8 \<le> i" "i < 16" | "16 \<le> i" "i < 24" | "24 \<le> i" "i < 32" by fastforce
    then show "bit (w (as_u8 v) (as_u8 (drop_bit 8 v)) x2 x3) i \<longleftrightarrow> bit ((w x0 x1 x2 x3 AND NOT (mask 16)) OR as_u32 v) i"
      unfolding w_def by cases (auto simp: bit_simps no no')
  qed
  show "w x0 x1 (as_u8 v) (as_u8 (drop_bit 8 v)) = (w x0 x1 x2 x3 AND mask 16) OR push_bit 16 (as_u32 v)"
  proof (rule bit_word_eqI)
    fix i assume "i < LENGTH(32)"
    then consider "i < 8" | "8 \<le> i" "i < 16" | "16 \<le> i" "i < 24" | "24 \<le> i" "i < 32" by fastforce
    then show "bit (w x0 x1 (as_u8 v) (as_u8 (drop_bit 8 v))) i \<longleftrightarrow> bit ((w x0 x1 x2 x3 AND mask 16) OR push_bit 16 (as_u32 v)) i"
      unfolding w_def by cases (auto simp: bit_simps no no')
  qed
qed

lemma host_u32_halves:
  "host_u32 (h(p \<mapsto> as_u8 v, p + 1 \<mapsto> as_u8 (drop_bit 8 v))) p = (host_u32 h p AND 0xffff0000) OR as_u32 v"
  "host_u32 (h(p + 2 \<mapsto> as_u8 v, p + 3 \<mapsto> as_u8 (drop_bit 8 v))) p = (host_u32 h p AND 0xffff) OR shl (as_u32 v) 16"
  for v :: u16
proof -
  have m: "NOT (mask 16 :: u32) = - 65536" "(mask 16 :: u32) = 0xffff" by (simp_all add: mask_eq_exp_minus_1)
  have m': "(0xffff0000 :: u32) = - 65536" by simp
  show "host_u32 (h(p \<mapsto> as_u8 v, p + 1 \<mapsto> as_u8 (drop_bit 8 v))) p = (host_u32 h p AND 0xffff0000) OR as_u32 v"
    unfolding m' using halves(1) [where v = v, unfolded m] by (simp add: load_u32_def)
  show "host_u32 (h(p + 2 \<mapsto> as_u8 v, p + 3 \<mapsto> as_u8 (drop_bit 8 v))) p = (host_u32 h p AND 0xffff) OR shl (as_u32 v) 16"
    using halves(2) [where v = v, unfolded m] by (simp add: load_u32_def)
qed

lemma fetch_code:
  "code fetch_entry = Do (La_t0 FI4) # At FI1 # code FI1"
  "code FI1 = Do (Hlvx_hu T2' A0') # Ext FI1 # Do (Sh T2' A1') # Do (Addi A0' A0' 2) # Do (Addi A1' A1' 2)
    # Do (Li T3' 3) # Do (And T2' T2' T3') # Bne T2' T3' FI3 # At FI2 # code FI2"
  "code FI2 = Do (Hlvx_hu T2' A0') # Ext FI2 # Do (Sh T2' A1') # At FI3 # code FI3"
  "\<exists>k. code FI3 = Do (Mv A0' ZERO) # Ret # k" "\<exists>k. code FI4 = Do (Not A0' ZERO) # Ret # k"
  by (simp_all add: mem_extable_S_def ext_code)

lemma bytes_of_half: "as_u8 (as_u64 v) = as_u8 v" "as_u8 (drop_bit 8 (as_u64 v)) = as_u8 (drop_bit 8 v)" for v :: u16
  by (rule bit_word_eqI, auto simp: bit_simps dest: bit_imp_le_length)+

lemma ucast_numeral_3: "(ucast (3 :: u64) :: u16) = 3" "(ucast (3 :: u16) :: u64) = 3"
  by simp_all

lemma low_two_bits: "(ucast v AND 3 :: u64) = 3 \<longleftrightarrow> v AND 3 = 3" for v :: u16
proof -
  have "(ucast v AND 3 :: u64) = ucast (v AND 3)" by (rule bit_word_eqI) (auto simp: bit_simps dest: bit_imp_le_length)
  moreover have "(ucast (ucast (v AND 3) :: u64) :: u16) = v AND 3" by (rule bit_word_eqI) (simp add: bit_simps)
  ultimately show ?thesis by (metis ucast_numeral_3)
qed

lemma fetch_asm_refines:
  assumes "\<forall>i<4. host s (p + of_nat i) \<noteq> None"
  shows "\<exists>s'. ext_call cause fetch_entry gva p n s = Some (Back s')
     \<and> (ereg s' A0', host_u32 (host s') p) =
       map_prod of_int (\<lambda>w. w) (fetch_guest_instruction_asm (hlvx s) gva (host_u32 (host s) p))
     \<and> guest s' = guest s"
proof -
  have h: "host s p \<noteq> None" "host s (p + 1) \<noteq> None" "host s (p + 2) \<noteq> None" "host s (p + 3) \<noteq> None"
    using assms [rule_format, of 0] assms [rule_format, of 1] assms [rule_format, of 2] assms [rule_format, of 3]
    by simp_all
  have fault: "ext_run cause mem_extable_S (code l) s = ext_run cause mem_extable_S (code (et0 s)) (set_er T1' cause s)"
    if "hlvx s (ereg s A0') = None" "l = FI1 \<or> l = FI2" for s l
    using that fetch_code(2,3) by (auto intro!: ext_at_fault)
  obtain k k' where k: "code FI3 = Do (Mv A0' ZERO) # Ret # k" "code FI4 = Do (Not A0' ZERO) # Ret # k'"
    using fetch_code(4,5) by blast
  show ?thesis
  proof (cases "hlvx s gva")
    case None
    then show ?thesis
      by (simp add: ext_call_def fetch_code(1) ext_run_ok fault k fetch_guest_instruction_asm_def)
  next
    case (Some v)
    show ?thesis
    proof (cases "v AND 3 = 3")
      case False
      then show ?thesis using h Some host_u32_halves(1) [of "host s" p v]
        by (simp add: ext_call_def fetch_code(1,2) ext_run_ok k low_two_bits fetch_guest_instruction_asm_def Let_def
            bytes_of_half fun_upd_def)
    next
      case True
      show ?thesis
      proof (cases "hlvx s (gva + 2)")
        case None
        then show ?thesis using h Some True host_u32_halves(1) [of "host s" p v]
          by (simp add: ext_call_def fetch_code(1,2) ext_run_ok k low_two_bits fetch_guest_instruction_asm_def Let_def
              bytes_of_half fun_upd_def fault)
      next
        case (Some v')
        define h1 where "h1 = (host s)(p \<mapsto> as_u8 v, p + 1 \<mapsto> as_u8 (drop_bit 8 v))"
        obtain y z where "host s (p + 2) = Some y" "host s (p + 3) = Some z" using h(3,4) by blast
        then have h1: "h1 (p + 2) = Some y" "h1 (p + 3) = Some z" by (simp_all add: h1_def)
        have w: "host_u32 h1 p = (host_u32 (host s) p AND 0xffff0000) OR as_u32 v"
          unfolding h1_def by (rule host_u32_halves(1))
        have p3: "p + 2 + 1 = p + 3" by simp
        show ?thesis using h(1,2) h1 w \<open>hlvx s gva = Some v\<close> Some True host_u32_halves(2) [of h1 p v']
          by (simp add: ext_call_def fetch_code(1,2,3) ext_run_ok k low_two_bits fetch_guest_instruction_asm_def Let_def
              bytes_of_half p3 flip: h1_def)
      qed
    qed
  qed
qed

text \<open>
  Claim C14. The assembly behind \<open>copy_to_guest\<close> and \<open>copy_from_guest\<close>, run instruction by instruction
  with its exception table, ends for every buffer the host can access, whatever part of guest memory is
  mapped and whatever the registers held: it returns the count and leaves the guest memory that the copy
  loop into the guest computes, with host memory unchanged; and for a copy out of the guest the count and
  the buffer of the other loop, with every other byte of the host and the guest memory unchanged. So a
  guest page fault in the middle of a copy ends it with the bytes copied so far.
\<close>

theorem mem_extable_refines:
  assumes "holds_bytes (host s) p bs" "length bs < 2 ^ 64"
  shows "(\<exists>s'. ext_call cause copy_to_guest_entry gpa p (of_nat (length bs)) s = Some (Back s')
      \<and> (ereg s' A0', guest s') = copy_to_guest_loop (guest s) gpa bs \<and> host s' = host s)
    \<and> (\<exists>s' bs'. ext_call cause copy_from_guest_entry p gpa (of_nat (length bs)) s = Some (Back s')
      \<and> (ereg s' A0', bs') = copy_from_guest_loop (guest s) gpa bs
      \<and> host s' = write_bytes (host s) p bs' \<and> guest s' = guest s)"
proof -
  let ?n = "of_nat (length bs) :: usize"
  have n: "unat ?n = length bs" using assms(2) by (rule unat_of_nat_usize)
  have "returns_count (fst (copy_steps to_guest_step (length bs) (host s, guest s, gpa, p)))
      (snd (copy_steps to_guest_step (length bs) (host s, guest s, gpa, p))) (ext_call cause copy_to_guest_entry gpa p ?n s)"
    using tg.call [of ?n s gpa p cause, unfolded n] to_guest_refines(1) [OF assms(1)] by blast
  moreover have "returns_count (fst (copy_steps from_guest_step (length bs) (host s, guest s, p, gpa)))
      (snd (copy_steps from_guest_step (length bs) (host s, guest s, p, gpa))) (ext_call cause copy_from_guest_entry p gpa ?n s)"
    using fg.call [of ?n s p gpa cause, unfolded n] from_guest_refines [OF assms] by blast
  ultimately show ?thesis
    using to_guest_refines(2,3) [OF assms(1), of "guest s" gpa] from_guest_refines [OF assms, of "guest s" gpa]
    by (auto simp: returns_count_def view_def prod_eq_iff)
qed

definition ext_start :: ext_state where
  "ext_start = \<lparr>er = (\<lambda>_. 9), et0 = FI4, host = [0x8000 \<mapsto> 7, 0x8001 \<mapsto> 8, 0x8002 \<mapsto> 9],
     guest = [0x1000 \<mapsto> 0, 0x1001 \<mapsto> 0], hlvx = (\<lambda>_. None)\<rparr>"

theorem mem_extable_refines_witness:
  "\<exists>s'. ext_call 23 copy_to_guest_entry 0x1000 0x8000 3 ext_start = Some (Back s')
     \<and> ereg s' A0' = 2 \<and> guest s' = [0x1000 \<mapsto> 7, 0x1001 \<mapsto> 8]"
proof -
  have "holds_bytes (host ext_start) 0x8000 [7, 8, 9]"
    by (simp add: holds_bytes_Cons ext_start_def) (simp add: holds_bytes_def)
  then show ?thesis
    using mem_extable_refines [of ext_start "0x8000" "[7, 8, 9]" 23 "0x1000"]
    by (auto simp: ext_start_def fun_upd_twist)
qed

end
