(* ===== verification/Vmx_Boot.thy ===== *)
theory Vmx_Boot
  imports Vmx_Exit Vmx_Setup
begin

text \<open>
  From a new vCPU to its first VM entry: the composition of \<open>VmxVcpu::new\<close> with \<open>run\<close> of
  \<open>src/src/arch/x86_64/vmx/vcpu.rs\<close>, and the methods of the file through which the embedding hypervisor
  looks at a vCPU (its exit information, registers and timer, and the \<open>Debug\<close> output).
\<close>

section \<open>Methods of the vCPU\<close>

definition VmxVcpu_exit_info :: "('m, 'a) x86_env \<Rightarrow> (('m, 'a, 'g, 'i) vcpu_x86, VmxExitInfo) hm" where
  "VmxVcpu_exit_info E = exit_info E"

definition VmxVcpu_interrupt_exit_info ::
    "('m, 'a) x86_env \<Rightarrow> (('m, 'a, 'g, 'i) vcpu_x86, VmxInterruptInfo) hm" where
  "VmxVcpu_interrupt_exit_info E = interrupt_exit_info E"

definition VmxVcpu_io_exit_info :: "('m, 'a) x86_env \<Rightarrow> (('m, 'a, 'g, 'i) vcpu_x86, VmxIoExitInfo) hm" where
  "VmxVcpu_io_exit_info E = io_exit_info E"

definition nested_page_fault_info ::
    "('m, 'a) x86_env \<Rightarrow> (('m, 'a, 'g, 'i) vcpu_x86, NestedPageFaultInfo) hm" where
  "nested_page_fault_info E = ept_violation_info E"

definition VmxVcpu_regs :: "(('m, 'a, 'g, 'i) vcpu_x86, GeneralRegisters) hm" where
  "VmxVcpu_regs = hget (\<lambda>s. guest_regs (self s))"

text \<open>A mutable reference is the update made through it.\<close>

definition regs_mut :: "(GeneralRegisters \<Rightarrow> GeneralRegisters) \<Rightarrow> (('m, 'a, 'g, 'i) vcpu_x86, unit) hm" where
  "regs_mut f = hmod (\<lambda>s. s\<lparr>self := (self s)\<lparr>guest_regs := f (guest_regs (self s))\<rparr>\<rparr>)"

definition apic_timer_mut :: "(ApicTimer \<Rightarrow> ApicTimer) \<Rightarrow> (('m, 'a, 'g, 'i) vcpu_x86, unit) hm" where
  "apic_timer_mut f = hmod (\<lambda>s. s\<lparr>self := (self s)\<lparr>apic_timer := f (apic_timer (self s))\<rparr>\<rparr>)"

text \<open>The fields of the \<open>Debug\<close> output; a failing read panics.\<close>

definition vcpu_debug ::
    "('m, 'a) x86_env \<Rightarrow> (('m, 'a, 'g, 'i) vcpu_x86, GeneralRegisters \<times> (string \<times> u64) list) hm" where
  "vcpu_debug E = hunwrap (
     hbind VmxVcpu_regs (\<lambda>regs.
     hbind (VmcsGuestNW_read E VmcsGuestNW.RIP) (\<lambda>rip.
     hbind (VmcsGuestNW_read E VmcsGuestNW.RSP) (\<lambda>rsp.
     hbind (VmcsGuestNW_read E RFLAGS) (\<lambda>rflags.
     hbind (VmcsGuestNW_read E VmcsGuestNW.CR0) (\<lambda>cr0.
     hbind (VmcsGuestNW_read E VmcsGuestNW.CR3) (\<lambda>cr3.
     hbind (VmcsGuestNW_read E VmcsGuestNW.CR4) (\<lambda>cr4.
     hbind (VmcsGuest16_read E VmcsGuest16.CS_SELECTOR) (\<lambda>cs.
     hbind (VmcsGuestNW_read E VmcsGuestNW.FS_BASE) (\<lambda>fs_base.
     hbind (VmcsGuestNW_read E VmcsGuestNW.GS_BASE) (\<lambda>gs_base.
     hbind (VmcsGuest16_read E VmcsGuest16.TR_SELECTOR) (\<lambda>tss.
     hret (regs, [(''rip'', rip), (''rsp'', rsp), (''rflags'', rflags), (''cr0'', cr0), (''cr3'', cr3),
       (''cr4'', cr4), (''cs'', as_u64 cs), (''fs_base'', fs_base), (''gs_base'', gs_base),
       (''tss'', as_u64 tss)])))))))))))))"

section \<open>What the methods see\<close>

lemma VmcsGuest16_read_loaded:
  "vmcs_loaded E s \<Longrightarrow>
   VmcsGuest16_read E f s = (Ok (as_u16 (the (vmcs E s (VmcsGuest16_number f)))), s)"
  using vmcs_read_loaded [of E s "FGuest16 f"] by (simp add: VmcsGuest16_read_def)

text \<open>The \<open>Debug\<close> output of a vCPU whose VMCS is loaded does not panic and changes nothing.\<close>

lemma vcpu_debug_loaded:
  assumes "vmcs_loaded E s"
  shows "\<exists>cs tss. vcpu_debug E s = (Ok (guest_regs (self s),
      map (\<lambda>(n, f). (n, the (vmcs E s (VmcsGuestNW_number f))))
        [(''rip'', VmcsGuestNW.RIP), (''rsp'', VmcsGuestNW.RSP), (''rflags'', RFLAGS), (''cr0'', VmcsGuestNW.CR0),
         (''cr3'', VmcsGuestNW.CR3), (''cr4'', VmcsGuestNW.CR4)]
      @ [(''cs'', cs), (''fs_base'', the (vmcs E s (VmcsGuestNW_number VmcsGuestNW.FS_BASE))),
         (''gs_base'', the (vmcs E s (VmcsGuestNW_number VmcsGuestNW.GS_BASE))), (''tss'', tss)]), s)"
  by (simp add: vcpu_debug_def VmxVcpu_regs_def hm_defs typed_reads(1) [OF assms]
      VmcsGuest16_read_loaded [OF assms] del: VmcsGuestNW_number.simps VmcsGuest16_number.simps)

section \<open>The first entry\<close>

text \<open>The vCPU \<open>v\<close> on the machine that \<open>s\<close> describes.\<close>

definition on_machine :: "('m, 'a, 'z) x86_scheme \<Rightarrow> ('g, 'i) VmxVcpu \<Rightarrow> ('m, 'a, 'g, 'i) vcpu_x86" where
  "on_machine s v = \<lparr>hw = hw s, mem = mem s, xhal = xhal s, self = v\<rparr>"

lemma vmcs_on_machine [simp]: "vmcs E (on_machine s v) = vmcs E s"
  by (simp add: vmcs_def on_machine_def fun_eq_iff)

lemma on_machine_self [simp]: "self (on_machine s v) = v"
  by (simp add: on_machine_def)

lemma VmxVcpu_new_loaded:
  assumes "vmx_ok (cpu E)" "x86_consts_ok (crates E)" "VmxVcpu_new E G pcpu entry g s = (Ok vcpu, s')"
  shows "vmcs_loaded E s'" "\<exists>pat. \<forall>(f, v) \<in> set (boot_fields entry pat). vmcs E s' f = Some v"
    "vmcs E s' (VmcsHostNW_number VmcsHostNW.RIP) = Some (vmx_exit_symbol E)"
    "guest_regs vcpu = GeneralRegisters_default" "gdbstub vcpu = None"
proof -
  obtain s3 where v: "guest_regs vcpu = GeneralRegisters_default" "gdbstub vcpu = None"
    and vm: "setup_vmcs E G vcpu entry s3 = (Ok (), s')"
    using assms(3) by (auto simp: VmxVcpu_new_def Let_def hbind_eq_Ok hseq_eq_Ok hret_def drop_on_err_Ok)
  obtain u where u: "vmcs_loaded E u" "setup_vmcs_control E G vcpu u = (Ok (), s')"
    "vmcs E u (VmcsHostNW_number VmcsHostNW.RIP) = Some (vmx_exit_symbol E)"
    "\<exists>pat. \<forall>(f, v) \<in> set (boot_fields entry pat). vmcs E s' f = Some v"
    by (rule setup_vmcs_Ok [OF assms(1,2) vm]) blast
  have "VmcsHostNW_number VmcsHostNW.RIP \<notin> set control_fields" by (simp add: control_fields_def)
  then show "vmcs E s' (VmcsHostNW_number VmcsHostNW.RIP) = Some (vmx_exit_symbol E)"
    using only_writesD(3) [OF setup_vmcs_control_only [OF assms(1)] u(1,2)] u(3) by metis
  show "vmcs_loaded E s'" by (rule only_writesD(2) [OF setup_vmcs_control_only [OF assms(1)] u(1,2)])
  show "\<exists>pat. \<forall>(f, v) \<in> set (boot_fields entry pat). vmcs E s' f = Some v" by (rule u(4))
  show "guest_regs vcpu = GeneralRegisters_default" "gdbstub vcpu = None" by (rule v)+
qed

text \<open>
  Claim C11. The first VM entry of a new vCPU. If \<open>VmxVcpu::new\<close> succeeds and \<open>run\<close> is called on the vCPU
  it returned, at address \<open>base\<close> and without a debugger attached, the guest is entered with every general
  purpose register 0 and with the guest state that the setup wrote to the VMCS, the entry point as the
  instruction pointer, unchanged; a VM exit then goes to \<open>vmx_exit\<close> with the stack pointer at the end of
  the register area of the vCPU, which holds the stack pointer of the host.
\<close>

theorem first_entry:
  assumes "x86_crates_ok (crates E)" and "vmx_ok (cpu E)" and "\<And>m. vmenter m"
    and "VmxVcpu_new E G pcpu entry g s = (Ok vcpu, s')"
  shows "\<exists>gpf t pat. run E go vmenter base regs (on_machine s' vcpu) = Some (Ok gpf, t)
    \<and> (\<forall>q. q \<noteq> R_rsp \<longrightarrow> gpf q = 0)
    \<and> (\<forall>(f, v) \<in> set (boot_fields entry pat). vmcs E t f = Some v)
    \<and> vmcs E t (VmcsHostNW_number VmcsHostNW.RIP) = Some (vmx_exit_symbol E)
    \<and> vmcs E t (VmcsHostNW_number VmcsHostNW.RSP) = Some (base + host_stack_top_offset)
    \<and> self t = vcpu\<lparr>host_stack_top := regs R_rsp\<rparr>"
proof -
  have co: "x86_consts_ok (crates E)" using assms(1) by blast
  note N = VmxVcpu_new_loaded [OF assms(2) co assms(4)]
  obtain pat where pat: "\<forall>(f, v) \<in> set (boot_fields entry pat). vmcs E s' f = Some v" using N(2) by blast
  define u where "u = on_machine s' vcpu"
  have l: "vmcs_loaded E u" using N(1) by (simp add: u_def vmcs_loaded_def)
  obtain q s2 where w: "VmcsHostNW_write E VmcsHostNW.RSP (base + host_stack_top_offset) u = (q, s2)" by fastforce
  note D = does_writesD [OF does_writes_field(12) [OF vmx_ok_vmcs [OF assms(2)] l] w]
  have tr: "field_trunc (VmcsHostNW_number VmcsHostNW.RSP) v = v" for v
    by (rule field_trunc_typed(4) [OF vmcs_encodings(12)])
  have s2: "self s2 = vcpu" by (subst D(2)) (simp add: u_def)
  define t where "t = s2\<lparr>self := vcpu\<lparr>host_stack_top := regs R_rsp\<rparr>\<rparr>"
  have "gdbserver_loop go u = Some (Ok (), u)" using N(5) by (simp add: gdbserver_loop_def u_def)
  then have run: "run E go vmenter base regs u = Some (Ok (guest_file base vcpu), t)"
    using w D(1) launch_run [of vmenter s2 "regs(R_rdi := base)" base E] s2 assms(3)
    by (simp add: run_def hm_defs t_def)
  have vm: "vmcs E t = (vmcs E s')(VmcsHostNW_number VmcsHostNW.RSP \<mapsto> base + host_stack_top_offset)"
    using D(3) tr [of "base + host_stack_top_offset"] by (simp add: t_def u_def vmcs_def)
  have "VmcsHostNW_number VmcsHostNW.RSP \<notin> fst ` set (boot_fields entry pat)" by (rule host_not_boot_field)
  then have "\<forall>(f, v) \<in> set (boot_fields entry pat). vmcs E t f = Some v" using pat unfolding vm by force
  moreover have "guest_file base vcpu q = 0" if "q \<noteq> R_rsp" for q
    using that N(4) by (cases q) (simp_all add: guest_file_def GeneralRegisters_default_def)
  moreover have "vmcs E t (VmcsHostNW_number VmcsHostNW.RIP) = Some (vmx_exit_symbol E)"
    unfolding vm using N(3) by simp
  ultimately show ?thesis using run vm unfolding u_def
    by (intro exI [of _ "guest_file base vcpu"] exI [of _ t] exI [of _ pat]) (simp add: t_def)
qed

theorem first_entry_witness:
  "\<exists>(vcpu :: (usize \<rightharpoonup> u8, unit) VmxVcpu) s' gpf t.
     VmxVcpu_new std_env map_gpt \<lparr>vmcs_revision_id = 1, vmx_region = VmxRegion_uninit\<rparr> 0x7c00 Map.empty std_state
       = (Ok vcpu, s')
     \<and> run std_env sample_stub (\<lambda>_. True) 0x5000 (\<lambda>_. 7) (on_machine s' vcpu) = Some (Ok gpf, t)
     \<and> gpf R_rax = 0 \<and> vmcs std_env t (VmcsHostNW_number VmcsHostNW.RSP) = Some 0x5080"
proof -
  obtain vcpu :: "(usize \<rightharpoonup> u8, unit) VmxVcpu" and s' where
    n: "VmxVcpu_new std_env map_gpt \<lparr>vmcs_revision_id = 1, vmx_region = VmxRegion_uninit\<rparr> 0x7c00 Map.empty std_state
       = (Ok vcpu, s')"
    using std_new [of "\<lparr>vmcs_revision_id = 1, vmx_region = VmxRegion_uninit\<rparr>"] by force
  have "vmx_ok (cpu std_env)" using std_vmcs_ok by (simp add: vmx_ok_def) (simp add: std_cpu_ops_def)
  moreover have "x86_crates_ok (crates std_env)" by (simp add: x86_crates_std_ok)
  ultimately obtain gpf t where "run std_env sample_stub (\<lambda>_. True) 0x5000 (\<lambda>_. 7) (on_machine s' vcpu) = Some (Ok gpf, t)"
    "\<forall>q. q \<noteq> R_rsp \<longrightarrow> gpf q = 0"
    "vmcs std_env t (VmcsHostNW_number VmcsHostNW.RSP) = Some (0x5000 + host_stack_top_offset)"
    using first_entry [of std_env "\<lambda>_. True", OF _ _ _ n] by blast
  then show ?thesis using n by (auto simp: host_stack_top_offset_def)
qed

end
