(* ===== verification/Arm_Asm.thy ===== *)
theory Arm_Asm
  imports Byte_Memory
begin

text \<open>
  The AArch64 instructions of the two assembly files of \<open>src/src/arch/aarch64/\<close>: a machine with the
  registers \<open>x0\<close> to \<open>x17\<close>, the condition flags and a partial byte memory (an access to an address
  that is not mapped is a data abort), the instructions the files use with the meaning the
  architecture gives them, and programs as lists of lines with labels, as the files write them. The
  second half is a calculus for code that fills a region of memory: a memory in which the bytes at
  some offsets of the region have been written, and what one load and one store do to it.
\<close>

section \<open>The machine\<close>

datatype xreg = X0 | X1 | X2 | X3 | X4 | X5 | X6 | X7 | X8 | X9 | X10 | X11 | X12 | X13 | X14
  | X15 | X16 | X17

type_synonym ram = "usize \<rightharpoonup> u8"

record arm_asm =
  xr :: "xreg \<Rightarrow> u64"
  fN :: bool
  fZ :: bool
  fC :: bool
  fV :: bool
  ram :: ram

text \<open>\<open>W\<close> and \<open>X\<close> name the 32-bit and the 64-bit form of an instruction. \<open>LDRn\<close> and \<open>STRn\<close> carry the
  number of bytes of the access: \<open>ldr x\<close> 8, \<open>ldr w\<close> 4, \<open>strh\<close> 2, \<open>ldrb\<close> 1; a load of fewer than 8
  bytes zero-extends.\<close>

datatype width = W | X

datatype operand = Rg xreg | Im int

datatype cond = EQ | NE | HI | LS | LO | GE | LT | LE

datatype arm_instr =
    MOV xreg xreg
  | ADD xreg xreg operand
  | SUB xreg xreg operand
  | SUBS xreg xreg operand
  | NEG xreg xreg
  | AND64 xreg xreg operand
  | BIC xreg xreg operand
  | LSR xreg xreg nat
  | ANDS width xreg xreg operand
  | ORR_LSL width xreg xreg xreg nat
  | CMP width xreg operand
  | TST xreg operand
  | LDP xreg xreg xreg int
  | LDP_pre xreg xreg xreg int
  | STP xreg xreg xreg int
  | STP_pre xreg xreg xreg int
  | LDRn nat xreg xreg operand
  | STRn nat xreg xreg operand
  | STRn_post nat xreg xreg int

definition mem_mapped :: "ram \<Rightarrow> usize \<Rightarrow> nat \<Rightarrow> bool" where
  "mem_mapped m a n = list_all (\<lambda>i. m (a + of_nat i) \<noteq> None) [0..<n]"

definition mem_load :: "nat \<Rightarrow> usize \<Rightarrow> ram \<Rightarrow> u64 option" where
  "mem_load w a m = (if mem_mapped m a w then Some (load_le (\<lambda>x. the (m x)) a w) else None)"

definition mem_store :: "nat \<Rightarrow> usize \<Rightarrow> u64 \<Rightarrow> ram \<Rightarrow> ram option" where
  "mem_store w a v m =
     (if mem_mapped m a w
      then Some (\<lambda>x. if unat (x - a) < w then Some (as_u8 (shr v (8 * unat (x - a)))) else m x)
      else None)"

fun operand_val :: "arm_asm \<Rightarrow> operand \<Rightarrow> u64" where
  "operand_val s (Rg r) = xr s r"
| "operand_val s (Im i) = of_int i"

definition set_x :: "xreg \<Rightarrow> u64 \<Rightarrow> arm_asm \<Rightarrow> arm_asm" where
  "set_x r v s = s\<lparr>xr := (xr s)(r := v)\<rparr>"

text \<open>The flags of a subtraction and of a bitwise AND, at the width of the operands.\<close>

definition sub_flags :: "'a::len word \<Rightarrow> 'a word \<Rightarrow> arm_asm \<Rightarrow> arm_asm" where
  "sub_flags a b s = s\<lparr>fN := sint (a - b) < 0, fZ := a = b, fC := b \<le> a,
     fV := sint (a - b) \<noteq> sint a - sint b\<rparr>"

definition and_flags :: "'a::len word \<Rightarrow> arm_asm \<Rightarrow> arm_asm" where
  "and_flags v s = s\<lparr>fN := sint v < 0, fZ := v = 0, fC := False, fV := False\<rparr>"

definition load_pair :: "xreg \<Rightarrow> xreg \<Rightarrow> u64 \<Rightarrow> arm_asm \<Rightarrow> arm_asm option" where
  "load_pair t u a s = (case mem_load 8 a (ram s) of None \<Rightarrow> None | Some v \<Rightarrow>
     (case mem_load 8 (a + 8) (ram s) of None \<Rightarrow> None | Some w \<Rightarrow>
       Some (set_x u w (set_x t v s))))"

definition store_pair :: "xreg \<Rightarrow> xreg \<Rightarrow> u64 \<Rightarrow> arm_asm \<Rightarrow> arm_asm option" where
  "store_pair t u a s = (case mem_store 8 a (xr s t) (ram s) of None \<Rightarrow> None | Some m \<Rightarrow>
     (case mem_store 8 (a + 8) (xr s u) m of None \<Rightarrow> None | Some m' \<Rightarrow>
       Some (s\<lparr>ram := m'\<rparr>)))"

fun arm_exec :: "arm_instr \<Rightarrow> arm_asm \<Rightarrow> arm_asm option" where
  "arm_exec (MOV d n) s = Some (set_x d (xr s n) s)"
| "arm_exec (ADD d n p) s = Some (set_x d (xr s n + operand_val s p) s)"
| "arm_exec (SUB d n p) s = Some (set_x d (xr s n - operand_val s p) s)"
| "arm_exec (SUBS d n p) s =
     Some (sub_flags (xr s n) (operand_val s p) (set_x d (xr s n - operand_val s p) s))"
| "arm_exec (NEG d n) s = Some (set_x d (- xr s n) s)"
| "arm_exec (AND64 d n p) s = Some (set_x d (xr s n AND operand_val s p) s)"
| "arm_exec (BIC d n p) s = Some (set_x d (xr s n AND NOT (operand_val s p)) s)"
| "arm_exec (LSR d n k) s = Some (set_x d (shr (xr s n) k) s)"
| "arm_exec (ANDS X d n p) s =
     (let v = xr s n AND operand_val s p in Some (and_flags v (set_x d v s)))"
| "arm_exec (ANDS W d n p) s =
     (let v = as_u32 (xr s n) AND as_u32 (operand_val s p) in Some (and_flags v (set_x d (as_u64 v) s)))"
| "arm_exec (ORR_LSL X d n m k) s = Some (set_x d (xr s n OR shl (xr s m) k) s)"
| "arm_exec (ORR_LSL W d n m k) s =
     Some (set_x d (as_u64 (as_u32 (xr s n) OR shl (as_u32 (xr s m)) k)) s)"
| "arm_exec (CMP X n p) s = Some (sub_flags (xr s n) (operand_val s p) s)"
| "arm_exec (CMP W n p) s = Some (sub_flags (as_u32 (xr s n)) (as_u32 (operand_val s p)) s)"
| "arm_exec (TST n p) s = Some (and_flags (xr s n AND operand_val s p) s)"
| "arm_exec (LDP t u b k) s = load_pair t u (xr s b + of_int k) s"
| "arm_exec (LDP_pre t u b k) s =
     (case load_pair t u (xr s b + of_int k) s of None \<Rightarrow> None
      | Some s' \<Rightarrow> Some (set_x b (xr s b + of_int k) s'))"
| "arm_exec (STP t u b k) s = store_pair t u (xr s b + of_int k) s"
| "arm_exec (STP_pre t u b k) s =
     (case store_pair t u (xr s b + of_int k) s of None \<Rightarrow> None
      | Some s' \<Rightarrow> Some (set_x b (xr s b + of_int k) s'))"
| "arm_exec (LDRn w t b p) s =
     (case mem_load w (xr s b + operand_val s p) (ram s) of None \<Rightarrow> None
      | Some v \<Rightarrow> Some (set_x t v s))"
| "arm_exec (STRn w t b p) s =
     (case mem_store w (xr s b + operand_val s p) (xr s t) (ram s) of None \<Rightarrow> None
      | Some m \<Rightarrow> Some (s\<lparr>ram := m\<rparr>))"
| "arm_exec (STRn_post w t b k) s =
     (case mem_store w (xr s b) (xr s t) (ram s) of None \<Rightarrow> None
      | Some m \<Rightarrow> Some (set_x b (xr s b + of_int k) (s\<lparr>ram := m\<rparr>)))"

fun cond_holds :: "cond \<Rightarrow> arm_asm \<Rightarrow> bool" where
  "cond_holds EQ s = fZ s"
| "cond_holds NE s = (\<not> fZ s)"
| "cond_holds HI s = (fC s \<and> \<not> fZ s)"
| "cond_holds LS s = (\<not> (fC s \<and> \<not> fZ s))"
| "cond_holds LO s = (\<not> fC s)"
| "cond_holds GE s = (fN s = fV s)"
| "cond_holds LT s = (fN s \<noteq> fV s)"
| "cond_holds LE s = (\<not> (\<not> fZ s \<and> fN s = fV s))"

section \<open>Programs\<close>

text \<open>A line of the assembly file: a label, an instruction, a branch or the return.\<close>

datatype 'l line = Lbl 'l | Ins arm_instr | B cond 'l | TBZ xreg nat 'l | CBZ xreg 'l | RET

text \<open>How a call ends: it returns, an access aborts, or control leaves the lines of the program.\<close>

datatype halt = Returned arm_asm | DataAbort | NoCode

fun code_at :: "'l \<Rightarrow> 'l line list \<Rightarrow> 'l line list" where
  "code_at l [] = []"
| "code_at l (Lbl l' # k) = (if l' = l then k else code_at l k)"
| "code_at l (_ # k) = code_at l k"

text \<open>\<open>asm_run P k s\<close> runs the lines \<open>k\<close>, the rest of the program \<open>P\<close>; it is \<open>None\<close> when the program
  does not end.\<close>

partial_function (option) asm_run ::
    "'l line list \<Rightarrow> 'l line list \<Rightarrow> arm_asm \<Rightarrow> halt option" where
  "asm_run P k s = (case k of [] \<Rightarrow> Some NoCode | x # k' \<Rightarrow>
     (case x of
        Lbl l \<Rightarrow> asm_run P k' s
      | Ins i \<Rightarrow> (case arm_exec i s of None \<Rightarrow> Some DataAbort | Some s' \<Rightarrow> asm_run P k' s')
      | B c l \<Rightarrow> asm_run P (if cond_holds c s then code_at l P else k') s
      | TBZ r n l \<Rightarrow> asm_run P (if \<not> bit (xr s r) n then code_at l P else k') s
      | CBZ r l \<Rightarrow> asm_run P (if xr s r = 0 then code_at l P else k') s
      | RET \<Rightarrow> Some (Returned s)))"

text \<open>The labels that the lines define and those they branch to.\<close>

fun line_labels :: "'l line \<Rightarrow> 'l list" where
  "line_labels (Lbl l) = [l]"
| "line_labels _ = []"

fun line_targets :: "'l line \<Rightarrow> 'l list" where
  "line_targets (B c l) = [l]"
| "line_targets (TBZ r n l) = [l]"
| "line_targets (CBZ r l) = [l]"
| "line_targets _ = []"

section \<open>Running a program\<close>

lemma asm_run_simps [simp]:
  "asm_run P (Lbl l # k) s = asm_run P k s"
  "asm_run P (Ins i # k) s =
     (case arm_exec i s of None \<Rightarrow> Some DataAbort | Some s' \<Rightarrow> asm_run P k s')"
  "asm_run P (B c l # k) s = asm_run P (if cond_holds c s then code_at l P else k) s"
  "asm_run P (TBZ r n l # k) s = asm_run P (if \<not> bit (xr s r) n then code_at l P else k) s"
  "asm_run P (CBZ r l # k) s = asm_run P (if xr s r = 0 then code_at l P else k) s"
  "asm_run P (RET # k) s = Some (Returned s)"
  by (simp_all add: asm_run.simps)

lemma set_x_fields [simp]:
  "xr (set_x r v s) q = (if q = r then v else xr s q)" "ram (set_x r v s) = ram s"
  by (simp_all add: set_x_def)

lemma flags_fields [simp]:
  "xr (sub_flags a b s) = xr s" "ram (sub_flags a b s) = ram s"
  "xr (and_flags v s) = xr s" "ram (and_flags v s) = ram s"
  by (simp_all add: sub_flags_def and_flags_def)

text \<open>The conditions after a comparison.\<close>

lemma sint_sub_overflow:
  fixes a b :: "'a::len word"
  shows "(sint (a - b) < 0 \<longleftrightarrow> sint (a - b) \<noteq> sint a - sint b) \<longleftrightarrow> sint b \<le> sint a"
proof -
  define h :: int where "h = 2 ^ (LENGTH('a) - 1)"
  have r: "- h \<le> sint a" "sint a < h" "- h \<le> sint b" "sint b < h"
    by (simp_all add: h_def sint_greater_eq sint_less)
  have p: "2 ^ LENGTH('a) = 2 * h" by (cases "LENGTH('a)") (simp_all add: h_def)
  have e: "sint (a - b) = (sint a - sint b + h) mod (2 * h) - h"
    unfolding sint_word_ariths(2) signed_take_bit_eq_take_bit_shift take_bit_eq_mod
    by (simp add: p h_def)
  consider "sint a - sint b < - h" | "- h \<le> sint a - sint b" "sint a - sint b < h"
    | "h \<le> sint a - sint b" by linarith
  then show ?thesis
  proof cases
    case 1
    then have "(sint a - sint b + h + 2 * h) mod (2 * h) = sint a - sint b + h + 2 * h"
      using r by (intro mod_pos_pos_trivial) auto
    moreover have "(sint a - sint b + h + 2 * h) mod (2 * h) = (sint a - sint b + h) mod (2 * h)"
      by (rule mod_add_self2)
    ultimately have "sint (a - b) = sint a - sint b + 2 * h" using e by linarith
    with 1 r show ?thesis by auto
  next
    case 2
    then have "sint (a - b) = sint a - sint b" using e by simp
    then show ?thesis by (simp add: not_less)
  next
    case 3
    then have "(sint a - sint b + h - 2 * h) mod (2 * h) = sint a - sint b + h - 2 * h"
      using r by (intro mod_pos_pos_trivial) auto
    moreover have "(sint a - sint b + h - 2 * h) mod (2 * h) = (sint a - sint b + h) mod (2 * h)"
      by (rule minus_mod_self2)
    ultimately have "sint (a - b) = sint a - sint b - 2 * h" using e by linarith
    with 3 r show ?thesis by auto
  qed
qed

lemma sub_flags_signed: "fN (sub_flags a b s) = fV (sub_flags a b s) \<longleftrightarrow> sint b \<le> sint a"
  using sint_sub_overflow [of a b] by (simp add: sub_flags_def)

lemma sub_flags_fields [simp]:
  "fZ (sub_flags a b s) \<longleftrightarrow> a = b" "fC (sub_flags a b s) \<longleftrightarrow> b \<le> a"
  by (simp_all add: sub_flags_def)

lemma sub_flags_conds [simp]:
  "cond_holds EQ (sub_flags a b s) \<longleftrightarrow> a = b"
  "cond_holds NE (sub_flags a b s) \<longleftrightarrow> a \<noteq> b"
  "cond_holds HI (sub_flags a b s) \<longleftrightarrow> b < a"
  "cond_holds LS (sub_flags a b s) \<longleftrightarrow> a \<le> b"
  "cond_holds LO (sub_flags a b s) \<longleftrightarrow> a < b"
  "cond_holds GE (sub_flags a b s) \<longleftrightarrow> sint b \<le> sint a"
  "cond_holds LT (sub_flags a b s) \<longleftrightarrow> sint a < sint b"
  "cond_holds LE (sub_flags a b s) \<longleftrightarrow> sint a \<le> sint b"
proof -
  have "sint a = sint b \<longleftrightarrow> a = b" by (auto intro: signed_word_eqI)
  then show "cond_holds LE (sub_flags a b s) \<longleftrightarrow> sint a \<le> sint b"
    by (simp add: sub_flags_signed) linarith
qed (simp_all add: sub_flags_signed less_le not_le, auto)

lemma cond_holds_set_x [simp]:
  "cond_holds c (set_x r v s) \<longleftrightarrow> cond_holds c s" "cond_holds c (s\<lparr>ram := m\<rparr>) \<longleftrightarrow> cond_holds c s"
  by (cases c; simp add: set_x_def)+

declare cond_holds.simps [simp del]

lemma and_flags_conds [simp]:
  "cond_holds EQ (and_flags v s) \<longleftrightarrow> v = 0"
  "cond_holds NE (and_flags v s) \<longleftrightarrow> v \<noteq> 0"
  by (simp_all add: and_flags_def cond_holds.simps)

section \<open>Filling a region\<close>

text \<open>The memory in which the bytes at the offsets \<open>S\<close> of the region at \<open>d\<close> have been written, the byte
  at offset \<open>i\<close> with \<open>f i\<close>.\<close>

definition filled :: "usize \<Rightarrow> (nat \<Rightarrow> u8) \<Rightarrow> nat set \<Rightarrow> ram \<Rightarrow> ram" where
  "filled d f S m = (\<lambda>x. if unat (x - d) \<in> S then Some (f (unat (x - d))) else m x)"

lemma filled_empty [simp]: "filled d f {} m = m"
  by (simp add: filled_def)

lemma mem_mapped_iff: "mem_mapped m a n \<longleftrightarrow> (\<forall>i<n. m (a + of_nat i) \<noteq> None)"
  by (auto simp: mem_mapped_def list_all_iff)

lemma mem_mapped_filled [intro]: "mem_mapped m a n \<Longrightarrow> mem_mapped (filled d f S m) a n"
  by (simp add: mem_mapped_iff filled_def)

lemma mem_mapped_part:
  assumes "mem_mapped m a n" and "i + w \<le> n"
  shows "mem_mapped m (a + of_nat i) w"
proof -
  have "m (a + of_nat i + of_nat j) \<noteq> None" if "j < w" for j
    using assms that by (auto simp: mem_mapped_iff add.assoc simp flip: of_nat_add)
  then show ?thesis by (simp add: mem_mapped_iff)
qed

lemma unat_area: "unat a + n \<le> 2 ^ 64 \<Longrightarrow> i < n \<Longrightarrow> unat (a + of_nat i) = unat a + i" for a :: usize
  using unat_of_nat_usize [of "unat a + i"] by simp

lemma mem_mappedI:
  assumes "unat a + n \<le> 2 ^ 64" "\<And>x. unat a \<le> unat x \<Longrightarrow> unat x < unat a + n \<Longrightarrow> m x \<noteq> None"
  shows "mem_mapped m a n"
  unfolding mem_mapped_iff
proof (intro allI impI)
  fix i assume "i < n"
  then show "m (a + of_nat i) \<noteq> None" using assms(2) [of "a + of_nat i"] unat_area [OF assms(1)] by simp
qed

lemma offset_split:
  assumes "i + w \<le> 2 ^ 64"
  shows "unat (y - of_nat i :: usize) < w \<longleftrightarrow> i \<le> unat y \<and> unat y < i + w"
    and "i \<le> unat y \<Longrightarrow> unat (y - of_nat i :: usize) = unat y - i"
proof -
  have y: "unat y < 2 ^ 64" by (rule unat_u64)
  show eq: "unat (y - of_nat i :: usize) = unat y - i" if "i \<le> unat y"
  proof -
    have "y - of_nat i = (of_nat (unat y - i) :: usize)" using that by (simp add: of_nat_diff)
    then show ?thesis using y by (simp add: unat_of_nat_usize)
  qed
  show "unat (y - of_nat i :: usize) < w \<longleftrightarrow> i \<le> unat y \<and> unat y < i + w"
  proof (cases "i \<le> unat y")
    case True
    then show ?thesis using eq by auto
  next
    case False
    then have "of_nat i - y = (of_nat (i - unat y) :: usize)" by (simp add: of_nat_diff)
    then have "y - of_nat i = (of_nat (2 ^ 64 - (i - unat y)) :: usize)"
      using False assms by (simp add: of_nat_diff)
    moreover have "2 ^ 64 - (i - unat y) < (2 ^ 64 :: nat)" using False by simp
    ultimately have "unat (y - of_nat i) = 2 ^ 64 - (i - unat y)" by (simp add: unat_of_nat_usize)
    then show ?thesis using False assms by simp
  qed
qed

text \<open>The address at an offset of a region; the rules compute with offsets.\<close>

definition ofs :: "usize \<Rightarrow> nat \<Rightarrow> usize" where
  "ofs a i = a + of_nat i"

lemma ofs_arith [simp]:
  "ofs a i + of_nat j = ofs a (i + j)" "ofs a i + numeral k = ofs a (i + numeral k)"
  "numeral k \<le> i \<Longrightarrow> ofs a i - numeral k = ofs a (i - numeral k)"
  "1 \<le> i \<Longrightarrow> ofs a i - 1 = ofs a (i - 1)"
  by (simp_all add: ofs_def of_nat_diff)

lemma ofs_0: "a = ofs a 0"
  by (simp add: ofs_def)

text \<open>A store of bytes that belong into the region.\<close>

lemma mem_store_filled:
  assumes m: "mem_mapped m d n" and i: "i + w \<le> n" "n \<le> 2 ^ 64"
    and v: "\<And>j. j < w \<Longrightarrow> as_u8 (shr v (8 * j)) = f (i + j)"
  shows "mem_store w (ofs d i) v (filled d f S m) = Some (filled d f (S \<union> {i..<i + w}) m)"
proof -
  have "mem_mapped (filled d f S m) (d + of_nat i) w"
    using m i(1) by (intro mem_mapped_filled mem_mapped_part)
  moreover have "(if unat (x - (d + of_nat i)) < w then Some (as_u8 (shr v (8 * unat (x - (d + of_nat i)))))
      else filled d f S m x) = filled d f (S \<union> {i..<i + w}) m x" for x
  proof -
    have x: "x - (d + of_nat i) = (x - d) - of_nat i" by (simp add: algebra_simps)
    show ?thesis
      unfolding x using offset_split [of i w "x - d"] i v [of "unat (x - d) - i"]
      by (auto simp: filled_def)
  qed
  ultimately show ?thesis by (simp add: mem_store_def fun_eq_iff ofs_def)
qed

text \<open>A load, and the bytes of what it returns.\<close>

lemma bit_load_le:
  assumes "n \<le> 8"
  shows "bit (load_le m a n) k \<longleftrightarrow> k < 8 * n \<and> bit (m (a + of_nat (k div 8))) (k mod 8)"
  using assms
proof (induction n)
  case (Suc n)
  then have n: "n < 8" by simp
  have "bit (load_le m a (Suc n)) k \<longleftrightarrow>
      k < 8 * n \<and> bit (m (a + of_nat (k div 8))) (k mod 8)
      \<or> 8 * n \<le> k \<and> k < 64 \<and> bit (m (a + of_nat n)) (k - 8 * n)"
    using Suc n by (auto simp: bit_simps)
  also have "\<dots> \<longleftrightarrow> k < 8 * Suc n \<and> bit (m (a + of_nat (k div 8))) (k mod 8)"
  proof (cases "8 * n \<le> k \<and> k < 8 * Suc n")
    case True
    then have "k div 8 = n" "k < 64" using n by auto
    then have "k mod 8 = k - 8 * n" by (simp add: minus_div_mult_eq_mod [symmetric])
    then show ?thesis using True \<open>k div 8 = n\<close> \<open>k < 64\<close> by auto
  next
    case False
    have "k - 8 * n < 8 \<or> \<not> bit (m (a + of_nat n)) (k - 8 * n)"
      using bit_imp_le_length [of "m (a + of_nat n)" "k - 8 * n"] by auto
    then show ?thesis using False by auto
  qed
  finally show ?case .
qed simp

lemma load_le_byte:
  assumes "n \<le> 8" "j < n"
  shows "as_u8 (shr (load_le m a n) (8 * j)) = m (a + of_nat j)"
proof (rule bit_word_eqI)
  fix k assume k: "k < LENGTH(8)"
  have "(8 * j + k) div 8 = j" "(8 * j + k) mod 8 = k" "8 * j + k < 8 * n" using k assms by auto
  then show "bit (as_u8 (shr (load_le m a n) (8 * j))) k = bit (m (a + of_nat j)) k"
    using assms k by (simp add: bit_simps bit_load_le)
qed

section \<open>Counts as words\<close>

lemma of_nat_cmp:
  assumes "n < 2 ^ 64" "k < 2 ^ 64"
  shows "(of_nat k :: u64) < of_nat n \<longleftrightarrow> k < n" "(of_nat k :: u64) \<le> of_nat n \<longleftrightarrow> k \<le> n"
    "(of_nat k :: u64) = of_nat n \<longleftrightarrow> k = n"
  using assms by (simp_all add: word_less_nat_alt word_le_nat_alt word_unat_eq_iff unat_of_nat_usize)

lemma of_nat_cmp_num:
  assumes "n < 2 ^ 64" "numeral k < (2 ^ 64 :: nat)"
  shows "(numeral k :: u64) < of_nat n \<longleftrightarrow> numeral k < n" "(of_nat n :: u64) < numeral k \<longleftrightarrow> n < numeral k"
    "(of_nat n :: u64) \<le> numeral k \<longleftrightarrow> n \<le> numeral k" "(numeral k :: u64) \<le> of_nat n \<longleftrightarrow> numeral k \<le> n"
  using of_nat_cmp [of n "numeral k"] of_nat_cmp [of "numeral k" n] assms by simp_all

end
