(* ===== verification/Arm_Memcpy.thy ===== *)
theory Arm_Memcpy
  imports Arm_Asm
begin

text \<open>
  \<open>src/src/arch/aarch64/memcpy.S\<close>, line for line, and \<open>memcpy_safe\<close> of \<open>mod.rs\<close>. The routine copies
  small and medium areas with overlapping loads and stores from both ends, all loads first, and large
  ones with an aligned, software-pipelined loop and 64 bytes from the end. The theorems compare it with
  the byte-wise copy: it ends, touches no byte outside the two areas, returns the destination, and for
  large areas relies on the areas being disjoint.
\<close>

section \<open>The program\<close>

datatype memcpy_label = Lcopy16 | Lcopy8 | Lcopy4 | Lcopy0 | Lcopy32_128 | Lcopy128 | Lcopy96
  | Lcopy_long | Lloop64 | Lcopy64_from_end

definition memcpy_small :: "memcpy_label line list" where
  "memcpy_small =
    [Ins (ADD X4 X1 (Rg X2)),
     Ins (ADD X5 X0 (Rg X2)),
     Ins (CMP X X2 (Im 128)),
     B HI Lcopy_long,
     Ins (CMP X X2 (Im 32)),
     B HI Lcopy32_128,
     Ins (CMP X X2 (Im 16)),
     B LO Lcopy16,
     Ins (LDP X6 X7 X1 0),
     Ins (LDP X12 X13 X4 (-16)),
     Ins (STP X6 X7 X0 0),
     Ins (STP X12 X13 X5 (-16)),
     RET]"

definition memcpy_upto15 :: "memcpy_label line list" where
  "memcpy_upto15 =
    [Lbl Lcopy16,
     TBZ X2 3 Lcopy8,
     Ins (LDRn 8 X6 X1 (Im 0)),
     Ins (LDRn 8 X7 X4 (Im (-8))),
     Ins (STRn 8 X6 X0 (Im 0)),
     Ins (STRn 8 X7 X5 (Im (-8))),
     RET,
     Lbl Lcopy8,
     TBZ X2 2 Lcopy4,
     Ins (LDRn 4 X6 X1 (Im 0)),
     Ins (LDRn 4 X8 X4 (Im (-4))),
     Ins (STRn 4 X6 X0 (Im 0)),
     Ins (STRn 4 X8 X5 (Im (-4))),
     RET,
     Lbl Lcopy4,
     CBZ X2 Lcopy0,
     Ins (LSR X14 X2 1),
     Ins (LDRn 1 X6 X1 (Im 0)),
     Ins (LDRn 1 X10 X4 (Im (-1))),
     Ins (LDRn 1 X8 X1 (Rg X14)),
     Ins (STRn 1 X6 X0 (Im 0)),
     Ins (STRn 1 X8 X0 (Rg X14)),
     Ins (STRn 1 X10 X5 (Im (-1))),
     Lbl Lcopy0,
     RET]"

definition memcpy_medium :: "memcpy_label line list" where
  "memcpy_medium =
    [Lbl Lcopy32_128,
     Ins (LDP X6 X7 X1 0),
     Ins (LDP X8 X9 X1 16),
     Ins (LDP X10 X11 X4 (-32)),
     Ins (LDP X12 X13 X4 (-16)),
     Ins (CMP X X2 (Im 64)),
     B HI Lcopy128,
     Ins (STP X6 X7 X0 0),
     Ins (STP X8 X9 X0 16),
     Ins (STP X10 X11 X5 (-32)),
     Ins (STP X12 X13 X5 (-16)),
     RET,
     Lbl Lcopy128,
     Ins (LDP X14 X15 X1 32),
     Ins (LDP X16 X17 X1 48),
     Ins (CMP X X2 (Im 96)),
     B LS Lcopy96,
     Ins (LDP X2 X3 X4 (-64)),
     Ins (LDP X1 X4 X4 (-48)),
     Ins (STP X2 X3 X5 (-64)),
     Ins (STP X1 X4 X5 (-48)),
     Lbl Lcopy96,
     Ins (STP X6 X7 X0 0),
     Ins (STP X8 X9 X0 16),
     Ins (STP X14 X15 X0 32),
     Ins (STP X16 X17 X0 48),
     Ins (STP X10 X11 X5 (-32)),
     Ins (STP X12 X13 X5 (-16)),
     RET]"

definition memcpy_long :: "memcpy_label line list" where
  "memcpy_long =
    [Lbl Lcopy_long,
     Ins (LDP X12 X13 X1 0),
     Ins (AND64 X14 X0 (Im 15)),
     Ins (BIC X3 X0 (Im 15)),
     Ins (SUB X1 X1 (Rg X14)),
     Ins (ADD X2 X2 (Rg X14)),
     Ins (LDP X6 X7 X1 16),
     Ins (STP X12 X13 X0 0),
     Ins (LDP X8 X9 X1 32),
     Ins (LDP X10 X11 X1 48),
     Ins (LDP_pre X12 X13 X1 64),
     Ins (SUBS X2 X2 (Im (128 + 16))),
     B LS Lcopy64_from_end]"

definition memcpy_loop :: "memcpy_label line list" where
  "memcpy_loop =
    [Lbl Lloop64,
     Ins (STP X6 X7 X3 16),
     Ins (LDP X6 X7 X1 16),
     Ins (STP X8 X9 X3 32),
     Ins (LDP X8 X9 X1 32),
     Ins (STP X10 X11 X3 48),
     Ins (LDP X10 X11 X1 48),
     Ins (STP_pre X12 X13 X3 64),
     Ins (LDP_pre X12 X13 X1 64),
     Ins (SUBS X2 X2 (Im 64)),
     B HI Lloop64]"

definition memcpy_tail :: "memcpy_label line list" where
  "memcpy_tail =
    [Lbl Lcopy64_from_end,
     Ins (LDP X14 X15 X4 (-64)),
     Ins (STP X6 X7 X3 16),
     Ins (LDP X6 X7 X4 (-48)),
     Ins (STP X8 X9 X3 32),
     Ins (LDP X8 X9 X4 (-32)),
     Ins (STP X10 X11 X3 48),
     Ins (LDP X10 X11 X4 (-16)),
     Ins (STP X12 X13 X3 64),
     Ins (STP X14 X15 X5 (-64)),
     Ins (STP X6 X7 X5 (-48)),
     Ins (STP X8 X9 X5 (-32)),
     Ins (STP X10 X11 X5 (-16)),
     RET]"

definition memcpy_S :: "memcpy_label line list" where
  "memcpy_S = memcpy_small @ memcpy_upto15 @ memcpy_medium @ memcpy_long @ memcpy_loop @ memcpy_tail"

definition memcpy :: "arm_asm \<Rightarrow> halt option" where
  "memcpy s = asm_run memcpy_S memcpy_S s"

text \<open>\<open>memcpy_safe\<close> of \<open>mod.rs\<close>: the call puts the arguments into \<open>x0\<close>, \<open>x1\<close> and \<open>x2\<close> of the state \<open>st\<close>.\<close>

definition memcpy_safe :: "usize \<Rightarrow> usize \<Rightarrow> usize \<Rightarrow> arm_asm \<Rightarrow> halt option outcome" where
  "memcpy_safe s1 s2 n st =
     (if s1 < 0x1000 \<or> s2 < 0x1000 then Panic ExplicitPanic
      else Ok (memcpy (set_x X2 n (set_x X1 s2 (set_x X0 s1 st)))))"

lemmas memcpy_code = memcpy_small_def memcpy_upto15_def memcpy_medium_def memcpy_long_def
  memcpy_loop_def memcpy_tail_def

text \<open>The code at each label.\<close>

lemma memcpy_code_at:
  "code_at Lcopy16 memcpy_S = tl memcpy_upto15 @ memcpy_medium @ memcpy_long @ memcpy_loop @ memcpy_tail"
  "code_at Lcopy8 memcpy_S = drop 8 memcpy_upto15 @ memcpy_medium @ memcpy_long @ memcpy_loop @ memcpy_tail"
  "code_at Lcopy4 memcpy_S = drop 15 memcpy_upto15 @ memcpy_medium @ memcpy_long @ memcpy_loop @ memcpy_tail"
  "code_at Lcopy0 memcpy_S = RET # memcpy_medium @ memcpy_long @ memcpy_loop @ memcpy_tail"
  "code_at Lcopy32_128 memcpy_S = tl memcpy_medium @ memcpy_long @ memcpy_loop @ memcpy_tail"
  "code_at Lcopy128 memcpy_S = drop 13 memcpy_medium @ memcpy_long @ memcpy_loop @ memcpy_tail"
  "code_at Lcopy96 memcpy_S = drop 22 memcpy_medium @ memcpy_long @ memcpy_loop @ memcpy_tail"
  "code_at Lcopy_long memcpy_S = tl memcpy_long @ memcpy_loop @ memcpy_tail"
  "code_at Lloop64 memcpy_S = tl memcpy_loop @ memcpy_tail"
  "code_at Lcopy64_from_end memcpy_S = tl memcpy_tail"
  by (simp_all add: memcpy_S_def memcpy_code)

section \<open>Loads from the source, stores into the destination\<close>

text \<open>The byte-wise copy that the routine stands for.\<close>

definition byte_copy :: "usize \<Rightarrow> usize \<Rightarrow> nat \<Rightarrow> ram \<Rightarrow> ram" where
  "byte_copy d s n m = (\<lambda>x. if unat (x - d) < n then m (s + (x - d)) else m x)"

text \<open>The bytes and the loaded words of the source.\<close>

definition src_byte :: "ram \<Rightarrow> usize \<Rightarrow> nat \<Rightarrow> u8" where
  "src_byte m s i = the (m (s + of_nat i))"

definition src_word :: "ram \<Rightarrow> usize \<Rightarrow> nat \<Rightarrow> nat \<Rightarrow> u64" where
  "src_word m s w i = load_le (\<lambda>x. the (m x)) (s + of_nat i) w"

text \<open>The memory during the copy: the offsets \<open>S\<close> are done.\<close>

definition copied :: "ram \<Rightarrow> usize \<Rightarrow> usize \<Rightarrow> nat set \<Rightarrow> ram" where
  "copied m d s S = filled d (src_byte m s) S m"

text \<open>The source still reads as at the start.\<close>

definition src_intact :: "ram \<Rightarrow> ram \<Rightarrow> usize \<Rightarrow> nat \<Rightarrow> bool" where
  "src_intact m' m s n \<longleftrightarrow> (\<forall>i<n. m (s + of_nat i) \<noteq> None \<and> m' (s + of_nat i) = m (s + of_nat i))"

lemma mem_load_src:
  assumes "src_intact m' m s n" "i + w \<le> n"
  shows "mem_load w (ofs s i) m' = Some (src_word m s w i)"
proof -
  have e: "m' (s + of_nat i + of_nat j) = m (s + of_nat i + of_nat j)"
    "m (s + of_nat i + of_nat j) \<noteq> None" if "j < w" for j
    using assms that by (auto simp: src_intact_def add.assoc simp flip: of_nat_add)
  then have "mem_mapped m' (s + of_nat i) w" by (simp add: mem_mapped_iff)
  moreover have "load_le (\<lambda>x. the (m' x)) (s + of_nat i) w = load_le (\<lambda>x. the (m x)) (s + of_nat i) w"
    by (rule load_le_cong) (simp add: e)
  ultimately show ?thesis by (simp add: mem_load_def src_word_def ofs_def)
qed

lemma src_word_byte: "w \<le> 8 \<Longrightarrow> j < w \<Longrightarrow> as_u8 (shr (src_word m s w i) (8 * j)) = src_byte m s (i + j)"
  unfolding src_word_def load_le_byte src_byte_def by (simp only: of_nat_add add.assoc)

lemma mem_store_copied:
  assumes "mem_mapped m d n" "i + w \<le> n" "n \<le> 2 ^ 64" "w \<le> 8" "j = i"
  shows "mem_store w (ofs d i) (src_word m s w j) (copied m d s S) =
    Some (copied m d s (S \<union> {i..<i + w}))"
  unfolding copied_def assms(5)
  by (rule mem_store_filled [OF assms(1-3)]) (rule src_word_byte [OF assms(4)])

lemma copied_all:
  assumes "S = {..<n}" "mem_mapped m s n"
  shows "copied m d s S = byte_copy d s n m"
proof
  fix x
  have "m (s + (x - d)) \<noteq> None" if "unat (x - d) < n"
    using assms(2) that by (auto simp: mem_mapped_iff dest!: spec [of _ "unat (x - d)"])
  then show "copied m d s S x = byte_copy d s n m x"
    using assms(1) by (auto simp: copied_def byte_copy_def filled_def src_byte_def)
qed

lemma src_intact_self [intro]: "mem_mapped m s n \<Longrightarrow> src_intact m m s n"
  by (simp add: src_intact_def mem_mapped_iff)

text \<open>Two areas of \<open>n\<close> bytes without a common address.\<close>

definition areas_disjoint :: "usize \<Rightarrow> usize \<Rightarrow> nat \<Rightarrow> bool" where
  "areas_disjoint d s n \<longleftrightarrow> (\<forall>i<n. \<forall>j<n. s + of_nat i \<noteq> d + of_nat j)"

lemma src_intact_copied:
  assumes "mem_mapped m s n" "areas_disjoint d s n" "S \<subseteq> {..<n}"
  shows "src_intact (copied m d s S) m s n"
proof -
  have "unat (s + of_nat i - d) \<notin> S" if "i < n" for i
  proof
    assume "unat (s + of_nat i - d) \<in> S"
    then have "unat (s + of_nat i - d) < n" using assms(3) by auto
    then have "s + of_nat i \<noteq> d + of_nat (unat (s + of_nat i - d))"
      using assms(2) that unfolding areas_disjoint_def by blast
    then show False by simp
  qed
  then show ?thesis using assms(1) by (simp add: src_intact_def mem_mapped_iff copied_def filled_def)
qed

section \<open>Symbolic execution\<close>

definition returns_with :: "usize \<Rightarrow> ram \<Rightarrow> halt option \<Rightarrow> bool" where
  "returns_with d m r \<longleftrightarrow> (\<exists>s'. r = Some (Returned s') \<and> xr s' X0 = d \<and> ram s' = m)"

lemma returns_with_Returned [simp]: "returns_with d m (Some (Returned s')) \<longleftrightarrow> xr s' X0 = d \<and> ram s' = m"
  by (auto simp: returns_with_def)

text \<open>The registers and the memory when \<open>memcpy(d, s, n)\<close> is called.\<close>

definition memcpy_args :: "arm_asm \<Rightarrow> usize \<Rightarrow> usize \<Rightarrow> nat \<Rightarrow> ram \<Rightarrow> bool" where
  "memcpy_args st d s n m \<longleftrightarrow> xr st X0 = ofs d 0 \<and> xr st X1 = ofs s 0 \<and> xr st X2 = of_nat n \<and> n < 2 ^ 64
     \<and> ram st = copied m d s {} \<and> mem_mapped m d n \<and> mem_mapped m s n"

text \<open>What the routine promises for \<open>n\<close> bytes.\<close>

abbreviation "copies d s n m r \<equiv> returns_with (ofs d 0) (copied m d s {..<n}) r"

lemma memcpy_argsD:
  assumes "memcpy_args st d s n m"
  shows "xr st X0 = ofs d 0" "xr st X1 = ofs s 0" "xr st X2 = of_nat n" "n < 2 ^ 64"
    "ram st = copied m d s {}" "mem_mapped m d n" "mem_mapped m s n"
    "src_intact (copied m d s {}) m s n"
  using assms by (auto simp: memcpy_args_def copied_def ofs_def)

lemma store_pair_copied:
  assumes "ram st = copied m d s S" "mem_mapped m d n" "i + 16 \<le> n" "n \<le> 2 ^ 64"
    and "xr st t = src_word m s 8 j" "j = i" "xr st u = src_word m s 8 k" "k = i + 8"
  shows "store_pair t u (ofs d i) st = Some (st\<lparr>ram := copied m d s (S \<union> {i..<i + 16})\<rparr>)"
proof -
  have "{i..<i + 8} \<union> {i + 8..<i + 8 + 8} = {i..<i + 16}" by auto
  then show ?thesis using assms by (simp add: store_pair_def mem_store_copied Un_assoc)
qed

lemma load_pair_src:
  assumes "src_intact (ram st) m s n" "i + 16 \<le> n"
  shows "load_pair t u (ofs s i) st = Some (set_x u (src_word m s 8 (i + 8)) (set_x t (src_word m s 8 i) st))"
  using assms by (simp add: load_pair_def mem_load_src)

lemmas symbolic = load_pair_src store_pair_copied mem_load_src mem_store_copied of_nat_cmp_num

lemma memcpy_start: "memcpy st = asm_run memcpy_S
    (memcpy_small @ memcpy_upto15 @ memcpy_medium @ memcpy_long @ memcpy_loop @ memcpy_tail) st"
  by (simp add: memcpy_def flip: memcpy_S_def)

lemma copied_cong: "S = T \<Longrightarrow> copied m d s S = copied m d s T"
  by simp

lemma memcpy_16_32:
  assumes "memcpy_args st d s n m" "16 \<le> n" "n \<le> 32"
  shows "copies d s n m (memcpy st)"
  using assms(2,3) memcpy_argsD [OF assms(1)]
  by (simp add: memcpy_start memcpy_small_def symbolic) (rule copied_cong, auto)

lemma bit_count: "n < 16 \<Longrightarrow> bit n 3 \<longleftrightarrow> 8 \<le> n" "n < 8 \<Longrightarrow> bit n 2 \<longleftrightarrow> 4 \<le> n" for n :: nat
proof -
  have "n div 8 = 1" if "n < 16" "8 \<le> n" using that by (intro div_nat_eqI) simp_all
  then show "bit n 3 \<longleftrightarrow> 8 \<le> n" if "n < 16"
    using that by (cases "8 \<le> n") (simp_all add: bit_iff_odd)
  have "n div 4 = 1" if "n < 8" "4 \<le> n" using that by (intro div_nat_eqI) simp_all
  then show "bit n 2 \<longleftrightarrow> 4 \<le> n" if "n < 8"
    using that by (cases "4 \<le> n") (simp_all add: bit_iff_odd)
qed

lemma memcpy_8_15:
  assumes "memcpy_args st d s n m" "8 \<le> n" "n < 16"
  shows "copies d s n m (memcpy st)"
  using assms(2,3) memcpy_argsD [OF assms(1)]
  by (simp add: memcpy_start memcpy_small_def memcpy_code_at memcpy_upto15_def symbolic bit_simps bit_count)
    (rule copied_cong, auto)

lemma memcpy_4_7:
  assumes "memcpy_args st d s n m" "4 \<le> n" "n < 8"
  shows "copies d s n m (memcpy st)"
  using assms(2,3) memcpy_argsD [OF assms(1)]
  by (simp add: memcpy_start memcpy_small_def memcpy_code_at memcpy_upto15_def symbolic bit_simps bit_count)
    (rule copied_cong, auto)

lemma memcpy_1_3:
  assumes "memcpy_args st d s n m" "1 \<le> n" "n < 4"
  shows "copies d s n m (memcpy st)"
proof -
  have "shr (of_nat n :: u64) 1 = of_nat (n div 2)"
  proof -
    consider "n = 1" | "n = 2" | "n = 3" using assms(2,3) by linarith
    then show ?thesis by cases simp_all
  qed
  moreover have "(of_nat n :: u64) \<noteq> 0" using assms of_nat_cmp(3) [of 0 n] by simp
  ultimately show ?thesis
  using assms(2,3) memcpy_argsD [OF assms(1)]
  by (simp add: memcpy_start memcpy_small_def memcpy_code_at memcpy_upto15_def symbolic bit_simps bit_count)
    (rule copied_cong, auto)
qed

lemma memcpy_0:
  assumes "memcpy_args st d s 0 m"
  shows "copies d s 0 m (memcpy st)"
  using memcpy_argsD [OF assms(1)]
  by (simp add: memcpy_start memcpy_small_def memcpy_code_at memcpy_upto15_def symbolic)

lemma memcpy_33_64:
  assumes "memcpy_args st d s n m" "32 < n" "n \<le> 64"
  shows "copies d s n m (memcpy st)"
  using assms(2,3) memcpy_argsD [OF assms(1)]
  by (simp add: memcpy_start memcpy_small_def memcpy_code_at memcpy_medium_def symbolic)
    (rule copied_cong, auto)

lemma memcpy_65_96:
  assumes "memcpy_args st d s n m" "64 < n" "n \<le> 96"
  shows "copies d s n m (memcpy st)"
  using assms(2,3) memcpy_argsD [OF assms(1)]
  by (simp add: memcpy_start memcpy_small_def memcpy_code_at memcpy_medium_def symbolic)
    (rule copied_cong, auto)

lemma memcpy_97_128:
  assumes "memcpy_args st d s n m" "96 < n" "n \<le> 128"
  shows "copies d s n m (memcpy st)"
  using assms(2,3) memcpy_argsD [OF assms(1)]
  by (simp add: memcpy_start memcpy_small_def memcpy_code_at memcpy_medium_def symbolic)
    (rule copied_cong, auto)

subsection \<open>Large copies\<close>

lemma mem_load_copied:
  assumes "mem_mapped m s n" "areas_disjoint d s n" "S \<subseteq> {..<n}" "i + w \<le> n"
  shows "mem_load w (ofs s i) (copied m d s S) = Some (src_word m s w i)"
  using assms by (blast intro: mem_load_src src_intact_copied)

lemma ivl_below: "j \<le> n \<Longrightarrow> {i..<j} \<subseteq> {..<n}" for n :: nat
  by auto

text \<open>Before an iteration of the loop and before the last stores: the offsets below \<open>p\<close> (and the first
  16) are done, and eight registers hold the next 64 bytes.\<close>

definition copy_ahead :: "arm_asm \<Rightarrow> usize \<Rightarrow> usize \<Rightarrow> nat \<Rightarrow> ram \<Rightarrow> nat \<Rightarrow> bool" where
  "copy_ahead st d s n m p \<longleftrightarrow>
     map (xr st) [X6, X7, X8, X9, X10, X11, X12, X13]
       = map (src_word m s 8) [p, p + 8, p + 16, p + 24, p + 32, p + 40, p + 48, p + 56]
     \<and> xr st X0 = ofs d 0 \<and> xr st X4 = ofs s n \<and> xr st X5 = ofs d n \<and> xr st X3 + 16 = ofs d p
     \<and> ram st = copied m d s {..<max 16 p}"

lemma copy_aheadD:
  assumes "copy_ahead st d s n m p"
  shows "xr st X6 = src_word m s 8 p" "xr st X7 = src_word m s 8 (p + 8)"
    "xr st X8 = src_word m s 8 (p + 16)" "xr st X9 = src_word m s 8 (p + 24)"
    "xr st X10 = src_word m s 8 (p + 32)" "xr st X11 = src_word m s 8 (p + 40)"
    "xr st X12 = src_word m s 8 (p + 48)" "xr st X13 = src_word m s 8 (p + 56)"
    "xr st X0 = ofs d 0" "xr st X4 = ofs s n" "xr st X5 = ofs d n"
    "xr st X3 + 16 = ofs d p" "xr st X3 + 32 = ofs d (p + 16)" "xr st X3 + 48 = ofs d (p + 32)"
    "xr st X3 + 64 = ofs d (p + 48)" "ram st = copied m d s {..<max 16 p}"
proof -
  have e: "xr st X3 = ofs d p - 16" using assms by (simp add: copy_ahead_def eq_diff_eq)
  show "xr st X3 + 32 = ofs d (p + 16)" "xr st X3 + 48 = ofs d (p + 32)" "xr st X3 + 64 = ofs d (p + 48)"
    unfolding e by (simp_all add: ofs_def algebra_simps)
qed (use assms in \<open>simp_all add: copy_ahead_def\<close>)

lemma load_pair_copied:
  assumes "ram st = copied m d s S" "mem_mapped m s n" "areas_disjoint d s n" "S \<subseteq> {..<n}" "i + 16 \<le> n"
  shows "load_pair t u (ofs s i) st = Some (set_x u (src_word m s 8 (i + 8)) (set_x t (src_word m s 8 i) st))"
  using assms by (simp add: load_pair_def mem_load_copied)

lemma ivl_extend: "b \<le> a \<Longrightarrow> a \<le> c \<Longrightarrow> {..<a} \<union> {b..<c} = {..<c}" for a b c :: nat
  by auto

lemmas symbolic_long = load_pair_copied store_pair_copied ivl_below ivl_extend

lemma memcpy_tail:
  assumes "copy_ahead st d s n m p" "p + 64 \<le> n" "n \<le> p + 128" "128 < n" "n < 2 ^ 64"
    and "mem_mapped m d n" "mem_mapped m s n" "areas_disjoint d s n"
  shows "copies d s n m (asm_run memcpy_S (tl memcpy_tail) st)"
  using assms(2-) copy_aheadD [OF assms(1)]
  by (simp add: memcpy_tail_def symbolic_long) (rule copied_cong, auto)

lemma memcpy_tail_label: "asm_run memcpy_S memcpy_tail st = asm_run memcpy_S (tl memcpy_tail) st"
  by (simp add: memcpy_tail_def)

lemma memcpy_loop_label:
  "asm_run memcpy_S (memcpy_loop @ k) st = asm_run memcpy_S (tl memcpy_loop @ k) st"
  by (simp add: memcpy_loop_def)

lemma memcpy_loop:
  assumes "copy_ahead st d s n m p" "xr st X1 = ofs s (p + 48)" "xr st X2 = of_nat (n - p - 128)"
    and "p + 128 < n" "n < 2 ^ 64" "mem_mapped m d n" "mem_mapped m s n" "areas_disjoint d s n"
  shows "copies d s n m (asm_run memcpy_S (tl memcpy_loop @ memcpy_tail) st)"
  using assms
proof (induction "n - p" arbitrary: st p rule: less_induct)
  case less
  have hi: "64 < xr st X2 \<longleftrightarrow> p + 64 + 128 < n"
    using less.prems(3-5) of_nat_cmp_num(1) [of "n - p - 128" num.One] 
    by (simp only: less.prems(3) of_nat_cmp_num) arith
  have x2: "xr st X2 - 64 = of_nat (n - (p + 64) - 128)" if "p + 64 + 128 < n"
    using less.prems(3) that by simp
  show ?case
    using less.prems(2,4-) copy_aheadD [OF less.prems(1)]
    apply (simp add: memcpy_loop_def symbolic_long memcpy_tail_label flip: memcpy_code_at(9))
    apply (intro conjI impI)
    subgoal unfolding memcpy_code_at(9) by (rule less.hyps [where p = "64 + p"]) (simp_all add: copy_ahead_def hi x2)
    subgoal by (rule memcpy_tail [where p = "64 + p"]) (simp_all add: copy_ahead_def hi)
    done
qed

text \<open>The offset at which the destination is aligned.\<close>

lemma aligned_below:
  fixes d :: usize
  defines "p \<equiv> 16 - unat (d AND 15)"
  shows "(ofs d 0 AND - 16) + 16 = ofs d p" "ofs s 0 - (ofs d 0 AND 15) + 16 = ofs s p"
    "of_nat n + (ofs d 0 AND 15) = (of_nat (n + (16 - p)) :: u64)" "Suc 0 \<le> p" "p \<le> 16"
proof -
  have "d AND 15 \<le> 15" by (rule word_and_le1)
  then have a: "unat (d AND 15) \<le> 15" by (simp add: word_le_nat_alt)
  then show "Suc 0 \<le> p" "p \<le> 16" by (simp_all add: p_def)
  have p: "of_nat p = 16 - (d AND 15)" using a by (simp add: p_def)
  have "(d AND NOT 15) + (d AND 15) = d"
    by (subst disjunctive_add_eq_or) (auto simp: bit_eq_iff bit_simps)
  then have "d AND NOT 15 = d - (d AND 15)" by (simp add: eq_diff_eq)
  then show "(ofs d 0 AND - 16) + 16 = ofs d p" by (simp add: ofs_def p)
  show "ofs s 0 - (ofs d 0 AND 15) + 16 = ofs s p" by (simp add: ofs_def p)
  have "16 - p = unat (d AND 15)" using a by (simp add: p_def)
  then show "of_nat n + (ofs d 0 AND 15) = (of_nat (n + (16 - p)) :: u64)" by (simp add: ofs_def)
qed

lemma disjoint_small:
  assumes "areas_disjoint d s n"
  shows "n \<le> 2 ^ 63"
proof (rule ccontr)
  assume n: "\<not> n \<le> 2 ^ 63"
  define g where "g = unat (d - s)"
  show False
  proof (cases "g < n")
    case True
    then have "s + of_nat g \<noteq> d + of_nat 0" using assms unfolding areas_disjoint_def by fastforce
    then show False by (simp add: g_def)
  next
    case False
    have g: "g < 2 ^ 64" unfolding g_def by (rule unat_u64)
    then have "(of_nat (2 ^ 64 - g) :: usize) = of_nat (2 ^ 64) - of_nat g" by (intro of_nat_diff) simp
    then have "s - d = of_nat (2 ^ 64 - g)" by (simp add: g_def)
    then have "unat (s - d) = 2 ^ 64 - g" using False n by (simp add: unat_of_nat_usize)
    then have "unat (s - d) < n" using False n by simp
    then have "s + of_nat 0 \<noteq> d + of_nat (unat (s - d))" using assms n unfolding areas_disjoint_def by fastforce
    then show False by simp
  qed
qed

lemma memcpy_long_body:
  assumes "xr st X0 = ofs d 0" "xr st X4 = ofs s n" "xr st X5 = ofs d n" "xr st X3 + 16 = ofs d p"
    and "xr st X12 = src_word m s 8 0" "xr st X13 = src_word m s 8 8"
    and x1: "xr st X1 + 16 = ofs s p" and x2: "xr st X2 = of_nat (n + (16 - p))"
    and p: "1 \<le> p" "p \<le> 16" and n: "128 < n" "n + 16 < 2 ^ 64" and "ram st = copied m d s {}"
    and m: "mem_mapped m d n" "mem_mapped m s n" "areas_disjoint d s n"
  shows "copies d s n m (asm_run memcpy_S (drop 6 memcpy_long @ memcpy_loop @ memcpy_tail) st)"
proof -
  have e: "xr st X1 = ofs s p - 16" using x1 by (simp add: eq_diff_eq)
  have x: "xr st X1 + 32 = ofs s (p + 16)" "xr st X1 + 48 = ofs s (p + 32)"
    "xr st X1 + 64 = ofs s (p + 48)" unfolding e by (simp_all add: ofs_def algebra_simps)
  have ls: "xr st X2 \<le> 144 \<longleftrightarrow> n \<le> p + 128"
    using x2 p n by (simp only: of_nat_cmp_num) arith
  have x2': "xr st X2 - 144 = of_nat (n - p - 128)" if "\<not> n \<le> p + 128"
    using x2 p that by simp
  show ?thesis
    using assms(1-7,9-) x
    apply (simp add: memcpy_long_def symbolic_long)
    apply (intro conjI impI)
    subgoal unfolding memcpy_code_at
      by (rule memcpy_tail [where p = p])
        (simp_all add: copy_ahead_def ls add.commute max_absorb1 flip: lessThan_atLeast0)
    subgoal unfolding memcpy_loop_label
      by (rule memcpy_loop [where p = p])
        (simp_all add: copy_ahead_def ls x2' add.commute max_absorb1 flip: lessThan_atLeast0)
    done
qed

lemma memcpy_long:
  assumes "memcpy_args st d s n m" "128 < n" "areas_disjoint d s n"
  shows "copies d s n m (memcpy st)"
proof -
  define p where "p = 16 - unat (d AND 15)"
  note al = aligned_below [where d = d, folded p_def]
  define k where "k = drop 6 memcpy_long @ memcpy_loop @ memcpy_tail"
  have k: "code_at Lcopy_long memcpy_S = [Ins (LDP X12 X13 X1 0), Ins (AND64 X14 X0 (Im 15)),
     Ins (BIC X3 X0 (Im 15)), Ins (SUB X1 X1 (Rg X14)), Ins (ADD X2 X2 (Rg X14))] @ k"
    by (simp add: memcpy_code_at memcpy_long_def k_def)
  have "n + 16 < 2 ^ 64" using disjoint_small [OF assms(3)] by simp
  then show ?thesis
    using assms(2,3) memcpy_argsD [OF assms(1)]
    apply (simp add: memcpy_start memcpy_small_def k symbolic)
    unfolding k_def
    apply (rule memcpy_long_body [where p = p])
    apply (simp_all add: al)
    done
qed

section \<open>The copy\<close>

lemma areas_disjointI:
  assumes "unat d + n \<le> unat s" "unat s + n \<le> 2 ^ 64"
  shows "areas_disjoint d s n"
  unfolding areas_disjoint_def
proof (intro allI impI notI)
  fix i j assume i: "i < n" and j: "j < n" and e: "s + of_nat i = d + of_nat j"
  have "unat d + n \<le> 2 ^ 64" using assms by linarith
  then have "unat s + i = unat d + j" using unat_area [OF assms(2) i] unat_area [OF _ j, of d] e by simp
  then show False using assms(1) j by linarith
qed

lemma memcpy_copies_all:
  assumes "memcpy_args st d s n m" "n \<le> 128 \<or> areas_disjoint d s n"
  shows "copies d s n m (memcpy st)"
proof -
  consider "n = 0" | "1 \<le> n" "n < 4" | "4 \<le> n" "n < 8" | "8 \<le> n" "n < 16" | "16 \<le> n" "n \<le> 32"
    | "32 < n" "n \<le> 64" | "64 < n" "n \<le> 96" | "96 < n" "n \<le> 128" | "128 < n" "areas_disjoint d s n"
    using assms(2) by linarith
  then show ?thesis
  proof cases
    case 1
    then show ?thesis using assms(1) memcpy_0 by simp
  qed (rule memcpy_1_3 memcpy_4_7 memcpy_8_15 memcpy_16_32 memcpy_33_64 memcpy_65_96 memcpy_97_128
      memcpy_long, rule assms(1), assumption, assumption)+
qed

text \<open>
  Claim C12. \<open>memcpy\<close> of \<open>memcpy.S\<close>, called by \<open>memcpy_safe\<close>, ends without a data abort when the
  bytes of the two areas are mapped, whatever else is not, and whatever the other registers hold; it
  returns the destination, and the memory is the one of the byte-wise copy: the \<open>n\<close> bytes of the
  destination are those of the source before the call, and no other byte has changed. Areas of up to
  128 bytes may overlap; larger ones must not. \<open>memcpy_safe\<close> panics for a pointer into the first page.
\<close>

theorem memcpy_safe_copies:
  assumes "mem_mapped (ram st) s1 (unat n)" "mem_mapped (ram st) s2 (unat n)"
    and "unat n \<le> 128 \<or> areas_disjoint s1 s2 (unat n)"
  shows "\<exists>st'. memcpy_safe s1 s2 n st =
       (if s1 < 0x1000 \<or> s2 < 0x1000 then Panic ExplicitPanic else Ok (Some (Returned st')))
     \<and> xr st' X0 = s1 \<and> ram st' = byte_copy s1 s2 (unat n) (ram st)"
proof -
  let ?st = "set_x X2 n (set_x X1 s2 (set_x X0 s1 st))"
  have "memcpy_args ?st s1 s2 (unat n) (ram st)"
    using assms(1,2) unat_u64 [of n] by (simp add: memcpy_args_def copied_def flip: ofs_0)
  then have "copies s1 s2 (unat n) (ram st) (memcpy ?st)"
    using assms(3) by (rule memcpy_copies_all)
  then show ?thesis
    using copied_all [OF refl assms(2)] by (auto simp: returns_with_def memcpy_safe_def simp flip: ofs_0)
qed

definition copy_start :: arm_asm where
  "copy_start = \<lparr>xr = (\<lambda>_. 0), fN = False, fZ = False, fC = False, fV = False,
     ram = (\<lambda>x. if 0x2001 \<le> x \<and> x < 0x20c9 \<or> 0x3003 \<le> x \<and> x < 0x30cb then Some (as_u8 x) else None)\<rparr>"

theorem memcpy_safe_copies_witness:
  "\<exists>st'. memcpy_safe 0x2001 0x3003 200 copy_start = Ok (Some (Returned st'))
     \<and> ram st' 0x2001 = Some 0x03 \<and> ram st' 0x20c8 = Some 0xca \<and> ram st' 0x3003 = Some 0x03
     \<and> ram st' 0x20c9 = None"
proof -
  have "mem_mapped (ram copy_start) 0x2001 200" "mem_mapped (ram copy_start) 0x3003 200"
    by (rule mem_mappedI; simp add: copy_start_def word_le_nat_alt word_less_nat_alt)+
  moreover have "areas_disjoint 0x2001 0x3003 200" by (rule areas_disjointI) simp_all
  ultimately obtain st' where "memcpy_safe 0x2001 0x3003 200 copy_start = Ok (Some (Returned st'))"
    "ram st' = byte_copy 0x2001 0x3003 200 (ram copy_start)"
    using memcpy_safe_copies [of copy_start "0x2001" 200 "0x3003"] by auto
  then show ?thesis by (simp add: byte_copy_def copy_start_def)
qed

end
