(* ===== verification/Arm_Memset.thy ===== *)
theory Arm_Memset
  imports Arm_Asm
begin

text \<open>
  \<open>src/src/arch/aarch64/memset.S\<close>, line for line up to its last reachable line, and \<open>memset_safe\<close> of
  \<open>mod.rs\<close>. The numeric local labels of the file carry the number of their line here (\<open>1:\<close> on line 69 is
  \<open>L69\<close>). No branch of the reachable lines leads to \<open>.Lzero_mem\<close>, so the zeroing of cache lines that
  follows is dead code. The theorems compare the routine with the byte-wise fill.
\<close>

section \<open>The program\<close>

datatype memset_label = Ltail_maybe_long | Ltail_maybe_tiny | Ltail63 | L69 | L71 | Ltail15
  | Ltail15tiny | L83 | L86 | L89 | L92 | Lnot_short | L110 | L113

definition memset_entry :: "memset_label line list" where
  "memset_entry =
    [Ins (MOV X8 X0),
     Ins (ANDS W X7 X1 (Im 255)),
     Ins (ORR_LSL W X7 X7 X7 8),
     Ins (ORR_LSL W X7 X7 X7 16),
     Ins (ORR_LSL X X7 X7 X7 32),
     Lbl Ltail_maybe_long,
     Ins (CMP X X2 (Im 64)),
     B GE Lnot_short,
     Lbl Ltail_maybe_tiny,
     Ins (CMP X X2 (Im 15)),
     B LE Ltail15tiny]"

definition memset_tail63 :: "memset_label line list" where
  "memset_tail63 =
    [Lbl Ltail63,
     Ins (ANDS X X3 X2 (Im 0x30)),
     B EQ Ltail15,
     Ins (ADD X8 X8 (Rg X3)),
     Ins (CMP W X3 (Im 0x20)),
     B EQ L69,
     B LT L71,
     Ins (STP X7 X7 X8 (-48)),
     Lbl L69,
     Ins (STP X7 X7 X8 (-32)),
     Lbl L71,
     Ins (STP X7 X7 X8 (-16)),
     Lbl Ltail15,
     Ins (AND64 X2 X2 (Im 15)),
     Ins (ADD X8 X8 (Rg X2)),
     Ins (STP X7 X7 X8 (-16)),
     RET]"

definition memset_tail15tiny :: "memset_label line list" where
  "memset_tail15tiny =
    [Lbl Ltail15tiny,
     TBZ X2 3 L83,
     Ins (STRn_post 8 X7 X8 8),
     Lbl L83,
     TBZ X2 2 L86,
     Ins (STRn_post 4 X7 X8 4),
     Lbl L86,
     TBZ X2 1 L89,
     Ins (STRn_post 2 X7 X8 2),
     Lbl L89,
     TBZ X2 0 L92,
     Ins (STRn 1 X7 X8 (Im 0)),
     Lbl L92,
     RET]"

definition memset_not_short :: "memset_label line list" where
  "memset_not_short =
    [Lbl Lnot_short,
     Ins (NEG X4 X8),
     Ins (ANDS X X4 X4 (Im 15)),
     B EQ L110,
     Ins (SUB X2 X2 (Rg X4)),
     Ins (STP X7 X7 X8 0),
     Ins (ADD X8 X8 (Rg X4)),
     Ins (CMP X X2 (Im 63)),
     B LE Ltail63,
     Lbl L110,
     Ins (SUB X8 X8 (Im 16)),
     Ins (SUB X2 X2 (Im 64))]"

definition memset_loop :: "memset_label line list" where
  "memset_loop =
    [Lbl L113,
     Ins (STP X7 X7 X8 16),
     Ins (STP X7 X7 X8 32),
     Ins (STP X7 X7 X8 48),
     Ins (STP_pre X7 X7 X8 64),
     Ins (SUBS X2 X2 (Im 64)),
     B GE L113,
     Ins (TST X2 (Im 0x3f)),
     Ins (ADD X8 X8 (Im 16)),
     B NE Ltail63,
     RET]"

definition memset_S :: "memset_label line list" where
  "memset_S = memset_entry @ memset_tail63 @ memset_tail15tiny @ memset_not_short @ memset_loop"

definition memset :: "arm_asm \<Rightarrow> halt option" where
  "memset s = asm_run memset_S memset_S s"

text \<open>\<open>memset_safe\<close> of \<open>mod.rs\<close>: \<open>w1\<close> holds the \<open>i32\<close> argument, the other half of \<open>x1\<close> is \<open>u\<close>.\<close>

definition memset_safe :: "usize \<Rightarrow> u32 \<Rightarrow> usize \<Rightarrow> u32 \<Rightarrow> arm_asm \<Rightarrow> halt option outcome" where
  "memset_safe s c n u st =
     (if s < 0x1000 then Panic ExplicitPanic
      else Ok (memset (set_x X2 n (set_x X1 (as_u64 c OR shl (as_u64 u) 32) (set_x X0 s st)))))"

lemmas memset_code = memset_entry_def memset_tail63_def memset_tail15tiny_def memset_not_short_def
  memset_loop_def

text \<open>The branches stay within the lines of the model, and its last line returns: the lines behind it are
  not reached.\<close>

lemma memset_closed:
  "set (concat (map line_targets memset_S)) \<subseteq> set (concat (map line_labels memset_S))"
  "last memset_S = RET"
  by (simp_all add: memset_S_def memset_code)

lemma memset_code_at:
  "code_at Ltail63 memset_S = tl memset_tail63 @ memset_tail15tiny @ memset_not_short @ memset_loop"
  "code_at L69 memset_S = drop 9 memset_tail63 @ memset_tail15tiny @ memset_not_short @ memset_loop"
  "code_at L71 memset_S = drop 11 memset_tail63 @ memset_tail15tiny @ memset_not_short @ memset_loop"
  "code_at Ltail15 memset_S = drop 13 memset_tail63 @ memset_tail15tiny @ memset_not_short @ memset_loop"
  "code_at Ltail15tiny memset_S = tl memset_tail15tiny @ memset_not_short @ memset_loop"
  "code_at L83 memset_S = drop 4 memset_tail15tiny @ memset_not_short @ memset_loop"
  "code_at L86 memset_S = drop 7 memset_tail15tiny @ memset_not_short @ memset_loop"
  "code_at L89 memset_S = drop 10 memset_tail15tiny @ memset_not_short @ memset_loop"
  "code_at L92 memset_S = RET # memset_not_short @ memset_loop"
  "code_at Lnot_short memset_S = tl memset_not_short @ memset_loop"
  "code_at L110 memset_S = drop 10 memset_not_short @ memset_loop"
  "code_at L113 memset_S = tl memset_loop"
  by (simp_all add: memset_S_def memset_code)

section \<open>Stores of a repeated byte\<close>

text \<open>The byte-wise fill that the routine stands for.\<close>

definition byte_fill :: "usize \<Rightarrow> u8 \<Rightarrow> nat \<Rightarrow> ram \<Rightarrow> ram" where
  "byte_fill d c n m = (\<lambda>x. if unat (x - d) < n then Some c else m x)"

definition set_to :: "ram \<Rightarrow> usize \<Rightarrow> u8 \<Rightarrow> nat set \<Rightarrow> ram" where
  "set_to m d c S = filled d (\<lambda>_. c) S m"

definition spread :: "u8 \<Rightarrow> u64 \<Rightarrow> bool" where
  "spread c v \<longleftrightarrow> (\<forall>j<8. as_u8 (shr v (8 * j)) = c)"

lemma set_to_all: "set_to m d c {..<n} = byte_fill d c n m"
  by (auto simp: set_to_def filled_def byte_fill_def)

lemma mem_store_set_to:
  assumes "spread c v" "mem_mapped m d n" "i + w \<le> n" "n \<le> 2 ^ 64" "w \<le> 8"
  shows "mem_store w (ofs d i) v (set_to m d c S) = Some (set_to m d c (S \<union> {i..<i + w}))"
  unfolding set_to_def
proof (rule mem_store_filled [OF assms(2-4)])
  fix j assume "j < w"
  then have "j < 8" using assms(5) by simp
  then show "as_u8 (shr v (8 * j)) = c" using assms(1) unfolding spread_def by blast
qed

lemma store_pair_set_to:
  assumes "ram st = set_to m d c S" "spread c (xr st t)" "mem_mapped m d n" "i + 16 \<le> n" "n \<le> 2 ^ 64"
  shows "store_pair t t (ofs d i) st = Some (st\<lparr>ram := set_to m d c (S \<union> {i..<i + 16})\<rparr>)"
proof -
  have "{i..<i + 8} \<union> {i + 8..<i + 8 + 8} = {i..<i + 16}" by auto
  then show ?thesis using assms by (simp add: store_pair_def mem_store_set_to Un_assoc)
qed

text \<open>The doubling of the low half of a word.\<close>

lemma bit_double:
  fixes w :: "'a::len word"
  assumes "\<And>k. bit w k \<longleftrightarrow> k < 8 * h \<and> bit (c :: u8) (k mod 8)" "16 * h \<le> LENGTH('a)"
  shows "bit (w OR push_bit (8 * h) w) k \<longleftrightarrow> k < 16 * h \<and> bit c (k mod 8)"
proof -
  have "(k - 8 * h) mod 8 = k mod 8" if "8 * h \<le> k"
    using that by (metis le_add_diff_inverse mod_mult_self4)
  then show ?thesis using assms(2) by (auto simp: bit_simps assms(1))
qed

lemma spread_byte:
  fixes x :: u64
  defines "a \<equiv> as_u32 x AND 255"
  defines "b \<equiv> a OR push_bit 8 a"
  defines "e \<equiv> b OR push_bit 16 b"
  shows "spread (as_u8 x) (as_u64 e OR push_bit 32 (as_u64 e))"
proof -
  have m: "(255 :: u32) = mask 8" by (simp add: mask_eq_exp_minus_1)
  have "bit a k \<longleftrightarrow> k < 8 * 1 \<and> bit (as_u8 x) (k mod 8)" for k
    unfolding a_def m by (auto simp: bit_simps)
  then have "bit b k \<longleftrightarrow> k < 8 * 2 \<and> bit (as_u8 x) (k mod 8)" for k
    using bit_double [of a 1 "as_u8 x" k] by (simp add: b_def)
  then have "bit e k \<longleftrightarrow> k < 8 * 4 \<and> bit (as_u8 x) (k mod 8)" for k
    using bit_double [of b 2 "as_u8 x" k] by (simp add: e_def)
  then have "bit (as_u64 e) k \<longleftrightarrow> k < 8 * 4 \<and> bit (as_u8 x) (k mod 8)" for k
    by (cases "k < 8 * 4") (simp_all only: bit_ucast_iff simp_thms, simp)
  then have "bit (as_u64 e OR push_bit 32 (as_u64 e)) k \<longleftrightarrow> k < 8 * 8 \<and> bit (as_u8 x) (k mod 8)" for k
    using bit_double [of "as_u64 e" 4 "as_u8 x" k] by simp
  moreover define y where "y = as_u64 e OR push_bit 32 (as_u64 e)"
  ultimately have y: "bit y k \<longleftrightarrow> k < 8 * 8 \<and> bit (as_u8 x) (k mod 8)" for k by simp
  have "as_u8 (shr y (8 * j)) = as_u8 x" if "j < 8" for j
  proof (rule bit_word_eqI)
    fix k assume "k < LENGTH(8)"
    then have "8 * j + k < 64" "(8 * j + k) mod 8 = k" "k < 8" using that by auto
    then show "bit (as_u8 (shr y (8 * j))) k = bit (as_u8 x) k"
      using y [of "8 * j + k"] that by (simp add: bit_ucast_iff bit_drop_bit_eq)
  qed
  then show ?thesis by (simp only: spread_def y_def) simp
qed

section \<open>Symbolic execution\<close>

lemma sint_of_nat: "n < 2 ^ 63 \<Longrightarrow> sint (of_nat n :: u64) = int n"
  by (simp add: signed_of_nat signed_take_bit_int_eq_self)

lemma sint_cmp_num:
  assumes "n < 2 ^ 63" "numeral k < (2 ^ 63 :: nat)"
  shows "sint (numeral k :: u64) \<le> sint (of_nat n :: u64) \<longleftrightarrow> numeral k \<le> n"
    "sint (of_nat n :: u64) \<le> sint (numeral k :: u64) \<longleftrightarrow> n \<le> numeral k"
  using sint_of_nat [OF assms(1)] sint_of_nat [OF assms(2)] by simp_all

definition fills :: "usize \<Rightarrow> u8 \<Rightarrow> nat \<Rightarrow> ram \<Rightarrow> halt option \<Rightarrow> bool" where
  "fills d c n m r \<longleftrightarrow> (\<exists>s'. r = Some (Returned s') \<and> xr s' X0 = d \<and> ram s' = set_to m d c {..<n})"

lemma fills_Returned [simp]:
  "fills d c n m (Some (Returned s')) \<longleftrightarrow> xr s' X0 = d \<and> ram s' = set_to m d c {..<n}"
  by (auto simp: fills_def)

text \<open>In the middle of the fill: \<open>x8\<close> is at offset \<open>p\<close> and the offsets below \<open>q\<close> are done.\<close>

definition filling :: "arm_asm \<Rightarrow> usize \<Rightarrow> u8 \<Rightarrow> nat \<Rightarrow> ram \<Rightarrow> nat \<Rightarrow> bool" where
  "filling st d c n m q \<longleftrightarrow> xr st X0 = d \<and> spread c (xr st X7) \<and> ram st = set_to m d c {..<q}
     \<and> mem_mapped m d n \<and> n < 2 ^ 63"

lemma fillingD:
  assumes "filling st d c n m q"
  shows "xr st X0 = d" "spread c (xr st X7)" "ram st = set_to m d c {..<q}" "mem_mapped m d n" "n < 2 ^ 63"
  using assms by (simp_all add: filling_def)

lemma set_to_cong: "S = T \<Longrightarrow> set_to m d c S = set_to m d c T"
  by simp

lemma nibble_bits:
  assumes "n < (16 :: nat)"
  shows "n = (if bit n 3 then 8 else 0) + (if bit n 2 then 4 else 0) + (if bit n 1 then 2 else 0) + (if odd n then 1 else 0)"
proof -
  have "list_all (\<lambda>n. n = (if bit n 3 then 8 else 0) + (if bit n 2 then 4 else 0)
      + (if bit n 1 then 2 else 0) + (if odd n then 1 else 0)) [0..<16 :: nat]" by code_simp
  then show ?thesis using assms by (simp only: list_all_iff set_upt) simp
qed

lemma memset_tiny:
  assumes "filling st d c n m 0" "n < 16" "xr st X8 = ofs d 0"
    and x2: "bit (xr st X2) 3 = bit n 3" "bit (xr st X2) 2 = bit n 2" "bit (xr st X2) 1 = bit n 1"
      "odd (xr st X2) = odd n"
  shows "fills d c n m (asm_run memset_S (tl memset_tail15tiny @ memset_not_short @ memset_loop) st)"
proof -
  obtain b3 b2 b1 b0 :: bool where
    "n = (if b3 then 8 else 0) + (if b2 then 4 else 0) + (if b1 then 2 else 0) + (if b0 then 1 else 0)"
    using nibble_bits [OF assms(2)] by blast
  then show ?thesis
    using fillingD [OF assms(1)] assms(3) x2
    by (cases b3; cases b2; cases b1; cases b0;
        simp only: if_True if_False add_0 add_0_right numeral_plus_numeral numeral_plus_one add_num_simps;
        simp add: memset_tail15tiny_def memset_code_at mem_store_set_to bit_0)
       (rule set_to_cong, auto)+
qed

text \<open>The two fields of a count below 64 that the tail reads, also after the last subtraction of the loop.\<close>

lemma tail_fields:
  assumes "x AND 63 = (of_nat r :: u64)" "r < 64"
  shows "x AND 48 = of_nat (r div 16 * 16)" "x AND 15 = of_nat (r mod 16)"
proof -
  have "list_all (\<lambda>r. (of_nat r :: u64) AND 48 = of_nat (r div 16 * 16) \<and> (of_nat r :: u64) AND 15 = of_nat (r mod 16)) [0..<64]"
    by code_simp
  then have "(of_nat r :: u64) AND 48 = of_nat (r div 16 * 16)" "(of_nat r :: u64) AND 15 = of_nat (r mod 16)"
    using assms(2) by (simp_all add: list_all_iff)
  moreover have "x AND 48 = (x AND 63) AND 48" "x AND 15 = (x AND 63) AND 15"
    by (simp_all add: and.assoc)
  ultimately show "x AND 48 = of_nat (r div 16 * 16)" "x AND 15 = of_nat (r mod 16)"
    using assms(1) by simp_all
qed

lemma ivl_max: "b \<le> a \<Longrightarrow> {..<a} \<union> {b..<c} = {..<max a c}" for a b c :: nat
  by auto

lemma memset_tail63:
  assumes "filling st d c n m q" "xr st X8 = ofs d p" "xr st X2 AND 63 = of_nat (n - p)"
    and "p \<le> q" "q \<le> n" "n - p < 64" "16 \<le> p \<or> 16 \<le> n - p"
  shows "fills d c n m (asm_run memset_S (tl memset_tail63 @ memset_tail15tiny @ memset_not_short @ memset_loop) st)"
proof -
  define k t where "k = (n - p) div 16" and "t = (n - p) mod 16"
  note f = tail_fields [OF assms(3,6), folded k_def t_def]
  have n: "n = p + k * 16 + t" "t < 16" "k < 4"
    using assms(4-6) by (simp_all add: k_def t_def)
  then have p: "16 \<le> p \<or> 1 \<le> k" using assms(7) by linarith
  have q: "p \<le> q" "q \<le> p + k * 16 + t" using assms(4,5) n by simp_all
  consider "k = 0" | "k = 1" | "k = 2" | "k = 3" using n(3) by linarith
  then show ?thesis
    by cases
     (use f fillingD [OF assms(1)] assms(2) n(2) p q in
       \<open>simp add: n(1) memset_tail63_def memset_code_at store_pair_set_to ivl_max le_max_iff_disj, (intro set_to_cong, simp add: max_def)?\<close>)+
qed

lemma and_63:
  assumes "r < 64"
  shows "(of_nat r :: u64) AND 63 = of_nat r" "(of_nat r - 64 :: u64) AND 63 = of_nat r"
proof -
  have "list_all (\<lambda>r. (of_nat r :: u64) AND 63 = of_nat r \<and> (of_nat r - 64 :: u64) AND 63 = of_nat r) [0..<64]"
    by code_simp
  then show "(of_nat r :: u64) AND 63 = of_nat r" "(of_nat r - 64 :: u64) AND 63 = of_nat r"
    using assms by (simp_all add: list_all_iff)
qed

lemma memset_loop:
  assumes "filling st d c n m q" "xr st X8 + 16 = ofs d p" "xr st X2 = of_nat (n - p - 64)"
    and "p + 64 \<le> n" "p \<le> q" "q \<le> p + 16"
  shows "fills d c n m (asm_run memset_S (tl memset_loop) st)"
  using assms
proof (induction "n - p" arbitrary: st p q rule: less_induct)
  case less
  have e: "xr st X8 = ofs d p - 16" using less.prems(2) by (simp add: eq_diff_eq)
  have x8: "xr st X8 + 32 = ofs d (p + 16)" "xr st X8 + 48 = ofs d (p + 32)"
    "xr st X8 + 64 = ofs d (p + 48)" unfolding e by (simp_all add: ofs_def algebra_simps)
  note n = fillingD(5) [OF less.prems(1)]
  have "sint (xr st X2) = int (n - p - 64)" unfolding less.prems(3) by (rule sint_of_nat) (use n in simp)
  then have ge: "64 \<le> sint (xr st X2) \<longleftrightarrow> p + 64 + 64 \<le> n" using less.prems(4) by simp arith
  have x2: "xr st X2 - 64 = of_nat (n - (p + 64) - 64)" if "p + 64 + 64 \<le> n"
    using less.prems(3) that by simp
  have x2': "(xr st X2 - 64) AND 63 = of_nat (n - (p + 64))" if "\<not> p + 64 + 64 \<le> n"
    using and_63(2) [of "n - p - 64"] less.prems(3,4) that by simp
  show ?case
  proof (cases "p + 64 + 64 \<le> n")
    case True
    then show ?thesis
      using fillingD [OF less.prems(1)] less.prems(2,4-) x8
      by (simp add: memset_loop_def store_pair_set_to ivl_max le_max_iff_disj ge, unfold memset_code_at)
         (rule less.hyps [where p = "64 + p" and q = "64 + p"]; simp add: filling_def x2)
  next
    case False
    then show ?thesis
      using fillingD [OF less.prems(1)] less.prems(2,4-) x8 x2'
      apply (simp add: memset_loop_def store_pair_set_to ivl_max le_max_iff_disj ge)
      apply (intro conjI impI)
      subgoal unfolding memset_code_at
        by (rule memset_tail63 [where p = "64 + p" and q = "64 + p"]; simp add: filling_def)
      subgoal by (rule set_to_cong) (use of_nat_cmp(3) [of n "p + 64"] in simp)
      done
  qed
qed

lemma memset_loop_label: "asm_run memset_S memset_loop st = asm_run memset_S (tl memset_loop) st"
  by (simp add: memset_loop_def)

lemma memset_aligned:
  assumes "filling st d c n m q" "xr st X8 = ofs d p" "xr st X2 = of_nat (n - p)"
    and "p + 64 \<le> n" "p \<le> q" "q \<le> p + 16"
  shows "fills d c n m (asm_run memset_S (drop 10 memset_not_short @ memset_loop) st)"
proof -
  have "asm_run memset_S (drop 10 memset_not_short @ memset_loop) st =
      asm_run memset_S (tl memset_loop) (set_x X2 (of_nat (n - p) - 64) (set_x X8 (ofs d p - 16) st))"
    using assms(2,3) by (simp add: memset_not_short_def memset_loop_def)
  moreover have "(of_nat (n - p) - 64 :: u64) = of_nat (n - p - 64)" using assms(4) by simp
  ultimately show ?thesis
    using assms by (auto intro!: memset_loop [where p = p and q = q] simp: filling_def)
qed

lemma memset_not_short:
  assumes "filling st d c n m 0" "xr st X8 = ofs d 0" "xr st X2 = of_nat n" "64 \<le> n"
  shows "fills d c n m (asm_run memset_S (tl memset_not_short @ memset_loop) st)"
proof -
  define a where "a = unat (- ofs d 0 AND 15)"
  have "- ofs d 0 AND 15 \<le> 15" by (rule word_and_le1)
  then have a: "a < 16" by (simp add: a_def word_le_nat_alt)
  have x4: "- ofs d 0 AND 15 = of_nat a" by (simp add: a_def)
  show ?thesis
  proof (cases "a = 0")
    case True
    then show ?thesis
      using assms(2,3) x4
      by (simp add: memset_not_short_def, unfold memset_code_at)
         (rule memset_aligned [where p = 0 and q = 0]; use assms(1,4) in \<open>simp add: filling_def\<close>)
  next
    case False
    then have nz: "(of_nat a :: u64) \<noteq> 0" using a of_nat_cmp(3) [of 0 a] by simp
    have x2: "of_nat n - of_nat a = (of_nat (n - a) :: u64)" using a assms(4) by simp
    have "sint (of_nat (n - a) :: u64) = int (n - a)" by (rule sint_of_nat) (use fillingD(5) [OF assms(1)] in simp)
    then have le: "sint (of_nat (n - a) :: u64) \<le> 63 \<longleftrightarrow> n - a < 64" by simp arith
    show ?thesis
      using assms(2-4) fillingD [OF assms(1)] x4 nz
      apply (simp add: memset_not_short_def store_pair_set_to x2 le Let_def del: of_nat_diff)
      apply (intro conjI impI)
      subgoal unfolding memset_code_at
        by (rule memset_tail63 [where p = a and q = 16];
            use a assms(4) in \<open>simp add: filling_def and_63 lessThan_atLeast0 del: of_nat_diff\<close>)
      subgoal unfolding memset_loop_label
        by (rule memset_loop [where p = a and q = 16];
            use a assms(4) in \<open>simp add: filling_def lessThan_atLeast0\<close>)
      done
  qed
qed

section \<open>The fill\<close>

lemma memset_dispatch:
  assumes "filling st d c n m 0" "xr st X8 = ofs d 0" "xr st X2 = of_nat n"
  shows "fills d c n m (asm_run memset_S
    (drop 5 memset_entry @ memset_tail63 @ memset_tail15tiny @ memset_not_short @ memset_loop) st)"
proof -
  note n = fillingD(5) [OF assms(1)]
  have i: "sint (of_nat n :: u64) = int n" using n by (rule sint_of_nat)
  have tail63: "asm_run memset_S (memset_tail63 @ k) s = asm_run memset_S (tl memset_tail63 @ k) s" for k s
    by (simp add: memset_tail63_def)
  show ?thesis
    using assms(2,3)
    apply (simp add: memset_entry_def i tail63)
    apply (intro conjI impI; (unfold memset_code_at)?)
    subgoal by (rule memset_tiny) (use assms(1) in \<open>simp_all add: filling_def bit_simps\<close>)
    subgoal by (rule memset_not_short) (use assms(1) in \<open>simp_all add: filling_def\<close>)
    subgoal by (rule memset_tail63 [where p = 0 and q = 0]) (use assms(1) in \<open>simp_all add: filling_def and_63\<close>)
    done
qed

lemma memset_prepare:
  obtains st' where "memset st = asm_run memset_S
      (drop 5 memset_entry @ memset_tail63 @ memset_tail15tiny @ memset_not_short @ memset_loop) st'"
    and "xr st' X0 = xr st X0" "xr st' X2 = xr st X2" "xr st' X8 = ofs (xr st X0) 0"
    and "spread (as_u8 (xr st X1)) (xr st' X7)" "ram st' = ram st"
proof -
  define k where "k = drop 5 memset_entry @ memset_tail63 @ memset_tail15tiny @ memset_not_short @ memset_loop"
  have k: "memset_S = [Ins (MOV X8 X0), Ins (ANDS W X7 X1 (Im 255)), Ins (ORR_LSL W X7 X7 X7 8),
      Ins (ORR_LSL W X7 X7 X7 16), Ins (ORR_LSL X X7 X7 X7 32)] @ k"
    by (simp add: memset_S_def k_def memset_entry_def)
  have up: "as_u32 (as_u64 w) = w" for w :: u32 by (rule bit_word_eqI) (simp add: bit_simps)
  have "\<exists>st'. memset st = asm_run memset_S k st' \<and> xr st' X0 = xr st X0 \<and> xr st' X2 = xr st X2
      \<and> xr st' X8 = ofs (xr st X0) 0 \<and> spread (as_u8 (xr st X1)) (xr st' X7) \<and> ram st' = ram st"
    unfolding memset_def
    apply (subst (2) k)
    apply (simp add: up Let_def)
    apply (rule exI, rule conjI, rule refl)
    using spread_byte [of "xr st X1"] apply (simp flip: ofs_0)
    done
  then show ?thesis using that by (auto simp: k_def)
qed

lemma memset_fills_all:
  assumes "xr st X0 = d" "xr st X2 = of_nat n" "ram st = m" "mem_mapped m d n" "n < 2 ^ 63"
  shows "fills d (as_u8 (xr st X1)) n m (memset st)"
proof (rule memset_prepare [of st])
  fix st' assume "memset st = asm_run memset_S
      (drop 5 memset_entry @ memset_tail63 @ memset_tail15tiny @ memset_not_short @ memset_loop) st'"
    and "xr st' X0 = xr st X0" "xr st' X2 = xr st X2" "xr st' X8 = ofs (xr st X0) 0"
    and "spread (as_u8 (xr st X1)) (xr st' X7)" "ram st' = ram st"
  then show ?thesis
    using assms memset_dispatch [of st' d "as_u8 (xr st X1)" n m] by (simp add: filling_def set_to_def)
qed

text \<open>A length of \<open>2^63\<close> or more is negative for the comparisons: only its low four bits count.\<close>

lemma memset_huge:
  assumes "xr st X0 = d" "2 ^ 63 \<le> unat (xr st X2)" "ram st = m" "n = unat (xr st X2) mod 16"
    and "mem_mapped m d n"
  shows "fills d (as_u8 (xr st X1)) n m (memset st)"
proof (rule memset_prepare [of st])
  fix st' assume st': "memset st = asm_run memset_S
      (drop 5 memset_entry @ memset_tail63 @ memset_tail15tiny @ memset_not_short @ memset_loop) st'"
    "xr st' X0 = xr st X0" "xr st' X2 = xr st X2" "xr st' X8 = ofs (xr st X0) 0"
    "spread (as_u8 (xr st X1)) (xr st' X7)" "ram st' = ram st"
  have "unat (xr st X2) div 2 ^ 63 = 1"
    using assms(2) unat_u64 [of "xr st X2"] by (intro div_nat_eqI) simp_all
  then have "bit (unat (xr st X2)) 63" by (simp add: bit_iff_odd)
  then have "bit (xr st X2) 63" by (simp add: bit_unsigned_iff)
  then have neg: "sint (xr st X2) < 0" by (simp add: sint_uint bit_unsigned_iff)
  have "bit (unat (xr st X2)) k = bit (xr st X2) k" for k by (simp add: bit_unsigned_iff)
  then have b: "bit (xr st X2) k = bit n k" if "k < 4" for k
    using that unfolding assms(4) by (simp add: bit_take_bit_iff flip: take_bit_eq_mod [of 4, simplified])
  show ?thesis
    using st' assms(1,3) neg
    apply (simp add: memset_entry_def)
    apply (unfold memset_code_at)
    apply (rule memset_tiny)
    using assms(5) b [of 3] b [of 2] b [of 1] b [of 0, unfolded bit_0]
    apply (simp_all add: filling_def assms(4) set_to_def)
    done
qed

text \<open>
  Claim C13. \<open>memset\<close> of \<open>memset.S\<close>, called by \<open>memset_safe\<close>, ends without a data abort when the bytes of
  the area are mapped, whatever else is not and whatever the other registers hold; it returns its first
  argument, the \<open>n\<close> bytes of the area hold the low byte of \<open>c\<close>, and no other byte has changed. The
  comparisons of the routine are signed, so the length has to be below \<open>2^63\<close>. \<open>memset_safe\<close> panics for a
  pointer into the first page.
\<close>

theorem memset_safe_fills:
  assumes "mem_mapped (ram st) s (unat n)" "unat n < 2 ^ 63"
  shows "\<exists>st'. memset_safe s c n u st =
       (if s < 0x1000 then Panic ExplicitPanic else Ok (Some (Returned st')))
     \<and> xr st' X0 = s \<and> ram st' = byte_fill s (as_u8 c) (unat n) (ram st)"
proof -
  let ?st = "set_x X2 n (set_x X1 (as_u64 c OR shl (as_u64 u) 32) (set_x X0 s st))"
  have "as_u8 (as_u64 c OR shl (as_u64 u) 32) = as_u8 c"
    by (rule bit_word_eqI) (auto simp: bit_simps)
  then have "fills s (as_u8 c) (unat n) (ram st) (memset ?st)"
    using memset_fills_all [of ?st s "unat n" "ram st"] assms by simp
  then show ?thesis by (auto simp: fills_def memset_safe_def set_to_all)
qed

definition fill_start :: arm_asm where
  "fill_start = \<lparr>xr = (\<lambda>_. 0), fN = False, fZ = False, fC = False, fV = False,
     ram = (\<lambda>x. if 0x2001 \<le> x \<and> x < 0x20c9 then Some 0 else None)\<rparr>"

theorem memset_safe_fills_witness:
  "\<exists>st'. memset_safe 0x2001 0xffa5 200 7 fill_start = Ok (Some (Returned st'))
     \<and> ram st' 0x2001 = Some 0xa5 \<and> ram st' 0x20c8 = Some 0xa5 \<and> ram st' 0x20c9 = None"
proof -
  have "mem_mapped (ram fill_start) 0x2001 200"
    by (rule mem_mappedI; simp add: fill_start_def word_le_nat_alt word_less_nat_alt)
  then obtain st' where "memset_safe 0x2001 0xffa5 200 7 fill_start = Ok (Some (Returned st'))"
    "ram st' = byte_fill 0x2001 (as_u8 (0xffa5 :: u32)) 200 (ram fill_start)"
    using memset_safe_fills [of fill_start "0x2001" 200 "0xffa5" 7] by auto
  then show ?thesis by (simp add: byte_fill_def fill_start_def)
qed

end
