(* ===== verification/Interfaces.thy ===== *)
theory Interfaces
  imports Arm_Vm Vmx_Vmcs
begin

text \<open>
  The interfaces that the files of the three architectures share or fill in: the metadata with which each
  \<open>ept.rs\<close> instantiates the nested page table of the crate \<open>page_table\<close>, the allocation of its root, and
  the trait \<open>ContextFrameTrait\<close> of \<open>src/src/traits.rs\<close> as a locale, with the trap frame of AArch64 as its
  implementation.
\<close>

section \<open>Nested page tables\<close>

record PagingMetaData =
  LEVELS :: usize
  PA_MAX_BITS :: usize
  VA_MAX_BITS :: usize

definition ExtendedPageTableMetadata :: PagingMetaData where
  "ExtendedPageTableMetadata = \<lparr>LEVELS = 4, PA_MAX_BITS = 52, VA_MAX_BITS = 52\<rparr>"

definition Sv39GuestMetaData :: PagingMetaData where
  "Sv39GuestMetaData = \<lparr>LEVELS = 3, PA_MAX_BITS = 56, VA_MAX_BITS = 41\<rparr>"

definition A64HVPagingMetaData :: PagingMetaData where
  "A64HVPagingMetaData = \<lparr>LEVELS = 3, PA_MAX_BITS = 48, VA_MAX_BITS = 40\<rparr>"

type_synonym GuestPageNum = usize

type_synonym HostPageNum = usize

text \<open>The allocation of a root of 16 KiB, default methods of \<open>HyperCraftHal\<close> on riscv.\<close>

definition alloc_16_page :: "'a hal_ops \<Rightarrow> 'a \<Rightarrow> HostPageNum option \<times> 'a" where
  "alloc_16_page H = H_alloc_pages H 4"

definition dealloc_16_page :: "'a hal_ops \<Rightarrow> HostPageNum \<Rightarrow> 'a \<Rightarrow> 'a" where
  "dealloc_16_page H ppn = H_dealloc_pages H ppn 4"

text \<open>What a table with these levels translates: 12 bits of offset and 9 bits for each level below the
  root; the root has to index the rest with entries of 8 bytes.\<close>

definition root_bytes :: "PagingMetaData \<Rightarrow> nat" where
  "root_bytes d = 8 * 2 ^ (unat (VA_MAX_BITS d) - (12 + 9 * (unat (LEVELS d) - 1)))"

text \<open>
  The metadata of the nested page tables agrees with what the rest of the code tells the processor about
  them. The EPT pointer of a vCPU announces a page walk of as many levels as the x86 metadata has. The
  stage-2 control register of an AArch64 vCPU announces an input address of \<open>VA_MAX_BITS\<close> bits and, with
  the field \<open>SL0\<close>, a walk of three levels. The root table that the riscv metadata needs fills exactly the
  four pages of \<open>alloc_16_page\<close>, and that of AArch64 two pages. The x86 metadata is the exception: its four
  levels translate 48 of its 52 bits.
\<close>

lemma bit_3: "bit (3 :: 'a :: len word) i \<longleftrightarrow> i < LENGTH('a) \<and> i < 2"
  by (cases i; cases "i - 1") (auto simp: bit_simps)

lemma ept_walk_length: "field_of (from_table_phys p) 3 6 = LEVELS ExtendedPageTableMetadata - 1"
proof -
  have "field_of (from_table_phys p) 3 6 = (3 :: u64)"
  proof (rule bit_word_eqI)
    fix i assume "i < LENGTH(64)"
    consider "i = 0" | "i = 1" | "i = 2" | "3 \<le> i" by linarith
    then show "bit (field_of (from_table_phys p) 3 6) i = bit (3 :: u64) i"
      by cases (simp_all add: field_of_def from_table_phys_def PAGE_SIZE_4K_def Let_def MEM_TYPE_WB_def
          WALK_LENGTH_4_def ENABLE_ACCESSED_DIRTY_def bit_3 bit_take_bit_iff bit_drop_bit_eq bit_or_iff bit_and_iff)
  qed
  then show ?thesis by (simp add: ExtendedPageTableMetadata_def)
qed

lemma stage2_control:
  assumes "arm_crates_ok c"
  shows "vtcr_el2 (vm_system_regs (Arm_Vm.vcpu_regs (init_vm_context c v))) = 0x23558"
  using assms by (auto simp: arm_crates_ok_def init_vm_context_def arm_crates_std_def fv_def fv_add_def Let_def)

lemma nested_paging_agrees:
  fixes v :: Arm_Vm.VCpu
  assumes "arm_crates_ok c"
  defines "vtcr \<equiv> vtcr_el2 (vm_system_regs (Arm_Vm.vcpu_regs (init_vm_context c v)))"
  shows "field_of vtcr 0 6 = 64 - VA_MAX_BITS A64HVPagingMetaData"
    and "2 + field_of vtcr 6 8 = LEVELS A64HVPagingMetaData"
    and "root_bytes A64HVPagingMetaData = 2 * unat PAGE_SIZE_4K"
    and "alloc_16_page H = H_alloc_pages H (of_nat (root_bytes Sv39GuestMetaData) div PAGE_SIZE_4K)"
    and "12 + 9 * LEVELS ExtendedPageTableMetadata = 48" "VA_MAX_BITS ExtendedPageTableMetadata = 52"
  unfolding vtcr_def stage2_control [OF assms(1)]
  by (simp_all add: field_of_def A64HVPagingMetaData_def Sv39GuestMetaData_def ExtendedPageTableMetadata_def
      root_bytes_def alloc_16_page_def PAGE_SIZE_4K_def)

section \<open>Trap frames\<close>

text \<open>The trait \<open>ContextFrameTrait\<close>: what its users rely on of an implementation, in which an index beyond
  the registers panics.\<close>

locale context_frame =
  fixes create :: "usize \<Rightarrow> usize \<Rightarrow> usize \<Rightarrow> 'f outcome"
    and pc :: "'f \<Rightarrow> usize" and set_pc :: "'f \<Rightarrow> usize \<Rightarrow> 'f"
    and stack :: "'f \<Rightarrow> usize" and set_stack :: "'f \<Rightarrow> usize \<Rightarrow> 'f"
    and set_arg :: "'f \<Rightarrow> usize \<Rightarrow> 'f outcome"
    and set_reg :: "'f \<Rightarrow> usize \<Rightarrow> usize \<Rightarrow> 'f outcome" and reg :: "'f \<Rightarrow> usize \<Rightarrow> usize outcome"
    and ok :: "'f \<Rightarrow> bool" and regs :: nat
  assumes some_reg: "0 < regs"
    and create_ok: "\<exists>f. create p s a = Ok f \<and> ok f \<and> pc f = p \<and> stack f = s
      \<and> (\<forall>i. unat i < regs \<longrightarrow> reg f i = Ok (if i = 0 then a else 0))"
    and set_pc_ok: "ok f \<Longrightarrow> ok (set_pc f p)" "pc (set_pc f p) = p" "stack (set_pc f p) = stack f"
      "reg (set_pc f p) = reg f"
    and set_stack_ok: "ok f \<Longrightarrow> ok (set_stack f p)" "pc (set_stack f p) = pc f" "stack (set_stack f p) = p"
      "reg (set_stack f p) = reg f"
    and set_arg_eq: "ok f \<Longrightarrow> set_arg f a = set_reg f 0 a"
    and set_reg_ok: "ok f \<Longrightarrow> unat i < regs \<Longrightarrow> \<exists>g. set_reg f i v = Ok g \<and> ok g \<and> pc g = pc f \<and> stack g = stack f
      \<and> (\<forall>j. unat j < regs \<longrightarrow> reg g j = (if j = i then Ok v else reg f j))"
    and out_of_range: "ok f \<Longrightarrow> regs \<le> unat i \<Longrightarrow> set_reg f i v = Panic IndexOutOfBounds \<and> reg f i = Panic IndexOutOfBounds"
begin

text \<open>How a client prepares a frame for its first entry: the argument in the first register, then the
  entry point. \<close>

lemma prepared_frame:
  assumes "ok f"
  shows "\<exists>g. obind (set_reg f 0 v) (\<lambda>f. Ok (set_pc f p)) = Ok g \<and> ok g \<and> pc g = p \<and> stack g = stack f
    \<and> (\<forall>j. unat j < regs \<longrightarrow> reg g j = (if j = 0 then Ok v else reg f j))"
proof -
  obtain g where "set_reg f 0 v = Ok g" "ok g" "stack g = stack f"
    "\<forall>j. unat j < regs \<longrightarrow> reg g j = (if j = 0 then Ok v else reg f j)"
    using set_reg_ok [OF assms, of 0 v] some_reg by auto
  then show ?thesis by (simp add: set_pc_ok)
qed

end

interpretation frame: context_frame "ContextFrame_new c" exception_pc set_exception_pc frame_stack_pointer
  frame_set_stack_pointer set_argument frame_set_gpr frame_gpr "\<lambda>f. length (gpr f) = 31" 31
  for c
proof
  show "\<exists>f. ContextFrame_new c p s a = Ok f \<and> length (gpr f) = 31 \<and> exception_pc f = p
      \<and> frame_stack_pointer f = s \<and> (\<forall>i. unat i < 31 \<longrightarrow> frame_gpr f i = Ok (if i = 0 then a else 0))" for p s a
    by (auto simp: ContextFrame_new_def set_argument_def exception_pc_def frame_stack_pointer_def frame_gpr_def
        store_def index_def nth_list_update unat_eq_zero split: if_splits)
qed (auto simp: exception_pc_def set_exception_pc_def frame_stack_pointer_def frame_set_stack_pointer_def
    frame_gpr_def frame_set_gpr_def set_argument_def store_def index_def nth_list_update)

text \<open>The vCPU of AArch64 is such a client.\<close>

lemma vcpu_arch_init_frame:
  fixes v :: Arm_Vm.VCpu
  assumes "length (gpr (guest_trap_context_regs (Arm_Vm.vcpu_regs v))) = 31"
  shows "\<exists>w f. vcpu_arch_init c v entry dtb = Ok w \<and> f = guest_trap_context_regs (Arm_Vm.vcpu_regs w)
    \<and> exception_pc f = entry \<and> frame_gpr f 0 = Ok dtb \<and> spsr f = spsr_masked c
    \<and> frame_stack_pointer f = frame_stack_pointer (guest_trap_context_regs (Arm_Vm.vcpu_regs v))
    \<and> (\<forall>j. 0 < j \<longrightarrow> unat j < 31 \<longrightarrow> frame_gpr f j = frame_gpr (guest_trap_context_regs (Arm_Vm.vcpu_regs v)) j)"
proof -
  obtain g where g: "obind (frame_set_gpr (guest_trap_context_regs (Arm_Vm.vcpu_regs v)) 0 dtb) (\<lambda>f. Ok (set_exception_pc f entry)) = Ok g"
    "exception_pc g = entry" "frame_stack_pointer g = frame_stack_pointer (guest_trap_context_regs (Arm_Vm.vcpu_regs v))"
    "\<forall>j. unat j < 31 \<longrightarrow> frame_gpr g j = (if j = 0 then Ok dtb else frame_gpr (guest_trap_context_regs (Arm_Vm.vcpu_regs v)) j)"
    using frame.prepared_frame [OF assms, of dtb entry] by auto
  from g(4) have "frame_gpr g 0 = Ok dtb" by (metis unat_0 zero_less_numeral)
  with g show ?thesis
    by (auto simp: vcpu_arch_init_def set_gpr_def set_elr_def obind_eq_Ok set_exception_pc_def exception_pc_def
        frame_stack_pointer_def frame_gpr_def)
qed

end
