(* ===== verification/Spec2Isabelle.thy ===== *)
theory Spec2Isabelle
  imports Riscv_Csrs Riscv_Regs Riscv_Sbi Vm_Cpus Riscv_Plic Guest_Switch Riscv_Vcpu
    Vm_Pages Riscv_Gdb Riscv_Vm Per_Cpu Riscv_Detect X86_Lapic Vmx_Setup X86_Gdb Vmx_Exit
    Arm_Util Arm_Bitmap Arm_Flex Arm_Context Arm_Exception Arm_Vm
    Riscv_Extable Vmx_Boot Arm_Memcpy Arm_Memset Interfaces
begin

text \<open>
  A verification development of hypercraft, a hypervisor library in Rust for RISC-V, x86-64 and
  AArch64. Definitions are translated from \<open>src/src\<close>; each theory names the files it models.

  \<^bold>\<open>Parts and how they interact.\<close> An embedding hypervisor implements \<open>HyperCraftHal\<close> and a guest
  page table, makes per-CPU areas, creates vCPUs on a CPU, and runs them. On RISC-V, \<open>VM::run\<close> switches
  to the guest through the assembly of \<open>guest.S\<close>, and handles the trap with which it returns: SBI calls,
  page faults on the emulated interrupt controller, interrupts and breakpoints. On x86-64, a vCPU sets
  up a VMCS, \<open>run\<close> enters the guest, and each VM exit goes through the assembly of \<open>vmx_exit\<close> to
  \<open>vmexit_handler\<close>, which polls the timer and injects events. On AArch64, a vCPU is started by a
  hypercall whose handler loads the guest's context. RISC-V and x86-64 have a debugger interface.

  \<^bold>\<open>Common theories.\<close>
  \<^item> \<open>Prelude\<close>: machine integers with the wrapping arithmetic and masked shifts of release builds,
    \<open>HyperError\<close>, panics and results (\<open>outcome\<close>), the monad \<open>hm\<close> of stateful computations that may fail
    or panic, and the invariants rule \<open>preserves\<close>.
  \<^item> \<open>Byte_Memory\<close>: byte memory with little-endian loads and stores.
  \<^item> \<open>Vm_Cpus\<close> (\<open>vcpus.rs\<close>): the table of vCPUs, with a locale for its interface.
  \<^item> \<open>Gdb_Stub\<close>: the crate \<open>gdbstub\<close> and the guest page table as parameters, and the loop that feeds
    the stub, which may not end (\<open>partial_function (option)\<close>, with a fuelled version that agrees).
  \<^item> \<open>Per_Cpu\<close> (\<open>riscv/smp.rs\<close>): per-CPU areas; \<open>aarch64/cpu.rs\<close> has the same code.
  \<^item> \<open>Interfaces\<close> (\<open>traits.rs\<close>, the three \<open>ept.rs\<close>, \<open>alloc_16_page\<close> of \<open>hal.rs\<close>): the trait
    \<open>ContextFrameTrait\<close> as a locale, interpreted on the trap frame of AArch64, and the page-table metadata,
    which is compared with the EPT pointer and the stage-2 control register that the vCPUs set up.

  \<^bold>\<open>RISC-V.\<close> \<open>Riscv_Csrs\<close> (\<open>csrs.rs\<close>, \<open>setup_csrs\<close>), \<open>Riscv_Regs\<close> (\<open>regs.rs\<close>), \<open>Riscv_Sbi\<close> (\<open>sbi/\<close>),
  \<open>Riscv_Plic\<close> (\<open>devices/plic.rs\<close>), \<open>Guest_Switch\<close> (\<open>guest.S\<close> with the layout of \<open>vcpu.rs\<close>),
  \<open>Riscv_Vcpu\<close> (\<open>vcpu.rs\<close>, \<open>vmexit.rs\<close>), \<open>Vm_Pages\<close> (\<open>vm_pages.rs\<close>), \<open>Riscv_Extable\<close>
  (\<open>mem_extable.S\<close>, instruction by instruction, with its exception table), \<open>Riscv_Gdb\<close> (\<open>gdb.rs\<close>), \<open>Riscv_Vm\<close> (\<open>vm.rs\<close>, one turn of the loop as \<open>run_iter\<close>, reachable states by induction),
  \<open>Riscv_Detect\<close> (\<open>detect.rs\<close>). The lemmas show that the switch exchanges the register files and loses
  none, how each trap is reported and answered, that the loop keeps its invariant, that SBI decoding
  inverts the calling convention, that the assembly copies compute the loops which \<open>Vm_Pages\<close> reasons about,
  and which guest actions end in a panic. The constants that \<open>vcpu.rs\<close> passes to \<open>guest.S\<close> are a table of
  \<open>Guest_Switch\<close>, and each is shown to name the field at the offset that the program uses.

  \<^bold>\<open>x86-64.\<close> \<open>X86_Crates\<close> and \<open>X86_Machine\<close> hold the parameters (crates, processor, HAL, \<open>msr.rs\<close>),
  \<open>X86_Memory\<close> (\<open>memory.rs\<close>, \<open>vmx/region.rs\<close>), \<open>X86_Lapic\<close> (\<open>lapic.rs\<close>), \<open>Vmx_Defs\<close>, \<open>Vmx_Fields\<close> and
  \<open>Vmx_Vmcs\<close> (\<open>vmx/definitions.rs\<close>, \<open>vmx/vmcs.rs\<close>), \<open>Vmx_Percpu\<close> (\<open>vmx/percpu.rs\<close>, \<open>percpu.rs\<close>),
  \<open>Vmx_Vcpu\<close> and \<open>Vmx_Setup\<close> (\<open>vmx/vcpu.rs\<close>: setup and its correctness), \<open>X86_Gdb\<close> (\<open>gdb.rs\<close>), \<open>Vmx_Exit\<close>
  (\<open>vmx/vcpu.rs\<close>, \<open>regs.rs\<close>: the switch and the VM-exit handler), \<open>Vmx_Boot\<close>
  (the remaining accessors of \<open>vmx/vcpu.rs\<close>, and setup composed with \<open>run\<close>). \<open>Vmx_Access\<close> is the calculus of VMCS
  accesses, \<open>X86_Sample\<close> the concrete processor of the witnesses. The lemmas show the boot state that a
  new vCPU has and in which its first entry starts the guest, the controls and intercepts, that register files pass unchanged through exits, that
  the handler refines the contract of a first-in-first-out event queue, and that events are delivered.

  \<^bold>\<open>AArch64.\<close> \<open>Arm_Util\<close> (\<open>utils/util.rs\<close>), \<open>Arm_Bitmap\<close> and \<open>Arm_Flex\<close> (\<open>utils/bitmap.rs\<close>), \<open>Arm_Context\<close>
  (\<open>context_frame.rs\<close>, \<open>gic.rs\<close>), \<open>Arm_Exception\<close> (\<open>exception.rs\<close>, \<open>sync.rs\<close>, handlers of \<open>hvc.rs\<close>),
  \<open>Arm_Vm\<close> (\<open>vcpu.rs\<close>, \<open>vm.rs\<close>, \<open>cpu.rs\<close>), \<open>Arm_Asm\<close> (a machine for the instructions of the assembly files:
  registers, flags, mapped bytes, labels), \<open>Arm_Memcpy\<close> and \<open>Arm_Memset\<close> (\<open>memcpy.S\<close>, \<open>memset.S\<close>, and their
  wrappers in \<open>mod.rs\<close>). The lemmas relate both kinds of bitmap to sets, word-wise
  operations to bit-wise ones, and show what survives a context switch, what each exception does, the
  state in which a guest starts, and that the two routines end and write exactly the bytes that a
  byte-wise copy or fill would.

  \<^bold>\<open>Parameters and hypotheses.\<close> Code outside the repository is an argument of the definitions: crates
  (\<open>x86_crates_ok\<close>, \<open>arm_crates_ok\<close>, \<open>sbi_spec_ok\<close>: documented constants and bit accessors), processors
  (\<open>vmcs_ok\<close>: a VMCS field reads back what was written; \<open>sysregs_ok\<close>, \<open>at_ok\<close> likewise for system registers),
  the guest page table (\<open>gpt_ok\<close>), the debugger stub (\<open>gdb_ok\<close>: it acts through the target operations
  only), the embedding hypervisor's exit handler (\<open>hv_ok\<close>: it pushes events through \<open>inject_event\<close> only)
  and the calling convention (\<open>abi_ok\<close>). Each is met by a concrete instance in the witnesses.

  \<^bold>\<open>Loops.\<close> Loops over ranges are structural recursions. Loops that may not end are
  \<open>partial_function (option)\<close>: the debugger loop, whose bounded version \<open>gdb_feed\<close> agrees with it for
  enough turns, and two loops of \<open>FlexBitmap\<close>, which are proved to return. The
  assembly files with loops run on machines that are partial functions too, and the theorems show that
  every call returns: no fuel is needed. \<open>VM::run\<close> and a running vCPU
  never return; they are step relations.

  \<^bold>\<open>Not modelled.\<close> The text that formatting (\<open>Display\<close>, most of \<open>Debug\<close>) and logging produce, apart from
  arguments of log calls that have effects; unit tests; code inside comments (the larger part of what is
  left of \<open>aarch64/gic.rs\<close>, \<open>hvc.rs\<close> and \<open>cpu.rs\<close>); the methods by which a \<open>gdbstub\<close> target says that it supports
  an operation, which return the target itself; trait declarations without a body, imports and re-exports;
  \<open>dummy.rs\<close>, whose functions are \<open>todo!()\<close>; lines 124 to 212 of \<open>memset.S\<close>, to which no line branches
  (\<open>memset_closed\<close>); alignment directives and section names; the exception vectors and the riscv trap handler,
  which are not in the repository. Concurrency is not modelled: a vCPU and a per-CPU area belong to one CPU, and the
  sources share nothing else but values that are set once.
\<close>

end
